(* ===== verification/Gw_Prelude.thy ===== *)
theory Gw_Prelude
  imports Main "HOL-Library.Word" "HOL-Library.Code_Target_Nat"
begin

text \<open>
  Shared ground of the development: the machine types of the gateway, its error values,
  the combinators that stand for Rust's \<open>Result\<close> methods, and the generic list lemmas the
  component theories share.

  A Rust \<open>Result<T, E>\<close> is the sum type \<open>'e + 'a\<close> with \<open>Inl\<close> for \<open>Err\<close>. An
  \<open>anyhow::Error\<close> is a value of \<open>err\<close>; \<open>Ctx\<close> is what \<open>.context(..)\<close> adds, with the
  constant part of the message.
\<close>

type_synonym u8 = "8 word"
type_synonym u16 = "16 word"
type_synonym u32 = "32 word"
type_synonym u64 = "64 word"
type_synonym i64 = "64 word" \<comment> \<open>read with \<open>sint\<close>\<close>
type_synonym bytes = "u8 list"

datatype int_error = IntEmpty | IntInvalidDigit | IntPosOverflow

datatype db_cause = DbLost | DbCheck string | DbUnique string | DbSequence

datatype err =
    Bail string
  | Ctx string err
  | HexErr
  | IntErr int_error
  | JsonErr
  | RlpErr
  | BlstErr
  | SecpErr
  | HttpErr
  | DbErr db_cause
  | TimeoutErr
  | EnvErr string
  | IoErr
  | TomlErr
  | Utf8Err
  | Panic string

type_synonym 'a res = "err + 'a"

section \<open>Collections used by the simplifier\<close>

named_theorems io_simps "unfolding rules of the effect combinators"
named_theorems pres "preservation rules of state predicates"
named_theorems table_defs "definitions of the table statements"

section \<open>Result combinators\<close>

definition res_bind :: "('e + 'a) \<Rightarrow> ('a \<Rightarrow> 'e + 'b) \<Rightarrow> 'e + 'b" where
  "res_bind r f = (case r of Inl e \<Rightarrow> Inl e | Inr a \<Rightarrow> f a)"

definition res_map :: "('a \<Rightarrow> 'b) \<Rightarrow> ('e + 'a) \<Rightarrow> 'e + 'b" where
  "res_map f r = (case r of Inl e \<Rightarrow> Inl e | Inr a \<Rightarrow> Inr (f a))"

definition res_map_err :: "('e \<Rightarrow> 'd) \<Rightarrow> ('e + 'a) \<Rightarrow> 'd + 'a" where
  "res_map_err f r = (case r of Inl e \<Rightarrow> Inl (f e) | Inr a \<Rightarrow> Inr a)"

definition res_of :: "'e \<Rightarrow> 'a option \<Rightarrow> 'e + 'a" where
  "res_of e x = (case x of None \<Rightarrow> Inl e | Some a \<Rightarrow> Inr a)"

definition context_res :: "string \<Rightarrow> 'a res \<Rightarrow> 'a res" where
  "context_res msg = res_map_err (Ctx msg)"

definition ensure :: "bool \<Rightarrow> 'e \<Rightarrow> 'e + unit" where
  "ensure b e = (if b then Inr () else Inl e)"

text \<open>\<open>iter.map(f).collect::<Result<Vec<_>, _>>()\<close>: the first error, or all the results.\<close>

fun res_traverse :: "('a \<Rightarrow> 'e + 'b) \<Rightarrow> 'a list \<Rightarrow> 'e + 'b list" where
  "res_traverse f [] = Inr []"
| "res_traverse f (x # xs) =
     res_bind (f x) (\<lambda>y. res_map (\<lambda>ys. y # ys) (res_traverse f xs))"

lemma res_bind_simps [simp]:
  "res_bind (Inl e) f = Inl e"
  "res_bind (Inr a) f = f a"
  by (simp_all add: res_bind_def)

lemma res_map_simps [simp]:
  "res_map f (Inl e) = Inl e"
  "res_map f (Inr a) = Inr (f a)"
  by (simp_all add: res_map_def)

lemma res_map_err_simps [simp]:
  "res_map_err f (Inl e) = Inl (f e)"
  "res_map_err f (Inr a) = Inr a"
  by (simp_all add: res_map_err_def)

lemma res_of_simps [simp]:
  "res_of e None = Inl e"
  "res_of e (Some a) = Inr a"
  by (simp_all add: res_of_def)

lemma context_res_simps [simp]:
  "context_res m (Inl e) = Inl (Ctx m e)"
  "context_res m (Inr a) = Inr a"
  by (simp_all add: context_res_def)

lemma ensure_simps [simp]:
  "ensure True e = Inr ()"
  "ensure False e = Inl e"
  by (simp_all add: ensure_def)

lemma res_bind_Inr [iff]: "res_bind r f = Inr b \<longleftrightarrow> (\<exists>a. r = Inr a \<and> f a = Inr b)"
  by (cases r) simp_all

lemma res_map_Inr [iff]: "res_map f r = Inr b \<longleftrightarrow> (\<exists>a. r = Inr a \<and> b = f a)"
  by (cases r) auto

lemma res_map_err_Inr [iff]: "res_map_err f r = Inr b \<longleftrightarrow> r = Inr b"
  by (cases r) simp_all

lemma context_res_Inr [iff]: "context_res m r = Inr b \<longleftrightarrow> r = Inr b"
  by (cases r) simp_all

lemma res_of_Inr [iff]: "res_of e x = Inr b \<longleftrightarrow> x = Some b"
  by (cases x) simp_all

lemma ensure_Inr [iff]: "ensure b e = Inr u \<longleftrightarrow> b"
  by (simp add: ensure_def)

lemma res_traverse_Inr:
  "res_traverse f xs = Inr ys \<Longrightarrow> list_all2 (\<lambda>x y. f x = Inr y) xs ys"
  by (induction xs arbitrary: ys) auto

lemma res_traverse_total: "(\<And>x. x \<in> set xs \<Longrightarrow> f x = Inr (g x)) \<Longrightarrow> res_traverse f xs = Inr (map g xs)"
  by (induction xs) auto

section \<open>Lists\<close>

lemma find_Some_mem: "List.find P xs = Some x \<Longrightarrow> x \<in> set xs \<and> P x"
  by (induction xs) (auto split: if_splits)

lemma find_None_all: "List.find P xs = None \<longleftrightarrow> (\<forall>x \<in> set xs. \<not> P x)"
  by (induction xs) auto

lemma distinct_map_inj_on_set:
  "distinct (map f xs) \<Longrightarrow> x \<in> set xs \<Longrightarrow> y \<in> set xs \<Longrightarrow> f x = f y \<Longrightarrow> x = y"
  by (auto simp: distinct_map dest: inj_onD)

lemma find_unique:
  "distinct (map f xs) \<Longrightarrow> x \<in> set xs \<Longrightarrow> List.find (\<lambda>y. f y = f x) xs = Some x"
  by (induction xs) auto

lemma map_map_same: "(\<And>x. x \<in> set xs \<Longrightarrow> f (g x) = f x) \<Longrightarrow> map f (map g xs) = map f xs"
  by simp

end
