(* ===== verification/Rust_Std.thy ===== *)
theory Rust_Std
  imports Gw_Prelude
begin

text \<open>
  The parts of Rust's standard library that the gateway relies on: string prefixes and ASCII
  case, decimal and radix parsing of \<open>u64\<close>, checked and saturating arithmetic,
  \<open>TryFrom\<close> between \<open>u64\<close> and \<open>i64\<close>, and little-endian bytes. A Rust string is
  its UTF-8 bytes, one \<open>char\<close> per byte.
\<close>

section \<open>Strings\<close>

fun strip_prefix :: "string \<Rightarrow> string \<Rightarrow> string option" where
  "strip_prefix [] s = Some s"
| "strip_prefix (p # ps) [] = None"
| "strip_prefix (p # ps) (c # cs) = (if p = c then strip_prefix ps cs else None)"

definition starts_with :: "string \<Rightarrow> string \<Rightarrow> bool" where
  "starts_with p s = (strip_prefix p s \<noteq> None)"

definition ends_with_char :: "char \<Rightarrow> string \<Rightarrow> bool" where
  "ends_with_char c s = (s \<noteq> [] \<and> last s = c)"

fun str_contains :: "string \<Rightarrow> string \<Rightarrow> bool" where
  "str_contains p [] = (p = [])"
| "str_contains p (c # cs) = (starts_with p (c # cs) \<or> str_contains p cs)"

definition strip_0x :: "string \<Rightarrow> string" where
  "strip_0x s = (case strip_prefix ''0x'' s of Some t \<Rightarrow> t | None \<Rightarrow> s)"

definition to_ascii_lower :: "char \<Rightarrow> char" where
  "to_ascii_lower c = (let n = of_char c :: nat in
     if 65 \<le> n \<and> n \<le> 90 then char_of (n + 32) else c)"

text \<open>
  \<open>str::trim\<close> removes the Unicode white space of both ends; the gateway only asks whether
  anything is left, so only the removal from the front is needed. Each white-space
  character is listed by its UTF-8 bytes.
\<close>

definition byte_str :: "nat list \<Rightarrow> string" where
  "byte_str = map char_of"

definition white_space :: "string list" where
  "white_space =
     map byte_str ([[9], [10], [11], [12], [13], [32], [0xC2, 0x85], [0xC2, 0xA0],
       [0xE1, 0x9A, 0x80], [0xE2, 0x80, 0xA8], [0xE2, 0x80, 0xA9], [0xE2, 0x80, 0xAF],
       [0xE2, 0x81, 0x9F], [0xE3, 0x80, 0x80]] @ map (\<lambda>k. [0xE2, 0x80, 0x80 + k]) [0..<11])"

lemma strip_prefix_Some: "strip_prefix p s = Some t \<longleftrightarrow> s = p @ t"
  by (induction p s rule: strip_prefix.induct) auto

lemma white_space_nonempty: "w \<in> set white_space \<Longrightarrow> w \<noteq> []"
  by (auto simp: white_space_def byte_str_def)

fun trim_start_fuel :: "nat \<Rightarrow> string \<Rightarrow> string" where
  "trim_start_fuel 0 s = s"
| "trim_start_fuel (Suc n) s =
     (case List.find (\<lambda>w. starts_with w s) white_space of
        None \<Rightarrow> s
      | Some w \<Rightarrow> trim_start_fuel n (drop (length w) s))"

text \<open>Each round removes at least one byte, so as many rounds as there are bytes are enough.\<close>

definition trim_is_empty :: "string \<Rightarrow> bool" where
  "trim_is_empty s = (trim_start_fuel (length s) s = [])"

lemma trim_start_fuel_enough:
  "length s \<le> n \<Longrightarrow>
   List.find (\<lambda>w. starts_with w (trim_start_fuel n s)) white_space = None"
proof (induction n arbitrary: s)
  case 0
  then show ?case
    unfolding find_None_all starts_with_def
    by (metis le_zero_eq length_0_conv list.exhaust strip_prefix.simps(2)
        trim_start_fuel.simps(1) white_space_nonempty)
next
  case (Suc n)
  show ?case
  proof (cases "List.find (\<lambda>w. starts_with w s) white_space")
    case None
    then show ?thesis by simp
  next
    case (Some w)
    have "0 < length w"
      using find_Some_mem [OF Some] white_space_nonempty by blast
    then have "length (drop (length w) s) \<le> n"
      using Suc.prems by (auto simp only: length_drop)
    then show ?thesis using Some by (simp add: Suc.IH)
  qed
qed

lemma starts_with_iff: "starts_with p s \<longleftrightarrow> (\<exists>t. s = p @ t)"
  by (auto simp: starts_with_def strip_prefix_Some)

lemma str_contains_iff: "str_contains p s \<longleftrightarrow> (\<exists>u v. s = u @ p @ v)"
proof (induction s)
  case Nil
  then show ?case by simp
next
  case (Cons c cs)
  have "(\<exists>u v. c # cs = u @ p @ v) \<longleftrightarrow>
      (\<exists>v. c # cs = p @ v) \<or> (\<exists>u v. cs = u @ p @ v)" (is "?l \<longleftrightarrow> ?r")
  proof
    assume ?l
    then obtain u v where "c # cs = u @ p @ v" by blast
    then show ?r by (cases u) auto
  next
    assume ?r
    then show ?l by (metis append_Cons append_Nil)
  qed
  then show ?case by (simp only: str_contains.simps starts_with_iff Cons.IH)
qed

lemma strip_0x_prefixed [simp]: "strip_0x (CHR ''0'' # CHR ''x'' # s) = s"
  by (simp add: strip_0x_def)

lemma to_ascii_lower_idem [simp]: "to_ascii_lower (to_ascii_lower c) = to_ascii_lower c"
  by (simp add: to_ascii_lower_def Let_def)

text \<open>A text in single quotes, as the format strings of error messages write them.\<close>

definition quoted :: "string \<Rightarrow> string" where
  "quoted s = [CHR 0x27] @ s @ [CHR 0x27]"

text \<open>
  \<open>String::from_utf8\<close>: the bytes are a string when they are well-formed UTF-8 (no overlong form, no
  surrogate, nothing above U+10FFFF). \<open>cont\<close> is the range of a continuation byte.
\<close>

definition cont :: "nat \<Rightarrow> bool" where
  "cont b = (0x80 \<le> b \<and> b \<le> 0xBF)"

fun utf8_ok :: "nat list \<Rightarrow> bool" where
  "utf8_ok [] = True"
| "utf8_ok (a # r) =
     (if a < 0x80 then utf8_ok r
      else case r of
        [] \<Rightarrow> False
      | b # r1 \<Rightarrow>
        if 0xC2 \<le> a \<and> a \<le> 0xDF then cont b \<and> utf8_ok r1
        else case r1 of
          [] \<Rightarrow> False
        | c # r2 \<Rightarrow>
          if 0xE0 \<le> a \<and> a \<le> 0xEF
          then cont b \<and> cont c \<and> (a = 0xE0 \<longrightarrow> 0xA0 \<le> b) \<and> (a = 0xED \<longrightarrow> b \<le> 0x9F) \<and> utf8_ok r2
          else case r2 of
            [] \<Rightarrow> False
          | d # r3 \<Rightarrow>
            0xF0 \<le> a \<and> a \<le> 0xF4 \<and> cont b \<and> cont c \<and> cont d
            \<and> (a = 0xF0 \<longrightarrow> 0x90 \<le> b) \<and> (a = 0xF4 \<longrightarrow> b \<le> 0x8F) \<and> utf8_ok r3)"

definition string_from_utf8 :: "bytes \<Rightarrow> string option" where
  "string_from_utf8 bs = (if utf8_ok (map unat bs) then Some (map (\<lambda>b. char_of (unat b)) bs) else None)"

section \<open>Integer parsing and printing\<close>

definition digit_of :: "nat \<Rightarrow> char \<Rightarrow> nat option" where
  "digit_of radix c = (let n = of_char c :: nat;
      d = (if 48 \<le> n \<and> n \<le> 57 then n - 48
           else if 97 \<le> n \<and> n \<le> 122 then n - 87
           else if 65 \<le> n \<and> n \<le> 90 then n - 55
           else radix)
    in if d < radix then Some d else None)"

fun parse_digits :: "nat \<Rightarrow> nat \<Rightarrow> string \<Rightarrow> int_error + nat" where
  "parse_digits radix acc [] = Inr acc"
| "parse_digits radix acc (c # cs) =
     (case digit_of radix c of
        None \<Rightarrow> Inl IntInvalidDigit
      | Some d \<Rightarrow>
          if acc * radix + d < 2 ^ 64 then parse_digits radix (acc * radix + d) cs
          else Inl IntPosOverflow)"

text \<open>\<open>u64::from_str_radix\<close>: a leading plus sign is accepted, an empty digit sequence is not.\<close>

definition u64_from_str_radix :: "string \<Rightarrow> nat \<Rightarrow> int_error + u64" where
  "u64_from_str_radix s radix =
     (if s = [] then Inl IntEmpty
      else if s = ''+'' \<or> s = ''-'' then Inl IntInvalidDigit
      else let digits = (if hd s = CHR ''+'' then tl s else s)
           in res_map of_nat (parse_digits radix 0 digits))"

definition parse_u64 :: "string \<Rightarrow> int_error + u64" where
  "parse_u64 s = u64_from_str_radix s 10"

definition digit_char :: "nat \<Rightarrow> char" where
  "digit_char d = char_of (48 + d)"

fun show_nat :: "nat \<Rightarrow> string" where
  "show_nat n = (if n < 10 then [digit_char n] else show_nat (n div 10) @ [digit_char (n mod 10)])"

declare show_nat.simps [simp del]

definition show_u64 :: "u64 \<Rightarrow> string" where
  "show_u64 x = show_nat (unat x)"

lemma digit_of_digit_char: "d < 10 \<Longrightarrow> digit_of 10 (digit_char d) = Some d"
  by (simp add: digit_of_def digit_char_def Let_def)

lemma parse_digits_append_digit:
  "parse_digits 10 acc s = Inr m \<Longrightarrow> d < 10 \<Longrightarrow> m * 10 + d < 2 ^ 64 \<Longrightarrow>
   parse_digits 10 acc (s @ [digit_char d]) = Inr (m * 10 + d)"
  by (induction s arbitrary: acc)
    (auto simp: digit_of_digit_char split: option.splits if_splits)

lemma parse_digits_show: "n < 2 ^ 64 \<Longrightarrow> parse_digits 10 0 (show_nat n) = Inr n"
proof (induction n rule: show_nat.induct)
  case (1 n)
  show ?case
  proof (cases "n < 10")
    case True
    then show ?thesis using "1.prems"
      by (simp add: show_nat.simps [of n] digit_of_digit_char)
  next
    case False
    then have "parse_digits 10 0 (show_nat (n div 10)) = Inr (n div 10)"
      using "1.IH" "1.prems" by simp
    moreover have "n div 10 * 10 + n mod 10 = n" by simp
    ultimately have
      "parse_digits 10 0 (show_nat (n div 10) @ [digit_char (n mod 10)]) = Inr n"
      using "1.prems"
      by (metis mod_less_divisor parse_digits_append_digit zero_less_numeral)
    then show ?thesis using False by (simp add: show_nat.simps [of n])
  qed
qed

lemma show_nat_head: "show_nat n \<noteq> [] \<and> hd (show_nat n) \<noteq> CHR ''+'' \<and> hd (show_nat n) \<noteq> CHR ''-''"
proof (induction n rule: show_nat.induct)
  case (1 n)
  have "digit_char d \<noteq> CHR ''+'' \<and> digit_char d \<noteq> CHR ''-''" if "d < 10" for d
  proof -
    have "(of_char (digit_char d) :: nat) = 48 + d"
      using that by (simp add: digit_char_def)
    then show ?thesis by auto
  qed
  then show ?case using 1
    by (cases "n < 10") (simp_all add: show_nat.simps [of n] hd_append)
qed

lemma parse_show_u64: "parse_u64 (show_u64 x) = Inr x"
proof -
  have b: "unat x < 2 ^ 64" using unsigned_less [of x] by simp
  obtain c cs where s: "show_nat (unat x) = c # cs"
    using show_nat_head by (metis list.exhaust)
  have "c \<noteq> CHR ''+''" "c \<noteq> CHR ''-''" using show_nat_head [of "unat x"] s by auto
  with s show ?thesis
    using parse_digits_show [OF b] unfolding parse_u64_def u64_from_str_radix_def show_u64_def
    by (simp del: parse_digits.simps)
qed

section \<open>Integer arithmetic\<close>

definition u64_max :: u64 where
  "u64_max = 0xFFFFFFFFFFFFFFFF"

definition saturating_add :: "u64 \<Rightarrow> u64 \<Rightarrow> u64" where
  "saturating_add a b = (if unat a + unat b < 2 ^ 64 then a + b else u64_max)"

definition saturating_mul :: "u64 \<Rightarrow> u64 \<Rightarrow> u64" where
  "saturating_mul a b = (if unat a * unat b < 2 ^ 64 then a * b else u64_max)"

definition checked_mul :: "u64 \<Rightarrow> u64 \<Rightarrow> u64 option" where
  "checked_mul a b = (if unat a * unat b < 2 ^ 64 then Some (a * b) else None)"

text \<open>\<open>saturating_pow\<close>: exponentiation with every product saturating at the maximum.\<close>

definition saturating_pow :: "u64 \<Rightarrow> nat \<Rightarrow> u64" where
  "saturating_pow a k = (if unat a ^ k < 2 ^ 64 then of_nat (unat a ^ k) else u64_max)"

definition i64_try_from :: "u64 \<Rightarrow> i64 option" where
  "i64_try_from x = (if unat x < 2 ^ 63 then Some x else None)"

definition u64_try_from :: "i64 \<Rightarrow> u64 option" where
  "u64_try_from x = (if 0 \<le> sint x then Some x else None)"

text \<open>\<open>UNIX_EPOCH + Duration::from_secs(secs)\<close>, as its seconds since the epoch.\<close>

definition i64_max :: nat where "i64_max = 2 ^ 63 - 1"

definition system_time :: "u64 \<Rightarrow> u64 res" where
  "system_time secs = (if unat secs \<le> i64_max then Inr secs
     else Inl (Panic ''overflow when adding duration to instant''))"

definition to_le_bytes :: "u64 \<Rightarrow> bytes" where
  "to_le_bytes x = map (\<lambda>i. ucast (drop_bit (8 * i) x)) [0..<8]"

definition from_le_bytes :: "bytes \<Rightarrow> u64" where
  "from_le_bytes bs = foldr (\<lambda>b acc. ucast b + acc * 256) bs 0"

lemma unat_u64_max [simp]: "unat u64_max = 2 ^ 64 - 1"
  by (simp add: u64_max_def)

lemma unat_u64_less: "unat (x :: u64) < 2 ^ 64"
  using unsigned_less [of x] by simp

lemma unat_saturating_add: "unat (saturating_add a b) = min (unat a + unat b) (2 ^ 64 - 1)"
  by (auto simp: saturating_add_def unat_word_ariths min_def)

lemma unat_saturating_mul: "unat (saturating_mul a b) = min (unat a * unat b) (2 ^ 64 - 1)"
  by (auto simp: saturating_mul_def unat_word_ariths min_def)

lemma unat_saturating_pow: "unat (saturating_pow a k) = min (unat a ^ k) (2 ^ 64 - 1)"
  by (auto simp: saturating_pow_def min_def unat_of_nat simp del: of_nat_power)

lemma checked_mul_Some: "checked_mul a b = Some c \<longleftrightarrow> unat a * unat b < 2 ^ 64 \<and> unat c = unat a * unat b"
  by (auto simp: checked_mul_def unat_word_ariths word_unat_eq_iff)

lemma sint_nonneg_iff: "0 \<le> sint (x :: i64) \<longleftrightarrow> unat x < 2 ^ 63"
proof -
  have "0 \<le> sint x \<longleftrightarrow> \<not> bit x 63"
    using bit_last_iff [of x] by auto
  also have "bit x 63 \<longleftrightarrow> odd (unat x div 2 ^ 63)"
    by (metis bit_iff_odd bit_unsigned_iff possible_bit_nat)
  also have "\<dots> \<longleftrightarrow> \<not> unat x < 2 ^ 63"
  proof (cases "unat x < 2 ^ 63")
    case False
    then have "unat x div 2 ^ 63 = 1"
      using unat_u64_less [of x] by (intro div_nat_eqI) auto
    then show ?thesis using False by simp
  qed simp
  finally show ?thesis by simp
qed

lemma u64_try_from_i64_try_from: "i64_try_from x = Some y \<Longrightarrow> u64_try_from y = Some x"
  by (auto simp: i64_try_from_def u64_try_from_def sint_nonneg_iff split: if_splits)

lemma to_le_bytes_length [simp]: "length (to_le_bytes x) = 8"
  by (simp add: to_le_bytes_def)

lemma le_step: "ucast (ucast (y :: u64) :: u8) + drop_bit 8 y * 256 = y"
proof -
  have "(ucast (ucast y :: u8) :: u64) = take_bit 8 y"
    by (rule bit_eqI) (auto simp: bit_simps)
  moreover have "drop_bit 8 y * 256 = push_bit 8 (drop_bit 8 y)"
    by (simp add: push_bit_eq_mult)
  ultimately show ?thesis by (metis add.commute bits_ident)
qed

lemma from_le_bytes_drop:
  "k \<le> 8 \<Longrightarrow>
   foldr (\<lambda>b acc. ucast b + acc * 256) (map (\<lambda>i. ucast (drop_bit (8 * i) (x::u64)) :: u8) [k..<8]) 0
     = drop_bit (8 * k) x"
proof (induction "8 - k" arbitrary: k)
  case 0
  then have "k = 8" by simp
  moreover have "drop_bit 64 x = 0" by (rule bit_eqI) (auto simp: bit_simps)
  ultimately show ?case by simp
next
  case (Suc n)
  then have "[k..<8] = k # [Suc k..<8]" by (simp add: upt_conv_Cons)
  moreover have "drop_bit (8 * Suc k) x = drop_bit 8 (drop_bit (8 * k) x)"
    by (simp add: add.commute)
  ultimately show ?case using Suc.hyps(1) [of "Suc k"] Suc.hyps(2) Suc.prems le_step [of "drop_bit (8 * k) x"]
    by simp
qed

lemma from_to_le_bytes: "from_le_bytes (to_le_bytes x) = x"
  using from_le_bytes_drop [of 0 x] by (simp add: from_le_bytes_def to_le_bytes_def)

end
