(* ===== verification/Binary64.thy ===== *)
theory Binary64
  imports Complex_Main Rust_Std "HOL-Library.Log_Nat"
begin

text \<open>
  Rust's \<open>f64\<close>: IEEE 754 binary64 with rounding to nearest, ties to even. A value is a NaN,
  an infinity with its sign, the negative zero, or a rational number (the positive zero is
  \<open>FNum 0\<close>). Every arithmetic result is the exact rational result rounded once
  (\<open>round_mag\<close>), with gradual underflow below \<open>2 powi (-1022)\<close> and overflow to infinity.
  The operations are the ones the fee code uses: conversion from and to \<open>u64\<close>, product,
  quotient, difference, \<open>max\<close>, \<open>min\<close>, \<open>clamp\<close>, \<open>ceil\<close> and the comparisons.
  \<open>powf\<close> is left out: its result is documented as platform dependent, so the code that
  calls it takes it as a parameter.
\<close>

datatype f64 = FNaN | FInf bool | FNegZero | FNum rat

section \<open>Rounding a positive rational\<close>

definition rlog2 :: "rat \<Rightarrow> int" where
  "rlog2 x = (let (p, q) = quotient_of x; e = bitlen p - bitlen q
     in if 2 powi e \<le> x then e else e - 1)"

definition ulp_exp :: "rat \<Rightarrow> int" where
  "ulp_exp x = max (rlog2 x - 52) (- 1074)"

definition round_even :: "rat \<Rightarrow> int" where
  "round_even y = (let f = \<lfloor>y\<rfloor>; d = y - of_int f
     in if d < 1 / 2 then f else if 1 / 2 < d then f + 1 else if even f then f else f + 1)"

definition round_mag :: "rat \<Rightarrow> rat" where
  "round_mag x = of_int (round_even (x / 2 powi ulp_exp x)) * 2 powi ulp_exp x"

definition signed_zero :: "bool \<Rightarrow> f64" where
  "signed_zero neg = (if neg then FNegZero else FNum 0)"

definition round_f64 :: "bool \<Rightarrow> rat \<Rightarrow> f64" where
  "round_f64 neg x =
     (if x = 0 then signed_zero neg
      else let m = round_mag x in
        if m = 0 then signed_zero neg
        else if 1024 \<le> rlog2 m then FInf neg
        else FNum (if neg then - m else m))"

section \<open>Operations\<close>

fun fval :: "f64 \<Rightarrow> rat" where
  "fval (FNum r) = r"
| "fval _ = 0"

fun fneg :: "f64 \<Rightarrow> bool" where
  "fneg (FNum r) = (r < 0)"
| "fneg (FInf s) = s"
| "fneg FNegZero = True"
| "fneg FNaN = False"

fun is_finite :: "f64 \<Rightarrow> bool" where
  "is_finite FNaN = False"
| "is_finite (FInf _) = False"
| "is_finite _ = True"

fun is_inf :: "f64 \<Rightarrow> bool" where
  "is_inf (FInf _) = True"
| "is_inf _ = False"

definition is_zero :: "f64 \<Rightarrow> bool" where
  "is_zero a = (is_finite a \<and> fval a = 0)"

definition f64_of_u64 :: "u64 \<Rightarrow> f64" where
  "f64_of_u64 n = round_f64 False (of_int (uint n))"

definition f64_mul :: "f64 \<Rightarrow> f64 \<Rightarrow> f64" where
  "f64_mul a b = (let s = (fneg a \<noteq> fneg b) in
     if a = FNaN \<or> b = FNaN \<or> is_inf a \<and> is_zero b \<or> is_zero a \<and> is_inf b then FNaN
     else if is_inf a \<or> is_inf b then FInf s
     else round_f64 s \<bar>fval a * fval b\<bar>)"

definition f64_div :: "f64 \<Rightarrow> f64 \<Rightarrow> f64" where
  "f64_div a b = (let s = (fneg a \<noteq> fneg b) in
     if a = FNaN \<or> b = FNaN \<or> is_inf a \<and> is_inf b \<or> is_zero a \<and> is_zero b then FNaN
     else if is_inf a \<or> is_zero b then FInf s
     else if is_inf b then signed_zero s
     else round_f64 s \<bar>fval a / fval b\<bar>)"

definition f64_sub :: "f64 \<Rightarrow> f64 \<Rightarrow> f64" where
  "f64_sub a b =
     (if a = FNaN \<or> b = FNaN \<or> is_inf a \<and> is_inf b \<and> fneg a = fneg b then FNaN
      else if is_inf a then a
      else if is_inf b then FInf (\<not> fneg b)
      else let d = fval a - fval b in
        if d = 0 then signed_zero (a = FNegZero \<and> b = FNum 0) else round_f64 (d < 0) \<bar>d\<bar>)"

fun f64_le :: "f64 \<Rightarrow> f64 \<Rightarrow> bool" where
  "f64_le FNaN _ = False"
| "f64_le _ FNaN = False"
| "f64_le (FInf s) b = (s \<or> b = FInf False)"
| "f64_le a (FInf s) = (\<not> s)"
| "f64_le a b = (fval a \<le> fval b)"

definition f64_lt :: "f64 \<Rightarrow> f64 \<Rightarrow> bool" where
  "f64_lt a b = (f64_le a b \<and> \<not> f64_le b a)"

text \<open>\<open>f64::max\<close> and \<open>f64::min\<close> return the other operand when one is a NaN.\<close>

definition f64_max :: "f64 \<Rightarrow> f64 \<Rightarrow> f64" where
  "f64_max a b = (if a = FNaN then b else if b = FNaN then a else if f64_le a b then b else a)"

definition f64_min :: "f64 \<Rightarrow> f64 \<Rightarrow> f64" where
  "f64_min a b = (if a = FNaN then b else if b = FNaN then a else if f64_le a b then a else b)"

definition f64_clamp :: "f64 \<Rightarrow> f64 \<Rightarrow> f64 \<Rightarrow> f64" where
  "f64_clamp x lo hi = (let y = (if f64_lt x lo then lo else x)
     in if f64_lt hi y then hi else y)"

text \<open>\<open>ceil\<close> of a number in \<open>(-1, 0)\<close> is the negative zero.\<close>

fun f64_ceil :: "f64 \<Rightarrow> f64" where
  "f64_ceil (FNum r) = (if - 1 < r \<and> r < 0 then FNegZero else FNum (of_int \<lceil>r\<rceil>))"
| "f64_ceil a = a"

text \<open>The cast \<open>as u64\<close> truncates and saturates; a NaN becomes 0.\<close>

fun f64_to_u64 :: "f64 \<Rightarrow> u64" where
  "f64_to_u64 FNaN = 0"
| "f64_to_u64 (FInf s) = (if s then 0 else u64_max)"
| "f64_to_u64 FNegZero = 0"
| "f64_to_u64 (FNum r) =
     (if r \<le> 0 then 0 else if 2 ^ 64 \<le> r then u64_max else of_int \<lfloor>r\<rfloor>)"

section \<open>The rounding function is monotone and exact on small integers\<close>

lemma powi_two_pos [simp]: "(0::rat) < 2 powi e"
  by simp

lemma powi_two_mono: "a \<le> b \<Longrightarrow> (2::rat) powi a \<le> 2 powi b"
  by (intro power_int_increasing) auto

lemma powi_two_add: "(2::rat) powi (a + b) = 2 powi a * 2 powi b"
  by (simp add: power_int_add)

lemma powi_two_int: "0 \<le> e \<Longrightarrow> (2::rat) powi e = of_int (2 ^ nat e)"
  by (simp add: power_int_def)

lemma bitlen_powi: "0 < p \<Longrightarrow> (2::rat) powi (bitlen p - 1) \<le> of_int p \<and> of_int p < (2::rat) powi bitlen p"
proof -
  assume p: "0 < p"
  then have "1 \<le> bitlen p"
    by (metis bitlen_eq_zero_iff bitlen_nonneg int_one_le_iff_zero_less leD order_le_less)
  then show ?thesis
    using bitlen_bounds [OF p]
    by (simp add: powi_two_int del: of_int_power)
qed

lemma rlog2_bounds:
  assumes "0 < x"
  shows "2 powi rlog2 x \<le> x" "x < 2 powi (rlog2 x + 1)"
proof -
  obtain p q where pq: "quotient_of x = (p, q)" by force
  then have q: "0 < q" and x: "x = of_int p / of_int q"
    by (auto simp: quotient_of_denom_pos quotient_of_div)
  then have p: "0 < p" using assms by (simp add: zero_less_divide_iff)
  let ?e = "bitlen p - bitlen q"
  have "x < 2 powi bitlen p / 2 powi (bitlen q - 1)"
    unfolding x using bitlen_powi [OF p] bitlen_powi [OF q] p
    by (intro frac_less) auto
  also have "\<dots> = 2 powi (?e + 1)"
    by (simp add: power_int_diff [symmetric] algebra_simps)
  finally have up: "x < 2 powi (?e + 1)" .
  have "2 powi (?e - 1) = (2::rat) powi (bitlen p - 1) / 2 powi bitlen q"
    by (simp add: power_int_diff [symmetric] algebra_simps)
  also have "\<dots> \<le> x"
    unfolding x using bitlen_powi [OF p] bitlen_powi [OF q] q p
    by (intro frac_le) auto
  finally have lo: "2 powi (?e - 1) \<le> x" .
  show "2 powi rlog2 x \<le> x" "x < 2 powi (rlog2 x + 1)"
    using up lo pq by (auto simp: rlog2_def Let_def)
qed

lemma rlog2_mono: "0 < x \<Longrightarrow> x \<le> y \<Longrightarrow> rlog2 x \<le> rlog2 y"
proof (rule ccontr)
  assume xy: "0 < x" "x \<le> y" and "\<not> rlog2 x \<le> rlog2 y"
  then have "(2::rat) powi (rlog2 y + 1) \<le> 2 powi rlog2 x"
    by (intro powi_two_mono) simp
  then show False
    using xy rlog2_bounds(1) [of x] rlog2_bounds(2) [of y] by linarith
qed

lemma round_even_near: "\<lfloor>y\<rfloor> \<le> round_even y" "round_even y \<le> \<lfloor>y\<rfloor> + 1"
  by (simp_all add: round_even_def Let_def)

lemma round_even_of_int [simp]: "round_even (of_int k) = k"
  by (simp add: round_even_def)

lemma round_even_mono: "y \<le> z \<Longrightarrow> round_even y \<le> round_even z"
proof (cases "\<lfloor>y\<rfloor> = \<lfloor>z\<rfloor>")
  case True
  moreover assume "y \<le> z"
  ultimately show ?thesis by (auto simp: round_even_def Let_def)
next
  case False
  moreover assume "y \<le> z"
  ultimately have "\<lfloor>y\<rfloor> + 1 \<le> \<lfloor>z\<rfloor>" using floor_mono [of y z] by linarith
  then show ?thesis using round_even_near(2) [of y] round_even_near(1) [of z] by linarith
qed

lemma round_mag_le_grid:
  assumes "x \<le> of_int k * 2 powi ulp_exp x"
  shows "round_mag x \<le> of_int k * 2 powi ulp_exp x"
proof -
  have "x / 2 powi ulp_exp x \<le> of_int k"
    using assms by (simp add: pos_divide_le_eq)
  then have "round_even (x / 2 powi ulp_exp x) \<le> k"
    by (metis round_even_mono round_even_of_int)
  then show ?thesis by (simp add: round_mag_def mult_right_mono)
qed

lemma round_mag_ge_grid:
  assumes "of_int k * 2 powi ulp_exp x \<le> x"
  shows "of_int k * 2 powi ulp_exp x \<le> round_mag x"
proof -
  have "of_int k \<le> x / 2 powi ulp_exp x"
    using assms by (simp add: pos_le_divide_eq)
  then have "k \<le> round_even (x / 2 powi ulp_exp x)"
    by (metis round_even_mono round_even_of_int)
  then show ?thesis by (simp add: round_mag_def mult_right_mono)
qed

lemma powi_on_grid: "u \<le> e \<Longrightarrow> (2::rat) powi e = of_int (2 ^ nat (e - u)) * 2 powi u"
  using powi_two_add [of "e - u" u] powi_two_int [of "e - u"] by simp

lemma round_mag_mono:
  assumes "0 < x" "x \<le> y"
  shows "round_mag x \<le> round_mag y"
proof (cases "ulp_exp x = ulp_exp y")
  case True
  then have "round_even (x / 2 powi ulp_exp x) \<le> round_even (y / 2 powi ulp_exp y)"
    using assms by (intro round_even_mono) (simp add: divide_right_mono)
  then show ?thesis using True by (simp add: round_mag_def mult_right_mono)
next
  case False
  have le: "rlog2 x \<le> rlog2 y" using assms by (rule rlog2_mono)
  then have ey: "ulp_exp y = rlog2 y - 52" and lt: "rlog2 x < rlog2 y"
    using False by (auto simp: ulp_exp_def max_def split: if_splits)
  have "ulp_exp x \<le> rlog2 y"
    using le ey lt by (auto simp: ulp_exp_def max_def split: if_splits)
  note gx = powi_on_grid [OF this]
  have "x \<le> 2 powi rlog2 y"
    using rlog2_bounds(2) [of x] powi_two_mono [of "rlog2 x + 1" "rlog2 y"] assms lt by linarith
  then have "round_mag x \<le> 2 powi rlog2 y"
    using round_mag_le_grid [of x "2 ^ nat (rlog2 y - ulp_exp x)"] gx by simp
  also have "\<dots> \<le> round_mag y"
    using round_mag_ge_grid [of "2 ^ nat (rlog2 y - ulp_exp y)" y]
      powi_on_grid [of "ulp_exp y" "rlog2 y"] rlog2_bounds(1) [of y] assms ey by simp
  finally show ?thesis .
qed

lemma round_mag_exact:
  assumes "x = of_int k * 2 powi ulp_exp x"
  shows "round_mag x = x"
  using round_mag_le_grid [of x k] round_mag_ge_grid [of k x] assms by simp

lemma round_mag_small_int:
  assumes "0 < n" "n \<le> 2 ^ 53"
  shows "round_mag (of_nat n) = of_nat n"
proof -
  let ?x = "of_nat n :: rat"
  have x: "0 < ?x" "?x \<le> 2 powi 53"
    using assms by (simp_all add: power_int_def)
  show ?thesis
  proof (cases "ulp_exp ?x \<le> 0")
    case True
    have "?x = of_int (int n * 2 ^ nat (- ulp_exp ?x)) * 2 powi ulp_exp ?x"
      using powi_on_grid [OF True] by simp
    then show ?thesis by (rule round_mag_exact)
  next
    case False
    then have "53 \<le> rlog2 ?x" by (auto simp: ulp_exp_def max_def split: if_splits)
    then have "(2::rat) powi 53 \<le> ?x"
      using powi_two_mono [of 53 "rlog2 ?x"] rlog2_bounds(1) [OF x(1)] by linarith
    with x have eq: "?x = 2 powi 53" by simp
    have "rlog2 ?x < 54"
    proof (rule ccontr)
      assume "\<not> rlog2 ?x < 54"
      then have "(2::rat) powi 54 \<le> ?x"
        using powi_two_mono [of 54 "rlog2 ?x"] rlog2_bounds(1) [OF x(1)] by linarith
      then show False using eq by (simp add: power_int_def)
    qed
    then have "ulp_exp ?x \<le> 53"
      by (simp add: ulp_exp_def)
    then show ?thesis
      using powi_on_grid [of "ulp_exp ?x" 53] eq round_mag_exact by metis
  qed
qed

section \<open>Consequences for the operations\<close>

lemma f64_of_u64_nat: "f64_of_u64 n = round_f64 False (of_nat (unat n))"
  by (simp add: f64_of_u64_def)

text \<open>The overflow test of \<open>round_f64\<close> is the comparison with \<open>2 ^ 1024\<close>.\<close>

lemma rlog2_overflow: "0 < m \<Longrightarrow> 1024 \<le> rlog2 m \<longleftrightarrow> 2 powi 1024 \<le> m"
  using rlog2_bounds [of m] powi_two_mono [of 1024 "rlog2 m"] powi_two_mono [of "rlog2 m + 1" 1024]
  by linarith

lemma rlog2_small:
  assumes "0 < m" "m \<le> 2 powi 53"
  shows "rlog2 m < 1024"
proof (rule ccontr)
  assume "\<not> rlog2 m < 1024"
  then have "(2::rat) powi 1024 \<le> 2 powi 53"
    using rlog2_overflow [OF assms(1)] assms(2) by linarith
  moreover have "(2::rat) powi 53 < 2 powi 1024"
    by (intro power_int_strict_increasing) auto
  ultimately show False by linarith
qed

lemma of_nat_le_53: "n \<le> 2 ^ 53 \<Longrightarrow> (of_nat n :: rat) \<le> 2 powi 53"
  by (simp add: power_int_def)

lemma f64_le_refl: "a \<noteq> FNaN \<Longrightarrow> f64_le a a"
  by (cases a) auto

lemma f64_le_trans: "f64_le a b \<Longrightarrow> f64_le b c \<Longrightarrow> f64_le a c"
  by (cases a; cases b; cases c) auto

lemma f64_le_linear: "a \<noteq> FNaN \<Longrightarrow> b \<noteq> FNaN \<Longrightarrow> \<not> f64_le a b \<Longrightarrow> f64_le b a"
  by (cases a; cases b) auto

lemma round_mag_nonneg: "0 \<le> x \<Longrightarrow> 0 \<le> round_mag x"
  using round_mag_ge_grid [of 0 x] by simp

lemma round_f64_not_nan: "round_f64 s x \<noteq> FNaN"
  by (simp add: round_f64_def signed_zero_def Let_def)

lemma round_f64_lower:
  assumes "of_nat n \<le> x" "n \<le> 2 ^ 53"
  shows "f64_le (FNum (of_nat n)) (round_f64 False x)"
proof (cases "n = 0")
  case True
  then show ?thesis using assms round_mag_nonneg [of x]
    by (auto simp: round_f64_def signed_zero_def Let_def)
next
  case False
  then have "of_nat n \<le> round_mag x"
    using round_mag_mono [of "of_nat n" x] round_mag_small_int [of n] assms by simp
  then show ?thesis using False assms
    by (auto simp: round_f64_def signed_zero_def Let_def)
qed

lemma round_f64_upper:
  assumes "0 \<le> x" "x \<le> of_nat n" "n \<le> 2 ^ 53"
  shows "f64_le (round_f64 False x) (FNum (of_nat n))"
proof (cases "x = 0")
  case True
  then show ?thesis by (simp add: round_f64_def signed_zero_def)
next
  case False
  then have x: "0 < x" using assms by simp
  then have n: "0 < n" using assms by (cases n) auto
  then have le: "round_mag x \<le> of_nat n"
    using round_mag_mono [OF x assms(2)] round_mag_small_int [of n] assms by simp
  also note of_nat_le_53 [OF assms(3)]
  finally have small: "round_mag x \<le> 2 powi 53" .
  show ?thesis
  proof (cases "round_mag x = 0")
    case True
    then show ?thesis using False by (simp add: round_f64_def signed_zero_def)
  next
    case nonzero: False
    then have "rlog2 (round_mag x) < 1024"
      using small round_mag_nonneg [of x] x by (intro rlog2_small) auto
    then show ?thesis using le nonzero False
      by (simp add: round_f64_def)
  qed
qed

lemma f64_of_u64_small:
  assumes "unat n \<le> 2 ^ 53"
  shows "f64_of_u64 n = FNum (of_nat (unat n))"
proof (cases "unat n = 0")
  case False
  then have "rlog2 (of_nat (unat n)) < 1024"
    using of_nat_le_53 [OF assms] by (intro rlog2_small) (auto simp del: of_nat_unat)
  then show ?thesis
    using False round_mag_small_int [of "unat n"] assms
    by (auto simp: f64_of_u64_nat round_f64_def Let_def simp del: of_nat_unat)
qed (simp add: f64_of_u64_nat round_f64_def signed_zero_def)

lemma f64_of_u64_nonneg: "f64_le (FNum 0) (f64_of_u64 n)"
  using round_f64_lower [of 0 "of_nat (unat n)"] unfolding f64_of_u64_nat by (simp del: of_nat_unat)

lemma f64_clamp_range:
  assumes "x \<noteq> FNaN" "lo \<noteq> FNaN" "hi \<noteq> FNaN" "f64_le lo hi"
  shows "f64_le lo (f64_clamp x lo hi)" "f64_le (f64_clamp x lo hi) hi"
  using assms f64_le_linear [of lo x] f64_le_linear [of hi x]
  by (auto simp: f64_clamp_def Let_def f64_lt_def f64_le_refl)

lemma f64_clamp_nan: "f64_clamp FNaN lo hi = FNaN"
  by (simp add: f64_clamp_def f64_lt_def) (cases hi; simp)

lemma f64_max_ge: "lo \<noteq> FNaN \<Longrightarrow> f64_le lo (f64_max x lo)"
  using f64_le_linear [of x lo] by (auto simp: f64_max_def f64_le_refl)

lemma f64_min_le: "hi \<noteq> FNaN \<Longrightarrow> f64_le (f64_min x hi) hi"
  by (auto simp: f64_min_def f64_le_refl)

lemma f64_min_ge: "f64_le lo x \<Longrightarrow> f64_le lo hi \<Longrightarrow> f64_le lo (f64_min x hi)"
  by (auto simp: f64_min_def)

lemma f64_ceil_mono: "f64_le a b \<Longrightarrow> f64_le (f64_ceil a) (f64_ceil b)"
  by (cases a; cases b) (auto simp: ceiling_mono le_of_int_ceiling intro: order_trans)

lemma f64_ceil_of_nat [simp]: "f64_ceil (FNum (of_nat n)) = FNum (of_nat n)"
  by auto

lemma floor_word: "0 < r \<Longrightarrow> r < 2 ^ 64 \<Longrightarrow> unat (of_int \<lfloor>r :: rat\<rfloor> :: u64) = nat \<lfloor>r\<rfloor>"
proof -
  assume r: "0 < r" "r < 2 ^ 64"
  then have "0 \<le> \<lfloor>r\<rfloor>" "\<lfloor>r\<rfloor> < 2 ^ 64"
    by (simp_all add: floor_less_iff)
  then show ?thesis
    by (simp add: unsigned_of_int take_bit_int_eq_self)
qed

lemma unat_u64_le: "unat (x :: u64) \<le> 18446744073709551615"
  using unat_u64_less [of x] by simp

lemma f64_to_u64_mono: "f64_le a b \<Longrightarrow> f64_to_u64 a \<le> f64_to_u64 b"
proof (cases a; cases b)
  fix r t assume ab: "a = FNum r" "b = FNum t" and "f64_le a b"
  then have "r \<le> t" by simp
  then show ?thesis
    unfolding ab word_le_nat_alt using floor_mono [of r t] floor_word [of r] floor_word [of t]
      unat_u64_less [of "of_int \<lfloor>r\<rfloor>"]
    by auto
qed (auto simp: word_le_nat_alt unat_u64_le)

lemma f64_to_u64_of_nat: "n < 2 ^ 64 \<Longrightarrow> unat (f64_to_u64 (FNum (of_nat n))) = n"
proof (cases "n = 0")
  case False
  assume n: "n < 2 ^ 64"
  then have "(of_nat n :: rat) < 2 ^ 64"
    by (metis of_nat_less_iff of_nat_numeral of_nat_power)
  then show ?thesis using False floor_word [of "of_nat n"] by simp
qed simp

end
