(* ===== verification/Gw_Types.thy ===== *)
theory Gw_Types
  imports Binary64
begin

text \<open>
  The data of the gateway: the JSON-RPC types (\<open>types/rpc.rs\<close>, \<open>types/responses.rs\<close>), the
  delegation and constraint messages (\<open>types/delegation.rs\<close>), the beacon types
  (\<open>types/beacon.rs\<close>) and the commitment payloads (\<open>types/payload.rs\<close>). A \<open>[u8; n]\<close> of the
  source is a byte list of length \<open>n\<close>; the predicates \<open>wf_*\<close> say so.
\<close>

section \<open>JSON-RPC types\<close>

record commitment_request =
  cr_commitment_type :: u64
  cr_payload :: bytes
  cr_slasher :: string

record commitment =
  co_commitment_type :: u64
  co_payload :: bytes
  co_request_hash :: string
  co_slasher :: string

record signed_commitment =
  sg_commitment :: commitment
  sg_signature :: string

record offering =
  of_chain_id :: u64
  of_commitment_types :: "u64 list"

record slot_info =
  si_slot :: u64
  si_offerings :: "offering list"

record fee_info =
  fi_payload :: bytes
  fi_commitment_type :: u64

record slot_info_response =
  sr_slots :: "slot_info list"

section \<open>Keys, delegations and constraints\<close>

datatype bls_public_key = BlsPublicKey (pk_bytes: bytes)

datatype bls_signature = BlsSignature (sig_bytes: bytes)

definition wf_pk :: "bls_public_key \<Rightarrow> bool" where
  "wf_pk k = (length (pk_bytes k) = 48)"

definition wf_sig :: "bls_signature \<Rightarrow> bool" where
  "wf_sig s = (length (sig_bytes s) = 96)"

record delegation_message =
  dm_proposer :: bls_public_key
  dm_delegate :: bls_public_key
  dm_committer :: string
  dm_slot :: u64

record signed_delegation =
  sd_message :: delegation_message
  sd_signature :: bls_signature

record constraint_item =
  ct_constraint_type :: u64
  ct_payload :: bytes

record constraints_message =
  cm_proposer :: bls_public_key
  cm_delegate :: bls_public_key
  cm_slot :: u64
  cm_constraints :: "constraint_item list"
  cm_receivers :: "bls_public_key list"

record signed_constraints =
  sc_message :: constraints_message
  sc_signature :: bls_signature

definition wf_delegation :: "signed_delegation \<Rightarrow> bool" where
  "wf_delegation d = (wf_pk (dm_proposer (sd_message d)) \<and> wf_pk (dm_delegate (sd_message d))
     \<and> wf_sig (sd_signature d))"

definition is_valid_for_slot :: "signed_delegation \<Rightarrow> u64 \<Rightarrow> bool" where
  "is_valid_for_slot d slot = (dm_slot (sd_message d) = slot)"

definition get_committer_address :: "signed_delegation \<Rightarrow> string" where
  "get_committer_address d = dm_committer (sd_message d)"

definition get_delegate_key :: "signed_delegation \<Rightarrow> bls_public_key" where
  "get_delegate_key d = dm_delegate (sd_message d)"

definition get_proposer_key :: "signed_delegation \<Rightarrow> bls_public_key" where
  "get_proposer_key d = dm_proposer (sd_message d)"

definition get_delegate_bytes :: "signed_delegation \<Rightarrow> bytes" where
  "get_delegate_bytes d = pk_bytes (dm_delegate (sd_message d))"

definition get_proposer_bytes :: "signed_delegation \<Rightarrow> bytes" where
  "get_proposer_bytes d = pk_bytes (dm_proposer (sd_message d))"

definition get_signature_bytes :: "signed_delegation \<Rightarrow> bytes" where
  "get_signature_bytes d = sig_bytes (sd_signature d)"

definition new_constraints_message ::
  "bls_public_key \<Rightarrow> bls_public_key \<Rightarrow> u64 \<Rightarrow> constraint_item list \<Rightarrow> bls_public_key list
   \<Rightarrow> constraints_message" where
  "new_constraints_message proposer delegate slot constraints receivers =
     \<lparr>cm_proposer = proposer, cm_delegate = delegate, cm_slot = slot,
      cm_constraints = constraints, cm_receivers = receivers\<rparr>"

definition add_constraint :: "constraints_message \<Rightarrow> constraint_item \<Rightarrow> constraints_message" where
  "add_constraint m c = m\<lparr>cm_constraints := cm_constraints m @ [c]\<rparr>"

definition from_inclusion_commitment :: "bytes \<Rightarrow> constraint_item" where
  "from_inclusion_commitment payload = \<lparr>ct_constraint_type = 1, ct_payload = payload\<rparr>"

section \<open>Beacon types\<close>

record validator_duty =
  vd_validator_index :: string
  vd_pubkey :: string
  vd_slot :: string

record proposer_duties_response =
  pd_execution_optimistic :: bool
  pd_finalized :: bool
  pd_data :: "validator_duty list"

record validator_info =
  vi_is_active :: bool
  vi_is_slashed :: bool
  vi_validator_index :: u64

record validator_details =
  vt_pubkey :: string
  vt_slashed :: bool

record validator_data =
  va_index :: string
  va_status :: string
  va_validator :: validator_details

record validator_response =
  vr_data :: validator_data

section \<open>Payload types\<close>

record inclusion_payload =
  ip_slot :: u64
  ip_signed_tx :: bytes

record execution_payload =
  ep_slot :: u64
  ep_transaction :: bytes
  ep_expected_state_root :: bytes

datatype commitment_payload =
    Inclusion inclusion_payload
  | Execution execution_payload
  | Raw bytes

end
