(* ===== verification/Crates.thy ===== *)
theory Crates
  imports Gw_Types
begin

text \<open>
  The third-party crates, as records of functions that every definition using them takes as an
  argument: \<open>hex\<close>, \<open>tiny_keccak\<close> and \<open>ethabi\<close> (\<open>hash_lib\<close>); \<open>serde_json\<close> and \<open>rlp\<close> on
  payloads (\<open>payload_lib\<close>); \<open>secp256k1\<close> (\<open>secp_lib\<close>); \<open>blst\<close> (\<open>blst_lib\<close>); \<open>serde_json\<close> on
  HTTP bodies (\<open>json_lib\<close>). Nothing is assumed about them here. The predicates \<open>*_laws\<close> state the
  documented behaviour that some properties use as a named hypothesis.

  The tokens of \<open>ethabi\<close> are the constructors the source builds. Opaque key and signature
  values are wrapped byte strings.
\<close>

datatype abi_token =
    TUint u64
  | TBytes bytes
  | TFixedBytes bytes
  | TAddress bytes
  | TTuple "abi_token list"
  | TArray "abi_token list"

record hash_lib =
  hex_encode :: "bytes \<Rightarrow> string"
  hex_decode :: "string \<Rightarrow> bytes option"
  keccak :: "bytes \<Rightarrow> bytes"
  abi_encode :: "abi_token list \<Rightarrow> bytes"

record payload_lib =
  json_inclusion :: "bytes \<Rightarrow> inclusion_payload option"
  json_execution :: "bytes \<Rightarrow> execution_payload option"
  json_of_inclusion :: "inclusion_payload \<Rightarrow> bytes option"
  rlp_is_list :: "bytes \<Rightarrow> bool"
  rlp_item_count :: "bytes \<Rightarrow> nat option"
  rlp_u64_at :: "bytes \<Rightarrow> nat \<Rightarrow> u64 option"
  rlp_bytes_at :: "bytes \<Rightarrow> nat \<Rightarrow> bytes option"
  rlp_of_pair :: "u64 \<Rightarrow> bytes \<Rightarrow> bytes"

datatype secp_secret = SecpSecret bytes
datatype secp_public = SecpPublic bytes
datatype secp_signature = SecpSignature bytes

record secp_lib =
  secp_key_from_slice :: "bytes \<Rightarrow> secp_secret option"
  secp_public_of :: "secp_secret \<Rightarrow> secp_public"
  secp_serialize_uncompressed :: "secp_public \<Rightarrow> bytes"
  secp_message_ok :: "bytes \<Rightarrow> bool"
  secp_sign_recoverable :: "bytes \<Rightarrow> secp_secret \<Rightarrow> nat \<times> bytes"
  secp_recovery_id_ok :: "nat \<Rightarrow> bool"
  secp_from_compact :: "bytes \<Rightarrow> nat \<Rightarrow> secp_signature option"
  secp_verify :: "bytes \<Rightarrow> secp_signature \<Rightarrow> secp_public \<Rightarrow> bool"

datatype blst_secret = BlstSecret bytes
datatype blst_public = BlstPublic bytes
datatype blst_signature = BlstSignature bytes

record blst_lib =
  blst_pk_from_bytes :: "bytes \<Rightarrow> blst_public option"
  blst_pk_to_bytes :: "blst_public \<Rightarrow> bytes"
  blst_sig_from_bytes :: "bytes \<Rightarrow> blst_signature option"
  blst_sk_from_bytes :: "bytes \<Rightarrow> blst_secret option"
  blst_sk_to_pk :: "blst_secret \<Rightarrow> blst_public"
  blst_sign :: "blst_secret \<Rightarrow> bytes \<Rightarrow> string \<Rightarrow> bytes"
  blst_verify :: "blst_signature \<Rightarrow> bytes \<Rightarrow> string \<Rightarrow> blst_public \<Rightarrow> bool"

text \<open>
  A JSON-RPC reply as the Reth client reads it: whether it has an \<open>"error"\<close> member, and its
  \<open>"result"\<close> when that is a string.
\<close>

record json_rpc_reply =
  jr_has_error :: bool
  jr_result_str :: "string option"

record json_lib =
  json_duties :: "bytes \<Rightarrow> proposer_duties_response option"
  json_validator :: "bytes \<Rightarrow> validator_response option"
  json_delegations :: "bytes \<Rightarrow> signed_delegation list option"
  json_rpc :: "bytes \<Rightarrow> json_rpc_reply option"
  json_constraints_ok :: "signed_constraints \<Rightarrow> bool"
  u256_from_hex :: "string \<Rightarrow> nat option"

record crates =
  c_hash :: hash_lib
  c_payload :: payload_lib
  c_secp :: secp_lib
  c_blst :: blst_lib
  c_json :: json_lib
  c_powf :: "f64 \<Rightarrow> f64 \<Rightarrow> f64"
  c_chrono_ok :: "i64 \<Rightarrow> bool"

section \<open>Documented behaviour used as hypotheses\<close>

definition hex_digits :: string where
  "hex_digits = ''0123456789abcdef''"

definition hex_laws :: "hash_lib \<Rightarrow> bool" where
  "hex_laws H = ((\<forall>bs. hex_decode H (hex_encode H bs) = Some bs)
     \<and> (\<forall>bs. length (hex_encode H bs) = 2 * length bs)
     \<and> (\<forall>bs. set (hex_encode H bs) \<subseteq> set hex_digits))"

definition rlp_laws :: "payload_lib \<Rightarrow> bool" where
  "rlp_laws P = (\<forall>slot tx. let e = rlp_of_pair P slot tx in
     rlp_is_list P e \<and> rlp_item_count P e = Some 2
     \<and> rlp_u64_at P e 0 = Some slot \<and> rlp_bytes_at P e 1 = Some tx)"

definition json_payload_laws :: "payload_lib \<Rightarrow> bool" where
  "json_payload_laws P = (\<forall>p bs. json_of_inclusion P p = Some bs \<longrightarrow> json_inclusion P bs = Some p)"

text \<open>
  \<open>secp256k1\<close>: a 32-byte message is accepted, a signature has 64 bytes and a recovery id below
  4, and what \<open>sign_ecdsa_recoverable\<close> returns parses back and verifies under the public key.
\<close>

definition secp_laws :: "secp_lib \<Rightarrow> bool" where
  "secp_laws S = (\<forall>m k. length m = 32 \<longrightarrow> secp_message_ok S m \<and>
     (let (rid, sg) = secp_sign_recoverable S m k in
        rid < 4 \<and> length sg = 64 \<and> secp_recovery_id_ok S rid
        \<and> (\<exists>s. secp_from_compact S sg rid = Some s \<and> secp_verify S m s (secp_public_of S k))))"

lemma secp_laws_sign:
  assumes "secp_laws S" "length m = 32" "secp_sign_recoverable S m k = (rid, sg)"
  shows "secp_message_ok S m \<and> rid < 4 \<and> length sg = 64 \<and> secp_recovery_id_ok S rid
    \<and> (\<exists>s. secp_from_compact S sg rid = Some s \<and> secp_verify S m s (secp_public_of S k))"
proof -
  have "secp_message_ok S m \<and> (let (rid, sg) = secp_sign_recoverable S m k in
        rid < 4 \<and> length sg = 64 \<and> secp_recovery_id_ok S rid
        \<and> (\<exists>s. secp_from_compact S sg rid = Some s \<and> secp_verify S m s (secp_public_of S k)))"
    using assms(1,2) unfolding secp_laws_def by blast
  then show ?thesis by (simp add: assms(3))
qed

definition keccak_laws :: "hash_lib \<Rightarrow> bool" where
  "keccak_laws H = (\<forall>bs. length (keccak H bs) = 32)"

lemma hex_decode_encode: "hex_laws H \<Longrightarrow> hex_decode H (hex_encode H bs) = Some bs"
  by (simp add: hex_laws_def)

lemma hex_encode_chars: "hex_laws H \<Longrightarrow> c \<in> set (hex_encode H bs) \<Longrightarrow> c \<in> set hex_digits"
  by (auto simp: hex_laws_def)

lemma hex_encode_length: "hex_laws H \<Longrightarrow> length (hex_encode H bs) = 2 * length bs"
  by (simp add: hex_laws_def)

text \<open>An encoding never begins with \<open>0x\<close>, so stripping the prefix leaves it alone.\<close>

lemma strip_0x_hex_encode:
  assumes "hex_laws H"
  shows "strip_0x (hex_encode H bs) = hex_encode H bs"
proof -
  have "CHR ''x'' \<notin> set (hex_encode H bs)"
    using hex_encode_chars [OF assms, of "CHR ''x''" bs] by (auto simp: hex_digits_def)
  then show ?thesis
    by (auto simp: strip_0x_def strip_prefix_Some split: option.split)
qed

end
