(* ===== verification/Hex_Fields.thy ===== *)
theory Hex_Fields
  imports Crates
begin

text \<open>
  Hex-encoded fields. \<open>types/hex_serde.rs\<close> and the \<open>serde\<close> implementations of
  \<open>types/delegation.rs\<close> write bytes as a \<open>0x\<close>-prefixed hex string and read them back with the
  prefix optional; \<open>utils/address.rs\<close> normalises addresses for comparison.

  The gateway has many readers of a hex field of a fixed length (keys, signatures,
  addresses, domains). They share one contract, the locale \<open>fixed_hex_parser\<close>; every reader is
  an interpretation of it in the theory that defines it.
\<close>

section \<open>The contract of a reader of a fixed number of bytes\<close>

locale fixed_hex_parser =
  fixes H :: hash_lib
    and n :: nat
    and wrap :: "bytes \<Rightarrow> 'a"
    and parse :: "string \<Rightarrow> err + 'a"
  assumes parse_iff:
    "parse s = Inr v \<longleftrightarrow>
       (\<exists>bs. hex_decode H (strip_0x s) = Some bs \<and> length bs = n \<and> v = wrap bs)"
begin

lemma roundtrip:
  assumes "hex_laws H" "length bs = n"
  shows "parse (''0x'' @ hex_encode H bs) = Inr (wrap bs)"
    and "parse (hex_encode H bs) = Inr (wrap bs)"
  using assms by (auto simp: parse_iff hex_decode_encode strip_0x_hex_encode)

lemma wrong_length:
  assumes "hex_laws H" "length bs \<noteq> n"
  shows "\<exists>e. parse (''0x'' @ hex_encode H bs) = Inl e"
proof (cases "parse (''0x'' @ hex_encode H bs)")
  case (Inr v)
  then show ?thesis using assms by (auto simp: parse_iff hex_decode_encode)
qed auto

lemma result_length: "parse s = Inr v \<Longrightarrow> \<exists>bs. v = wrap bs \<and> length bs = n"
  by (auto simp: parse_iff)

lemma prefix_optional:
  "strip_prefix ''0x'' s = None \<Longrightarrow> (parse (''0x'' @ s) = Inr v \<longleftrightarrow> parse s = Inr v)"
  by (simp add: parse_iff strip_0x_def)

end

section \<open>hex_serde and the serde implementations of keys and signatures\<close>

definition hex_serialize :: "hash_lib \<Rightarrow> bytes \<Rightarrow> string" where
  "hex_serialize H bs = ''0x'' @ hex_encode H bs"

definition hex_deserialize :: "hash_lib \<Rightarrow> string \<Rightarrow> bytes res" where
  "hex_deserialize H s = res_of HexErr (hex_decode H (strip_0x s))"

definition pk_serialize :: "hash_lib \<Rightarrow> bls_public_key \<Rightarrow> string" where
  "pk_serialize H k = ''0x'' @ hex_encode H (pk_bytes k)"

definition pk_deserialize :: "hash_lib \<Rightarrow> string \<Rightarrow> bls_public_key res" where
  "pk_deserialize H s =
     res_bind (res_of HexErr (hex_decode H (strip_0x s))) (\<lambda>bs.
     if length bs \<noteq> 48 then Inl (Bail ''Expected 48 bytes for BLS public key'')
     else Inr (BlsPublicKey bs))"

definition sig_serialize :: "hash_lib \<Rightarrow> bls_signature \<Rightarrow> string" where
  "sig_serialize H k = ''0x'' @ hex_encode H (sig_bytes k)"

definition sig_deserialize :: "hash_lib \<Rightarrow> string \<Rightarrow> bls_signature res" where
  "sig_deserialize H s =
     res_bind (res_of HexErr (hex_decode H (strip_0x s))) (\<lambda>bs.
     if length bs \<noteq> 96 then Inl (Bail ''Expected 96 bytes for BLS signature'')
     else Inr (BlsSignature bs))"

interpretation pk_field: fixed_hex_parser H 48 BlsPublicKey "pk_deserialize H" for H
  by unfold_locales (auto simp: pk_deserialize_def)

interpretation sig_field: fixed_hex_parser H 96 BlsSignature "sig_deserialize H" for H
  by unfold_locales (auto simp: sig_deserialize_def)

lemma hex_serde_roundtrip: "hex_laws H \<Longrightarrow> hex_deserialize H (hex_serialize H bs) = Inr bs"
  by (simp add: hex_serialize_def hex_deserialize_def hex_decode_encode)

lemma pk_serde_roundtrip:
  "hex_laws H \<Longrightarrow> wf_pk k \<Longrightarrow> pk_deserialize H (pk_serialize H k) = Inr k"
  using pk_field.roundtrip(1) [of H "pk_bytes k"] by (simp add: pk_serialize_def wf_pk_def)

lemma sig_serde_roundtrip:
  "hex_laws H \<Longrightarrow> wf_sig k \<Longrightarrow> sig_deserialize H (sig_serialize H k) = Inr k"
  using sig_field.roundtrip(1) [of H "sig_bytes k"] by (simp add: sig_serialize_def wf_sig_def)

lemma pk_deserialize_wf: "pk_deserialize H s = Inr k \<Longrightarrow> wf_pk k"
  using pk_field.result_length by (fastforce simp: wf_pk_def)

lemma sig_deserialize_wf: "sig_deserialize H s = Inr k \<Longrightarrow> wf_sig k"
  using sig_field.result_length by (fastforce simp: wf_sig_def)

text \<open>
  The conversions from and to byte arrays. A \<open>[u8; n]\<close> has its length by its type; here the
  conversions from an array yield a well-formed key or signature for an array of that length.
\<close>

definition pk_from_array :: "bytes \<Rightarrow> bls_public_key" where "pk_from_array bs = BlsPublicKey bs"
definition pk_into_array :: "bls_public_key \<Rightarrow> bytes" where "pk_into_array k = pk_bytes k"
definition pk_as_ref :: "bls_public_key \<Rightarrow> bytes" where "pk_as_ref k = pk_bytes k"
definition sig_from_array :: "bytes \<Rightarrow> bls_signature" where "sig_from_array bs = BlsSignature bs"
definition sig_into_array :: "bls_signature \<Rightarrow> bytes" where "sig_into_array s = sig_bytes s"
definition sig_as_ref :: "bls_signature \<Rightarrow> bytes" where "sig_as_ref s = sig_bytes s"

lemma array_roundtrip:
  "pk_into_array (pk_from_array bs) = bs" "pk_from_array (pk_as_ref k) = k"
  "sig_into_array (sig_from_array bs) = bs" "sig_from_array (sig_as_ref s) = s"
  "length bs = 48 \<Longrightarrow> wf_pk (pk_from_array bs)" "length bs = 96 \<Longrightarrow> wf_sig (sig_from_array bs)"
  by (simp_all add: pk_from_array_def pk_into_array_def pk_as_ref_def sig_from_array_def
      sig_into_array_def sig_as_ref_def wf_pk_def wf_sig_def)

section \<open>Addresses\<close>

definition normalize_address :: "string \<Rightarrow> string" where
  "normalize_address addr =
     map to_ascii_lower
       (case strip_prefix ''0x'' addr of
          Some t \<Rightarrow> t
        | None \<Rightarrow> (case strip_prefix ''0X'' addr of Some t \<Rightarrow> t | None \<Rightarrow> addr))"

lemma normalize_address_prefixed:
  "normalize_address (''0x'' @ s) = map to_ascii_lower s"
  "normalize_address (''0X'' @ s) = map to_ascii_lower s"
  by (simp_all add: normalize_address_def)

lemma normalize_address_plain:
  "strip_prefix ''0x'' s = None \<Longrightarrow> strip_prefix ''0X'' s = None \<Longrightarrow>
   normalize_address s = map to_ascii_lower s"
  by (simp add: normalize_address_def)

end
