(* ===== verification/Beacon_Timing.thy ===== *)
theory Beacon_Timing
  imports Hex_Fields
begin

text \<open>
  Slots, epochs and deadlines (\<open>types/beacon.rs\<close>), on \<open>u64\<close> with the wrap-around of a release
  build. A function of the source that reads the system clock takes the reading \<open>now\<close>
  (seconds since the Unix epoch) as an argument. The parsers of a \<open>ValidatorDuty\<close> are here too.
\<close>

definition slot_duration_seconds :: u64 where "slot_duration_seconds = 12"
definition slots_per_epoch :: u64 where "slots_per_epoch = 32"
definition constraints_submission_deadline :: u64 where "constraints_submission_deadline = 8"

lemmas timing_defs = slot_duration_seconds_def slots_per_epoch_def constraints_submission_deadline_def

definition slot_to_epoch :: "u64 \<Rightarrow> u64" where
  "slot_to_epoch slot = slot div slots_per_epoch"

definition epoch_to_first_slot :: "u64 \<Rightarrow> u64" where
  "epoch_to_first_slot epoch = epoch * slots_per_epoch"

definition epoch_to_last_slot :: "u64 \<Rightarrow> u64" where
  "epoch_to_last_slot epoch = (epoch + 1) * slots_per_epoch - 1"

definition current_slot_estimate :: "u64 \<Rightarrow> u64 \<Rightarrow> u64" where
  "current_slot_estimate now genesis_time =
     (if now < genesis_time then 0 else (now - genesis_time) div slot_duration_seconds)"

definition time_until_slot :: "u64 \<Rightarrow> u64 \<Rightarrow> u64 \<Rightarrow> i64" where
  "time_until_slot now genesis_time target_slot =
     (let slot_start_time = genesis_time + target_slot * slot_duration_seconds
      in slot_start_time - now)"

definition constraint_deadline_for_slot :: "u64 \<Rightarrow> u64 \<Rightarrow> u64" where
  "constraint_deadline_for_slot genesis_time slot =
     genesis_time + slot * slot_duration_seconds + constraints_submission_deadline"

definition is_within_constraint_window :: "u64 \<Rightarrow> u64 \<Rightarrow> u64 \<Rightarrow> bool" where
  "is_within_constraint_window now genesis_time slot =
     (now \<le> constraint_deadline_for_slot genesis_time slot)"

definition parse_pubkey :: "hash_lib \<Rightarrow> validator_duty \<Rightarrow> bls_public_key res" where
  "parse_pubkey H d =
     res_bind (res_of HexErr (hex_decode H (strip_0x (vd_pubkey d)))) (\<lambda>bs.
     if length bs \<noteq> 48 then Inl HexErr else Inr (BlsPublicKey bs))"

definition parse_slot :: "validator_duty \<Rightarrow> u64 res" where
  "parse_slot d = res_map_err IntErr (parse_u64 (vd_slot d))"

definition parse_validator_index :: "validator_duty \<Rightarrow> u64 res" where
  "parse_validator_index d = res_map_err IntErr (parse_u64 (vd_validator_index d))"

interpretation duty_pubkey:
  fixed_hex_parser H 48 BlsPublicKey "\<lambda>s. parse_pubkey H \<lparr>vd_validator_index = i, vd_pubkey = s, vd_slot = t\<rparr>"
  for H i t
  by unfold_locales (auto simp: parse_pubkey_def)

section \<open>Slots and epochs\<close>

lemma unat_slot_to_epoch: "unat (slot_to_epoch s) = unat s div 32"
  by (simp add: slot_to_epoch_def timing_defs unat_div)

lemma epoch_bounds:
  "unat (epoch_to_first_slot (slot_to_epoch s)) = unat s div 32 * 32"
  "unat (epoch_to_last_slot (slot_to_epoch s)) = unat s div 32 * 32 + 31"
proof -
  have "unat s div 32 < 2 ^ 59"
    using unat_u64_less [of s] by (simp add: less_mult_imp_div_less)
  then have b: "unat s div 32 * 32 + 31 < 2 ^ 64" by simp
  show f: "unat (epoch_to_first_slot (slot_to_epoch s)) = unat s div 32 * 32"
    using b by (simp add: epoch_to_first_slot_def unat_slot_to_epoch timing_defs unat_mult_lem [THEN iffD1])
  have "epoch_to_last_slot (slot_to_epoch s) = epoch_to_first_slot (slot_to_epoch s) + 31"
    by (simp add: epoch_to_last_slot_def epoch_to_first_slot_def timing_defs algebra_simps)
  then show "unat (epoch_to_last_slot (slot_to_epoch s)) = unat s div 32 * 32 + 31"
    using b f by (simp add: unat_add_lem [THEN iffD1])
qed

lemma unat_deadline:
  "unat g + unat s * 12 + 8 < 2 ^ 64 \<Longrightarrow>
   unat (constraint_deadline_for_slot g s) = unat g + unat s * 12 + 8"
  by (simp add: constraint_deadline_for_slot_def timing_defs unat_word_ariths)

lemma unat_current_slot:
  "g \<le> now \<Longrightarrow> unat (current_slot_estimate now g) = (unat now - unat g) div 12"
  by (auto simp: current_slot_estimate_def timing_defs unat_div unat_sub not_less)

end
