(* ===== verification/Payload.thy ===== *)
theory Payload
  imports Hex_Fields
begin

text \<open>
  Parsing of commitment payloads (\<open>types/payload.rs\<close>): JSON first, then RLP, and the slot a
  payload names.
\<close>

definition parse_inclusion_payload_rlp :: "payload_lib \<Rightarrow> bytes \<Rightarrow> inclusion_payload res" where
  "parse_inclusion_payload_rlp P payload =
     res_bind
       (if \<not> rlp_is_list P payload then Inr True
        else res_map (\<lambda>k. k \<noteq> 2) (res_of RlpErr (rlp_item_count P payload))) (\<lambda>bad.
     if bad then Inl (Bail ''Invalid RLP structure for inclusion payload'')
     else
       res_bind (context_res ''Failed to decode slot from RLP'' (res_of RlpErr (rlp_u64_at P payload 0))) (\<lambda>slot.
       res_bind (context_res ''Failed to decode signed_tx from RLP'' (res_of RlpErr (rlp_bytes_at P payload 1))) (\<lambda>tx.
       Inr \<lparr>ip_slot = slot, ip_signed_tx = tx\<rparr>)))"

definition parse_inclusion_payload :: "payload_lib \<Rightarrow> bytes \<Rightarrow> inclusion_payload res" where
  "parse_inclusion_payload P payload =
     (case json_inclusion P payload of
        Some parsed \<Rightarrow> Inr parsed
      | None \<Rightarrow> context_res ''Failed to parse inclusion payload as both JSON and RLP''
                  (parse_inclusion_payload_rlp P payload))"

definition parse_execution_payload :: "payload_lib \<Rightarrow> bytes \<Rightarrow> execution_payload res" where
  "parse_execution_payload P payload =
     (case json_execution P payload of
        Some parsed \<Rightarrow> Inr parsed
      | None \<Rightarrow> Inl (Bail ''Failed to parse execution payload''))"

definition extract_slot_from_inclusion_payload :: "payload_lib \<Rightarrow> bytes \<Rightarrow> u64 res" where
  "extract_slot_from_inclusion_payload P payload =
     res_bind (parse_inclusion_payload P payload) (\<lambda>p. Inr (ip_slot p))"

definition extract_slot_from_execution_payload :: "payload_lib \<Rightarrow> bytes \<Rightarrow> u64 res" where
  "extract_slot_from_execution_payload P payload =
     res_bind (parse_execution_payload P payload) (\<lambda>p. Inr (ep_slot p))"

definition extract_slot :: "payload_lib \<Rightarrow> u64 \<Rightarrow> bytes \<Rightarrow> u64 res" where
  "extract_slot P commitment_type payload =
     (if commitment_type = 1 then extract_slot_from_inclusion_payload P payload
      else if commitment_type = 2 then extract_slot_from_execution_payload P payload
      else Inl (Bail ''Unknown commitment type for slot extraction''))"

definition encode_inclusion_payload :: "payload_lib \<Rightarrow> inclusion_payload \<Rightarrow> bytes res" where
  "encode_inclusion_payload P p =
     context_res ''Failed to encode inclusion payload as JSON'' (res_of JsonErr (json_of_inclusion P p))"

definition encode_inclusion_payload_rlp :: "payload_lib \<Rightarrow> inclusion_payload \<Rightarrow> bytes res" where
  "encode_inclusion_payload_rlp P p = Inr (rlp_of_pair P (ip_slot p) (ip_signed_tx p))"

definition inclusion_payload_new :: "u64 \<Rightarrow> bytes \<Rightarrow> inclusion_payload" where
  "inclusion_payload_new slot signed_tx = \<lparr>ip_slot = slot, ip_signed_tx = signed_tx\<rparr>"

definition execution_payload_new :: "u64 \<Rightarrow> bytes \<Rightarrow> bytes \<Rightarrow> execution_payload" where
  "execution_payload_new slot transaction expected_state_root =
     \<lparr>ep_slot = slot, ep_transaction = transaction, ep_expected_state_root = expected_state_root\<rparr>"

definition inclusion_validate :: "inclusion_payload \<Rightarrow> unit res" where
  "inclusion_validate p =
     (if ip_signed_tx p = [] then Inl (Bail ''Signed transaction cannot be empty'')
      else if ip_slot p = 0 then Inl (Bail ''Slot cannot be zero'')
      else Inr ())"

definition tx_hash :: "hash_lib \<Rightarrow> inclusion_payload \<Rightarrow> bytes res" where
  "tx_hash H p =
     (if ip_signed_tx p = [] then Inl (Bail ''Cannot compute tx_hash of empty transaction'')
      else Inr (keccak H (ip_signed_tx p)))"

lemma parse_rlp_of_pair:
  "rlp_laws P \<Longrightarrow> parse_inclusion_payload_rlp P (rlp_of_pair P s t)
     = Inr \<lparr>ip_slot = s, ip_signed_tx = t\<rparr>"
  by (simp add: parse_inclusion_payload_rlp_def rlp_laws_def Let_def)

end
