(* ===== verification/Crypto.thy ===== *)
theory Crypto
  imports Beacon_Timing Payload
begin

text \<open>
  Hashing, ABI encoding and ECDSA (\<open>crypto/mod.rs\<close>), and the BLS operations on delegations
  and constraints (\<open>crypto/bls.rs\<close>), over the functions of the crates.
\<close>

section \<open>crypto/mod.rs\<close>

definition keccak256 :: "hash_lib \<Rightarrow> bytes \<Rightarrow> bytes" where
  "keccak256 H input = keccak H input"

definition parse_hex_bytes :: "hash_lib \<Rightarrow> string \<Rightarrow> nat \<Rightarrow> bytes res" where
  "parse_hex_bytes H hex_str expected_len =
     res_bind (context_res ''Invalid hex string'' (res_of HexErr (hex_decode H (strip_0x hex_str)))) (\<lambda>bs.
     if length bs \<noteq> expected_len then Inl (Bail ''Invalid byte length'') else Inr bs)"

definition parse_ethereum_address :: "hash_lib \<Rightarrow> string \<Rightarrow> bytes res" where
  "parse_ethereum_address H address_str = parse_hex_bytes H address_str 20"

definition abi_encode_commitment_request :: "hash_lib \<Rightarrow> commitment_request \<Rightarrow> bytes res" where
  "abi_encode_commitment_request H request =
     res_bind (parse_ethereum_address H (cr_slasher request)) (\<lambda>a.
     Inr (abi_encode H [TUint (cr_commitment_type request), TBytes (cr_payload request), TAddress a]))"

definition generate_request_hash :: "hash_lib \<Rightarrow> commitment_request \<Rightarrow> string res" where
  "generate_request_hash H request =
     res_bind (abi_encode_commitment_request H request) (\<lambda>encoded.
     Inr (''0x'' @ hex_encode H (keccak256 H encoded)))"

definition abi_encode_commitment :: "hash_lib \<Rightarrow> commitment \<Rightarrow> bytes res" where
  "abi_encode_commitment H c =
     res_bind (parse_hex_bytes H (co_request_hash c) 32) (\<lambda>h.
     res_bind (parse_ethereum_address H (co_slasher c)) (\<lambda>a.
     Inr (abi_encode H [TUint (co_commitment_type c), TBytes (co_payload c), TFixedBytes h, TAddress a])))"

definition secp_message :: "secp_lib \<Rightarrow> bytes \<Rightarrow> bytes res" where
  "secp_message S h = (if secp_message_ok S h then Inr h else Inl SecpErr)"

definition sign_commitment ::
  "hash_lib \<Rightarrow> secp_lib \<Rightarrow> commitment \<Rightarrow> secp_secret \<Rightarrow> string res" where
  "sign_commitment H S c private_key =
     res_bind (context_res ''Failed to ABI encode commitment'' (abi_encode_commitment H c)) (\<lambda>encoded.
     res_bind (context_res ''Failed to create message from hash''
       (secp_message S (keccak256 H encoded))) (\<lambda>message.
     let (recovery_id, signature_bytes) = secp_sign_recoverable S message private_key;
         v = (of_nat recovery_id :: u8) + 27
     in Inr (''0x'' @ hex_encode H (signature_bytes @ [v]))))"

definition secp_recovery_id :: "secp_lib \<Rightarrow> nat \<Rightarrow> nat res" where
  "secp_recovery_id S i =
     (if secp_recovery_id_ok S i then Inr i else Inl (Ctx ''Invalid recovery ID'' SecpErr))"

definition verify_commitment_signature ::
  "hash_lib \<Rightarrow> secp_lib \<Rightarrow> commitment \<Rightarrow> string \<Rightarrow> secp_public \<Rightarrow> bool res" where
  "verify_commitment_signature H S c signature_hex public_key =
     res_bind (context_res ''Failed to ABI encode commitment'' (abi_encode_commitment H c)) (\<lambda>encoded.
     res_bind (context_res ''Failed to create message from hash''
       (secp_message S (keccak256 H encoded))) (\<lambda>message.
     res_bind (parse_hex_bytes H signature_hex 65) (\<lambda>signature_bytes.
     let v = signature_bytes ! 64 in
     res_bind (if 27 \<le> v then secp_recovery_id S (unat (v - 27)) else secp_recovery_id S (unat v)) (\<lambda>rid.
     res_bind (context_res ''Failed to parse recoverable signature''
       (res_of SecpErr (secp_from_compact S (take 64 signature_bytes) rid))) (\<lambda>signature.
     Inr (secp_verify S message signature public_key))))))"

definition parse_private_key :: "hash_lib \<Rightarrow> secp_lib \<Rightarrow> string \<Rightarrow> secp_secret res" where
  "parse_private_key H S hex_str =
     res_bind (parse_hex_bytes H hex_str 32) (\<lambda>key_bytes.
     context_res ''Invalid private key'' (res_of SecpErr (secp_key_from_slice S key_bytes)))"

definition ecdsa_to_address :: "hash_lib \<Rightarrow> secp_lib \<Rightarrow> secp_secret \<Rightarrow> string res" where
  "ecdsa_to_address H S private_key =
     (let public_key_bytes = secp_serialize_uncompressed S (secp_public_of S private_key);
          hash = keccak256 H (drop 1 public_key_bytes);
          address_bytes = drop 12 hash
      in Inr (''0x'' @ hex_encode H address_bytes))"

interpretation hex_bytes: fixed_hex_parser H n "\<lambda>bs. bs" "\<lambda>s. parse_hex_bytes H s n" for H n
  by unfold_locales (auto simp: parse_hex_bytes_def)

interpretation eth_address: fixed_hex_parser H 20 "\<lambda>bs. bs" "parse_ethereum_address H" for H
  by unfold_locales (auto simp: parse_ethereum_address_def hex_bytes.parse_iff)

section \<open>crypto/bls.rs\<close>

definition delegation_domain_separator :: bytes where
  "delegation_domain_separator = [0x00, 0x44, 0x65, 0x6c]"

definition bls_pop_dst :: string where
  "bls_pop_dst = ''BLS_SIG_BLS12381G2_XMD:SHA-256_SSWU_RO_POP_''"

definition application_gateway_domain :: bytes where
  "application_gateway_domain = [0x00, 0x00, 0x00, 0x02]"

definition parse_application_gateway_domain :: "hash_lib \<Rightarrow> string \<Rightarrow> bytes res" where
  "parse_application_gateway_domain H hex_str =
     res_bind (res_map_err (\<lambda>_. Bail ''Invalid domain hex'')
        (res_of HexErr (hex_decode H (strip_0x hex_str)))) (\<lambda>bs.
     if length bs \<noteq> 4 then Inl (Bail ''Domain separator must be 4 bytes'') else Inr bs)"

record bls_manager =
  bm_application_gateway_domain :: bytes

definition bls_manager_new :: "hash_lib \<Rightarrow> string \<Rightarrow> bls_manager res" where
  "bls_manager_new H domain_hex =
     res_bind (context_res ''Invalid application gateway domain''
       (parse_application_gateway_domain H domain_hex)) (\<lambda>d.
     Inr \<lparr>bm_application_gateway_domain = d\<rparr>)"

definition bls_parse_ethereum_address :: "hash_lib \<Rightarrow> string \<Rightarrow> bytes res" where
  "bls_parse_ethereum_address H address_str =
     res_bind (context_res ''Invalid hex string'' (res_of HexErr (hex_decode H (strip_0x address_str)))) (\<lambda>bs.
     if length bs \<noteq> 20 then Inl (Bail ''Ethereum address must be 20 bytes'') else Inr bs)"

definition abi_encode_delegation_message :: "hash_lib \<Rightarrow> delegation_message \<Rightarrow> bytes res" where
  "abi_encode_delegation_message H m =
     res_bind (bls_parse_ethereum_address H (dm_committer m)) (\<lambda>a.
     Inr (abi_encode H [TBytes (pk_bytes (dm_proposer m)), TBytes (pk_bytes (dm_delegate m)),
            TAddress a, TUint (dm_slot m)]))"

definition constraint_token :: "constraint_item \<Rightarrow> abi_token" where
  "constraint_token c = TTuple [TUint (ct_constraint_type c), TBytes (ct_payload c)]"

definition constraints_tokens :: "constraints_message \<Rightarrow> abi_token list" where
  "constraints_tokens m =
     [TBytes (pk_bytes (cm_proposer m)), TBytes (pk_bytes (cm_delegate m)), TUint (cm_slot m),
      TArray (map constraint_token (cm_constraints m)),
      TArray (map (\<lambda>r. TBytes (pk_bytes r)) (cm_receivers m))]"

definition abi_encode_constraints_message :: "hash_lib \<Rightarrow> constraints_message \<Rightarrow> bytes res" where
  "abi_encode_constraints_message H m = Inr (abi_encode H (constraints_tokens m))"

definition calculate_signing_root :: "hash_lib \<Rightarrow> bytes \<Rightarrow> bytes \<Rightarrow> bytes" where
  "calculate_signing_root H message domain = keccak256 H (domain @ message)"

definition verify_delegation_signature ::
  "hash_lib \<Rightarrow> blst_lib \<Rightarrow> signed_delegation \<Rightarrow> bool res" where
  "verify_delegation_signature H B d =
     res_bind (abi_encode_delegation_message H (sd_message d)) (\<lambda>encoded.
     let signing_root = calculate_signing_root H encoded delegation_domain_separator in
     res_bind (res_of BlstErr (blst_pk_from_bytes B (pk_bytes (dm_proposer (sd_message d))))) (\<lambda>pk.
     res_bind (res_of BlstErr (blst_sig_from_bytes B (sig_bytes (sd_signature d)))) (\<lambda>sg.
     Inr (blst_verify B sg signing_root bls_pop_dst pk))))"

definition sign_constraints_message ::
  "hash_lib \<Rightarrow> blst_lib \<Rightarrow> bls_manager \<Rightarrow> constraints_message \<Rightarrow> blst_secret \<Rightarrow> bytes res" where
  "sign_constraints_message H B bm m private_key =
     res_bind (abi_encode_constraints_message H m) (\<lambda>encoded.
     let signing_root = calculate_signing_root H encoded (bm_application_gateway_domain bm)
     in Inr (blst_sign B private_key signing_root bls_pop_dst))"

text \<open>\<open>keys::generate_keypair\<close>: the seed is drawn at random; \<open>unwrap\<close> panics when there is no key.\<close>

definition generate_keypair ::
  "(bytes \<Rightarrow> string \<Rightarrow> blst_secret option) \<Rightarrow> blst_lib \<Rightarrow> bytes \<Rightarrow> (blst_secret \<times> blst_public) res" where
  "generate_keypair key_gen B seed =
     res_bind (res_of (Panic ''called `Result::unwrap()` on an `Err` value'') (key_gen seed bls_pop_dst)) (\<lambda>sk.
     Inr (sk, blst_sk_to_pk B sk))"

definition bls_parse_private_key :: "hash_lib \<Rightarrow> blst_lib \<Rightarrow> string \<Rightarrow> blst_secret res" where
  "bls_parse_private_key H B hex_str =
     res_bind (context_res ''Invalid hex string'' (res_of HexErr (hex_decode H (strip_0x hex_str)))) (\<lambda>bs.
     if length bs \<noteq> 32 then Inl (Bail ''BLS private key must be 32 bytes'')
     else res_of BlstErr (blst_sk_from_bytes B bs))"

definition bls_parse_public_key :: "hash_lib \<Rightarrow> blst_lib \<Rightarrow> string \<Rightarrow> blst_public res" where
  "bls_parse_public_key H B hex_str =
     res_bind (context_res ''Invalid hex string'' (res_of HexErr (hex_decode H (strip_0x hex_str)))) (\<lambda>bs.
     if length bs \<noteq> 48 then Inl (Bail ''BLS public key must be 48 bytes'')
     else res_of BlstErr (blst_pk_from_bytes B bs))"

definition pubkey_to_bytes :: "blst_lib \<Rightarrow> blst_public \<Rightarrow> bytes" where
  "pubkey_to_bytes B pk = blst_pk_to_bytes B pk"

interpretation domain_field: fixed_hex_parser H 4 "\<lambda>bs. bs" "parse_application_gateway_domain H" for H
  by unfold_locales (auto simp: parse_application_gateway_domain_def)

interpretation bls_address: fixed_hex_parser H 20 "\<lambda>bs. bs" "bls_parse_ethereum_address H" for H
  by unfold_locales (auto simp: bls_parse_ethereum_address_def)

section \<open>Facts\<close>

lemma bls_manager_new_domain:
  "bls_manager_new H s = Inr bm \<Longrightarrow> length (bm_application_gateway_domain bm) = 4"
  using domain_field.result_length [of H s] by (auto simp: bls_manager_new_def)

lemma generate_request_hash_form:
  assumes "hex_laws H" "keccak_laws H" "generate_request_hash H r = Inr h"
  shows "length h = 66 \<and> starts_with ''0x'' h \<and> set (drop 2 h) \<subseteq> set hex_digits"
proof -
  obtain e where h: "h = ''0x'' @ hex_encode H (keccak H e)"
    using assms(3) by (auto simp: generate_request_hash_def keccak256_def)
  have "set (hex_encode H (keccak H e)) \<subseteq> set hex_digits"
    using assms(1) by (simp add: hex_laws_def)
  moreover have "length (hex_encode H (keccak H e)) = 64"
    using assms(1,2) by (simp add: hex_encode_length keccak_laws_def)
  ultimately show ?thesis unfolding h by (simp add: starts_with_def del: set_append)
qed

lemma verify_sign_commitment:
  assumes laws: "hex_laws H" "keccak_laws H" "secp_laws S"
    and signed: "sign_commitment H S c k = Inr sg"
  shows "verify_commitment_signature H S c sg (secp_public_of S k) = Inr True"
proof -
  obtain encoded where enc: "abi_encode_commitment H c = Inr encoded"
    using signed by (auto simp: sign_commitment_def)
  let ?m = "keccak256 H encoded"
  have "length ?m = 32" using laws(2) by (simp add: keccak_laws_def keccak256_def)
  moreover obtain rid raw where sign: "secp_sign_recoverable S ?m k = (rid, raw)"
    by (cases "secp_sign_recoverable S ?m k")
  ultimately obtain s where m: "secp_message_ok S ?m"
    and rid: "rid < 4" "secp_recovery_id_ok S rid" and raw: "length raw = 64"
    and sig: "secp_from_compact S raw rid = Some s" "secp_verify S ?m s (secp_public_of S k)"
    using secp_laws_sign [OF laws(3)] by blast
  define v :: u8 where "v = of_nat rid + 27"
  have sg: "sg = ''0x'' @ hex_encode H (raw @ [v])"
    using signed enc m sign by (simp add: sign_commitment_def secp_message_def v_def)
  have v: "27 \<le> v" "unat (v - 27) = rid"
    using rid(1) by (auto simp: v_def word_le_nat_alt unat_word_ariths unat_of_nat)
  have "parse_hex_bytes H sg 65 = Inr (raw @ [v])"
    unfolding sg using hex_bytes.roundtrip(1) [OF laws(1), of "raw @ [v]" 65] raw by simp
  then show ?thesis
    using enc m raw v rid(2) sig
    by (simp add: verify_commitment_signature_def secp_message_def secp_recovery_id_def Let_def
        nth_append)
qed

end
