(* ===== verification/Store.thy ===== *)
theory Store
  imports Crypto
begin

text \<open>
  The database schema (\<open>migrations/*.sql\<close>): the rows of the tables the gateway reads and
  writes, their CHECK and UNIQUE constraints, and the effect of each INSERT form. A BIGINT is
  an \<open>i64\<close>, a table is the list of its rows in insertion order (the order of a SELECT is chosen
  by the environment, see \<open>Effects\<close>). PostgreSQL checks a row's CHECK constraints before it looks
  for the conflict of an ON CONFLICT clause.
\<close>

type_synonym uuid = "128 word"

record commitment_row =
  ci_id :: uuid
  ci_request_hash :: string
  ci_commitment_type :: i64
  ci_payload :: bytes
  ci_slasher :: string
  ci_signature :: string
  ci_created_at :: int
  ci_slot_number :: "i64 option"
  ci_constraint_processed :: bool

record delegation_row =
  dr_id :: uuid
  dr_proposer_pubkey :: bytes
  dr_delegate_pubkey :: bytes
  dr_committer_address :: string
  dr_slot_number :: i64
  dr_signature :: bytes
  dr_is_active :: bool

record congestion_row =
  gr_id :: int
  gr_slot :: i64
  gr_preconfirmed_gas :: i64
  gr_total_gas_limit :: i64
  gr_gas_used_ratio :: f64
  gr_base_gas_price :: i64
  gr_calculated_fee_multiplier :: f64
  gr_current_tx_price :: i64
  gr_slot_start_time :: int
  gr_last_updated :: "int option"
  gr_created_at :: "int option"

record db =
  db_commitments :: "commitment_row list"
  db_delegations :: "delegation_row list"
  db_congestion :: "congestion_row list"
  db_congestion_seq :: int

section \<open>CHECK constraints\<close>

definition hex_char :: "char \<Rightarrow> bool" where
  "hex_char c = (c \<in> set ''0123456789abcdefABCDEF'')"

text \<open>The pattern \<open>^0x[a-fA-F0-9]{n}$\<close>.\<close>

definition hex_format :: "nat \<Rightarrow> string \<Rightarrow> bool" where
  "hex_format n s = (case strip_prefix ''0x'' s of
      None \<Rightarrow> False | Some t \<Rightarrow> length t = n \<and> list_all hex_char t)"

definition commitment_check :: "commitment_row \<Rightarrow> bool" where
  "commitment_check r =
     (hex_format 64 (ci_request_hash r) \<and> hex_format 40 (ci_slasher r)
      \<and> hex_format 130 (ci_signature r) \<and> 0 < sint (ci_commitment_type r)
      \<and> (case ci_slot_number r of None \<Rightarrow> True | Some s \<Rightarrow> 0 \<le> sint s))"

definition delegation_check :: "delegation_row \<Rightarrow> bool" where
  "delegation_check r =
     (length (dr_proposer_pubkey r) = 48 \<and> length (dr_delegate_pubkey r) = 48
      \<and> length (dr_signature r) = 96 \<and> hex_format 40 (dr_committer_address r)
      \<and> 0 \<le> sint (dr_slot_number r))"

definition delegation_key :: "delegation_row \<Rightarrow> bytes \<times> i64" where
  "delegation_key r = (dr_proposer_pubkey r, dr_slot_number r)"

section \<open>INSERT statements\<close>

definition insert_commitment :: "commitment_row \<Rightarrow> db \<Rightarrow> bool res \<times> db" where
  "insert_commitment r d =
     (if \<not> commitment_check r then (Inl (DbErr (DbCheck ''commitments'')), d)
      else if ci_request_hash r \<in> ci_request_hash ` set (db_commitments d) then (Inr False, d)
      else if ci_id r \<in> ci_id ` set (db_commitments d) then (Inl (DbErr (DbUnique ''commitments_pkey'')), d)
      else (Inr True, d\<lparr>db_commitments := db_commitments d @ [r]\<rparr>))"

definition insert_delegation :: "delegation_row \<Rightarrow> db \<Rightarrow> bool res \<times> db" where
  "insert_delegation r d =
     (if \<not> delegation_check r then (Inl (DbErr (DbCheck ''delegations'')), d)
      else if delegation_key r \<in> delegation_key ` set (db_delegations d)
        then (Inl (DbErr (DbUnique ''unique_delegation_per_slot'')), d)
      else if dr_id r \<in> dr_id ` set (db_delegations d) then (Inl (DbErr (DbUnique ''delegations_pkey'')), d)
      else (Inr True, d\<lparr>db_delegations := db_delegations d @ [r]\<rparr>))"

definition insert_delegation_on_conflict :: "delegation_row \<Rightarrow> db \<Rightarrow> bool res \<times> db" where
  "insert_delegation_on_conflict r d =
     (if \<not> delegation_check r then (Inl (DbErr (DbCheck ''delegations'')), d)
      else if delegation_key r \<in> delegation_key ` set (db_delegations d) then (Inr False, d)
      else if dr_id r \<in> dr_id ` set (db_delegations d) then (Inl (DbErr (DbUnique ''delegations_pkey'')), d)
      else (Inr True, d\<lparr>db_delegations := db_delegations d @ [r]\<rparr>))"

text \<open>
  The \<open>SERIAL\<close> column takes its value from a sequence before the conflict is found, so a
  conflicting INSERT uses up a value; a sequence of \<open>INTEGER\<close> values ends at \<open>2 ^ 31 - 1\<close>.
  \<open>insert_congestion\<close> is that statement; the id is in the row it inserts.
\<close>

definition insert_congestion :: "congestion_row \<Rightarrow> db \<Rightarrow> bool res \<times> db" where
  "insert_congestion r d =
     (let id = db_congestion_seq d + 1; d' = d\<lparr>db_congestion_seq := id\<rparr> in
      if 2 ^ 31 \<le> id then (Inl (DbErr DbSequence), d)
      else if gr_slot r \<in> gr_slot ` set (db_congestion d) then (Inr False, d')
      else (Inr True, d'\<lparr>db_congestion := db_congestion d @ [r\<lparr>gr_id := id\<rparr>]\<rparr>))"

section \<open>The contract of a table with a unique key\<close>

locale keyed_table =
  fixes rows :: "db \<Rightarrow> 'r list"
    and key :: "'r \<Rightarrow> 'k"
    and stamp :: "db \<Rightarrow> 'r \<Rightarrow> 'r"
    and insert :: "'r \<Rightarrow> db \<Rightarrow> bool res \<times> db"
  assumes stamp_key: "key (stamp d r) = key r"
    and inserted: "insert r d = (Inr True, d') \<Longrightarrow>
      key r \<notin> key ` set (rows d) \<and> rows d' = rows d @ [stamp d r]"
    and not_inserted: "insert r d = (x, d') \<Longrightarrow> x \<noteq> Inr True \<Longrightarrow> rows d' = rows d"
    and conflict: "insert r d = (Inr False, d') \<Longrightarrow> key r \<in> key ` set (rows d)"
begin

lemma rows_prefix: "\<exists>new. rows (snd (insert r d)) = rows d @ new"
  by (cases "insert r d"; cases "fst (insert r d) = Inr True")
    (auto dest: inserted not_inserted)

lemma keys_distinct:
  assumes "distinct (map key (rows d))"
  shows "distinct (map key (rows (snd (insert r d))))"
proof (cases "fst (insert r d) = Inr True")
  case True
  then have "insert r d = (Inr True, snd (insert r d))" by (metis prod.collapse)
  from inserted [OF this] show ?thesis using assms by (simp add: stamp_key)
next
  case False
  then have "rows (snd (insert r d)) = rows d" by (metis not_inserted prod.collapse)
  then show ?thesis using assms by simp
qed

lemma first_wins:
  assumes "key r \<in> key ` set (rows d)"
  shows "fst (insert r d) \<noteq> Inr True" "rows (snd (insert r d)) = rows d"
proof -
  show ne: "fst (insert r d) \<noteq> Inr True"
    using inserted [of r d "snd (insert r d)"] assms by (metis prod.collapse)
  then show "rows (snd (insert r d)) = rows d" by (metis not_inserted prod.collapse)
qed

lemma inserted_once:
  assumes "insert r d = (Inr True, d')" "key r' = key r"
  shows "fst (insert r' d') \<noteq> Inr True" "rows (snd (insert r' d')) = rows d'"
proof -
  have "key r' \<in> key ` set (rows d')"
    using inserted [OF assms(1)] assms(2) stamp_key [of d r] by auto
  then show "fst (insert r' d') \<noteq> Inr True" "rows (snd (insert r' d')) = rows d'"
    by (rule first_wins)+
qed

end

interpretation commitments: keyed_table db_commitments ci_request_hash "\<lambda>_ r. r" insert_commitment
  by unfold_locales (auto simp: insert_commitment_def split: if_splits)

interpretation delegations: keyed_table db_delegations delegation_key "\<lambda>_ r. r" insert_delegation_on_conflict
  by unfold_locales (auto simp: insert_delegation_on_conflict_def split: if_splits)

interpretation delegations1: keyed_table db_delegations delegation_key "\<lambda>_ r. r" insert_delegation
  by unfold_locales (auto simp: insert_delegation_def split: if_splits)

interpretation congestion: keyed_table db_congestion gr_slot
  "\<lambda>d r. r\<lparr>gr_id := db_congestion_seq d + 1\<rparr>" insert_congestion
  by unfold_locales (auto simp: insert_congestion_def Let_def split: if_splits)

lemma insert_commitment_Inr:
  "insert_commitment r d = (Inr b, d') \<longleftrightarrow>
     commitment_check r \<and>
     (if ci_request_hash r \<in> ci_request_hash ` set (db_commitments d) then \<not> b \<and> d' = d
      else b \<and> ci_id r \<notin> ci_id ` set (db_commitments d)
        \<and> d' = d\<lparr>db_commitments := db_commitments d @ [r]\<rparr>)"
  by (auto simp: insert_commitment_def)

lemma insert_delegation_on_conflict_Inr:
  "insert_delegation_on_conflict r d = (Inr b, d') \<longleftrightarrow>
     delegation_check r \<and>
     (if delegation_key r \<in> delegation_key ` set (db_delegations d) then \<not> b \<and> d' = d
      else b \<and> dr_id r \<notin> dr_id ` set (db_delegations d)
        \<and> d' = d\<lparr>db_delegations := db_delegations d @ [r]\<rparr>)"
  by (auto simp: insert_delegation_on_conflict_def)

lemma insert_delegation_Inr:
  "insert_delegation r d = (Inr b, d') \<longleftrightarrow>
     delegation_check r \<and> delegation_key r \<notin> delegation_key ` set (db_delegations d)
     \<and> b \<and> dr_id r \<notin> dr_id ` set (db_delegations d)
     \<and> d' = d\<lparr>db_delegations := db_delegations d @ [r]\<rparr>"
  by (auto simp: insert_delegation_def)

section \<open>The database invariant\<close>

definition db_inv :: "db \<Rightarrow> bool" where
  "db_inv d = (distinct (map ci_request_hash (db_commitments d))
     \<and> list_all commitment_check (db_commitments d)
     \<and> distinct (map delegation_key (db_delegations d))
     \<and> distinct (map dr_id (db_delegations d))
     \<and> list_all delegation_check (db_delegations d)
     \<and> distinct (map gr_slot (db_congestion d)))"

definition empty_db :: db where
  "empty_db = \<lparr>db_commitments = [], db_delegations = [], db_congestion = [], db_congestion_seq = 0\<rparr>"

lemma db_inv_empty: "db_inv empty_db"
  by (simp add: db_inv_def empty_db_def)

lemma insert_commitment_frame:
  "db_delegations (snd (insert_commitment r d)) = db_delegations d"
  "db_congestion (snd (insert_commitment r d)) = db_congestion d"
  by (simp_all add: insert_commitment_def)

lemma insert_delegation_frame:
  "db_commitments (snd (insert_delegation_on_conflict r d)) = db_commitments d"
  "db_congestion (snd (insert_delegation_on_conflict r d)) = db_congestion d"
  "db_commitments (snd (insert_delegation r d)) = db_commitments d"
  "db_congestion (snd (insert_delegation r d)) = db_congestion d"
  by (simp_all add: insert_delegation_on_conflict_def insert_delegation_def)

lemma insert_congestion_frame:
  "db_commitments (snd (insert_congestion r d)) = db_commitments d"
  "db_delegations (snd (insert_congestion r d)) = db_delegations d"
  by (simp_all add: insert_congestion_def Let_def)

lemma insert_commitment_inv: "db_inv d \<Longrightarrow> db_inv (snd (insert_commitment r d))"
  using commitments.keys_distinct [of d r]
  by (auto simp: db_inv_def insert_commitment_frame) (simp add: insert_commitment_def)

lemma insert_delegation_on_conflict_inv:
  "db_inv d \<Longrightarrow> db_inv (snd (insert_delegation_on_conflict r d))"
  using delegations.keys_distinct [of d r]
  by (auto simp: db_inv_def insert_delegation_frame) (auto simp: insert_delegation_on_conflict_def)

lemma insert_delegation_inv:
  "db_inv d \<Longrightarrow> db_inv (snd (insert_delegation r d))"
  using delegations1.keys_distinct [of d r]
  by (auto simp: db_inv_def insert_delegation_frame) (auto simp: insert_delegation_def)

lemma insert_congestion_inv: "db_inv d \<Longrightarrow> db_inv (snd (insert_congestion r d))"
  using congestion.keys_distinct [of d r]
  by (simp add: db_inv_def insert_congestion_frame)

end
