(* ===== verification/Effects.thy ===== *)
theory Effects
  imports Store
begin

text \<open>
  The effects of the asynchronous functions. A program is a function from the world to a result
  and the world after it; the world holds the database, the validator cache, the log of outgoing
  requests and sleeps, and a count of the interactions made so far. Everything the outside decides
  is a field of \<open>env\<close>, indexed by that count: clock readings, answers to HTTP requests, the
  fault of a database statement, the database's clock (in microseconds) and its AVG of doubles,
  fresh identifiers, the order of an unordered SELECT, whether a timeout fires, and what the \<open>moka\<close> cache still holds. A theorem for all \<open>env\<close> is a theorem for every behaviour of
  the outside.

  A statement may be lost before it takes effect or lose its reply after it did
  (\<open>LostReply\<close>): the caller sees an error in both cases.
\<close>

datatype fault = NoFault | LostRequest | LostReply

record http_response =
  hr_status :: nat
  hr_body :: bytes

datatype http_request =
    HttpGet string
  | HttpPostConstraints string signed_constraints
  | HttpPostRpc string string nat

datatype event =
    EvHttp http_request "http_response option"
  | EvSleep nat

record env =
  e_crates :: crates
  e_now :: "nat \<Rightarrow> u64"
  e_fault :: "nat \<Rightarrow> fault"
  e_http :: "nat \<Rightarrow> http_request \<Rightarrow> http_response option"
  e_uuid :: "nat \<Rightarrow> uuid"
  e_db_time :: "nat \<Rightarrow> int"
  e_avg :: "f64 list \<Rightarrow> f64"
  e_scan :: "nat \<Rightarrow> nat \<Rightarrow> nat list"
  e_timeout :: "nat \<Rightarrow> nat option"
  e_cache :: "nat \<Rightarrow> (bls_public_key \<times> validator_info) list \<Rightarrow> bls_public_key \<Rightarrow> validator_info option"

record world =
  w_db :: db
  w_tick :: nat
  w_cache :: "(bls_public_key \<times> validator_info) list"
  w_events :: "event list"

text \<open>A program over any state; the programs of the services run over the world.\<close>

type_synonym ('s, 'e, 'a) prog = "'s \<Rightarrow> ('e + 'a) \<times> 's"
type_synonym ('e, 'a) io = "(world, 'e, 'a) prog"

text \<open>Short names for the crates of an environment.\<close>

abbreviation hash_of :: "env \<Rightarrow> hash_lib" where "hash_of E \<equiv> c_hash (e_crates E)"
abbreviation payload_of :: "env \<Rightarrow> payload_lib" where "payload_of E \<equiv> c_payload (e_crates E)"
abbreviation secp_of :: "env \<Rightarrow> secp_lib" where "secp_of E \<equiv> c_secp (e_crates E)"
abbreviation blst_of :: "env \<Rightarrow> blst_lib" where "blst_of E \<equiv> c_blst (e_crates E)"
abbreviation json_of :: "env \<Rightarrow> json_lib" where "json_of E \<equiv> c_json (e_crates E)"

text \<open>A SELECT without ORDER BY returns every row once; the cache returns what was last stored.\<close>

definition scan_law :: "env \<Rightarrow> bool" where
  "scan_law E = (\<forall>n k. distinct (e_scan E n k) \<and> set (e_scan E n k) = {..<k})"

definition cache_law :: "env \<Rightarrow> bool" where
  "cache_law E = (\<forall>n log k v. e_cache E n log k = Some v \<longrightarrow> map_of log k = Some v)"

section \<open>Sequencing\<close>

definition io_return :: "'a \<Rightarrow> ('s, 'e, 'a) prog" where
  "io_return a = (\<lambda>w. (Inr a, w))"

definition io_fail :: "'e \<Rightarrow> ('s, 'e, 'a) prog" where
  "io_fail e = (\<lambda>w. (Inl e, w))"

definition io_res :: "('e + 'a) \<Rightarrow> ('s, 'e, 'a) prog" where
  "io_res r = (\<lambda>w. (r, w))"

text \<open>\<open>m?\<close>: stop with the error of \<open>m\<close>, or go on with its value.\<close>

definition io_bind :: "('s, 'e, 'a) prog \<Rightarrow> ('a \<Rightarrow> ('s, 'e, 'b) prog) \<Rightarrow> ('s, 'e, 'b) prog" where
  "io_bind m f = (\<lambda>w. case m w of (Inl e, w1) \<Rightarrow> (Inl e, w1) | (Inr a, w1) \<Rightarrow> f a w1)"

text \<open>\<open>match m\<close>: go on with the result of \<open>m\<close>, error or value.\<close>

definition io_match :: "('s, 'd, 'a) prog \<Rightarrow> ('d + 'a \<Rightarrow> ('s, 'e, 'b) prog) \<Rightarrow> ('s, 'e, 'b) prog" where
  "io_match m f = (\<lambda>w. case m w of (r, w1) \<Rightarrow> f r w1)"

definition io_map_err :: "('d \<Rightarrow> 'e) \<Rightarrow> ('s, 'd, 'a) prog \<Rightarrow> ('s, 'e, 'a) prog" where
  "io_map_err g m = (\<lambda>w. case m w of (r, w1) \<Rightarrow> (res_map_err g r, w1))"

definition io_context :: "string \<Rightarrow> ('s, err, 'a) prog \<Rightarrow> ('s, err, 'a) prog" where
  "io_context msg = io_map_err (Ctx msg)"

text \<open>A loop over a list whose body may fail with \<open>?\<close>.\<close>

fun io_for :: "'a list \<Rightarrow> ('a \<Rightarrow> ('s, 'e, 'b) prog) \<Rightarrow> ('s, 'e, 'b list) prog" where
  "io_for [] f = io_return []"
| "io_for (x # xs) f = io_bind (f x) (\<lambda>y. io_bind (io_for xs f) (\<lambda>ys. io_return (y # ys)))"

text \<open>A loop with an accumulator.\<close>

fun io_fold :: "('a \<Rightarrow> 'b \<Rightarrow> ('s, 'e, 'b) prog) \<Rightarrow> 'a list \<Rightarrow> 'b \<Rightarrow> ('s, 'e, 'b) prog" where
  "io_fold f [] s = io_return s"
| "io_fold f (x # xs) s = io_bind (f x s) (\<lambda>s'. io_fold f xs s')"

section \<open>Primitive interactions\<close>

definition tick :: "world \<Rightarrow> world" where
  "tick w = w\<lparr>w_tick := Suc (w_tick w)\<rparr>"

definition io_now :: "env \<Rightarrow> ('e, u64) io" where
  "io_now E = (\<lambda>w. (Inr (e_now E (w_tick w)), tick w))"

definition io_uuid :: "env \<Rightarrow> ('e, uuid) io" where
  "io_uuid E = (\<lambda>w. (Inr (e_uuid E (w_tick w)), tick w))"

definition io_sleep :: "nat \<Rightarrow> ('e, unit) io" where
  "io_sleep ms = (\<lambda>w. (Inr (), (tick w)\<lparr>w_events := w_events w @ [EvSleep ms]\<rparr>))"

definition io_http :: "env \<Rightarrow> http_request \<Rightarrow> (err, http_response) io" where
  "io_http E req = (\<lambda>w. let r = e_http E (w_tick w) req in
     (res_of HttpErr r, (tick w)\<lparr>w_events := w_events w @ [EvHttp req r]\<rparr>))"

text \<open>
  A program under a timeout. When the timeout fires the program is dropped at one of its awaits:
  what it had sent until then has been sent. It is used on programs that only talk to the network.
\<close>

definition io_timeout :: "env \<Rightarrow> (err, 'a) io \<Rightarrow> (err, 'a) io" where
  "io_timeout E m = (\<lambda>w. case e_timeout E (w_tick w) of
       None \<Rightarrow> m w
     | Some n \<Rightarrow> let w1 = snd (m w) in
         (Inl TimeoutErr, w\<lparr>w_tick := Suc (w_tick w1),
            w_events := w_events w @ take n (drop (length (w_events w)) (w_events w1))\<rparr>))"

definition io_cache_get :: "env \<Rightarrow> bls_public_key \<Rightarrow> ('e, validator_info option) io" where
  "io_cache_get E k = (\<lambda>w. (Inr (e_cache E (w_tick w) (w_cache w) k), tick w))"

definition io_cache_insert :: "bls_public_key \<Rightarrow> validator_info \<Rightarrow> ('e, unit) io" where
  "io_cache_insert k v = (\<lambda>w. (Inr (), w\<lparr>w_cache := (k, v) # w_cache w\<rparr>))"

text \<open>The rows a SELECT yields, in the order of this execution.\<close>

definition scan :: "env \<Rightarrow> nat \<Rightarrow> 'r list \<Rightarrow> 'r list" where
  "scan E n rows = map (\<lambda>i. rows ! i) (e_scan E n (length rows))"

text \<open>One statement outside a transaction: it sees the interaction count and the database.\<close>

definition sql :: "env \<Rightarrow> (nat \<Rightarrow> db \<Rightarrow> 'a res \<times> db) \<Rightarrow> (err, 'a) io" where
  "sql E f = (\<lambda>w. let n = w_tick w; (r, d) = f n (w_db w) in
     case e_fault E n of
       NoFault \<Rightarrow> (r, (tick w)\<lparr>w_db := d\<rparr>)
     | LostRequest \<Rightarrow> (Inl (DbErr DbLost), tick w)
     | LostReply \<Rightarrow> (Inl (DbErr DbLost), (tick w)\<lparr>w_db := d\<rparr>))"

definition sql_query :: "env \<Rightarrow> (nat \<Rightarrow> db \<Rightarrow> 'a) \<Rightarrow> (err, 'a) io" where
  "sql_query E q = sql E (\<lambda>n d. (Inr (q n d), d))"

text \<open>
  A transaction: \<open>begin\<close>, the body, \<open>commit\<close>. An error before the commit rolls back; a commit whose
  reply is lost has taken effect although the caller sees an error. Other tasks see the
  effects of the body only at the commit.
\<close>

definition sql_transaction :: "env \<Rightarrow> string \<Rightarrow> string \<Rightarrow> (err, 'a) io \<Rightarrow> (err, 'a) io" where
  "sql_transaction E begin_msg commit_msg body = (\<lambda>w.
     if e_fault E (w_tick w) \<noteq> NoFault then (Inl (Ctx begin_msg (DbErr DbLost)), tick w)
     else case body (tick w) of
         (Inl e, w1) \<Rightarrow> (Inl e, w1\<lparr>w_db := w_db w\<rparr>)
       | (Inr a, w1) \<Rightarrow>
           (case e_fault E (w_tick w1) of
              NoFault \<Rightarrow> (Inr a, tick w1)
            | LostRequest \<Rightarrow> (Inl (Ctx commit_msg (DbErr DbLost)), (tick w1)\<lparr>w_db := w_db w\<rparr>)
            | LostReply \<Rightarrow> (Inl (Ctx commit_msg (DbErr DbLost)), tick w1)))"

section \<open>Rules\<close>

lemma io_bind_Inr:
  "io_bind m f w = (Inr b, w') \<longleftrightarrow> (\<exists>a w1. m w = (Inr a, w1) \<and> f a w1 = (Inr b, w'))"
  by (auto simp: io_bind_def split: prod.splits sum.splits)

lemma io_bind_Inl:
  "io_bind m f w = (Inl e, w') \<longleftrightarrow>
     m w = (Inl e, w') \<or> (\<exists>a w1. m w = (Inr a, w1) \<and> f a w1 = (Inl e, w'))"
  by (auto simp: io_bind_def split: prod.splits sum.splits)

lemma io_match_eq:
  "io_match m f w = (b, w') \<longleftrightarrow> (\<exists>r w1. m w = (r, w1) \<and> f r w1 = (b, w'))"
  by (auto simp: io_match_def split: prod.splits)

lemma io_map_err_Inr: "io_map_err g m w = (Inr b, w') \<longleftrightarrow> m w = (Inr b, w')"
  by (auto simp: io_map_err_def split: prod.splits)

lemma io_context_Inr: "io_context g m w = (Inr b, w') \<longleftrightarrow> m w = (Inr b, w')"
  by (simp add: io_context_def io_map_err_Inr)

lemma io_return_eq: "io_return a w = (r, w') \<longleftrightarrow> r = Inr a \<and> w' = w"
  by (auto simp: io_return_def)

lemma io_fail_eq: "io_fail e w = (r, w') \<longleftrightarrow> r = Inl e \<and> w' = w"
  by (auto simp: io_fail_def)

lemma io_res_eq: "io_res x w = (r, w') \<longleftrightarrow> x = r \<and> w' = w"
  by (auto simp: io_res_def)

lemmas io_Inr = io_bind_Inr io_match_eq io_map_err_Inr io_context_Inr io_return_eq io_fail_eq io_res_eq

lemma tick_simps [simp]:
  "w_db (tick w) = w_db w" "w_tick (tick w) = Suc (w_tick w)"
  "w_cache (tick w) = w_cache w" "w_events (tick w) = w_events w"
  by (simp_all add: tick_def)

lemma io_http_Inr:
  "io_http E req w = (Inr resp, w') \<Longrightarrow>
   e_http E (w_tick w) req = Some resp \<and> w_db w' = w_db w \<and> w_cache w' = w_cache w
   \<and> w_events w' = w_events w @ [EvHttp req (Some resp)]"
  by (auto simp: io_http_def Let_def)

lemma sql_query_Inr:
  "sql_query E q w = (Inr a, w') \<Longrightarrow>
   q (w_tick w) (w_db w) = a \<and> w_db w' = w_db w \<and> w_events w' = w_events w \<and> w_cache w' = w_cache w"
  by (auto simp: sql_query_def sql_def Let_def split: fault.splits)

lemma sql_Inr:
  "sql E f w = (Inr a, w') \<Longrightarrow>
   f (w_tick w) (w_db w) = (Inr a, w_db w') \<and> w_events w' = w_events w \<and> w_cache w' = w_cache w"
  by (auto simp: sql_def Let_def split: fault.splits prod.splits)

lemma sql_transaction_Inr:
  "sql_transaction E a b m w = (Inr x, w') \<Longrightarrow> \<exists>w1. m (tick w) = (Inr x, w1) \<and> w' = tick w1"
  by (auto simp: sql_transaction_def split: if_splits prod.splits sum.splits fault.splits)

text \<open>A transaction that fails leaves the database as it was, unless only the reply to its commit was lost.\<close>

lemma sql_transaction_Inl:
  "sql_transaction E a b m w = (Inl e, w') \<Longrightarrow> e \<noteq> Ctx b (DbErr DbLost) \<Longrightarrow> w_db w' = w_db w"
  by (auto simp: sql_transaction_def split: if_splits prod.splits sum.splits fault.splits)

lemma set_scan: "scan_law E \<Longrightarrow> set (scan E n rows) = set rows"
  by (auto simp: scan_law_def scan_def in_set_conv_nth)

lemma length_scan: "scan_law E \<Longrightarrow> length (scan E n rows) = length rows"
  using distinct_card [of "e_scan E n (length rows)"] by (auto simp: scan_law_def scan_def)

lemma scan_distinct: "scan_law E \<Longrightarrow> distinct (map f rows) \<Longrightarrow> distinct (map f (scan E n rows))"
  by (auto simp: scan_law_def scan_def distinct_map comp_def inj_on_def distinct_conv_nth)
    (metis lessThan_iff nth_mem)+

section \<open>Relations every step of a program obeys\<close>

definition obeys :: "('s \<Rightarrow> 's \<Rightarrow> bool) \<Rightarrow> ('s, 'e, 'a) prog \<Rightarrow> bool" where
  "obeys R m = (\<forall>w. R w (snd (m w)))"

lemma obeysD: "obeys R m \<Longrightarrow> m w = (r, w') \<Longrightarrow> R w w'"
  by (metis obeys_def snd_conv)

text \<open>
  A relation that is reflexive and transitive passes through every combinator
  (\<open>step_rel\<close>). If it also lets the log grow, the interaction count and the cache change, it holds
  of every program without statements that write (\<open>log_rel\<close>); if it only looks at the database,
  also of a transaction that is rolled back (\<open>quiet_rel\<close>).
\<close>

locale step_rel =
  fixes R :: "'s \<Rightarrow> 's \<Rightarrow> bool"
  assumes refl: "R w w"
    and trans: "R u v \<Longrightarrow> R v w \<Longrightarrow> R u w"
begin

lemma return_obeys [pres]: "obeys R (io_return a)"
  by (simp add: obeys_def io_return_def refl)

lemma fail_obeys [pres]: "obeys R (io_fail e)"
  by (simp add: obeys_def io_fail_def refl)

lemma res_obeys [pres]: "obeys R (io_res r)"
  by (simp add: obeys_def io_res_def refl)

lemma bind_obeys [pres]:
  assumes "obeys R m" "\<And>a. obeys R (f a)"
  shows "obeys R (io_bind m f)"
  unfolding obeys_def io_bind_def
  using assms trans by (auto simp: obeys_def split: prod.splits sum.splits) (metis snd_conv)+

text \<open>The continuation only runs on results the first program can return.\<close>

lemma bind_obeys_result:
  assumes "obeys R m" "\<And>a w w1. m w = (Inr a, w1) \<Longrightarrow> obeys R (f a)"
  shows "obeys R (io_bind m f)"
  unfolding obeys_def
proof
  fix w
  obtain x w1 where m: "m w = (x, w1)" by force
  have 1: "R w w1" using assms(1) m by (rule obeysD)
  show "R w (snd (io_bind m f w))"
  proof (cases x)
    case (Inr a)
    then have "R w1 (snd (f a w1))" using assms(2) m unfolding obeys_def by blast
    then show ?thesis using 1 m Inr trans by (auto simp: io_bind_def)
  qed (use 1 m in \<open>simp add: io_bind_def\<close>)
qed

lemma res_bind_obeys:
  assumes "\<And>a. r = Inr a \<Longrightarrow> obeys R (f a)"
  shows "obeys R (io_bind (io_res r) f)"
  using assms by (intro bind_obeys_result res_obeys) (auto simp: io_res_def)

lemma match_obeys [pres]:
  assumes "obeys R m" "\<And>r. obeys R (f r)"
  shows "obeys R (io_match m f)"
  unfolding obeys_def io_match_def
  using assms trans by (auto simp: obeys_def split: prod.splits) (metis snd_conv)+

lemma map_err_obeys [pres]: "obeys R m \<Longrightarrow> obeys R (io_map_err g m)"
  by (auto simp: obeys_def io_map_err_def split: prod.splits) (metis snd_conv)

lemma fold_obeys_mem:
  "(\<And>x s. x \<in> set xs \<Longrightarrow> obeys R (f x s)) \<Longrightarrow> obeys R (io_fold f xs s)"
  by (induction xs arbitrary: s) (auto intro!: return_obeys bind_obeys)

lemma context_obeys [pres]: "obeys R m \<Longrightarrow> obeys R (io_context g m)"
  by (simp add: io_context_def map_err_obeys)

lemma for_obeys [pres]: "(\<And>x. obeys R (f x)) \<Longrightarrow> obeys R (io_for xs f)"
  by (induction xs) (auto intro!: return_obeys bind_obeys)

lemma fold_obeys [pres]: "(\<And>x s. obeys R (f x s)) \<Longrightarrow> obeys R (io_fold f xs s)"
  by (induction xs arbitrary: s) (auto intro!: return_obeys bind_obeys)

lemma if_obeys [pres]: "obeys R m \<Longrightarrow> obeys R n \<Longrightarrow> obeys R (if b then m else n)"
  by simp

lemma option_obeys [pres]:
  "obeys R m \<Longrightarrow> (\<And>x. obeys R (f x)) \<Longrightarrow> obeys R (case v of None \<Rightarrow> m | Some x \<Rightarrow> f x)"
  by (cases v) auto

lemma sum_obeys [pres]:
  "(\<And>x. obeys R (g x)) \<Longrightarrow> (\<And>x. obeys R (f x)) \<Longrightarrow>
   obeys R (case v of Inl x \<Rightarrow> g x | Inr x \<Rightarrow> f x)"
  by (cases v) auto

lemma list_obeys [pres]:
  "obeys R m \<Longrightarrow> (\<And>x xs. obeys R (f x xs)) \<Longrightarrow>
   obeys R (case v of [] \<Rightarrow> m | x # xs \<Rightarrow> f x xs)"
  by (cases v) auto

end

locale log_rel = step_rel R for R :: "world \<Rightarrow> world \<Rightarrow> bool" +
  assumes log: "w_db w' = w_db w \<Longrightarrow> w_events w' = w_events w @ evs \<Longrightarrow> R w w'"
begin

lemma silent: "w_db w' = w_db w \<Longrightarrow> w_events w' = w_events w \<Longrightarrow> R w w'"
  using log [of w' w "[]"] by simp

lemma now_obeys [pres]: "obeys R (io_now E)"
  by (simp add: obeys_def io_now_def silent)

lemma uuid_obeys [pres]: "obeys R (io_uuid E)"
  by (simp add: obeys_def io_uuid_def silent)

lemma sleep_obeys [pres]: "obeys R (io_sleep ms)"
  by (auto simp: obeys_def io_sleep_def intro: log)

lemma http_obeys [pres]: "obeys R (io_http E req)"
  by (auto simp: obeys_def io_http_def Let_def intro: log)

lemma timeout_obeys [pres]: "obeys R m \<Longrightarrow> obeys R (io_timeout E m)"
  by (auto simp: obeys_def io_timeout_def Let_def intro: log split: option.split)

lemma cache_get_obeys [pres]: "obeys R (io_cache_get E k)"
  by (simp add: obeys_def io_cache_get_def silent)

lemma cache_insert_obeys [pres]: "obeys R (io_cache_insert k v)"
  by (simp add: obeys_def io_cache_insert_def silent)

lemma query_obeys [pres]: "obeys R (sql_query E q)"
  by (auto simp: obeys_def sql_query_def sql_def Let_def silent split: fault.splits)

lemma sql_obeys:
  assumes "\<And>n w. R w (w\<lparr>w_db := snd (f n (w_db w))\<rparr>)"
  shows "obeys R (sql E f)"
  unfolding obeys_def
proof
  fix w :: world
  obtain r d where f: "f (w_tick w) (w_db w) = (r, d)" by force
  have "R w (w\<lparr>w_db := d\<rparr>)" using assms [of w "w_tick w"] f by simp
  moreover have "R (w\<lparr>w_db := d\<rparr>) ((tick w)\<lparr>w_db := d\<rparr>)" by (rule silent) simp_all
  ultimately have "R w ((tick w)\<lparr>w_db := d\<rparr>)" by (rule trans)
  then show "R w (snd (sql E f w))"
    by (auto simp: sql_def f Let_def silent split: fault.splits)
qed

end

locale quiet_rel = step_rel R for R :: "world \<Rightarrow> world \<Rightarrow> bool" +
  assumes quiet: "w_db w' = w_db w \<Longrightarrow> R w w'"

sublocale quiet_rel \<subseteq> log_rel
  by unfold_locales (rule quiet)

context quiet_rel
begin

lemma transaction_obeys:
  assumes "obeys R m"
  shows "obeys R (sql_transaction E a b m)"
  unfolding obeys_def
proof
  fix w :: world
  obtain r w1 where m: "m (tick w) = (r, w1)" by force
  have "R w (tick w)" by (rule quiet) simp
  moreover have "R (tick w) w1" using assms m by (rule obeysD)
  ultimately have "R w w1" by (rule trans)
  then have "R w (tick w1)" by (rule trans) (simp add: quiet)
  then show "R w (snd (sql_transaction E a b m w))"
    by (auto simp: sql_transaction_def m quiet split: sum.splits fault.splits)
qed

end

text \<open>The relation of a program that leaves the database alone.\<close>

definition same_db :: "world \<Rightarrow> world \<Rightarrow> bool" where
  "same_db w w' = (w_db w' = w_db w)"

interpretation same_db: quiet_rel same_db
  by unfold_locales (auto simp: same_db_def)

lemma same_db_D: "obeys same_db m \<Longrightarrow> m w = (r, w') \<Longrightarrow> w_db w' = w_db w"
  by (auto simp: same_db_def dest: obeysD)

text \<open>A predicate on databases that survives.\<close>

definition keeps :: "(db \<Rightarrow> bool) \<Rightarrow> world \<Rightarrow> world \<Rightarrow> bool" where
  "keeps P w w' = (P (w_db w) \<longrightarrow> P (w_db w'))"

interpretation keeps: quiet_rel "keeps P" for P
  by unfold_locales (auto simp: keeps_def)

text \<open>A part of the state that stays as it is.\<close>

definition same_of :: "('s \<Rightarrow> 'b) \<Rightarrow> 's \<Rightarrow> 's \<Rightarrow> bool" where
  "same_of f p p' = (f p' = f p)"

interpretation same_of: step_rel "same_of f" for f
  by unfold_locales (auto simp: same_of_def)

text \<open>A program that, when it fails, has stayed within a relation.\<close>

definition fails_within :: "('s \<Rightarrow> 's \<Rightarrow> bool) \<Rightarrow> ('s, 'e, 'a) prog \<Rightarrow> bool" where
  "fails_within R m = (\<forall>p e p'. m p = (Inl e, p') \<longrightarrow> R p p')"

lemma obeys_fails_within: "obeys R m \<Longrightarrow> fails_within R m"
  by (auto simp: fails_within_def dest: obeysD)

lemma return_fails_within: "fails_within R (io_return a)"
  by (simp add: fails_within_def io_return_def)

lemma io_bind_res_Inr: "io_bind (io_res (Inr a)) f = f a"
  by (simp add: io_bind_def io_res_def)

context step_rel
begin

lemma bind_fails_within:
  assumes "obeys R m" "\<And>a. fails_within R (f a)"
  shows "fails_within R (io_bind m f)"
  unfolding fails_within_def io_bind_Inl
  using obeysD [OF assms(1)] assms(2) trans unfolding fails_within_def by blast

lemma match_fails_within:
  assumes "obeys R m" "\<And>a. fails_within R (f a)"
  shows "fails_within R (io_match m f)"
  unfolding fails_within_def io_match_eq
  using obeysD [OF assms(1)] assms(2) trans unfolding fails_within_def by blast

lemma res_fails_within:
  assumes "\<And>a. r = Inr a \<Longrightarrow> fails_within R (f a)"
  shows "fails_within R (io_bind (io_res r) f)"
  using assms refl by (auto simp: fails_within_def io_bind_def io_res_def split: sum.split)

text \<open>A first program that always fails.\<close>

lemma dead_fails_within:
  assumes "obeys R m" "\<And>p a p'. m p \<noteq> (Inr a, p')"
  shows "fails_within R (io_bind m f)"
  using assms by (auto simp: fails_within_def io_bind_Inl dest: obeysD)

end

end
