(* ===== verification/Commitment_Ops.thy ===== *)
theory Commitment_Ops
  imports Effects
begin

text \<open>
  Storage and retrieval of commitments (\<open>db/operations.rs\<close>). Each function is one statement on the
  \<open>commitments\<close> table; the statement itself is a function on the database, so that what it does
  and what the Rust code does around it are separate definitions.
\<close>

section \<open>Operations\<close>

text \<open>The slot stored with a commitment: NULL when it cannot be extracted or exceeds \<open>i64\<close>.\<close>

definition stored_slot :: "payload_lib \<Rightarrow> commitment \<Rightarrow> i64 option" where
  "stored_slot P c = (case extract_slot P (co_commitment_type c) (co_payload c) of
       Inr slot \<Rightarrow> i64_try_from slot
     | Inl e \<Rightarrow> None)"

definition commitment_row_of ::
  "payload_lib \<Rightarrow> uuid \<Rightarrow> i64 \<Rightarrow> int \<Rightarrow> signed_commitment \<Rightarrow> commitment_row" where
  "commitment_row_of P uid ctype time sc =
     \<lparr>ci_id = uid, ci_request_hash = co_request_hash (sg_commitment sc), ci_commitment_type = ctype,
      ci_payload = co_payload (sg_commitment sc), ci_slasher = co_slasher (sg_commitment sc),
      ci_signature = sg_signature sc, ci_created_at = time,
      ci_slot_number = stored_slot P (sg_commitment sc), ci_constraint_processed = False\<rparr>"

definition save_commitment :: "env \<Rightarrow> signed_commitment \<Rightarrow> (err, uuid option) io" where
  "save_commitment E sc =
     io_bind (io_uuid E) (\<lambda>uid.
     io_bind (io_res (context_res ''commitment_type exceeds i64::MAX''
       (res_of (IntErr IntPosOverflow) (i64_try_from (co_commitment_type (sg_commitment sc)))))) (\<lambda>ctype.
     io_bind (io_context ''Failed to insert commitment into database''
       (sql E (\<lambda>n. insert_commitment (commitment_row_of (payload_of E) uid ctype (e_db_time E n) sc)))) (\<lambda>inserted.
     io_return (if inserted then Some uid else None))))"

definition commitment_of_row :: "commitment_row \<Rightarrow> signed_commitment res" where
  "commitment_of_row row =
     res_bind (context_res ''stored commitment_type is negative''
       (res_of (IntErr IntPosOverflow) (u64_try_from (ci_commitment_type row)))) (\<lambda>ctype.
     Inr \<lparr>sg_commitment = \<lparr>co_commitment_type = ctype, co_payload = ci_payload row,
             co_request_hash = ci_request_hash row, co_slasher = ci_slasher row\<rparr>,
          sg_signature = ci_signature row\<rparr>)"

definition find_commitment :: "string \<Rightarrow> db \<Rightarrow> commitment_row option" where
  "find_commitment request_hash d =
     List.find (\<lambda>r. ci_request_hash r = request_hash) (db_commitments d)"

definition get_commitment_by_hash :: "env \<Rightarrow> string \<Rightarrow> (err, signed_commitment option) io" where
  "get_commitment_by_hash E request_hash =
     io_bind (io_context ''Failed to query commitment from database''
       (sql_query E (\<lambda>n. find_commitment request_hash))) (\<lambda>row.
     case row of
       Some r \<Rightarrow> io_bind (io_res (commitment_of_row r)) (\<lambda>sc. io_return (Some sc))
     | None \<Rightarrow> io_return None)"

definition commitment_exists :: "env \<Rightarrow> string \<Rightarrow> (err, bool) io" where
  "commitment_exists E request_hash =
     io_context ''Failed to check if commitment exists''
       (sql_query E (\<lambda>n d. request_hash \<in> ci_request_hash ` set (db_commitments d)))"

record commitment_stats =
  cs_total_count :: i64
  cs_commitment_type_1_count :: i64
  cs_latest_created_at :: "int option"

definition max_of :: "'a :: linorder list \<Rightarrow> 'a option" where
  "max_of xs = (case xs of [] \<Rightarrow> None | y # ys \<Rightarrow> Some (fold max ys y))"

definition get_commitment_stats :: "env \<Rightarrow> (err, commitment_stats) io" where
  "get_commitment_stats E =
     io_context ''Failed to get commitment statistics''
       (sql_query E (\<lambda>n d.
          \<lparr>cs_total_count = of_nat (length (db_commitments d)),
           cs_commitment_type_1_count =
             of_nat (length (filter (\<lambda>r. ci_commitment_type r = 1) (db_commitments d))),
           cs_latest_created_at = max_of (map ci_created_at (db_commitments d))\<rparr>))"

definition select_unprocessed :: "env \<Rightarrow> i64 \<Rightarrow> nat \<Rightarrow> db \<Rightarrow> commitment_row list" where
  "select_unprocessed E slot n d =
     sort_key ci_created_at (scan E n
       (filter (\<lambda>r. ci_slot_number r = Some slot \<and> \<not> ci_constraint_processed r) (db_commitments d)))"

definition get_unprocessed_commitments_for_slot :: "env \<Rightarrow> u64 \<Rightarrow> (err, signed_commitment list) io" where
  "get_unprocessed_commitments_for_slot E slot =
     io_bind (io_res (context_res ''slot exceeds i64::MAX''
       (res_of (IntErr IntPosOverflow) (i64_try_from slot)))) (\<lambda>slot_i64.
     io_bind (io_context ''Failed to query unprocessed commitments for slot''
       (sql_query E (select_unprocessed E slot_i64))) (\<lambda>rows.
     io_res (res_traverse commitment_of_row rows)))"

definition mark_row :: "string list \<Rightarrow> commitment_row \<Rightarrow> commitment_row" where
  "mark_row hashes r =
     (if ci_request_hash r \<in> set hashes then r\<lparr>ci_constraint_processed := True\<rparr> else r)"

definition mark_processed :: "string list \<Rightarrow> db \<Rightarrow> u64 res \<times> db" where
  "mark_processed hashes d =
     (Inr (of_nat (length (filter (\<lambda>r. ci_request_hash r \<in> set hashes) (db_commitments d)))),
      d\<lparr>db_commitments := map (mark_row hashes) (db_commitments d)\<rparr>)"

definition mark_commitments_as_processed :: "env \<Rightarrow> string list \<Rightarrow> (err, u64) io" where
  "mark_commitments_as_processed E request_hashes =
     (if request_hashes = [] then io_return 0
      else io_context ''Failed to mark commitments as processed''
             (sql E (\<lambda>n. mark_processed request_hashes)))"

section \<open>Rows\<close>

lemma mark_row_simps [simp]:
  "ci_request_hash (mark_row hs r) = ci_request_hash r"
  "ci_slot_number (mark_row hs r) = ci_slot_number r"
  "ci_created_at (mark_row hs r) = ci_created_at r"
  "commitment_check (mark_row hs r) = commitment_check r"
  "commitment_of_row (mark_row hs r) = commitment_of_row r"
  by (simp_all add: mark_row_def commitment_check_def commitment_of_row_def)

lemma mark_processed_inv: "db_inv d \<Longrightarrow> db_inv (snd (mark_processed hs d))"
  by (simp add: db_inv_def mark_processed_def comp_def list_all_iff)

text \<open>What is stored is read back unchanged: the type goes through \<open>i64\<close> without loss.\<close>

lemma commitment_of_row_of:
  assumes "i64_try_from (co_commitment_type (sg_commitment sc)) = Some t"
  shows "commitment_of_row (commitment_row_of P uid t time sc) = Inr sc"
  using assms
  by (auto simp: commitment_of_row_def commitment_row_of_def i64_try_from_def u64_try_from_def
      sint_nonneg_iff split: if_splits)

lemma find_commitment_mem:
  "distinct (map ci_request_hash (db_commitments d)) \<Longrightarrow> r \<in> set (db_commitments d) \<Longrightarrow>
   find_commitment (ci_request_hash r) d = Some r"
  unfolding find_commitment_def by (rule find_unique)

lemma select_unprocessed_set:
  "scan_law E \<Longrightarrow> set (select_unprocessed E s n d)
     = {r \<in> set (db_commitments d). ci_slot_number r = Some s \<and> \<not> ci_constraint_processed r}"
  by (auto simp: select_unprocessed_def set_scan)

lemma select_unprocessed_sorted: "sorted (map ci_created_at (select_unprocessed E s n d))"
  by (simp add: select_unprocessed_def)

lemma select_unprocessed_distinct:
  "scan_law E \<Longrightarrow> distinct (map ci_request_hash (db_commitments d)) \<Longrightarrow>
   distinct (map ci_request_hash (select_unprocessed E s n d))"
proof -
  assume s: "scan_law E" and d: "distinct (map ci_request_hash (db_commitments d))"
  let ?xs = "filter (\<lambda>r. ci_slot_number r = Some s \<and> \<not> ci_constraint_processed r) (db_commitments d)"
  have "distinct (map ci_request_hash ?xs)" using d by (rule distinct_map_filter)
  then have "distinct (map ci_request_hash (scan E n ?xs))" by (rule scan_distinct [OF s])
  then show ?thesis
    by (simp add: select_unprocessed_def distinct_map)
qed

section \<open>Results of the operations\<close>

lemma save_commitment_Some:
  assumes "save_commitment E sc w = (Inr (Some uid), w')"
  shows "\<exists>t n. i64_try_from (co_commitment_type (sg_commitment sc)) = Some t
     \<and> (let r = commitment_row_of (payload_of E) uid t (e_db_time E n) sc in
        commitment_check r
        \<and> co_request_hash (sg_commitment sc) \<notin> ci_request_hash ` set (db_commitments (w_db w))
        \<and> db_commitments (w_db w') = db_commitments (w_db w) @ [r])"
  using assms
  by (auto simp: save_commitment_def io_Inr io_uuid_def Let_def insert_commitment_Inr
      commitment_row_of_def dest!: sql_Inr split: if_splits)

lemma save_commitment_None:
  assumes "save_commitment E sc w = (Inr None, w')"
  shows "w_db w' = w_db w
     \<and> co_request_hash (sg_commitment sc) \<in> ci_request_hash ` set (db_commitments (w_db w))"
  using assms
  by (auto simp: save_commitment_def io_Inr io_uuid_def insert_commitment_Inr
      commitment_row_of_def dest!: sql_Inr split: if_splits)

lemma commitment_exists_Inr:
  "commitment_exists E h w = (Inr b, w') \<Longrightarrow>
   b = (h \<in> ci_request_hash ` set (db_commitments (w_db w))) \<and> w_db w' = w_db w"
  by (auto simp: commitment_exists_def io_Inr dest!: sql_query_Inr)

lemma get_commitment_by_hash_Some:
  assumes "get_commitment_by_hash E h w = (Inr (Some sc), w')"
  shows "\<exists>r \<in> set (db_commitments (w_db w)). ci_request_hash r = h \<and> commitment_of_row r = Inr sc"
  using assms
  by (force simp: get_commitment_by_hash_def io_Inr find_commitment_def dest!: sql_query_Inr find_Some_mem
      split: option.splits)

lemma get_unprocessed_Inr:
  assumes "get_unprocessed_commitments_for_slot E s w = (Inr scs, w')"
  shows "unat s < 2 ^ 63
     \<and> (\<exists>n. list_all2 (\<lambda>r sc. commitment_of_row r = Inr sc) (select_unprocessed E s n (w_db w)) scs)"
  using assms
  by (auto simp: get_unprocessed_commitments_for_slot_def io_Inr i64_try_from_def
      dest!: sql_query_Inr res_traverse_Inr split: if_splits) 

lemma get_unprocessed_frame:
  "get_unprocessed_commitments_for_slot E s w = (Inr scs, w') \<Longrightarrow> w_db w' = w_db w \<and> w_events w' = w_events w"
  by (auto simp: get_unprocessed_commitments_for_slot_def io_Inr dest!: sql_query_Inr)

text \<open>The commitments read for a slot are its unprocessed rows, the oldest first.\<close>

lemma get_unprocessed_mem:
  assumes "scan_law E" "get_unprocessed_commitments_for_slot E s w = (Inr scs, w')"
  shows "set scs = {sc. \<exists>r \<in> set (db_commitments (w_db w)). ci_slot_number r = Some s
      \<and> \<not> ci_constraint_processed r \<and> commitment_of_row r = Inr sc}"
proof -
  obtain n where l: "list_all2 (\<lambda>r sc. commitment_of_row r = Inr sc) (select_unprocessed E s n (w_db w)) scs"
    using get_unprocessed_Inr [OF assms(2)] by blast
  have "set scs = {sc. \<exists>r \<in> set (select_unprocessed E s n (w_db w)). commitment_of_row r = Inr sc}"
    using l by (induction rule: list_all2_induct) auto
  then show ?thesis by (auto simp: select_unprocessed_set [OF assms(1)])
qed

lemma commitment_of_row_fields:
  "commitment_of_row r = Inr sc \<Longrightarrow> co_request_hash (sg_commitment sc) = ci_request_hash r
   \<and> co_payload (sg_commitment sc) = ci_payload r \<and> co_slasher (sg_commitment sc) = ci_slasher r
   \<and> sg_signature sc = ci_signature r \<and> co_commitment_type (sg_commitment sc) = ci_commitment_type r"
  by (auto simp: commitment_of_row_def u64_try_from_def split: if_splits)

section \<open>What the operations do to the database\<close>

context log_rel
begin

lemma save_commitment_obeys:
  assumes "\<And>uid t time w. i64_try_from (co_commitment_type (sg_commitment sc)) = Some t \<Longrightarrow>
    R w (w\<lparr>w_db := snd (insert_commitment (commitment_row_of (payload_of E) uid t time sc) (w_db w))\<rparr>)"
  shows "obeys R (save_commitment E sc)"
  unfolding save_commitment_def
  by (intro bind_obeys [OF uuid_obeys] res_bind_obeys) (auto intro!: pres sql_obeys assms)

lemma get_commitment_by_hash_obeys [pres]: "obeys R (get_commitment_by_hash E h)"
  unfolding get_commitment_by_hash_def by (intro pres)

lemma commitment_exists_obeys [pres]: "obeys R (commitment_exists E h)"
  unfolding commitment_exists_def by (intro pres)

lemma get_commitment_stats_obeys [pres]: "obeys R (get_commitment_stats E)"
  unfolding get_commitment_stats_def by (intro pres)

lemma get_unprocessed_obeys [pres]: "obeys R (get_unprocessed_commitments_for_slot E s)"
  unfolding get_unprocessed_commitments_for_slot_def by (intro pres)

lemma mark_commitments_obeys:
  assumes "\<And>w. R w (w\<lparr>w_db := snd (mark_processed hs (w_db w))\<rparr>)"
  shows "obeys R (mark_commitments_as_processed E hs)"
  unfolding mark_commitments_as_processed_def by (intro pres sql_obeys assms)

end

end
