(* ===== verification/Delegation_Ops.thy ===== *)
theory Delegation_Ops
  imports Effects
begin

text \<open>
  Storage and retrieval of delegations (\<open>db/delegation_ops.rs\<close>). A delegation is stored only after
  its BLS signature verified; a batch is one transaction. Slots are cast with \<open>as i64\<close>, which
  keeps the bits.
\<close>

section \<open>Operations\<close>

definition delegation_row_of :: "uuid \<Rightarrow> signed_delegation \<Rightarrow> delegation_row" where
  "delegation_row_of uid d =
     \<lparr>dr_id = uid, dr_proposer_pubkey = pk_bytes (dm_proposer (sd_message d)),
      dr_delegate_pubkey = pk_bytes (dm_delegate (sd_message d)),
      dr_committer_address = dm_committer (sd_message d),
      dr_slot_number = dm_slot (sd_message d),
      dr_signature = sig_bytes (sd_signature d), dr_is_active = True\<rparr>"

definition check_delegation :: "env \<Rightarrow> signed_delegation \<Rightarrow> unit res" where
  "check_delegation E d =
     res_bind (context_res ''Failed to verify delegation signature''
       (verify_delegation_signature (hash_of E) (blst_of E) d)) (\<lambda>is_valid.
     if \<not> is_valid then Inl (Bail ''Invalid delegation signature'') else Inr ())"

definition save_delegation :: "env \<Rightarrow> signed_delegation \<Rightarrow> (err, uuid) io" where
  "save_delegation E d =
     io_bind (io_res (check_delegation E d)) (\<lambda>_.
     io_bind (io_uuid E) (\<lambda>uid.
     io_bind (io_context ''Failed to insert delegation into database''
       (sql E (\<lambda>n. insert_delegation (delegation_row_of uid d)))) (\<lambda>_.
     io_return uid)))"

definition delegation_of_row :: "delegation_row \<Rightarrow> signed_delegation res" where
  "delegation_of_row row =
     (if length (dr_proposer_pubkey row) \<noteq> 48 then Inl (Bail ''Invalid proposer pubkey length'')
      else if length (dr_delegate_pubkey row) \<noteq> 48 then Inl (Bail ''Invalid delegate pubkey length'')
      else if length (dr_signature row) \<noteq> 96 then Inl (Bail ''Invalid signature length'')
      else Inr \<lparr>sd_message = \<lparr>dm_proposer = BlsPublicKey (dr_proposer_pubkey row),
                   dm_delegate = BlsPublicKey (dr_delegate_pubkey row),
                   dm_committer = dr_committer_address row, dm_slot = dr_slot_number row\<rparr>,
                sd_signature = BlsSignature (dr_signature row)\<rparr>)"

definition select_for_slot :: "env \<Rightarrow> i64 \<Rightarrow> nat \<Rightarrow> db \<Rightarrow> delegation_row list" where
  "select_for_slot E slot n d =
     scan E n (filter (\<lambda>r. dr_slot_number r = slot \<and> dr_is_active r) (db_delegations d))"

definition get_delegations_for_slot :: "env \<Rightarrow> u64 \<Rightarrow> (err, signed_delegation list) io" where
  "get_delegations_for_slot E slot =
     io_bind (io_context ''Failed to query delegations for slot''
       (sql_query E (select_for_slot E slot))) (\<lambda>rows.
     io_res (res_traverse delegation_of_row rows))"

definition find_delegation :: "bls_public_key \<Rightarrow> i64 \<Rightarrow> db \<Rightarrow> delegation_row option" where
  "find_delegation proposer slot d =
     List.find (\<lambda>r. dr_proposer_pubkey r = pk_bytes proposer \<and> dr_slot_number r = slot \<and> dr_is_active r)
       (db_delegations d)"

definition get_delegation_by_proposer_slot ::
  "env \<Rightarrow> bls_public_key \<Rightarrow> u64 \<Rightarrow> (err, signed_delegation option) io" where
  "get_delegation_by_proposer_slot E proposer slot =
     io_bind (io_context ''Failed to query delegation by proposer and slot''
       (sql_query E (\<lambda>n. find_delegation proposer slot))) (\<lambda>row.
     case row of
       Some r \<Rightarrow> io_bind (io_res (delegation_of_row r)) (\<lambda>d. io_return (Some d))
     | None \<Rightarrow> io_return None)"

definition select_by_delegate :: "env \<Rightarrow> bls_public_key \<Rightarrow> nat \<Rightarrow> db \<Rightarrow> delegation_row list" where
  "select_by_delegate E delegate n d =
     sort_key (\<lambda>r. sint (dr_slot_number r)) (scan E n
       (filter (\<lambda>r. dr_delegate_pubkey r = pk_bytes delegate \<and> dr_is_active r) (db_delegations d)))"

definition get_delegations_by_delegate :: "env \<Rightarrow> bls_public_key \<Rightarrow> (err, signed_delegation list) io" where
  "get_delegations_by_delegate E delegate =
     io_bind (io_context ''Failed to query delegations by delegate''
       (sql_query E (select_by_delegate E delegate))) (\<lambda>rows.
     io_res (res_traverse delegation_of_row rows))"

definition delegation_exists_for_slot_and_committer :: "env \<Rightarrow> u64 \<Rightarrow> string \<Rightarrow> (err, bool) io" where
  "delegation_exists_for_slot_and_committer E slot committer =
     io_context ''Failed to check delegation existence''
       (sql_query E (\<lambda>n d. list_ex (\<lambda>r. dr_slot_number r = slot
          \<and> map to_ascii_lower (dr_committer_address r) = map to_ascii_lower committer
          \<and> dr_is_active r) (db_delegations d)))"

definition expired :: "i64 \<Rightarrow> delegation_row \<Rightarrow> bool" where
  "expired current r = (sint (dr_slot_number r) < sint current \<and> dr_is_active r)"

definition deactivate_row :: "(delegation_row \<Rightarrow> bool) \<Rightarrow> delegation_row \<Rightarrow> delegation_row" where
  "deactivate_row P r = (if P r then r\<lparr>dr_is_active := False\<rparr> else r)"

definition deactivate_where :: "(delegation_row \<Rightarrow> bool) \<Rightarrow> db \<Rightarrow> u64 res \<times> db" where
  "deactivate_where P d =
     (Inr (of_nat (length (filter P (db_delegations d)))),
      d\<lparr>db_delegations := map (deactivate_row P) (db_delegations d)\<rparr>)"

definition deactivate_expired_delegations :: "env \<Rightarrow> u64 \<Rightarrow> (err, u64) io" where
  "deactivate_expired_delegations E current_slot =
     io_context ''Failed to deactivate expired delegations''
       (sql E (\<lambda>n. deactivate_where (expired current_slot)))"

record delegation_stats =
  ds_total_count :: i64
  ds_active_count :: i64
  ds_unique_proposers :: i64
  ds_unique_delegates :: i64
  ds_slots_covered :: i64
  ds_latest_slot :: "int option"

definition count_distinct :: "'a list \<Rightarrow> i64" where
  "count_distinct xs = of_nat (length (remdups xs))"

definition get_delegation_stats :: "env \<Rightarrow> (err, delegation_stats) io" where
  "get_delegation_stats E =
     io_context ''Failed to get delegation statistics''
       (sql_query E (\<lambda>n d.
          let rows = db_delegations d; active = filter dr_is_active rows;
              slots = map (\<lambda>r. sint (dr_slot_number r)) active in
          \<lparr>ds_total_count = of_nat (length rows), ds_active_count = of_nat (length active),
           ds_unique_proposers = count_distinct (map dr_proposer_pubkey rows),
           ds_unique_delegates = count_distinct (map dr_delegate_pubkey rows),
           ds_slots_covered = count_distinct slots,
           ds_latest_slot = (case slots of [] \<Rightarrow> None | s # ss \<Rightarrow> Some (fold max ss s))\<rparr>))"

definition insert_in_batch :: "env \<Rightarrow> signed_delegation \<Rightarrow> uuid list \<Rightarrow> (err, uuid list) io" where
  "insert_in_batch E d ids =
     io_bind (io_uuid E) (\<lambda>uid.
     io_bind (io_context ''Failed to insert delegation in batch''
       (sql E (\<lambda>n. insert_delegation_on_conflict (delegation_row_of uid d)))) (\<lambda>inserted.
     io_return (if inserted then ids @ [uid] else ids)))"

definition save_delegations_batch :: "env \<Rightarrow> signed_delegation list \<Rightarrow> (err, uuid list) io" where
  "save_delegations_batch E ds =
     io_bind (io_for ds (\<lambda>d. io_res (check_delegation E d))) (\<lambda>_.
     sql_transaction E ''Failed to begin transaction'' ''Failed to commit delegation batch''
       (io_fold (insert_in_batch E) ds []))"

section \<open>Rows\<close>

lemma delegation_of_row_Inr:
  "delegation_of_row r = Inr d \<longleftrightarrow>
     wf_delegation d \<and> pk_bytes (dm_proposer (sd_message d)) = dr_proposer_pubkey r
     \<and> pk_bytes (dm_delegate (sd_message d)) = dr_delegate_pubkey r
     \<and> dm_committer (sd_message d) = dr_committer_address r
     \<and> dm_slot (sd_message d) = dr_slot_number r
     \<and> sig_bytes (sd_signature d) = dr_signature r"
  by (cases d; cases "sd_message d")
    (auto simp: delegation_of_row_def wf_delegation_def wf_pk_def wf_sig_def
      intro: bls_public_key.expand bls_signature.expand)

text \<open>What is stored is read back: the slot survives both casts.\<close>

lemma delegation_of_row_of:
  "wf_delegation d \<Longrightarrow> delegation_of_row (delegation_row_of uid d) = Inr d"
  by (simp add: delegation_of_row_Inr delegation_row_of_def)

lemma delegation_row_reads_back:
  "delegation_check (delegation_row_of uid d) \<Longrightarrow> delegation_of_row (delegation_row_of uid d) = Inr d"
  by (rule delegation_of_row_of)
    (simp add: delegation_check_def delegation_row_of_def wf_delegation_def wf_pk_def wf_sig_def)

lemma delegation_of_row_checked:
  assumes "delegation_check r"
  obtains d where "delegation_of_row r = Inr d"
  using assms by (auto simp: delegation_of_row_def delegation_check_def)

lemma deactivate_row_simps [simp]:
  "dr_id (deactivate_row P r) = dr_id r"
  "delegation_key (deactivate_row P r) = delegation_key r"
  "delegation_check (deactivate_row P r) = delegation_check r"
  "delegation_of_row (deactivate_row P r) = delegation_of_row r"
  "dr_slot_number (deactivate_row P r) = dr_slot_number r"
  "dr_is_active (deactivate_row P r) = (dr_is_active r \<and> \<not> P r)"
  by (simp_all add: deactivate_row_def delegation_key_def delegation_check_def delegation_of_row_def)

lemma deactivate_where_inv: "db_inv d \<Longrightarrow> db_inv (snd (deactivate_where P d))"
  by (simp add: db_inv_def deactivate_where_def comp_def list_all_iff)

lemma select_for_slot_set:
  "scan_law E \<Longrightarrow> set (select_for_slot E s n d)
     = {r \<in> set (db_delegations d). dr_slot_number r = s \<and> dr_is_active r}"
  by (auto simp: select_for_slot_def set_scan)

lemma check_delegation_Inr:
  "check_delegation E d = Inr u \<longleftrightarrow> verify_delegation_signature (hash_of E) (blst_of E) d = Inr True"
  by (auto simp: check_delegation_def split: if_splits)

section \<open>Results of the operations\<close>

lemma get_delegations_for_slot_Inr:
  assumes "get_delegations_for_slot E s w = (Inr ds, w')"
  shows "w_db w' = w_db w \<and> (\<exists>n. list_all2 (\<lambda>r d. delegation_of_row r = Inr d)
           (select_for_slot E s n (w_db w)) ds)"
  using assms
  by (fastforce simp: get_delegations_for_slot_def io_Inr dest!: sql_query_Inr res_traverse_Inr)

text \<open>Every delegation read for a slot is an active row of that slot.\<close>

lemma get_delegations_for_slot_mem:
  assumes "scan_law E" "get_delegations_for_slot E s w = (Inr ds, w')" "d \<in> set ds"
  shows "\<exists>r \<in> set (db_delegations (w_db w)). dr_slot_number r = s \<and> dr_is_active r
           \<and> delegation_of_row r = Inr d"
proof -
  obtain n where l: "list_all2 (\<lambda>r d. delegation_of_row r = Inr d) (select_for_slot E s n (w_db w)) ds"
    using get_delegations_for_slot_Inr [OF assms(2)] by blast
  then obtain r where "r \<in> set (select_for_slot E s n (w_db w))" "delegation_of_row r = Inr d"
    using assms(3) by (auto simp: list_all2_conv_all_nth set_conv_nth [of ds]) (metis nth_mem)
  then show ?thesis using assms(1) by (auto simp: select_for_slot_set)
qed

lemma get_delegation_by_proposer_slot_Some:
  assumes "get_delegation_by_proposer_slot E k s w = (Inr (Some d), w')"
  shows "\<exists>r \<in> set (db_delegations (w_db w)). dr_proposer_pubkey r = pk_bytes k
           \<and> dr_slot_number r = s \<and> dr_is_active r \<and> delegation_of_row r = Inr d"
  using assms
  by (force simp: get_delegation_by_proposer_slot_def io_Inr find_delegation_def
      dest!: sql_query_Inr find_Some_mem split: option.splits)

lemma deactivate_expired_Inr:
  "deactivate_expired_delegations E c w = (Inr k, w') \<Longrightarrow>
   w_db w' = snd (deactivate_where (expired c) (w_db w))"
  by (auto simp: deactivate_expired_delegations_def io_Inr dest!: sql_Inr)

lemma save_delegation_Inr:
  assumes "save_delegation E d w = (Inr uid, w')"
  shows "verify_delegation_signature (hash_of E) (blst_of E) d = Inr True
    \<and> delegation_key (delegation_row_of uid d) \<notin> delegation_key ` set (db_delegations (w_db w))
    \<and> db_delegations (w_db w') = db_delegations (w_db w) @ [delegation_row_of uid d]"
  using assms
  by (auto simp: save_delegation_def io_Inr io_uuid_def check_delegation_Inr insert_delegation_Inr
      dest!: sql_Inr)

section \<open>What the operations do to the database\<close>

context log_rel
begin

lemma save_delegation_obeys:
  assumes "\<And>uid w. verify_delegation_signature (hash_of E) (blst_of E) d = Inr True \<Longrightarrow>
             R w (w\<lparr>w_db := snd (insert_delegation (delegation_row_of uid d) (w_db w))\<rparr>)"
  shows "obeys R (save_delegation E d)"
proof (cases "check_delegation E d")
  case (Inl e)
  have "save_delegation E d = io_fail e"
    by (rule ext) (simp add: save_delegation_def Inl io_bind_def io_res_def io_fail_def)
  then show ?thesis by (simp add: fail_obeys)
next
  case (Inr u)
  then show ?thesis unfolding save_delegation_def
    by (intro pres sql_obeys assms) (auto simp: check_delegation_Inr)
qed

lemma get_delegations_for_slot_obeys [pres]: "obeys R (get_delegations_for_slot E s)"
  unfolding get_delegations_for_slot_def by (intro pres)

lemma get_delegation_by_proposer_slot_obeys [pres]: "obeys R (get_delegation_by_proposer_slot E k s)"
  unfolding get_delegation_by_proposer_slot_def by (intro pres)

lemma get_delegations_by_delegate_obeys [pres]: "obeys R (get_delegations_by_delegate E k)"
  unfolding get_delegations_by_delegate_def by (intro pres)

lemma delegation_exists_obeys [pres]: "obeys R (delegation_exists_for_slot_and_committer E s c)"
  unfolding delegation_exists_for_slot_and_committer_def by (intro pres)

lemma get_delegation_stats_obeys [pres]: "obeys R (get_delegation_stats E)"
  unfolding get_delegation_stats_def by (intro pres)

lemma deactivate_expired_obeys:
  assumes "\<And>w. R w (w\<lparr>w_db := snd (deactivate_where (expired c) (w_db w))\<rparr>)"
  shows "obeys R (deactivate_expired_delegations E c)"
  unfolding deactivate_expired_delegations_def by (intro pres sql_obeys assms)

end

end
