(* ===== verification/Congestion_Ops.thy ===== *)
theory Congestion_Ops
  imports Effects
begin

text \<open>
  Congestion tracking per slot (\<open>db/slot_congestion_ops.rs\<close>): the update of the metrics by
  additional gas on 64-bit words and doubles, and the statements on \<open>slot_congestion\<close>. The
  exponentiation \<open>powf\<close> is a parameter. A \<open>SystemTime\<close> is a number of seconds since the epoch; adding
  more than \<open>i64::MAX\<close> seconds to it panics.
\<close>

section \<open>The in-memory record\<close>

record slot_congestion =
  gc_id :: "int option"
  gc_slot :: u64
  gc_preconfirmed_gas :: u64
  gc_total_gas_limit :: u64
  gc_gas_used_ratio :: f64
  gc_base_gas_price :: u64
  gc_calculated_fee_multiplier :: f64
  gc_current_tx_price :: u64
  gc_slot_start_time :: u64
  gc_last_updated :: "u64 option"
  gc_created_at :: "u64 option"

definition slot_congestion_new :: "u64 \<Rightarrow> u64 \<Rightarrow> u64 \<Rightarrow> u64 \<Rightarrow> slot_congestion" where
  "slot_congestion_new slot base_gas_price total_gas_limit slot_start_time =
     \<lparr>gc_id = None, gc_slot = slot, gc_preconfirmed_gas = 0, gc_total_gas_limit = total_gas_limit,
      gc_gas_used_ratio = FNum 0, gc_base_gas_price = base_gas_price,
      gc_calculated_fee_multiplier = FNum 1, gc_current_tx_price = base_gas_price,
      gc_slot_start_time = slot_start_time, gc_last_updated = None, gc_created_at = None\<rparr>"

definition with_fallback_price :: "slot_congestion \<Rightarrow> slot_congestion" where
  "with_fallback_price c = c\<lparr>gc_gas_used_ratio := FNum 0, gc_calculated_fee_multiplier := FNum 100,
     gc_current_tx_price := saturating_mul (gc_base_gas_price c) 100\<rparr>"

definition congestion_multiplier :: "(f64 \<Rightarrow> f64 \<Rightarrow> f64) \<Rightarrow> f64 \<Rightarrow> f64 \<Rightarrow> f64" where
  "congestion_multiplier powf k ratio =
     (let m = (if f64_le (FNum 1) ratio then FNum 100
               else f64_div (FNum 1) (f64_sub (FNum 1) (powf ratio k)))
      in if \<not> is_finite m then FNum 100 else f64_clamp m (FNum 1) (FNum 100))"

definition scaled_tx_price :: "u64 \<Rightarrow> f64 \<Rightarrow> u64" where
  "scaled_tx_price base m =
     (let p = f64_mul (f64_of_u64 base) m
      in if \<not> is_finite p \<or> f64_lt p (FNum 0) then saturating_mul base 100
         else f64_to_u64 (f64_ceil p))"

definition add_gas_usage :: "(f64 \<Rightarrow> f64 \<Rightarrow> f64) \<Rightarrow> u64 \<Rightarrow> f64 \<Rightarrow> slot_congestion \<Rightarrow> slot_congestion" where
  "add_gas_usage powf additional_gas scaling_factor c0 =
     (let c = c0\<lparr>gc_preconfirmed_gas := saturating_add (gc_preconfirmed_gas c0) additional_gas\<rparr>;
          ratio = f64_max (f64_div (f64_of_u64 (gc_preconfirmed_gas c)) (f64_of_u64 (gc_total_gas_limit c)))
                    (FNum 0)
      in if gc_total_gas_limit c = 0 then with_fallback_price c
         else if \<not> is_finite ratio then with_fallback_price c
         else let m = congestion_multiplier powf scaling_factor ratio
              in c\<lparr>gc_gas_used_ratio := ratio, gc_calculated_fee_multiplier := m,
                   gc_current_tx_price := scaled_tx_price (gc_base_gas_price c) m\<rparr>)"

section \<open>Statements\<close>

definition slot_start_timestamp :: "u64 \<Rightarrow> u64 \<Rightarrow> u64" where
  "slot_start_timestamp genesis_time slot = saturating_add genesis_time (saturating_mul slot 12)"

text \<open>\<open>UNIX_EPOCH + Duration::from_secs(t.and_utc().timestamp() as u64)\<close> for a stored time.\<close>

definition system_time_of_db :: "int \<Rightarrow> u64 res" where
  "system_time_of_db micros = system_time (of_int (micros div 1000000))"

definition system_time_opt :: "int option \<Rightarrow> u64 option res" where
  "system_time_opt t = (case t of None \<Rightarrow> Inr None | Some m \<Rightarrow> res_map Some (system_time_of_db m))"

definition congestion_of_row :: "congestion_row \<Rightarrow> slot_congestion res" where
  "congestion_of_row r =
     res_bind (system_time_of_db (gr_slot_start_time r)) (\<lambda>start.
     res_bind (system_time_opt (gr_last_updated r)) (\<lambda>updated.
     res_bind (system_time_opt (gr_created_at r)) (\<lambda>created.
     Inr \<lparr>gc_id = Some (gr_id r), gc_slot = gr_slot r, gc_preconfirmed_gas = gr_preconfirmed_gas r,
          gc_total_gas_limit = gr_total_gas_limit r, gc_gas_used_ratio = gr_gas_used_ratio r,
          gc_base_gas_price = gr_base_gas_price r,
          gc_calculated_fee_multiplier = gr_calculated_fee_multiplier r,
          gc_current_tx_price = gr_current_tx_price r, gc_slot_start_time = start,
          gc_last_updated = updated, gc_created_at = created\<rparr>)))"

text \<open>The columns with a default (\<open>last_updated\<close>, \<open>created_at\<close>) take the time of the statement.\<close>

definition congestion_row_of :: "slot_congestion \<Rightarrow> int \<Rightarrow> congestion_row" where
  "congestion_row_of c time =
     \<lparr>gr_id = 0, gr_slot = gc_slot c, gr_preconfirmed_gas = gc_preconfirmed_gas c,
      gr_total_gas_limit = gc_total_gas_limit c, gr_gas_used_ratio = gc_gas_used_ratio c,
      gr_base_gas_price = gc_base_gas_price c,
      gr_calculated_fee_multiplier = gc_calculated_fee_multiplier c,
      gr_current_tx_price = gc_current_tx_price c,
      gr_slot_start_time = sint (gc_slot_start_time c) * 1000000,
      gr_last_updated = Some time, gr_created_at = Some time\<rparr>"

definition insert_congestion_returning :: "congestion_row \<Rightarrow> db \<Rightarrow> int option res \<times> db" where
  "insert_congestion_returning r d =
     (case insert_congestion r d of
        (Inl e, d') \<Rightarrow> (Inl e, d')
      | (Inr inserted, d') \<Rightarrow> (Inr (if inserted then Some (db_congestion_seq d') else None), d'))"

definition find_congestion :: "i64 \<Rightarrow> db \<Rightarrow> congestion_row option" where
  "find_congestion slot d = List.find (\<lambda>r. gr_slot r = slot) (db_congestion d)"

definition get_slot_congestion :: "env \<Rightarrow> u64 \<Rightarrow> (err, slot_congestion option) io" where
  "get_slot_congestion E slot =
     io_bind (io_context ''Failed to query slot congestion''
       (sql_query E (\<lambda>n. find_congestion slot))) (\<lambda>row.
     case row of
       Some r \<Rightarrow> io_bind (io_res (congestion_of_row r)) (\<lambda>c. io_return (Some c))
     | None \<Rightarrow> io_return None)"

definition get_or_create_slot_congestion ::
  "env \<Rightarrow> u64 \<Rightarrow> u64 \<Rightarrow> u64 \<Rightarrow> u64 \<Rightarrow> (err, slot_congestion) io" where
  "get_or_create_slot_congestion E slot base_gas_price total_gas_limit genesis_time =
     (let ts = slot_start_timestamp genesis_time slot in
      io_bind (io_res (system_time ts)) (\<lambda>slot_start_time.
      let congestion = slot_congestion_new slot base_gas_price total_gas_limit slot_start_time in
      io_bind (io_res (ensure (c_chrono_ok (e_crates E) ts) (Bail ''Invalid slot start timestamp''))) (\<lambda>_.
      io_bind (io_context ''Failed to insert slot congestion record''
        (sql E (\<lambda>n. insert_congestion_returning (congestion_row_of congestion (e_db_time E n))))) (\<lambda>inserted.
      case inserted of
        Some row_id \<Rightarrow> io_return (congestion\<lparr>gc_id := Some row_id\<rparr>)
      | None \<Rightarrow>
          io_bind (get_slot_congestion E slot) (\<lambda>existing.
          io_res (res_of (Bail ''Slot congestion unexpectedly missing after insert'') existing))))))"

definition congestion_updated :: "slot_congestion \<Rightarrow> int \<Rightarrow> congestion_row \<Rightarrow> congestion_row" where
  "congestion_updated c time r =
     r\<lparr>gr_preconfirmed_gas := gc_preconfirmed_gas c, gr_gas_used_ratio := gc_gas_used_ratio c,
       gr_calculated_fee_multiplier := gc_calculated_fee_multiplier c,
       gr_current_tx_price := gc_current_tx_price c, gr_last_updated := Some time\<rparr>"

definition update_congestion :: "i64 \<Rightarrow> slot_congestion \<Rightarrow> int \<Rightarrow> db \<Rightarrow> unit res \<times> db" where
  "update_congestion slot c time d =
     (Inr (), d\<lparr>db_congestion :=
        map (\<lambda>r. if gr_slot r = slot then congestion_updated c time r else r) (db_congestion d)\<rparr>)"

definition update_slot_congestion_gas_usage :: "env \<Rightarrow> u64 \<Rightarrow> u64 \<Rightarrow> f64 \<Rightarrow> (err, slot_congestion) io" where
  "update_slot_congestion_gas_usage E slot additional_gas scaling_factor =
     sql_transaction E ''Failed to begin slot congestion update transaction''
       ''Failed to commit slot congestion update transaction''
       (io_bind (io_context ''Failed to lock slot congestion row''
          (sql_query E (\<lambda>n. find_congestion slot))) (\<lambda>found.
        io_bind (io_res (res_of (Bail ''Slot congestion record not found'') found)) (\<lambda>row.
        io_bind (io_res (congestion_of_row row)) (\<lambda>c0.
        let c = add_gas_usage (c_powf (e_crates E)) additional_gas scaling_factor c0 in
        io_bind (io_context ''Failed to update slot congestion''
          (sql E (\<lambda>n. update_congestion slot c (e_db_time E n)))) (\<lambda>_.
        io_return c)))))"

definition get_current_gas_price_for_slot :: "env \<Rightarrow> u64 \<Rightarrow> (err, u64 option) io" where
  "get_current_gas_price_for_slot E slot =
     io_context ''Failed to query current gas price for slot''
       (sql_query E (\<lambda>n d. map_option gr_current_tx_price (find_congestion slot d)))"

definition delete_older :: "int \<Rightarrow> db \<Rightarrow> u64 res \<times> db" where
  "delete_older cutoff d =
     (Inr (of_nat (length (filter (\<lambda>r. gr_slot_start_time r < cutoff) (db_congestion d)))),
      d\<lparr>db_congestion := filter (\<lambda>r. \<not> gr_slot_start_time r < cutoff) (db_congestion d)\<rparr>)"

definition cleanup_old_slot_congestion :: "env \<Rightarrow> 32 word \<Rightarrow> (err, u64) io" where
  "cleanup_old_slot_congestion E hours_to_keep =
     (let secs = saturating_mul (ucast hours_to_keep) 3600 in
      io_bind (io_now E) (\<lambda>now.
      if now < secs then io_fail (Bail ''second time provided was later than self'')
      else let cutoff = now - secs in
        io_bind (io_res (ensure (c_chrono_ok (e_crates E) cutoff) (Bail ''Invalid cutoff timestamp''))) (\<lambda>_.
        io_context ''Failed to cleanup old slot congestion records''
          (sql E (\<lambda>n. delete_older (sint cutoff * 1000000))))))"

record congestion_stats =
  gs_total_slots_tracked :: u64
  gs_current_average_congestion :: f64
  gs_highest_congestion_slot :: "u64 option"
  gs_highest_congestion_ratio :: f64
  gs_average_fee_multiplier :: f64

text \<open>The order of doubles in PostgreSQL: a NaN is the greatest.\<close>

definition pg_le :: "f64 \<Rightarrow> f64 \<Rightarrow> bool" where
  "pg_le a b = (b = FNaN \<or> f64_le a b)"

fun pg_max :: "f64 list \<Rightarrow> f64 option" where
  "pg_max [] = None"
| "pg_max (x # xs) = (case pg_max xs of None \<Rightarrow> Some x | Some y \<Rightarrow> Some (if pg_le y x then x else y))"

definition recent_rows :: "env \<Rightarrow> nat \<Rightarrow> db \<Rightarrow> congestion_row list" where
  "recent_rows E n d =
     filter (\<lambda>r. e_db_time E n - 86400000000 < gr_slot_start_time r) (db_congestion d)"

definition get_congestion_stats :: "env \<Rightarrow> (err, congestion_stats) io" where
  "get_congestion_stats E =
     io_bind (io_context ''Failed to get congestion statistics''
       (sql_query E (\<lambda>n d. let rows = recent_rows E n d; rs = scan E n rows in
          (length rows,
           if rows = [] then FNum 0 else e_avg E (map gr_gas_used_ratio rs),
           if rows = [] then FNum 1 else e_avg E (map gr_calculated_fee_multiplier rs),
           case pg_max (map gr_gas_used_ratio rows) of None \<Rightarrow> FNum 0 | Some m \<Rightarrow> m)))) (\<lambda>(total, avg_c, avg_m, max_c).
     io_bind
       (if f64_lt (FNum 0) max_c
        then io_bind (io_context ''Failed to find highest congestion slot''
               (sql_query E (\<lambda>n d. let rs = scan E n (recent_rows E n d) in
                  List.find (\<lambda>r. list_all (\<lambda>r'. pg_le (gr_gas_used_ratio r') (gr_gas_used_ratio r)) rs) rs))) (\<lambda>row.
             io_return (map_option gr_slot row))
        else io_return None) (\<lambda>highest.
     io_return \<lparr>gs_total_slots_tracked = of_nat total, gs_current_average_congestion = avg_c,
       gs_highest_congestion_slot = highest, gs_highest_congestion_ratio = max_c,
       gs_average_fee_multiplier = avg_m\<rparr>))"

section \<open>The fee multiplier and the price\<close>

text \<open>Whatever \<open>powf\<close> returns, the multiplier is a number between 1 and 100.\<close>

lemma congestion_multiplier_range:
  "f64_le (FNum 1) (congestion_multiplier powf k ratio)"
  "f64_le (congestion_multiplier powf k ratio) (FNum 100)"
proof -
  have "x \<noteq> FNaN" if "is_finite x" for x using that by auto
  note range = f64_clamp_range [OF this, of _ "FNum 1" "FNum 100"]
  show "f64_le (FNum 1) (congestion_multiplier powf k ratio)"
    "f64_le (congestion_multiplier powf k ratio) (FNum 100)"
    by (auto simp: congestion_multiplier_def Let_def intro: range)
qed

lemma f64_between:
  assumes "f64_le (FNum a) m" "f64_le m (FNum b)" "0 < a"
  obtains r where "m = FNum r" "a \<le> r" "r \<le> b"
  using assms by (cases m) auto

lemma f64_mul_pos: "0 \<le> a \<Longrightarrow> 0 < b \<Longrightarrow> f64_mul (FNum a) (FNum b) = round_f64 False (a * b)"
  by (simp add: f64_mul_def is_zero_def)

lemma scaled_tx_price_lower:
  assumes "unat base \<le> 2 ^ 53" "f64_le (FNum 1) m" "f64_le m (FNum 100)"
  shows "base \<le> scaled_tx_price base m"
proof -
  obtain r where r: "m = FNum r" "1 \<le> r"
    using f64_between [OF assms(2,3)] by auto
  let ?b = "of_nat (unat base) :: rat"
  let ?p = "f64_mul (f64_of_u64 base) m"
  have p: "?p = round_f64 False (?b * r)"
    using r f64_mul_pos [of ?b r] by (simp add: f64_of_u64_small [OF assms(1)] del: of_nat_unat)
  have "?b \<le> ?b * r" using r(2) by (simp add: mult_le_cancel_left1 del: of_nat_unat)
  then have "f64_le (FNum ?b) ?p" unfolding p using assms(1) by (rule round_f64_lower)
  then have "f64_to_u64 (FNum ?b) \<le> f64_to_u64 (f64_ceil ?p)"
    by (metis f64_ceil_mono f64_ceil_of_nat f64_to_u64_mono)
  moreover have "f64_to_u64 (FNum ?b) = base"
    using f64_to_u64_of_nat [OF unat_u64_less [of base]] by (simp add: word_unat_eq_iff del: of_nat_unat)
  moreover have "base \<le> saturating_mul base 100"
    using unat_u64_le [of base] by (simp add: word_le_nat_alt unat_saturating_mul)
  ultimately show ?thesis by (simp add: scaled_tx_price_def Let_def)
qed

lemma scaled_tx_price_upper:
  assumes "100 * unat base \<le> 2 ^ 53" "f64_le (FNum 1) m" "f64_le m (FNum 100)"
  shows "unat (scaled_tx_price base m) \<le> 100 * unat base"
proof -
  obtain r where r: "m = FNum r" "1 \<le> r" "r \<le> 100"
    using f64_between [OF assms(2,3)] by auto
  let ?b = "of_nat (unat base) :: rat"
  let ?p = "f64_mul (f64_of_u64 base) m"
  have base: "unat base \<le> 2 ^ 53" using assms(1) by linarith
  have p: "?p = round_f64 False (?b * r)"
    using r f64_mul_pos [of ?b r] by (simp add: f64_of_u64_small [OF base] del: of_nat_unat)
  have "?b * r \<le> ?b * 100" using r(3) by (intro mult_left_mono) (simp_all del: of_nat_unat)
  also have "\<dots> = of_nat (100 * unat base)" by simp
  finally have "f64_le ?p (FNum (of_nat (100 * unat base)))"
    unfolding p using assms(1) r(2) by (intro round_f64_upper) (simp_all del: of_nat_unat)
  then have "f64_to_u64 (f64_ceil ?p) \<le> f64_to_u64 (FNum (of_nat (100 * unat base)))"
    by (metis f64_ceil_mono f64_ceil_of_nat f64_to_u64_mono)
  then have "unat (f64_to_u64 (f64_ceil ?p)) \<le> 100 * unat base"
    using f64_to_u64_of_nat [of "100 * unat base"] assms(1)
    by (simp add: word_le_nat_alt del: of_nat_unat of_nat_mult)
  then show ?thesis
    by (simp add: scaled_tx_price_def Let_def unat_saturating_mul min_le_iff_disj)
qed

lemma add_gas_usage_frame:
  "gc_id (add_gas_usage powf g k c) = gc_id c"
  "gc_slot (add_gas_usage powf g k c) = gc_slot c"
  "gc_total_gas_limit (add_gas_usage powf g k c) = gc_total_gas_limit c"
  "gc_base_gas_price (add_gas_usage powf g k c) = gc_base_gas_price c"
  "gc_slot_start_time (add_gas_usage powf g k c) = gc_slot_start_time c"
  "gc_preconfirmed_gas (add_gas_usage powf g k c) = saturating_add (gc_preconfirmed_gas c) g"
  by (simp_all add: add_gas_usage_def with_fallback_price_def Let_def)

lemma add_gas_usage_multiplier:
  "f64_le (FNum 1) (gc_calculated_fee_multiplier (add_gas_usage powf g k c))"
  "f64_le (gc_calculated_fee_multiplier (add_gas_usage powf g k c)) (FNum 100)"
  using congestion_multiplier_range by (simp_all add: add_gas_usage_def with_fallback_price_def Let_def)

lemma add_gas_usage_price:
  "gc_current_tx_price (add_gas_usage powf g k c) = saturating_mul (gc_base_gas_price c) 100
   \<or> gc_current_tx_price (add_gas_usage powf g k c)
       = scaled_tx_price (gc_base_gas_price c) (gc_calculated_fee_multiplier (add_gas_usage powf g k c))"
  by (simp add: add_gas_usage_def with_fallback_price_def Let_def)

lemma add_gas_usage_price_lower:
  assumes "unat (gc_base_gas_price c) \<le> 2 ^ 53"
  shows "gc_base_gas_price c \<le> gc_current_tx_price (add_gas_usage powf g k c)"
proof -
  have "gc_base_gas_price c \<le> saturating_mul (gc_base_gas_price c) 100"
    using unat_u64_le by (simp add: word_le_nat_alt unat_saturating_mul)
  then show ?thesis
    using add_gas_usage_price [of powf g k c] scaled_tx_price_lower [OF assms] add_gas_usage_multiplier
    by (metis (no_types))
qed

lemma add_gas_usage_price_upper:
  assumes "100 * unat (gc_base_gas_price c) \<le> 2 ^ 53"
  shows "unat (gc_current_tx_price (add_gas_usage powf g k c)) \<le> 100 * unat (gc_base_gas_price c)"
proof -
  have "unat (saturating_mul (gc_base_gas_price c) 100) \<le> 100 * unat (gc_base_gas_price c)"
    by (simp add: unat_saturating_mul min_le_iff_disj)
  then show ?thesis
    using add_gas_usage_price [of powf g k c] scaled_tx_price_upper [OF assms] add_gas_usage_multiplier
    by (metis (no_types))
qed

text \<open>A sequence of updates accumulates the sum of the gas, up to the largest \<open>u64\<close>.\<close>

lemma add_gas_usage_sum:
  "unat (gc_preconfirmed_gas (fold (\<lambda>g. add_gas_usage powf g k) gs c))
     = min (unat (gc_preconfirmed_gas c) + sum_list (map unat gs)) (2 ^ 64 - 1)"
proof (induction gs arbitrary: c)
  case Nil
  then show ?case using unat_u64_le [of "gc_preconfirmed_gas c"] by simp
next
  case (Cons g gs)
  then show ?case by (simp add: add_gas_usage_frame unat_saturating_add min_def)
qed

section \<open>Results of the operations\<close>

definition congestion_matches :: "slot_congestion \<Rightarrow> congestion_row \<Rightarrow> bool" where
  "congestion_matches c r =
     (gc_id c = Some (gr_id r) \<and> gc_slot c = gr_slot r \<and> gc_preconfirmed_gas c = gr_preconfirmed_gas r
      \<and> gc_total_gas_limit c = gr_total_gas_limit r \<and> gc_gas_used_ratio c = gr_gas_used_ratio r
      \<and> gc_base_gas_price c = gr_base_gas_price r
      \<and> gc_calculated_fee_multiplier c = gr_calculated_fee_multiplier r
      \<and> gc_current_tx_price c = gr_current_tx_price r)"

lemma congestion_of_row_matches: "congestion_of_row r = Inr c \<Longrightarrow> congestion_matches c r"
  by (auto simp: congestion_of_row_def congestion_matches_def)

lemma find_congestion_Some:
  "find_congestion s d = Some r \<Longrightarrow> r \<in> set (db_congestion d) \<and> gr_slot r = s"
  by (auto simp: find_congestion_def dest: find_Some_mem)

lemma get_slot_congestion_Some:
  assumes "get_slot_congestion E s w = (Inr (Some c), w')"
  shows "w_db w' = w_db w \<and> (\<exists>r \<in> set (db_congestion (w_db w)). gr_slot r = s \<and> congestion_of_row r = Inr c)"
  using assms
  by (force simp: get_slot_congestion_def io_Inr dest!: sql_query_Inr find_congestion_Some
      split: option.splits)

lemma insert_congestion_returning_Inr:
  "insert_congestion_returning r d = (Inr res, d') \<longleftrightarrow>
     db_congestion_seq d + 1 < 2 ^ 31 \<and>
     (if gr_slot r \<in> gr_slot ` set (db_congestion d)
      then res = None \<and> d' = d\<lparr>db_congestion_seq := db_congestion_seq d + 1\<rparr>
      else res = Some (db_congestion_seq d + 1)
        \<and> d' = d\<lparr>db_congestion_seq := db_congestion_seq d + 1,
                db_congestion := db_congestion d @ [r\<lparr>gr_id := db_congestion_seq d + 1\<rparr>]\<rparr>)"
  by (auto simp: insert_congestion_returning_def insert_congestion_def Let_def)

text \<open>
  After \<open>get_or_create\<close> the slot has a row and the result agrees with it; a row that was there
  before is returned as it is, and no other row changes.
\<close>

lemma get_or_create_Inr:
  assumes "get_or_create_slot_congestion E s base limit g w = (Inr c, w')"
  shows "\<exists>r \<in> set (db_congestion (w_db w')). gr_slot r = s \<and> congestion_matches c r"
    and "s \<in> gr_slot ` set (db_congestion (w_db w)) \<Longrightarrow> db_congestion (w_db w') = db_congestion (w_db w)"
    and "s \<notin> gr_slot ` set (db_congestion (w_db w)) \<Longrightarrow>
      \<exists>r. db_congestion (w_db w') = db_congestion (w_db w) @ [r] \<and> gr_slot r = s
        \<and> gr_preconfirmed_gas r = 0 \<and> gr_base_gas_price r = base \<and> gr_total_gas_limit r = limit
        \<and> gr_current_tx_price r = base \<and> congestion_matches c r"
proof -
  note a = assms [unfolded get_or_create_slot_congestion_def]
  obtain w1 res where i: "insert_congestion_returning (congestion_row_of (slot_congestion_new s base limit
        (slot_start_timestamp g s)) (e_db_time E (w_tick w))) (w_db w) = (Inr res, w_db w1)"
    and c: "(case res of Some row_id \<Rightarrow>
        io_return ((slot_congestion_new s base limit (slot_start_timestamp g s))\<lparr>gc_id := Some row_id\<rparr>)
      | None \<Rightarrow> io_bind (get_slot_congestion E s) (\<lambda>existing.
          io_res (res_of (Bail ''Slot congestion unexpectedly missing after insert'') existing))) w1 = (Inr c, w')"
    using a by (force simp: io_Inr Let_def system_time_def dest!: sql_Inr split: if_splits)
  have key: "gr_slot (congestion_row_of (slot_congestion_new s base limit t) x) = s" for t x
    by (simp add: congestion_row_of_def slot_congestion_new_def)
  show "\<exists>r \<in> set (db_congestion (w_db w')). gr_slot r = s \<and> congestion_matches c r"
    using i c
    by (fastforce simp: insert_congestion_returning_Inr key io_Inr congestion_matches_def
        slot_congestion_new_def congestion_row_of_def dest!: get_slot_congestion_Some
        congestion_of_row_matches split: option.splits if_splits)
  show "s \<in> gr_slot ` set (db_congestion (w_db w)) \<Longrightarrow> db_congestion (w_db w') = db_congestion (w_db w)"
    using i c
    by (auto simp: insert_congestion_returning_Inr key io_Inr dest!: get_slot_congestion_Some
        split: option.splits)
  show "s \<notin> gr_slot ` set (db_congestion (w_db w)) \<Longrightarrow>
      \<exists>r. db_congestion (w_db w') = db_congestion (w_db w) @ [r] \<and> gr_slot r = s
        \<and> gr_preconfirmed_gas r = 0 \<and> gr_base_gas_price r = base \<and> gr_total_gas_limit r = limit
        \<and> gr_current_tx_price r = base \<and> congestion_matches c r"
    using i c
    by (auto simp: insert_congestion_returning_Inr key io_Inr congestion_matches_def
        slot_congestion_new_def congestion_row_of_def split: option.splits)
qed

text \<open>A committed update adds the gas to the row of the slot and leaves the other rows alone.\<close>

lemma update_gas_usage_Inr:
  assumes "update_slot_congestion_gas_usage E s g k w = (Inr c, w')"
  shows "\<exists>r c0 time. find_congestion s (w_db w) = Some r \<and> congestion_of_row r = Inr c0
     \<and> c = add_gas_usage (c_powf (e_crates E)) g k c0
     \<and> w_db w' = snd (update_congestion s c time (w_db w))"
  using assms
  by (auto simp: update_slot_congestion_gas_usage_def io_Inr Let_def update_congestion_def
      dest!: sql_transaction_Inr sql_Inr sql_query_Inr) (rule exI, erule sym)

section \<open>What the operations do to the database\<close>

lemma update_congestion_inv: "db_inv d \<Longrightarrow> db_inv (snd (update_congestion s c t d))"
  by (auto simp: db_inv_def update_congestion_def comp_def congestion_updated_def if_distrib
      cong: if_cong)

lemma delete_older_inv: "db_inv d \<Longrightarrow> db_inv (snd (delete_older t d))"
  by (simp add: db_inv_def delete_older_def distinct_map_filter)

lemma insert_congestion_returning_snd:
  "snd (insert_congestion_returning r d) = snd (insert_congestion r d)"
  by (simp add: insert_congestion_returning_def split: prod.split sum.split)

context quiet_rel
begin

lemma get_slot_congestion_obeys [pres]: "obeys R (get_slot_congestion E s)"
  unfolding get_slot_congestion_def by (intro pres)

lemma get_current_gas_price_obeys [pres]: "obeys R (get_current_gas_price_for_slot E s)"
  unfolding get_current_gas_price_for_slot_def by (intro pres)

lemma get_or_create_obeys:
  assumes "\<And>r w. R w (w\<lparr>w_db := snd (insert_congestion r (w_db w))\<rparr>)"
  shows "obeys R (get_or_create_slot_congestion E s base limit g)"
  unfolding get_or_create_slot_congestion_def Let_def
  by (intro pres sql_obeys) (simp add: insert_congestion_returning_snd assms)

lemma update_gas_usage_obeys:
  assumes "\<And>c t w. R w (w\<lparr>w_db := snd (update_congestion s c t (w_db w))\<rparr>)"
  shows "obeys R (update_slot_congestion_gas_usage E s g k)"
  unfolding update_slot_congestion_gas_usage_def Let_def
  by (intro pres sql_obeys transaction_obeys assms)

lemma cleanup_congestion_obeys:
  assumes "\<And>t w. R w (w\<lparr>w_db := snd (delete_older t (w_db w))\<rparr>)"
  shows "obeys R (cleanup_old_slot_congestion E h)"
  unfolding cleanup_old_slot_congestion_def Let_def
  by (intro pres sql_obeys assms)

lemma get_congestion_stats_obeys [pres]: "obeys R (get_congestion_stats E)"
  unfolding get_congestion_stats_def Let_def split_beta by (intro pres)

end

end
