(* ===== verification/Gw_Config.thy ===== *)
theory Gw_Config
  imports Crypto
begin

text \<open>
  Configuration (\<open>config.rs\<close>): the sections of \<open>config.toml\<close> with their defaults, the signing keys
  from the environment, the substitution of endpoint placeholders and the validation of a loaded
  configuration. The file system and the process environment are the record \<open>host\<close>; the TOML
  parser is a parameter. It leaves the signing keys (a field \<open>serde\<close> skips) to their default.
\<close>

section \<open>Sections\<close>

record server_config =
  se_host :: string
  se_port :: "16 word"

record logging_config =
  lg_level :: string
  lg_enable_method_tracing :: bool
  lg_traced_methods :: "string list"

record beacon_api_config =
  ba_primary_endpoint :: string
  ba_fallback_endpoints :: "string list"
  ba_request_timeout_secs :: u64
  ba_genesis_time :: u64

record constraints_api_config =
  ca_relay_endpoint :: string
  ca_request_timeout_secs :: u64
  ca_max_retries :: u64
  ca_authorized_builders :: "string list"

record delegation_config =
  dc_lookahead_epochs :: u64
  dc_polling_interval_secs :: u64
  dc_cache_ttl_secs :: u64
  dc_domain_application_gateway :: string

record fee_config =
  fc_scaling_factor :: f64
  fc_default_gas_limit :: u64
  fc_min_fee_multiplier :: f64
  fc_max_fee_multiplier :: f64
  fc_cache_ttl_secs :: u64

record reth_config =
  rc_endpoint :: string
  rc_request_timeout_secs :: u64
  rc_max_retries :: "32 word"
  rc_fee_config :: fee_config

record signing_config =
  sk_ecdsa_private_key :: secp_secret
  sk_bls_private_key :: blst_secret
  sk_bls_public_key :: blst_public
  sk_committer_address :: string

record config =
  cf_server :: server_config
  cf_database_url :: string
  cf_logging :: logging_config
  cf_slasher_whitelist :: "string list"
  cf_beacon_api :: beacon_api_config
  cf_constraints_api :: constraints_api_config
  cf_delegation :: delegation_config
  cf_reth :: reth_config
  cf_signing :: signing_config

record host =
  ho_exists :: "string \<Rightarrow> bool"
  ho_read :: "string \<Rightarrow> string option"
  ho_env :: "string \<Rightarrow> string option"

type_synonym toml_parser = "string \<Rightarrow> (signing_config \<Rightarrow> config) option"

section \<open>Defaults\<close>

definition default_server :: server_config where
  "default_server = \<lparr>se_host = ''0.0.0.0'', se_port = 8080\<rparr>"

definition default_logging :: logging_config where
  "default_logging = \<lparr>lg_level = ''info'', lg_enable_method_tracing = True,
     lg_traced_methods = [''commitmentRequest'', ''commitmentResult'', ''slots'', ''fee'']\<rparr>"

definition default_beacon_api :: beacon_api_config where
  "default_beacon_api = \<lparr>ba_primary_endpoint = ''https://eth-mainnet.g.alchemy.com/v2/YOUR_API_KEY'',
     ba_fallback_endpoints = [], ba_request_timeout_secs = 30, ba_genesis_time = 1606824023\<rparr>"

definition default_constraints_api :: constraints_api_config where
  "default_constraints_api = \<lparr>ca_relay_endpoint = ''https://relay.example.com'',
     ca_request_timeout_secs = 10, ca_max_retries = 3, ca_authorized_builders = []\<rparr>"

definition default_delegation :: delegation_config where
  "default_delegation = \<lparr>dc_lookahead_epochs = 2, dc_polling_interval_secs = 60,
     dc_cache_ttl_secs = 300, dc_domain_application_gateway = ''0x00000002''\<rparr>"

definition default_fee_config :: fee_config where
  "default_fee_config = \<lparr>fc_scaling_factor = FNum 2, fc_default_gas_limit = 30000000,
     fc_min_fee_multiplier = FNum 1, fc_max_fee_multiplier = FNum 100, fc_cache_ttl_secs = 60\<rparr>"

definition default_reth :: reth_config where
  "default_reth = \<lparr>rc_endpoint = ''http://localhost:8545'', rc_request_timeout_secs = 10,
     rc_max_retries = 3, rc_fee_config = default_fee_config\<rparr>"

text \<open>\<open>expect\<close> panics on an error.\<close>

definition expect :: "string \<Rightarrow> 'a res \<Rightarrow> 'a res" where
  "expect msg r = res_map_err (\<lambda>_. Panic msg) r"

definition default_signing :: "crates \<Rightarrow> signing_config res" where
  "default_signing C =
     res_bind (expect ''Failed to parse default private key''
       (parse_private_key (c_hash C) (c_secp C)
          ''ac0974bec39a17e36ba4a6b4d238ff944bacb478cbed5efcae784d7bf4f2ff80'')) (\<lambda>ecdsa.
     res_bind (expect ''Failed to create default BLS private key''
       (res_of BlstErr (blst_sk_from_bytes (c_blst C) (replicate 32 1)))) (\<lambda>bls.
     res_bind (expect ''Failed to derive default address''
       (ecdsa_to_address (c_hash C) (c_secp C) ecdsa)) (\<lambda>address.
     Inr \<lparr>sk_ecdsa_private_key = ecdsa, sk_bls_private_key = bls,
          sk_bls_public_key = blst_sk_to_pk (c_blst C) bls, sk_committer_address = address\<rparr>)))"

definition default_config :: "signing_config \<Rightarrow> config" where
  "default_config signing =
     \<lparr>cf_server = default_server, cf_database_url = ''postgresql://localhost/preconfirmation_gateway'',
      cf_logging = default_logging, cf_slasher_whitelist = [], cf_beacon_api = default_beacon_api,
      cf_constraints_api = default_constraints_api, cf_delegation = default_delegation,
      cf_reth = default_reth, cf_signing = signing\<rparr>"

text \<open>
  \<open>Debug\<close> of the signing configuration: the name of the struct and the text of each field. The keys
  are not among its arguments' texts.
\<close>

definition signing_config_fmt :: "signing_config \<Rightarrow> string \<times> (string \<times> string) list" where
  "signing_config_fmt s =
     (''SigningConfig'',
      [(''ecdsa_private_key'', ''<redacted>''), (''bls_private_key'', ''<redacted>''),
       (''bls_public_key'', ''<redacted>''), (''committer_address'', sk_committer_address s)])"

section \<open>Loading\<close>

definition env_var :: "host \<Rightarrow> string \<Rightarrow> string res" where
  "env_var h name = res_of (EnvErr name) (ho_env h name)"

definition parse_bls_key :: "crates \<Rightarrow> string \<Rightarrow> (blst_secret \<times> blst_public) res" where
  "parse_bls_key C hex_str =
     res_bind (context_res ''Invalid BLS private key hex'' (parse_hex_bytes (c_hash C) hex_str 32)) (\<lambda>key_bytes.
     res_bind (res_of BlstErr (blst_sk_from_bytes (c_blst C) key_bytes)) (\<lambda>sk.
     Inr (sk, blst_sk_to_pk (c_blst C) sk)))"

definition signing_config_load :: "crates \<Rightarrow> host \<Rightarrow> signing_config res" where
  "signing_config_load C h =
     res_bind (context_res ''COMMITTER_PRIVATE_KEY environment variable is required''
       (env_var h ''COMMITTER_PRIVATE_KEY'')) (\<lambda>private_key_hex.
     res_bind (context_res ''Invalid COMMITTER_PRIVATE_KEY format''
       (parse_private_key (c_hash C) (c_secp C) private_key_hex)) (\<lambda>ecdsa.
     res_bind (context_res ''BLS_PRIVATE_KEY environment variable is required''
       (env_var h ''BLS_PRIVATE_KEY'')) (\<lambda>bls_hex.
     res_bind (context_res ''Invalid BLS_PRIVATE_KEY format'' (parse_bls_key C bls_hex)) (\<lambda>(sk, pk).
     res_bind (context_res ''Failed to derive committer address''
       (ecdsa_to_address (c_hash C) (c_secp C) ecdsa)) (\<lambda>address.
     Inr \<lparr>sk_ecdsa_private_key = ecdsa, sk_bls_private_key = sk, sk_bls_public_key = pk,
          sk_committer_address = address\<rparr>)))))"

definition substitute :: "host \<Rightarrow> string \<Rightarrow> string \<Rightarrow> string" where
  "substitute h name endpoint =
     (if str_contains (''${'' @ name @ ''}'') endpoint
      then (case ho_env h name of Some v \<Rightarrow> v | None \<Rightarrow> endpoint) else endpoint)"

definition substitute_env_vars :: "host \<Rightarrow> config \<Rightarrow> config" where
  "substitute_env_vars h c =
     c\<lparr>cf_beacon_api := (cf_beacon_api c)\<lparr>ba_primary_endpoint :=
         substitute h ''BEACON_API_ENDPOINT'' (ba_primary_endpoint (cf_beacon_api c))\<rparr>,
       cf_reth := (cf_reth c)\<lparr>rc_endpoint := substitute h ''RETH_ENDPOINT'' (rc_endpoint (cf_reth c))\<rparr>,
       cf_constraints_api := (cf_constraints_api c)\<lparr>ca_relay_endpoint :=
         substitute h ''CONSTRAINTS_API_ENDPOINT'' (ca_relay_endpoint (cf_constraints_api c))\<rparr>\<rparr>"

definition is_http_url :: "string \<Rightarrow> bool" where
  "is_http_url s = (starts_with ''http://'' s \<or> starts_with ''https://'' s)"

text \<open>
  The two validations have the same checks and differ in their texts: of an empty endpoint, of a
  placeholder and of an endpoint that is no URL.
\<close>

definition check_endpoint ::
  "string list \<Rightarrow> string \<Rightarrow> (string \<Rightarrow> string) \<Rightarrow> (string \<Rightarrow> string) \<Rightarrow> string \<Rightarrow> unit res" where
  "check_endpoint placeholders empty_msg placeholder_msg url_msg endpoint =
     (if endpoint = [] then Inl (Bail empty_msg)
      else case List.find (\<lambda>p. str_contains p endpoint) placeholders of
        Some p \<Rightarrow> Inl (Bail (placeholder_msg p))
      | None \<Rightarrow> if \<not> is_http_url endpoint then Inl (Bail (url_msg endpoint)) else Inr ())"

definition beacon_placeholders :: "string list" where
  "beacon_placeholders = [''${BEACON_API_ENDPOINT}'', ''YOUR_API_KEY'', ''YOUR_PROJECT_ID'', ''REPLACE_ME'']"

definition service_placeholders :: "string \<Rightarrow> string list" where
  "service_placeholders name = [''${'' @ name @ ''}'', ''REPLACE_ME'', ''example.com'']"

definition validate_beacon_endpoint :: "string \<Rightarrow> unit res" where
  "validate_beacon_endpoint endpoint = check_endpoint beacon_placeholders
     (''Beacon API endpoint is empty. Please set BEACON_API_ENDPOINT environment variable ''
       @ ''or configure primary_endpoint in config.toml'')
     (\<lambda>p. ''Beacon API endpoint contains placeholder '' @ quoted p
       @ ''. Please set BEACON_API_ENDPOINT environment variable with a valid endpoint. ''
       @ ''Example: https://eth-mainnet.g.alchemy.com/v2/YOUR_ACTUAL_KEY'')
     (\<lambda>e. ''Beacon API endpoint must be a valid HTTP/HTTPS URL, got: '' @ e) endpoint"

definition validate_endpoint :: "string \<Rightarrow> string \<Rightarrow> string \<Rightarrow> unit res" where
  "validate_endpoint endpoint env_var_name service_name =
     check_endpoint (service_placeholders env_var_name)
       (service_name @ '' endpoint is empty. Please set '' @ env_var_name
         @ '' environment variable or configure the endpoint in config.toml'')
       (\<lambda>p. service_name @ '' endpoint contains placeholder '' @ quoted p @ ''. Please set ''
         @ env_var_name @ '' environment variable with a valid endpoint'')
       (\<lambda>e. service_name @ '' endpoint must be a valid HTTP/HTTPS URL, got: '' @ e) endpoint"

definition slasher_address_ok :: "string \<Rightarrow> bool" where
  "slasher_address_ok a = (starts_with ''0x'' a \<and> length a = 42)"

definition validate_slasher_whitelist :: "string list \<Rightarrow> unit res" where
  "validate_slasher_whitelist whitelist =
     (if whitelist = []
      then Inl (Bail (''Slasher whitelist is empty. For security, you must configure at least one ''
        @ ''allowed slasher contract address in config.toml under [validation] slasher_whitelist''))
      else case List.find (\<lambda>a. \<not> slasher_address_ok a) whitelist of
        None \<Rightarrow> Inr ()
      | Some a \<Rightarrow> Inl (Bail (''Invalid slasher address in whitelist: '' @ quoted a
          @ ''. Expected format: 0x followed by 40 hex characters ''
          @ ''(e.g., 0x1234567890123456789012345678901234567890)'')))"

definition load_from_file :: "crates \<Rightarrow> toml_parser \<Rightarrow> host \<Rightarrow> string \<Rightarrow> config res" where
  "load_from_file C toml h path =
     (if \<not> ho_exists h path then res_map default_config (default_signing C)
      else
        res_bind (context_res ''Failed to read configuration file'' (res_of IoErr (ho_read h path))) (\<lambda>text.
        res_bind (default_signing C) (\<lambda>signing.
        context_res ''Failed to parse configuration file''
          (res_of TomlErr (map_option (\<lambda>mk. mk signing) (toml text))))))"

definition config_load :: "crates \<Rightarrow> toml_parser \<Rightarrow> host \<Rightarrow> config res" where
  "config_load C toml h =
     res_bind (load_from_file C toml h ''config.toml'') (\<lambda>c0.
     let c1 = substitute_env_vars h c0 in
     res_bind (context_res ''Failed to load signing configuration from environment variables''
       (signing_config_load C h)) (\<lambda>signing.
     let c = c1\<lparr>cf_signing := signing\<rparr> in
     res_bind (validate_beacon_endpoint (ba_primary_endpoint (cf_beacon_api c))) (\<lambda>_.
     res_bind (validate_endpoint (rc_endpoint (cf_reth c)) ''RETH_ENDPOINT'' ''Reth'') (\<lambda>_.
     res_bind (validate_endpoint (ca_relay_endpoint (cf_constraints_api c)) ''CONSTRAINTS_API_ENDPOINT''
       ''Constraints API'') (\<lambda>_.
     res_bind (validate_slasher_whitelist (cf_slasher_whitelist c)) (\<lambda>_. Inr c))))))"

definition database_url :: "config \<Rightarrow> string" where
  "database_url c = cf_database_url c"

section \<open>Facts\<close>

lemma check_endpoint_Inr:
  "check_endpoint ps m1 m2 m3 e = Inr u \<longleftrightarrow> is_http_url e \<and> (\<forall>p \<in> set ps. \<not> str_contains p e)"
proof -
  have "is_http_url e \<Longrightarrow> e \<noteq> []" by (auto simp: is_http_url_def starts_with_def)
  then show ?thesis
    using find_None_all [of "\<lambda>p. str_contains p e" ps]
    by (auto simp: check_endpoint_def split: option.split)
qed

lemma validate_slasher_whitelist_Inr:
  "validate_slasher_whitelist ws = Inr u \<longleftrightarrow> ws \<noteq> [] \<and> list_all slasher_address_ok ws"
  using find_None_all [of "\<lambda>a. \<not> slasher_address_ok a" ws]
  by (auto simp: validate_slasher_whitelist_def list_all_iff split: option.split)

lemma signing_config_load_Inr:
  assumes "signing_config_load C h = Inr s"
  shows "\<exists>k. ho_env h ''COMMITTER_PRIVATE_KEY'' = Some k
       \<and> parse_private_key (c_hash C) (c_secp C) k = Inr (sk_ecdsa_private_key s)
       \<and> ecdsa_to_address (c_hash C) (c_secp C) (sk_ecdsa_private_key s) = Inr (sk_committer_address s)
       \<and> sk_bls_public_key s = blst_sk_to_pk (c_blst C) (sk_bls_private_key s)"
  using assms by (auto simp: signing_config_load_def env_var_def parse_bls_key_def)

lemma config_load_Inr:
  assumes "config_load C toml h = Inr c"
  shows "signing_config_load C h = Inr (cf_signing c)"
    and "is_http_url (ba_primary_endpoint (cf_beacon_api c))"
    and "is_http_url (rc_endpoint (cf_reth c))"
    and "is_http_url (ca_relay_endpoint (cf_constraints_api c))"
    and "\<forall>p \<in> set beacon_placeholders. \<not> str_contains p (ba_primary_endpoint (cf_beacon_api c))"
    and "cf_slasher_whitelist c \<noteq> []"
    and "list_all slasher_address_ok (cf_slasher_whitelist c)"
  using assms
  by (auto simp: config_load_def Let_def validate_beacon_endpoint_def validate_endpoint_def
      check_endpoint_Inr validate_slasher_whitelist_Inr)

text \<open>Without a file the defaults are loaded, and they never validate.\<close>

lemma default_beacon_rejected:
  "isl (validate_beacon_endpoint (ba_primary_endpoint default_beacon_api))"
  by code_simp

lemma default_beacon_no_placeholder:
  "str_contains ''${BEACON_API_ENDPOINT}'' (ba_primary_endpoint default_beacon_api) = False"
  by code_simp

lemma config_load_missing_file:
  assumes "\<not> ho_exists h ''config.toml''"
  shows "\<exists>e. config_load C toml h = Inl e"
proof (cases "config_load C toml h")
  case (Inr c)
  then obtain s where "validate_beacon_endpoint (ba_primary_endpoint (cf_beacon_api
      (substitute_env_vars h (default_config s)))) = Inr ()"
    using assms by (auto simp: config_load_def load_from_file_def Let_def)
  moreover have "ba_primary_endpoint (cf_beacon_api (substitute_env_vars h (default_config s)))
      = ba_primary_endpoint default_beacon_api"
    using default_beacon_no_placeholder
    by (simp add: substitute_env_vars_def substitute_def default_config_def)
  ultimately show ?thesis using default_beacon_rejected by simp
qed auto

end
