(* ===== verification/Beacon_Api.thy ===== *)
theory Beacon_Api
  imports Effects Gw_Config
begin

text \<open>
  The beacon API client (\<open>api/beacon.rs\<close>): GET requests against a primary endpoint and then its
  fallbacks, the proposer of a slot and the status of a validator. That the fallback loop stops at
  the first endpoint that answers is the locale \<open>first_success\<close>.
\<close>

section \<open>Requests\<close>

definition join_url :: "string \<Rightarrow> string \<Rightarrow> string" where
  "join_url base_url endpoint =
     (if ends_with_char (CHR ''/'') base_url then base_url @ endpoint else base_url @ ''/'' @ endpoint)"

text \<open>\<open>ReqwestClient::get\<close>; a response whose body cannot be read counts as no answer.\<close>

definition reqwest_get :: "env \<Rightarrow> string \<Rightarrow> (err, http_response) io" where
  "reqwest_get E url = io_context (''Failed to send request to '' @ url) (io_http E (HttpGet url))"

definition make_request :: "env \<Rightarrow> (bytes \<Rightarrow> 'a option) \<Rightarrow> string \<Rightarrow> string \<Rightarrow> (err, 'a) io" where
  "make_request E parse base_url endpoint =
     (let url = join_url base_url endpoint in
      io_bind (io_context (''Failed to send request to '' @ url) (reqwest_get E url)) (\<lambda>response.
      if hr_status response \<noteq> 200
      then let error_text = (case string_from_utf8 (hr_body response) of
                Some t \<Rightarrow> t | None \<Rightarrow> ''Unknown error'')
           in io_fail (Bail (''Beacon API request failed with status '' @ show_nat (hr_status response)
                @ '': '' @ error_text))
      else io_res (context_res (''Failed to parse response from '' @ url)
        (res_of JsonErr (parse (hr_body response))))))"

definition beacon_client_new :: "beacon_api_config \<Rightarrow> beacon_api_config res" where
  "beacon_client_new c =
     (if trim_is_empty (ba_primary_endpoint c) then Inl (Bail ''Primary endpoint cannot be empty'')
      else if ba_request_timeout_secs c = 0 then Inl (Bail ''Request timeout must be greater than zero'')
      else Inr c)"

text \<open>The loop over the endpoints: the last error is reported when all of them fail.\<close>

fun try_fallbacks :: "(string \<Rightarrow> (err, 'a) io) \<Rightarrow> err \<Rightarrow> string list \<Rightarrow> (err, 'a) io" where
  "try_fallbacks request last_error [] = io_fail last_error"
| "try_fallbacks request last_error (e # es) =
     io_match (request e) (\<lambda>r. case r of Inr response \<Rightarrow> io_return response
                                       | Inl err \<Rightarrow> try_fallbacks request err es)"

definition try_endpoints :: "(string \<Rightarrow> (err, 'a) io) \<Rightarrow> string \<Rightarrow> string list \<Rightarrow> (err, 'a) io" where
  "try_endpoints request primary fallbacks =
     io_match (request primary) (\<lambda>r. case r of Inr response \<Rightarrow> io_return response
                                            | Inl err \<Rightarrow> try_fallbacks request err fallbacks)"

definition duties_path :: "u64 \<Rightarrow> string" where
  "duties_path epoch = ''eth/v1/validator/duties/proposer/'' @ show_u64 epoch"

definition get_proposer_duties :: "env \<Rightarrow> beacon_api_config \<Rightarrow> u64 \<Rightarrow> (err, proposer_duties_response) io" where
  "get_proposer_duties E c epoch =
     try_endpoints (\<lambda>base. make_request E (json_duties (json_of E)) base (duties_path epoch))
       (ba_primary_endpoint c) (ba_fallback_endpoints c)"

fun find_duty :: "u64 \<Rightarrow> validator_duty list \<Rightarrow> validator_duty option res" where
  "find_duty slot [] = Inr None"
| "find_duty slot (d # ds) =
     res_bind (context_res ''Failed to parse slot from validator duty'' (parse_slot d)) (\<lambda>duty_slot.
     if duty_slot = slot then Inr (Some d) else find_duty slot ds)"

definition get_proposer_for_slot :: "env \<Rightarrow> beacon_api_config \<Rightarrow> u64 \<Rightarrow> (err, validator_duty option) io" where
  "get_proposer_for_slot E c slot =
     io_bind (get_proposer_duties E c (slot_to_epoch slot)) (\<lambda>duties.
     io_res (find_duty slot (pd_data duties)))"

definition validator_path :: "hash_lib \<Rightarrow> bls_public_key \<Rightarrow> string" where
  "validator_path H k = ''eth/v1/beacon/states/head/validators/'' @ ''0x'' @ hex_encode H (pk_bytes k)"

definition parse_validator_info :: "validator_data \<Rightarrow> validator_info res" where
  "parse_validator_info data =
     res_bind (context_res ''Failed to parse validator index'' (res_map_err IntErr (parse_u64 (va_index data)))) (\<lambda>index.
     Inr \<lparr>vi_is_active = va_status data \<in> set [''active_ongoing'', ''active_exiting'', ''active_slashed''],
          vi_is_slashed = vt_slashed (va_validator data), vi_validator_index = index\<rparr>)"

definition get_validator_status :: "env \<Rightarrow> beacon_api_config \<Rightarrow> bls_public_key \<Rightarrow> (err, validator_info) io" where
  "get_validator_status E c k =
     io_bind (try_endpoints (\<lambda>base. make_request E (json_validator (json_of E)) base
         (validator_path (hash_of E) k)) (ba_primary_endpoint c) (ba_fallback_endpoints c)) (\<lambda>response.
     io_res (parse_validator_info (vr_data response)))"

section \<open>The contract of a loop that stops at the first success\<close>

fun event_request :: "event \<Rightarrow> http_request option" where
  "event_request (EvHttp req ans) = Some req"
| "event_request (EvSleep ms) = None"

locale first_success =
  fixes attempt :: "string \<Rightarrow> (err, 'a) io"
    and fetch :: "string \<Rightarrow> string list \<Rightarrow> (err, 'a) io"
    and request :: "string \<Rightarrow> http_request"
  assumes last_one: "fetch p [] w = attempt p w"
    and next_one: "fetch p (q # qs) w = (case attempt p w of
           (Inr v, w1) \<Rightarrow> (Inr v, w1) | (Inl e, w1) \<Rightarrow> fetch q qs w1)"
    and one_request: "attempt p w = (r, w') \<Longrightarrow> \<exists>ans. w_events w' = w_events w @ [EvHttp (request p) ans]"
begin

text \<open>\<open>tried ps w w'\<close>: every endpoint of \<open>ps\<close> failed, in this order, leading from \<open>w\<close> to \<open>w'\<close>.\<close>

fun tried :: "string list \<Rightarrow> world \<Rightarrow> world \<Rightarrow> bool" where
  "tried [] w w' = (w' = w)"
| "tried (p # ps) w w' = (\<exists>e w1. attempt p w = (Inl e, w1) \<and> tried ps w1 w')"

lemma success:
  assumes "fetch p qs w = (Inr v, w')"
  shows "\<exists>before b after w1. p # qs = before @ b # after \<and> tried before w w1 \<and> attempt b w1 = (Inr v, w')"
  using assms
proof (induction qs arbitrary: p w)
  case Nil
  then have "p # [] = [] @ p # [] \<and> tried [] w w \<and> attempt p w = (Inr v, w')"
    by (simp add: last_one)
  then show ?case by blast
next
  case (Cons q qs)
  show ?case
  proof (cases "attempt p w")
    case (Pair r w1)
    show ?thesis
    proof (cases r)
      case (Inr x)
      then have "p # q # qs = [] @ p # q # qs \<and> tried [] w w \<and> attempt p w = (Inr v, w')"
        using Cons.prems Pair by (simp add: next_one)
      then show ?thesis by blast
    next
      case (Inl e)
      then have "fetch q qs w1 = (Inr v, w')" using Cons.prems Pair by (simp add: next_one)
      from Cons.IH [OF this] obtain before b after w2
        where "q # qs = before @ b # after" "tried before w1 w2" "attempt b w2 = (Inr v, w')" by blast
      then have "p # q # qs = (p # before) @ b # after \<and> tried (p # before) w w2
          \<and> attempt b w2 = (Inr v, w')"
        using Pair Inl by auto
      then show ?thesis by blast
    qed
  qed
qed

lemma failure:
  assumes "fetch p qs w = (Inl e, w')"
  shows "tried (p # qs) w w'"
  using assms
proof (induction qs arbitrary: p w)
  case (Cons q qs)
  obtain r w1 where a: "attempt p w = (r, w1)" by force
  with Cons.prems obtain e' where "r = Inl e'" "fetch q qs w1 = (Inl e, w')"
    by (auto simp: next_one split: sum.splits)
  then show ?case using a Cons.IH [of q w1] by simp
qed (auto simp: last_one)

text \<open>The endpoints are asked in order, each once; an error means that all of them were asked.\<close>

lemma asked:
  assumes "fetch p qs w = (r, w')"
  shows "\<exists>n evs. w_events w' = w_events w @ evs \<and> n \<le> Suc (length qs)
    \<and> map event_request evs = map (\<lambda>q. Some (request q)) (take n (p # qs))
    \<and> (n = Suc (length qs) \<or> (\<exists>v. r = Inr v))"
  using assms
proof (induction qs arbitrary: p w)
  case Nil
  then have "attempt p w = (r, w')" by (simp add: last_one)
  from one_request [OF this] obtain ans where "w_events w' = w_events w @ [EvHttp (request p) ans]" by blast
  then show ?case by (intro exI [of _ 1] exI [of _ "[EvHttp (request p) ans]"]) simp
next
  case (Cons q qs)
  obtain x w1 where a: "attempt p w = (x, w1)" by force
  obtain ans where ev: "w_events w1 = w_events w @ [EvHttp (request p) ans]"
    using one_request [OF a] by blast
  show ?case
  proof (cases x)
    case (Inr v)
    then have "r = Inr v" "w' = w1" using Cons.prems a by (simp_all add: next_one)
    then show ?thesis using ev by (intro exI [of _ 1] exI [of _ "[EvHttp (request p) ans]"]) simp
  next
    case (Inl e)
    then have "fetch q qs w1 = (r, w')" using Cons.prems a by (simp add: next_one)
    from Cons.IH [OF this] obtain n evs where
      "w_events w' = w_events w1 @ evs" "n \<le> Suc (length qs)"
      "map event_request evs = map (\<lambda>q. Some (request q)) (take n (q # qs))"
      "n = Suc (length qs) \<or> (\<exists>v. r = Inr v)" by blast
    then show ?thesis using ev
      by (intro exI [of _ "Suc n"] exI [of _ "EvHttp (request p) ans # evs"]) simp
  qed
qed

end

lemma try_endpoints_last: "try_endpoints f p [] w = f p w"
  by (simp add: try_endpoints_def io_match_def io_return_def io_fail_def split: prod.split sum.split)

lemma try_endpoints_next:
  "try_endpoints f p (q # qs) w = (case f p w of
     (Inr v, w1) \<Rightarrow> (Inr v, w1) | (Inl e, w1) \<Rightarrow> try_endpoints f q qs w1)"
  by (simp add: try_endpoints_def io_match_def io_return_def split: prod.split sum.split)

lemma make_request_event:
  "make_request E parse base ep w = (r, w') \<Longrightarrow>
   \<exists>ans. w_events w' = w_events w @ [EvHttp (HttpGet (join_url base ep)) ans]"
  by (auto simp: make_request_def reqwest_get_def Let_def io_bind_def io_context_def io_map_err_def io_http_def io_fail_def
      io_res_def Let_def split: prod.splits sum.splits if_splits)

interpretation beacon_get: first_success "\<lambda>base. make_request E parse base path"
    "try_endpoints (\<lambda>base. make_request E parse base path)"
    "\<lambda>base. HttpGet (join_url base path)" for E parse path
  by unfold_locales (auto simp: try_endpoints_last try_endpoints_next dest: make_request_event)

section \<open>Results\<close>

lemma make_request_Inr:
  assumes "make_request E parse base ep w = (Inr v, w')"
  shows "\<exists>resp. e_http E (w_tick w) (HttpGet (join_url base ep)) = Some resp \<and> hr_status resp = 200
    \<and> parse (hr_body resp) = Some v \<and> w_db w' = w_db w"
  using assms by (auto simp: make_request_def reqwest_get_def Let_def io_Inr dest!: io_http_Inr split: if_splits)

lemma find_duty_Some:
  "find_duty s ds = Inr (Some d) \<Longrightarrow> d \<in> set ds \<and> parse_slot d = Inr s"
  by (induction ds) (auto split: if_splits)

text \<open>The proposer of a slot comes from a response of one of the configured endpoints.\<close>

definition beacon_answer :: "env \<Rightarrow> beacon_api_config \<Rightarrow> u64 \<Rightarrow> proposer_duties_response \<Rightarrow> bool" where
  "beacon_answer E c epoch duties =
     (\<exists>n base resp. base \<in> set (ba_primary_endpoint c # ba_fallback_endpoints c)
        \<and> e_http E n (HttpGet (join_url base (duties_path epoch))) = Some resp
        \<and> hr_status resp = 200 \<and> json_duties (json_of E) (hr_body resp) = Some duties)"

lemma get_proposer_duties_Inr:
  assumes "get_proposer_duties E c epoch w = (Inr duties, w')"
  shows "beacon_answer E c epoch duties"
proof -
  obtain before b after w1 where
    l: "ba_primary_endpoint c # ba_fallback_endpoints c = before @ b # after"
    and m: "make_request E (json_duties (json_of E)) b (duties_path epoch) w1 = (Inr duties, w')"
    using beacon_get.success [OF assms [unfolded get_proposer_duties_def]] by blast
  have "b \<in> set (ba_primary_endpoint c # ba_fallback_endpoints c)" unfolding l by simp
  then show ?thesis using make_request_Inr [OF m] by (auto simp: beacon_answer_def)
qed

lemma get_proposer_for_slot_Some:
  assumes "get_proposer_for_slot E c slot w = (Inr (Some d), w')"
  shows "\<exists>duties. beacon_answer E c (slot_to_epoch slot) duties
     \<and> d \<in> set (pd_data duties) \<and> parse_slot d = Inr slot"
  using assms
  by (auto simp: get_proposer_for_slot_def io_Inr dest!: get_proposer_duties_Inr find_duty_Some)

context log_rel
begin

lemma make_request_obeys [pres]: "obeys R (make_request E parse base ep)"
  unfolding make_request_def reqwest_get_def Let_def by (intro pres)

lemma try_fallbacks_obeys [pres]:
  "(\<And>e. obeys R (f e)) \<Longrightarrow> obeys R (try_fallbacks f err es)"
  by (induction es arbitrary: err) (auto intro!: pres)

lemma try_endpoints_obeys [pres]:
  "(\<And>e. obeys R (f e)) \<Longrightarrow> obeys R (try_endpoints f p es)"
  unfolding try_endpoints_def by (intro pres)

lemma get_proposer_duties_obeys [pres]: "obeys R (get_proposer_duties E c epoch)"
  unfolding get_proposer_duties_def by (intro pres)

lemma get_proposer_for_slot_obeys [pres]: "obeys R (get_proposer_for_slot E c s)"
  unfolding get_proposer_for_slot_def by (intro pres)

lemma get_validator_status_obeys [pres]: "obeys R (get_validator_status E c k)"
  unfolding get_validator_status_def by (intro pres)

end

end
