(* ===== verification/Relay_Api.thy ===== *)
theory Relay_Api
  imports Beacon_Api
begin

text \<open>
  The clients with a retry loop: the constraints relay (\<open>api/constraints.rs\<close>) and the Reth node
  (\<open>api/reth.rs\<close>), and the validator status cache (\<open>services/validator_status_cache.rs\<close>). A
  retry loop recurses on the attempts that are left, so it ends; how many requests it sends and how
  long it sleeps is the contract \<open>bounded_retry\<close>.
\<close>

section \<open>The contract of a retry loop\<close>

fun is_http :: "event \<Rightarrow> bool" where
  "is_http (EvHttp _ _) = True"
| "is_http (EvSleep _) = False"

fun sleep_ms :: "event \<Rightarrow> nat" where
  "sleep_ms (EvHttp _ _) = 0"
| "sleep_ms (EvSleep ms) = ms"

definition requests :: "event list \<Rightarrow> nat" where
  "requests evs = length (filter is_http evs)"

definition slept :: "event list \<Rightarrow> nat" where
  "slept evs = sum_list (map sleep_ms evs)"

lemma counts_simps [simp]:
  "requests [] = 0" "slept [] = 0"
  "requests (EvHttp q a # evs) = Suc (requests evs)" "requests (EvSleep n # evs) = requests evs"
  "slept (EvHttp q a # evs) = slept evs" "slept (EvSleep n # evs) = n + slept evs"
  "requests (evs @ evs') = requests evs + requests evs'"
  "slept (evs @ evs') = slept evs + slept evs'"
  by (simp_all add: requests_def slept_def)

locale bounded_retry =
  fixes attempts :: "nat \<Rightarrow> 's \<Rightarrow> (err, 'a) io"
    and delay :: nat
  assumes none: "attempts 0 s w = (r, w') \<Longrightarrow> w_events w' = w_events w"
    and step: "attempts (Suc n) s w = (r, w') \<Longrightarrow>
      \<exists>w1 evs. w_events w1 = w_events w @ evs \<and> requests evs \<le> 1 \<and> slept evs \<le> delay
        \<and> (w' = w1 \<or> (\<exists>s'. attempts n s' w1 = (r, w')))"
begin

lemma bound:
  assumes "attempts n s w = (r, w')"
  shows "\<exists>evs. w_events w' = w_events w @ evs \<and> requests evs \<le> n \<and> slept evs \<le> n * delay"
  using assms
proof (induction n arbitrary: s w)
  case 0
  then show ?case using none by (intro exI [of _ "[]"]) simp
next
  case (Suc n)
  from step [OF Suc.prems] obtain w1 evs where
    e: "w_events w1 = w_events w @ evs" "requests evs \<le> 1" "slept evs \<le> delay"
    and cont: "w' = w1 \<or> (\<exists>s'. attempts n s' w1 = (r, w'))" by blast
  show ?case
  proof (cases "w' = w1")
    case True
    then show ?thesis using e by (intro exI [of _ evs]) simp
  next
    case False
    then obtain s' where "attempts n s' w1 = (r, w')" using cont by blast
    from Suc.IH [OF this] obtain evs' where
      "w_events w' = w_events w1 @ evs'" "requests evs' \<le> n" "slept evs' \<le> n * delay" by blast
    then show ?thesis using e by (intro exI [of _ "evs @ evs'"]) simp
  qed
qed

end

section \<open>The constraints relay\<close>

text \<open>\<open>client_ok\<close> says whether \<open>reqwest\<close> builds a client with this timeout.\<close>

definition constraints_client_new ::
  "(u64 \<Rightarrow> bool) \<Rightarrow> constraints_api_config \<Rightarrow> constraints_api_config res" where
  "constraints_client_new client_ok c =
     (if trim_is_empty (ca_relay_endpoint c) then Inl (Bail ''Relay endpoint cannot be empty'')
      else if ca_request_timeout_secs c = 0 then Inl (Bail ''Request timeout must be greater than zero'')
      else if 10 < ca_max_retries c then Inl (Bail ''Max retries cannot exceed 10'')
      else res_bind (context_res ''Failed to create HTTP client''
        (ensure (client_ok (ca_request_timeout_secs c)) HttpErr)) (\<lambda>_. Inr c))"

definition build_url :: "constraints_api_config \<Rightarrow> string \<Rightarrow> string" where
  "build_url c endpoint =
     (let base = ca_relay_endpoint c in
      if ends_with_char (CHR ''/'') base then base @ endpoint else base @ ''/'' @ endpoint)"

definition delegations_path :: "u64 \<Rightarrow> string" where
  "delegations_path slot = ''constraints/v0/relay/delegations/'' @ show_u64 slot"

definition relay_get_delegations :: "env \<Rightarrow> constraints_api_config \<Rightarrow> u64 \<Rightarrow> (err, signed_delegation list) io" where
  "relay_get_delegations E c slot =
     io_bind (io_context ''Failed to fetch delegations''
       (io_http E (HttpGet (build_url c (delegations_path slot))))) (\<lambda>response.
     if hr_status response = 200
       then io_res (context_res ''Failed to parse delegations response''
              (res_of JsonErr (json_delegations (json_of E) (hr_body response))))
     else if hr_status response = 404 then io_return []
     else io_fail (Bail ''Failed to fetch delegations''))"

definition backoff_ms :: "nat \<Rightarrow> nat" where
  "backoff_ms attempt =
     (let shift = min attempt 10;
          delay_ms = saturating_mul 100 (saturating_pow 2 shift)
      in min (unat delay_ms) 30000)"

fun submit_attempts ::
  "env \<Rightarrow> string \<Rightarrow> signed_constraints \<Rightarrow> nat \<Rightarrow> nat \<times> err option \<Rightarrow> (err, nat) io" where
  "submit_attempts E url sc 0 (attempt, last_error) =
     io_fail (case last_error of Some e \<Rightarrow> e | None \<Rightarrow> Bail ''Unknown submission error'')"
| "submit_attempts E url sc (Suc left) (attempt0, last_error) =
     (let attempt = attempt0 + 1; backoff = io_sleep (backoff_ms attempt) in
      io_match (io_http E (HttpPostConstraints url sc)) (\<lambda>r. case r of
        Inr response \<Rightarrow>
          (let status = hr_status response in
           if status = 200 \<or> status = 202 then io_return status
           else if status = 429
             then io_bind backoff (\<lambda>_. submit_attempts E url sc left (attempt, Some (Bail ''Rate limited'')))
           else if status = 408 \<or> status = 504
             then submit_attempts E url sc left (attempt, Some (Bail ''API timeout''))
           else
             let failed = Bail ''Constraints submission failed'' in
             if 400 \<le> status \<and> status < 500 then io_fail failed
             else if 500 \<le> status \<and> status < 600
               then io_bind backoff (\<lambda>_. submit_attempts E url sc left (attempt, Some failed))
             else submit_attempts E url sc left (attempt, Some failed))
      | Inl e \<Rightarrow> io_bind backoff (\<lambda>_. submit_attempts E url sc left (attempt, Some e))))"

definition max_attempts :: "constraints_api_config \<Rightarrow> nat" where
  "max_attempts c = max 1 (unat (ca_max_retries c))"

definition submit_constraints :: "env \<Rightarrow> constraints_api_config \<Rightarrow> signed_constraints \<Rightarrow> (err, nat) io" where
  "submit_constraints E c sc =
     io_bind (io_res (context_res ''Failed to serialize constraints''
       (ensure (json_constraints_ok (json_of E) sc) JsonErr))) (\<lambda>_.
     submit_attempts E (build_url c ''constraints/v0/builder/constraints'') sc (max_attempts c) (0, None))"

lemma backoff_bound: "backoff_ms a \<le> 30000"
  by (simp add: backoff_ms_def Let_def)

lemma submit_step:
  assumes "submit_attempts E url sc (Suc n) s w = (r, w')"
  shows "\<exists>w1 evs. w_events w1 = w_events w @ evs \<and> requests evs \<le> 1 \<and> slept evs \<le> 30000
    \<and> (w' = w1 \<or> (\<exists>s'. submit_attempts E url sc n s' w1 = (r, w')))"
proof -
  obtain a l where s: "s = (a, l)" by force
  let ?w1 = "snd (io_http E (HttpPostConstraints url sc) w)"
  let ?w2 = "(tick ?w1)\<lparr>w_events := w_events ?w1 @ [EvSleep (backoff_ms (a + 1))]\<rparr>"
  obtain ans where e1: "w_events ?w1 = w_events w @ [EvHttp (HttpPostConstraints url sc) ans]"
    by (auto simp: io_http_def Let_def)
  have e2: "w_events ?w2 = w_events w @ [EvHttp (HttpPostConstraints url sc) ans, EvSleep (backoff_ms (a + 1))]"
    using e1 by simp
  have "w' = ?w1 \<or> (\<exists>s'. submit_attempts E url sc n s' ?w1 = (r, w'))
      \<or> (\<exists>s'. submit_attempts E url sc n s' ?w2 = (r, w'))"
    using assms unfolding s
    by (auto simp: io_match_def io_bind_def io_sleep_def io_return_def io_fail_def Let_def
        split: prod.splits sum.splits if_splits)
  moreover have "requests [EvHttp (HttpPostConstraints url sc) ans] \<le> 1"
    "slept [EvHttp (HttpPostConstraints url sc) ans] \<le> 30000"
    "requests [EvHttp (HttpPostConstraints url sc) ans, EvSleep (backoff_ms (a + 1))] \<le> 1"
    "slept [EvHttp (HttpPostConstraints url sc) ans, EvSleep (backoff_ms (a + 1))] \<le> 30000"
    using backoff_bound by simp_all
  ultimately show ?thesis using e1 e2 by metis
qed

interpretation submit_retry: bounded_retry "submit_attempts E url sc" 30000 for E url sc
proof unfold_locales
  show "submit_attempts E url sc 0 s w = (r, w') \<Longrightarrow> w_events w' = w_events w" for s w r w'
    by (cases s) (auto simp: io_fail_def)
qed (rule submit_step)

text \<open>Success is reported only for an answer 200 or 202 to a POST of these constraints.\<close>

lemma submit_attempts_Inr:
  assumes "submit_attempts E url sc n s w = (Inr status, w')"
  shows "(status = 200 \<or> status = 202) \<and> w_db w' = w_db w
    \<and> (\<exists>evs resp. w_events w' = w_events w @ evs @ [EvHttp (HttpPostConstraints url sc) (Some resp)]
         \<and> hr_status resp = status)"
  using assms
proof (induction n arbitrary: s w)
  case 0
  then show ?case by (cases s) (simp add: io_fail_def)
next
  case (Suc n)
  obtain a l where s: "s = (a, l)" by force
  show ?case
  proof (cases "e_http E (w_tick w) (HttpPostConstraints url sc)")
    case None
    then show ?thesis using Suc.prems Suc.IH unfolding s
      by (fastforce simp: io_match_def io_http_def io_bind_def io_sleep_def Let_def)
  next
    case (Some resp)
    then show ?thesis using Suc.prems Suc.IH unfolding s
      by (fastforce simp: io_match_def io_http_def io_bind_def io_sleep_def io_return_def io_fail_def Let_def
          split: if_splits)
  qed
qed

lemma submit_constraints_Inr:
  assumes "submit_constraints E c sc w = (Inr status, w')"
  shows "(status = 200 \<or> status = 202) \<and> w_db w' = w_db w
    \<and> (\<exists>evs url resp. w_events w' = w_events w @ evs @ [EvHttp (HttpPostConstraints url sc) (Some resp)]
         \<and> hr_status resp = status)"
  using assms by (auto simp: submit_constraints_def io_Inr dest!: submit_attempts_Inr)

text \<open>An answer 4xx other than 408 and 429 ends the loop at once.\<close>

lemma submit_client_error:
  assumes "e_http E (w_tick w) (HttpPostConstraints url sc) = Some resp"
    and "400 \<le> hr_status resp" "hr_status resp < 500" "hr_status resp \<noteq> 408" "hr_status resp \<noteq> 429"
  shows "fst (submit_attempts E url sc (Suc n) s w) = Inl (Bail ''Constraints submission failed'')
    \<and> w_events (snd (submit_attempts E url sc (Suc n) s w))
        = w_events w @ [EvHttp (HttpPostConstraints url sc) (Some resp)]"
  using assms by (cases s) (simp add: io_match_def io_http_def io_fail_def Let_def)

section \<open>The Reth node\<close>

record gas_price_info =
  gp_gas_price :: nat
  gp_block_number :: u64
  gp_timestamp :: u64

definition gas_price_as_u64_clamped :: "gas_price_info \<Rightarrow> u64" where
  "gas_price_as_u64_clamped g =
     (if unat u64_max < gp_gas_price g then u64_max else of_nat (gp_gas_price g))"

definition gas_price_as_u64_checked :: "gas_price_info \<Rightarrow> u64 res" where
  "gas_price_as_u64_checked g =
     (if unat u64_max < gp_gas_price g then Inl (Bail ''Gas price exceeds u64::MAX'')
      else Inr (of_nat (gp_gas_price g)))"

text \<open>
  \<open>u256_serde\<close> writes a \<open>U256\<close> as lower-case hex without leading zeros, over the formatter \<open>lower_hex\<close> and
  the parser of \<open>ethers_core\<close>.
\<close>

definition u256_serialize :: "(nat \<Rightarrow> string) \<Rightarrow> nat \<Rightarrow> string" where
  "u256_serialize lower_hex v = ''0x'' @ lower_hex v"

definition u256_deserialize :: "json_lib \<Rightarrow> string \<Rightarrow> nat res" where
  "u256_deserialize J s = res_of HexErr (u256_from_hex J (strip_0x s))"

lemma u256_serde_roundtrip:
  "u256_from_hex J (lower_hex v) = Some v \<Longrightarrow> u256_deserialize J (u256_serialize lower_hex v) = Inr v"
  by (simp add: u256_serialize_def u256_deserialize_def)

record reth_api_config =
  ra_endpoint :: string
  ra_request_timeout_secs :: u64
  ra_max_retries :: "32 word"

definition default_reth_api :: reth_api_config where
  "default_reth_api = \<lparr>ra_endpoint = ''http://localhost:8545'', ra_request_timeout_secs = 10,
     ra_max_retries = 3\<rparr>"

text \<open>One round of the loop; the attempts made so far are \<open>max_retries\<close> less those left.\<close>

primrec rpc_attempts :: "env \<Rightarrow> http_request \<Rightarrow> nat \<Rightarrow> nat \<Rightarrow> unit \<Rightarrow> (err, json_rpc_reply) io" where
  "rpc_attempts E req max_retries 0 u = io_fail (Bail ''Failed to connect to Reth node'')"
| "rpc_attempts E req max_retries (Suc left) u =
     (let attempts = max_retries - left;
          again = (if attempts < max_retries
            then io_bind (io_sleep (100 * attempts)) (\<lambda>_. rpc_attempts E req max_retries left u)
            else rpc_attempts E req max_retries left u) in
      io_match (io_http E req) (\<lambda>r. case r of
        Inl e \<Rightarrow> again
      | Inr response \<Rightarrow>
          if 200 \<le> hr_status response \<and> hr_status response < 300
          then (case json_rpc (json_of E) (hr_body response) of
                  Some reply \<Rightarrow> if jr_has_error reply then io_fail (Bail ''RPC error'') else io_return reply
                | None \<Rightarrow> again)
          else again))"

definition make_rpc_call :: "env \<Rightarrow> reth_config \<Rightarrow> string \<Rightarrow> nat \<Rightarrow> (err, json_rpc_reply) io" where
  "make_rpc_call E c method_name call_id =
     rpc_attempts E (HttpPostRpc (rc_endpoint c) method_name call_id) (unat (rc_max_retries c))
       (unat (rc_max_retries c)) ()"

definition get_block_number :: "env \<Rightarrow> reth_config \<Rightarrow> (err, u64) io" where
  "get_block_number E c =
     io_bind (io_context ''Failed to get block number from Reth node''
       (make_rpc_call E c ''eth_blockNumber'' 3)) (\<lambda>response.
     io_bind (io_res (res_of (Bail ''Invalid block number response format'') (jr_result_str response))) (\<lambda>block_hex.
     io_res (context_res ''Failed to parse block number hex value''
       (res_map_err IntErr (u64_from_str_radix (strip_0x block_hex) 16)))))"

definition get_gas_price :: "env \<Rightarrow> reth_config \<Rightarrow> (err, gas_price_info) io" where
  "get_gas_price E c =
     io_bind (io_context ''Failed to get gas price from Reth node''
       (make_rpc_call E c ''eth_gasPrice'' 1)) (\<lambda>response.
     io_bind (io_res (res_of (Bail ''Invalid gas price response format'') (jr_result_str response))) (\<lambda>hex.
     io_bind (io_res (context_res ''Failed to parse gas price as U256 hex value''
       (res_of HexErr (u256_from_hex (json_of E) (strip_0x hex))))) (\<lambda>gas_price.
     io_match (get_block_number E c) (\<lambda>number.
     io_bind (io_now E) (\<lambda>timestamp.
     io_return \<lparr>gp_gas_price = gas_price,
       gp_block_number = (case number of Inr num \<Rightarrow> num | Inl e \<Rightarrow> 0), gp_timestamp = timestamp\<rparr>)))))"

lemma rpc_step:
  assumes "rpc_attempts E req m (Suc n) s w = (r, w')"
  shows "\<exists>w1 evs. w_events w1 = w_events w @ evs \<and> requests evs \<le> 1 \<and> slept evs \<le> 100 * m
    \<and> (w' = w1 \<or> (\<exists>s'. rpc_attempts E req m n s' w1 = (r, w')))"
proof -
  let ?w1 = "snd (io_http E req w)"
  let ?w2 = "(tick ?w1)\<lparr>w_events := w_events ?w1 @ [EvSleep (100 * (m - n))]\<rparr>"
  obtain ans where e1: "w_events ?w1 = w_events w @ [EvHttp req ans]"
    by (auto simp: io_http_def Let_def)
  have e2: "w_events ?w2 = w_events w @ [EvHttp req ans, EvSleep (100 * (m - n))]"
    using e1 by simp
  have "w' = ?w1 \<or> (\<exists>s'. rpc_attempts E req m n s' ?w1 = (r, w'))
      \<or> (\<exists>s'. rpc_attempts E req m n s' ?w2 = (r, w'))"
    using assms
    by (auto simp: io_match_def io_bind_def io_sleep_def io_return_def io_fail_def Let_def
        split: prod.splits sum.splits if_splits option.splits)
  moreover have "requests [EvHttp req ans] \<le> 1" "slept [EvHttp req ans] \<le> 100 * m"
    "requests [EvHttp req ans, EvSleep (100 * (m - n))] \<le> 1"
    "slept [EvHttp req ans, EvSleep (100 * (m - n))] \<le> 100 * m"
    by simp_all
  ultimately show ?thesis using e1 e2 by metis
qed

interpretation rpc_retry: bounded_retry "rpc_attempts E req m" "100 * m" for E req m
proof unfold_locales
  show "rpc_attempts E req m 0 s w = (r, w') \<Longrightarrow> w_events w' = w_events w" for s w r w'
    by (auto simp: io_fail_def)
qed (rule rpc_step)

lemma unat_gas_price_clamped: "unat (gas_price_as_u64_clamped g) = min (gp_gas_price g) (2 ^ 64 - 1)"
  by (auto simp: gas_price_as_u64_clamped_def min_def unat_of_nat)

lemma gas_price_checked_clamped:
  "gas_price_as_u64_checked g = Inr p \<Longrightarrow> gas_price_as_u64_clamped g = p \<and> unat p = gp_gas_price g"
  by (auto simp: gas_price_as_u64_checked_def gas_price_as_u64_clamped_def unat_of_nat split: if_splits)

section \<open>The validator status cache\<close>

definition cache_get_status :: "env \<Rightarrow> beacon_api_config \<Rightarrow> bls_public_key \<Rightarrow> (err, validator_info) io" where
  "cache_get_status E c k =
     io_bind (io_cache_get E k) (\<lambda>cached. case cached of
       Some info \<Rightarrow> io_return info
     | None \<Rightarrow>
         io_bind (get_validator_status E c k) (\<lambda>info.
         io_bind (io_cache_insert k info) (\<lambda>_. io_return info)))"

definition cache_get_attempt ::
  "env \<Rightarrow> beacon_api_config \<Rightarrow> bls_public_key \<Rightarrow> (err, bls_public_key \<times> validator_info res) io" where
  "cache_get_attempt E c k = io_match (cache_get_status E c k) (\<lambda>r. io_return (k, r))"

text \<open>All lookups run; then the first error in the order of the keys wins.\<close>

definition cache_get_batch_status ::
  "env \<Rightarrow> beacon_api_config \<Rightarrow> bls_public_key list \<Rightarrow> (err, bls_public_key \<rightharpoonup> validator_info) io" where
  "cache_get_batch_status E c ks =
     (if ks = [] then io_return Map.empty
      else io_bind (io_for ks (cache_get_attempt E c)) (\<lambda>results.
        io_res (res_map (\<lambda>pairs. map_of (rev pairs))
          (res_traverse (\<lambda>(k, r). res_map (\<lambda>info. (k, info)) r) results))))"

context log_rel
begin

lemma submit_attempts_obeys [pres]: "obeys R (submit_attempts E url sc n s)"
proof (induction n arbitrary: s)
  case 0
  then show ?case by (cases s) (simp add: fail_obeys)
next
  case (Suc n)
  obtain a l where s: "s = (a, l)" by force
  show ?case unfolding s submit_attempts.simps Let_def by (intro pres Suc.IH)
qed

lemma submit_constraints_obeys [pres]: "obeys R (submit_constraints E c sc)"
  unfolding submit_constraints_def by (intro pres)

lemma relay_get_delegations_obeys [pres]: "obeys R (relay_get_delegations E c s)"
  unfolding relay_get_delegations_def by (intro pres)

lemma rpc_attempts_obeys [pres]: "obeys R (rpc_attempts E req m n u)"
proof (induction n)
  case (Suc n)
  show ?case unfolding rpc_attempts.simps Let_def by (intro pres Suc.IH)
qed (simp add: fail_obeys)

lemma make_rpc_call_obeys [pres]: "obeys R (make_rpc_call E c m i)"
  unfolding make_rpc_call_def by (intro pres)

lemma get_block_number_obeys [pres]: "obeys R (get_block_number E c)"
  unfolding get_block_number_def by (intro pres)

lemma get_gas_price_obeys [pres]: "obeys R (get_gas_price E c)"
  unfolding get_gas_price_def by (intro pres)

lemma cache_get_status_obeys [pres]: "obeys R (cache_get_status E c k)"
  unfolding cache_get_status_def by (intro pres)

lemma cache_get_batch_obeys [pres]: "obeys R (cache_get_batch_status E c ks)"
  unfolding cache_get_batch_status_def cache_get_attempt_def by (intro pres)

end

end
