(* ===== verification/Fee_Pricing.thy ===== *)
theory Fee_Pricing
  imports Congestion_Ops Relay_Api
begin

text \<open>
  The dynamic fee engine (\<open>services/fee_pricing.rs\<close>): the gas price of the Reth node, an estimate of
  the gas of a commitment, the congestion record of its slot and the price projected from it. The
  price is computed in doubles, rounded up and cast back to \<open>u64\<close>.
\<close>

section \<open>Definitions\<close>

record fee_calculation =
  fe_slot :: u64
  fe_base_gas_price :: u64
  fe_congestion_ratio :: f64
  fe_fee_multiplier :: f64
  fe_final_price :: u64
  fe_estimated_gas :: u64
  fe_total_cost :: u64

definition estimate_gas_for_commitment :: "payload_lib \<Rightarrow> u64 \<Rightarrow> bytes \<Rightarrow> u64 res" where
  "estimate_gas_for_commitment P commitment_type payload =
     (if commitment_type = 1 then
        (case parse_inclusion_payload P payload of
           Inr p \<Rightarrow> (let base_gas = 21000; data_gas = of_nat (length (ip_signed_tx p)) * 16;
                        estimation_overhead = 10000
                    in Inr (base_gas + data_gas + estimation_overhead))
         | Inl e \<Rightarrow> Inr 50000)
      else if commitment_type = 2 then Inr 100000
      else Inl (Bail ''Unknown commitment type for gas estimation''))"

definition bounded_price :: "u64 \<Rightarrow> f64 \<Rightarrow> u64" where
  "bounded_price base multiplier =
     (let scaled_price = f64_ceil (f64_mul (f64_of_u64 base) multiplier)
      in if is_finite scaled_price \<and> f64_le scaled_price (f64_of_u64 u64_max)
         then f64_to_u64 scaled_price else u64_max)"

definition calculate_projected_congestion ::
  "(f64 \<Rightarrow> f64 \<Rightarrow> f64) \<Rightarrow> fee_config \<Rightarrow> slot_congestion \<Rightarrow> u64 \<Rightarrow> slot_congestion" where
  "calculate_projected_congestion powf fc current additional_gas =
     (let p = add_gas_usage powf additional_gas (fc_scaling_factor fc) current;
          m = f64_min (f64_max (gc_calculated_fee_multiplier p) (fc_min_fee_multiplier fc))
                (fc_max_fee_multiplier fc)
      in p\<lparr>gc_calculated_fee_multiplier := m,
           gc_current_tx_price := bounded_price (gc_base_gas_price p) m\<rparr>)"

definition get_cached_gas_price :: "env \<Rightarrow> config \<Rightarrow> (err, gas_price_info) io" where
  "get_cached_gas_price E c =
     io_context ''Failed to get gas price from Reth node'' (get_gas_price E (cf_reth c))"

definition calculate_fee_for_commitment ::
  "env \<Rightarrow> config \<Rightarrow> u64 \<Rightarrow> bytes \<Rightarrow> u64 \<Rightarrow> (err, fee_calculation) io" where
  "calculate_fee_for_commitment E c commitment_type payload slot =
     (let fc = rc_fee_config (cf_reth c) in
      io_bind (get_cached_gas_price E c) (\<lambda>gas_price_info.
      io_bind (io_res (estimate_gas_for_commitment (payload_of E) commitment_type payload)) (\<lambda>estimated_gas.
      let gas_price = gas_price_as_u64_clamped gas_price_info in
      io_bind (get_or_create_slot_congestion E slot gas_price (fc_default_gas_limit fc)
        (ba_genesis_time (cf_beacon_api c))) (\<lambda>congestion.
      let projected = calculate_projected_congestion (c_powf (e_crates E)) fc congestion estimated_gas in
      io_bind (io_res (context_res ''Total cost calculation overflow''
        (res_of (Bail ''None'') (checked_mul (gc_current_tx_price projected) estimated_gas)))) (\<lambda>total_cost.
      io_return \<lparr>fe_slot = slot, fe_base_gas_price = gas_price,
        fe_congestion_ratio = gc_gas_used_ratio projected,
        fe_fee_multiplier = gc_calculated_fee_multiplier projected,
        fe_final_price = gc_current_tx_price projected, fe_estimated_gas = estimated_gas,
        fe_total_cost = total_cost\<rparr>)))))"

definition apply_gas_usage_to_slot :: "env \<Rightarrow> config \<Rightarrow> u64 \<Rightarrow> u64 \<Rightarrow> (err, slot_congestion) io" where
  "apply_gas_usage_to_slot E c slot gas_used =
     update_slot_congestion_gas_usage E slot gas_used (fc_scaling_factor (rc_fee_config (cf_reth c)))"

definition get_current_slot :: "env \<Rightarrow> config \<Rightarrow> (err, u64) io" where
  "get_current_slot E c =
     io_bind (io_now E) (\<lambda>now. io_return (current_slot_estimate now (ba_genesis_time (cf_beacon_api c))))"

definition slot_acceptable :: "u64 \<Rightarrow> u64 \<Rightarrow> bool" where
  "slot_acceptable current_slot slot = (current_slot \<le> slot \<and> slot \<le> current_slot + 10)"

definition is_slot_acceptable_for_fees :: "env \<Rightarrow> config \<Rightarrow> u64 \<Rightarrow> (err, bool) io" where
  "is_slot_acceptable_for_fees E c slot =
     io_bind (get_current_slot E c) (\<lambda>current. io_return (slot_acceptable current slot))"

definition cache_refresh_interval_secs :: "fee_config \<Rightarrow> u64" where
  "cache_refresh_interval_secs fc = max (fc_cache_ttl_secs fc div 2) 1"

text \<open>One round of the refresh task: a failed fetch is only logged.\<close>

definition cache_refresh_tick :: "env \<Rightarrow> config \<Rightarrow> (err, unit) io" where
  "cache_refresh_tick E c = io_match (get_gas_price E (cf_reth c)) (\<lambda>r. io_return ())"

record pricing_stats =
  ps_current_slot :: u64
  ps_current_base_gas_price :: "u64 option"
  ps_congestion :: congestion_stats

definition get_pricing_stats :: "env \<Rightarrow> config \<Rightarrow> (err, pricing_stats) io" where
  "get_pricing_stats E c =
     io_bind (get_congestion_stats E) (\<lambda>stats.
     io_bind (get_current_slot E c) (\<lambda>current_slot.
     io_match (get_cached_gas_price E c) (\<lambda>r.
     io_return \<lparr>ps_current_slot = current_slot,
       ps_current_base_gas_price = (case r of Inr info \<Rightarrow> Some (gas_price_as_u64_clamped info) | Inl e \<Rightarrow> None),
       ps_congestion = stats\<rparr>)))"

section \<open>Bounds\<close>

lemma estimate_gas_inclusion:
  assumes "parse_inclusion_payload P payload = Inr p" "31000 + 16 * length (ip_signed_tx p) < 2 ^ 64"
  shows "\<exists>g. estimate_gas_for_commitment P 1 payload = Inr g \<and> unat g = 31000 + 16 * length (ip_signed_tx p)"
proof -
  let ?n = "length (ip_signed_tx p)"
  have "31000 + of_nat ?n * 16 = (of_nat (31000 + 16 * ?n) :: u64)" by simp
  moreover have "unat (of_nat (31000 + 16 * ?n) :: u64) = 31000 + 16 * ?n"
    using assms(2) by (simp add: unat_of_nat del: of_nat_add of_nat_mult)
  ultimately have "unat (31000 + of_nat ?n * 16 :: u64) = 31000 + 16 * ?n" by (simp only:)
  then show ?thesis
    using assms(1) by (simp add: estimate_gas_for_commitment_def Let_def)
qed

lemma estimate_gas_Inr: "estimate_gas_for_commitment P t payload = Inr g \<Longrightarrow> t = 1 \<or> t = 2"
  by (auto simp: estimate_gas_for_commitment_def split: if_splits)

lemma projected_multiplier_range:
  assumes "f64_le (FNum 1) (fc_min_fee_multiplier fc)"
    and "f64_le (fc_min_fee_multiplier fc) (fc_max_fee_multiplier fc)"
    and "f64_le (fc_max_fee_multiplier fc) (FNum 100)"
  shows "f64_le (fc_min_fee_multiplier fc)
           (gc_calculated_fee_multiplier (calculate_projected_congestion powf fc c g))"
    and "f64_le (gc_calculated_fee_multiplier (calculate_projected_congestion powf fc c g))
           (fc_max_fee_multiplier fc)"
proof -
  have n: "fc_min_fee_multiplier fc \<noteq> FNaN" "fc_max_fee_multiplier fc \<noteq> FNaN"
    using assms by auto
  then show "f64_le (fc_min_fee_multiplier fc)
      (gc_calculated_fee_multiplier (calculate_projected_congestion powf fc c g))"
    using assms(2) by (simp add: calculate_projected_congestion_def Let_def f64_min_ge f64_max_ge)
  show "f64_le (gc_calculated_fee_multiplier (calculate_projected_congestion powf fc c g))
      (fc_max_fee_multiplier fc)"
    using n by (simp add: calculate_projected_congestion_def Let_def f64_min_le)
qed

lemma bounded_price_lower:
  assumes "unat base \<le> 2 ^ 53" "f64_le (FNum 1) m"
  shows "base \<le> bounded_price base m"
proof -
  let ?b = "of_nat (unat base) :: rat"
  let ?p = "f64_mul (f64_of_u64 base) m"
  have base: "f64_of_u64 base = FNum ?b" by (rule f64_of_u64_small [OF assms(1)])
  have to: "f64_to_u64 (FNum ?b) = base"
    using f64_to_u64_of_nat [OF unat_u64_less [of base]] by (simp add: word_unat_eq_iff del: of_nat_unat)
  show ?thesis
  proof (cases "is_finite (f64_ceil ?p) \<and> f64_le (f64_ceil ?p) (f64_of_u64 u64_max)")
    case True
    have "f64_le (FNum ?b) ?p"
    proof (cases m)
      case (FNum r)
      then have r: "1 \<le> r" using assms(2) by simp
      then have "?b \<le> ?b * r" by (simp add: mult_le_cancel_left1 del: of_nat_unat)
      moreover have "?p = round_f64 False (?b * r)"
        using r f64_mul_pos [of ?b r] FNum by (simp add: base del: of_nat_unat)
      ultimately show ?thesis using round_f64_lower [OF _ assms(1)] by metis
    next
      case (FInf s)
      then show ?thesis using assms(2) True
        by (auto simp: base f64_mul_def is_zero_def Let_def simp del: of_nat_unat split: if_splits)
    qed (use assms(2) in auto)
    then have "f64_to_u64 (FNum ?b) \<le> f64_to_u64 (f64_ceil ?p)"
      by (metis f64_ceil_mono f64_ceil_of_nat f64_to_u64_mono)
    then show ?thesis using True to by (simp add: bounded_price_def Let_def)
  next
    case False
    then have "bounded_price base m = u64_max" by (auto simp: bounded_price_def Let_def)
    then show ?thesis using unat_u64_le [of base] by (simp add: word_le_nat_alt)
  qed
qed

lemma bounded_price_upper:
  assumes "100 * unat base \<le> 2 ^ 53" "f64_le (FNum 1) m" "f64_le m (FNum 100)"
  shows "unat (bounded_price base m) \<le> 100 * unat base"
proof -
  obtain r where r: "m = FNum r" "1 \<le> r" "r \<le> 100"
    using f64_between [OF assms(2,3)] by auto
  let ?b = "of_nat (unat base) :: rat"
  let ?c = "f64_ceil (f64_mul (f64_of_u64 base) m)"
  have base: "unat base \<le> 2 ^ 53" using assms(1) by linarith
  have p: "f64_mul (f64_of_u64 base) m = round_f64 False (?b * r)"
    using r f64_mul_pos [of ?b r] by (simp add: f64_of_u64_small [OF base] del: of_nat_unat)
  have "?b * r \<le> ?b * 100" using r(3) by (intro mult_left_mono) (simp_all del: of_nat_unat)
  also have "\<dots> = of_nat (100 * unat base)" by simp
  finally have up: "?b * r \<le> of_nat (100 * unat base)" .
  have nonneg: "0 \<le> ?b * r" using r(2) by (intro mult_nonneg_nonneg) (simp_all del: of_nat_unat)
  have le: "f64_le ?c (FNum (of_nat (100 * unat base)))"
    unfolding p using f64_ceil_mono [OF round_f64_upper [OF nonneg up assms(1)]]
    by (simp only: f64_ceil_of_nat)
  have "(2::nat) ^ 53 \<le> 2 ^ 64 - 1" by simp
  then have "f64_le (FNum (of_nat (2 ^ 53))) (f64_of_u64 u64_max)"
    unfolding f64_of_u64_nat by (intro round_f64_lower) simp_all
  moreover have "f64_le (FNum (of_nat (100 * unat base))) (FNum (of_nat (2 ^ 53)))"
    using assms(1) by (simp only: f64_le.simps fval.simps of_nat_le_iff)
  ultimately have "f64_le ?c (f64_of_u64 u64_max)" using le f64_le_trans by blast
  moreover have "is_finite ?c"
  proof -
    have "f64_le (FNum (of_nat 0)) (round_f64 False (?b * r))"
      using nonneg by (intro round_f64_lower) (simp_all del: of_nat_unat)
    then have "f64_le (FNum 0) ?c" unfolding p using f64_ceil_mono [of "FNum 0"] by fastforce
    then show ?thesis using le by (cases ?c) auto
  qed
  ultimately have "bounded_price base m = f64_to_u64 ?c" by (simp add: bounded_price_def Let_def)
  moreover have "f64_to_u64 ?c \<le> f64_to_u64 (FNum (of_nat (100 * unat base)))"
    using le by (rule f64_to_u64_mono)
  ultimately show ?thesis
    using f64_to_u64_of_nat [of "100 * unat base"] assms(1)
    by (simp add: word_le_nat_alt del: of_nat_unat of_nat_mult)
qed

section \<open>Results\<close>

lemma calculate_fee_Inr:
  assumes "calculate_fee_for_commitment E c t payload slot w = (Inr fee, w')"
  shows "t = 1 \<or> t = 2" "fe_slot fee = slot"
    and "estimate_gas_for_commitment (payload_of E) t payload = Inr (fe_estimated_gas fee)"
    and "unat (fe_total_cost fee) = unat (fe_final_price fee) * unat (fe_estimated_gas fee)"
    and "\<exists>r \<in> set (db_congestion (w_db w')). gr_slot r = slot \<and>
      (\<exists>cong. congestion_matches cong r \<and>
         fe_final_price fee = gc_current_tx_price
           (calculate_projected_congestion (c_powf (e_crates E)) (rc_fee_config (cf_reth c)) cong
              (fe_estimated_gas fee)))"
proof -
  note a = assms [unfolded calculate_fee_for_commitment_def Let_def]
  show e: "estimate_gas_for_commitment (payload_of E) t payload = Inr (fe_estimated_gas fee)"
    using a by (auto simp: io_Inr)
  show "t = 1 \<or> t = 2" using e by (rule estimate_gas_Inr)
  show "fe_slot fee = slot" using a by (auto simp: io_Inr)
  show "unat (fe_total_cost fee) = unat (fe_final_price fee) * unat (fe_estimated_gas fee)"
    using a by (auto simp: io_Inr checked_mul_Some)
  show "\<exists>r \<in> set (db_congestion (w_db w')). gr_slot r = slot \<and>
      (\<exists>cong. congestion_matches cong r \<and>
         fe_final_price fee = gc_current_tx_price
           (calculate_projected_congestion (c_powf (e_crates E)) (rc_fee_config (cf_reth c)) cong
              (fe_estimated_gas fee)))"
    using a by (auto simp: io_Inr dest!: get_or_create_Inr(1)) blast
qed

lemma unat_refresh_interval: "1 \<le> unat (cache_refresh_interval_secs fc)"
  by (simp add: cache_refresh_interval_secs_def max_def word_le_nat_alt split: if_splits)

context quiet_rel
begin

lemma get_cached_gas_price_obeys [pres]: "obeys R (get_cached_gas_price E c)"
  unfolding get_cached_gas_price_def by (intro pres)

lemma calculate_fee_obeys:
  assumes "\<And>r w. R w (w\<lparr>w_db := snd (insert_congestion r (w_db w))\<rparr>)"
  shows "obeys R (calculate_fee_for_commitment E c t p s)"
  unfolding calculate_fee_for_commitment_def Let_def
  by (intro pres get_or_create_obeys assms)

lemma apply_gas_usage_obeys:
  assumes "\<And>c t w. R w (w\<lparr>w_db := snd (update_congestion s c t (w_db w))\<rparr>)"
  shows "obeys R (apply_gas_usage_to_slot E c s g)"
  unfolding apply_gas_usage_to_slot_def by (intro update_gas_usage_obeys assms)

lemma get_current_slot_obeys [pres]: "obeys R (get_current_slot E c)"
  unfolding get_current_slot_def by (intro pres)

end

end
