(* ===== verification/Rpc_Handlers.thy ===== *)
theory Rpc_Handlers
  imports Commitment_Ops Delegation_Ops Fee_Pricing
begin

text \<open>
  The JSON-RPC handlers (\<open>rpc/handlers.rs\<close>). The argument \<open>params\<close> is what \<open>params.one()\<close> returns:
  \<open>None\<close> is its error, which the framework reports as InvalidParams. The handler of
  \<open>commitmentRequest\<close> is cut at its awaits on shared state into stages, so that the interleaving of
  several requests can be stated on the same definitions (theory \<open>Gateway\<close>); the handler is their
  composition.
\<close>

datatype rpc_error = InvalidParams | InvalidRequest | InternalError

definition io_code :: "rpc_error \<Rightarrow> (err, 'a) io \<Rightarrow> (rpc_error, 'a) io" where
  "io_code code = io_map_err (\<lambda>_. code)"

definition res_code :: "rpc_error \<Rightarrow> (err + 'a) \<Rightarrow> rpc_error + 'a" where
  "res_code code = res_map_err (\<lambda>_. code)"

section \<open>Helpers of the handlers\<close>

definition validate_and_extract_slot :: "payload_lib \<Rightarrow> u64 \<Rightarrow> bytes \<Rightarrow> u64 res" where
  "validate_and_extract_slot P commitment_type payload =
     context_res ''Failed to extract slot from payload'' (extract_slot P commitment_type payload)"

definition is_whitelisted :: "config \<Rightarrow> string \<Rightarrow> bool" where
  "is_whitelisted c slasher =
     list_ex (\<lambda>w. normalize_address w = normalize_address slasher) (cf_slasher_whitelist c)"

definition validate_slasher_address :: "config \<Rightarrow> string \<Rightarrow> unit res" where
  "validate_slasher_address c slasher =
     ensure (is_whitelisted c slasher) (Bail ''Slasher address is not in the configured whitelist'')"

definition committer_matches :: "u64 \<Rightarrow> string \<Rightarrow> signed_delegation \<Rightarrow> bool" where
  "committer_matches slot committer d =
     (normalize_address (dm_committer (sd_message d)) = normalize_address committer \<and> is_valid_for_slot d slot)"

definition check_delegation_bls :: "env \<Rightarrow> config \<Rightarrow> signed_delegation \<Rightarrow> unit res" where
  "check_delegation_bls E c d =
     res_bind (context_res ''Failed to create BLS manager''
       (bls_manager_new (hash_of E) (dc_domain_application_gateway (cf_delegation c)))) (\<lambda>_.
     case verify_delegation_signature (hash_of E) (blst_of E) d of
       Inr valid \<Rightarrow> if valid then Inr () else Inl (Bail ''Invalid BLS signature on delegation'')
     | Inl e \<Rightarrow> Inl (Ctx ''Failed to verify BLS signature on delegation'' e))"

definition check_proposer :: "env \<Rightarrow> config \<Rightarrow> u64 \<Rightarrow> signed_delegation \<Rightarrow> (err, unit) io" where
  "check_proposer E c slot d =
     io_bind (io_context ''Failed to query beacon chain''
       (get_proposer_for_slot E (cf_beacon_api c) slot)) (\<lambda>duty.
     case duty of
       None \<Rightarrow> io_fail (Bail ''No proposer scheduled'')
     | Some proposer_duty \<Rightarrow>
         io_bind (io_res (context_res ''Failed to parse proposer public key''
           (parse_pubkey (hash_of E) proposer_duty))) (\<lambda>scheduled_proposer.
         if scheduled_proposer \<noteq> dm_proposer (sd_message d) then io_fail (Bail ''Delegation proposer mismatch'')
         else io_return ()))"

definition verify_delegation_authority :: "env \<Rightarrow> config \<Rightarrow> u64 \<Rightarrow> string \<Rightarrow> (err, string) io" where
  "verify_delegation_authority E c slot committer_address =
     io_bind (io_context ''Failed to query delegations'' (get_delegations_for_slot E slot)) (\<lambda>delegations.
     case List.find (committer_matches slot committer_address) delegations of
       None \<Rightarrow> io_fail (Bail ''No valid delegation found'')
     | Some d \<Rightarrow>
         io_bind (io_res (check_delegation_bls E c d)) (\<lambda>_.
         io_bind (check_proposer E c slot d) (\<lambda>_.
         io_return (dm_committer (sd_message d)))))"

definition find_signing_key_for_committer :: "config \<Rightarrow> string \<Rightarrow> secp_secret res" where
  "find_signing_key_for_committer c committer_address =
     (if normalize_address committer_address = normalize_address (sk_committer_address (cf_signing c))
      then Inr (sk_ecdsa_private_key (cf_signing c))
      else Inl (Bail ''No signing key found for committer address''))"

section \<open>commitmentRequest\<close>

text \<open>Stage 1: everything before the first await.\<close>

record checked_request =
  kr_request :: commitment_request
  kr_slot :: u64
  kr_hash :: string

definition stage_validate ::
  "env \<Rightarrow> config \<Rightarrow> commitment_request option \<Rightarrow> rpc_error + checked_request" where
  "stage_validate E c params =
     res_bind (res_of InvalidParams params) (\<lambda>request.
     if cr_commitment_type request \<noteq> 1 then Inl InvalidParams
     else
       res_bind (res_code InvalidRequest (validate_slasher_address c (cr_slasher request))) (\<lambda>_.
       res_bind (res_code InvalidParams (validate_and_extract_slot (payload_of E)
         (cr_commitment_type request) (cr_payload request))) (\<lambda>slot.
       res_bind (res_code InternalError (generate_request_hash (hash_of E) request)) (\<lambda>request_hash.
       Inr \<lparr>kr_request = request, kr_slot = slot, kr_hash = request_hash\<rparr>))))"

text \<open>Stage 2: the early duplicate check.\<close>

definition stage_exists :: "env \<Rightarrow> checked_request \<Rightarrow> (rpc_error, unit) io" where
  "stage_exists E k =
     io_bind (io_code InternalError (commitment_exists E (kr_hash k))) (\<lambda>exists.
     if exists then io_fail InvalidRequest else io_return ())"

text \<open>Stage 3: delegation authority, then the key and the signature.\<close>

definition commitment_of_request :: "checked_request \<Rightarrow> commitment" where
  "commitment_of_request k =
     \<lparr>co_commitment_type = cr_commitment_type (kr_request k), co_payload = cr_payload (kr_request k),
      co_request_hash = kr_hash k, co_slasher = cr_slasher (kr_request k)\<rparr>"

definition stage_authority :: "env \<Rightarrow> config \<Rightarrow> checked_request \<Rightarrow> (rpc_error, signed_commitment) io" where
  "stage_authority E c k =
     io_bind (io_code InvalidRequest
       (verify_delegation_authority E c (kr_slot k) (cr_slasher (kr_request k)))) (\<lambda>committer_address.
     io_bind (io_res (res_code InvalidRequest (find_signing_key_for_committer c committer_address))) (\<lambda>signing_key.
     io_bind (io_res (res_code InternalError
       (sign_commitment (hash_of E) (secp_of E) (commitment_of_request k) signing_key))) (\<lambda>signature.
     io_return \<lparr>sg_commitment = commitment_of_request k, sg_signature = signature\<rparr>)))"

text \<open>Stage 4: the row, with ON CONFLICT as the second duplicate check.\<close>

definition stage_save :: "env \<Rightarrow> signed_commitment \<Rightarrow> (rpc_error, unit) io" where
  "stage_save E sc =
     io_bind (io_code InternalError (save_commitment E sc)) (\<lambda>saved.
     case saved of None \<Rightarrow> io_fail InvalidRequest | Some uid \<Rightarrow> io_return ())"

text \<open>
  Stage 5: the fee; its failure fails the request. Stage 6: the gas; its failure is logged, unless it
  is a panic, which ends the request.
\<close>

fun is_panic :: "err \<Rightarrow> bool" where
  "is_panic (Panic msg) = True"
| "is_panic (Ctx msg e) = is_panic e"
| "is_panic _ = False"

definition stage_fee :: "env \<Rightarrow> config \<Rightarrow> checked_request \<Rightarrow> (rpc_error, u64) io" where
  "stage_fee E c k =
     io_bind (io_code InternalError (calculate_fee_for_commitment E c
       (cr_commitment_type (kr_request k)) (cr_payload (kr_request k)) (kr_slot k))) (\<lambda>fee.
     io_return (fe_estimated_gas fee))"

definition stage_gas :: "env \<Rightarrow> config \<Rightarrow> checked_request \<Rightarrow> u64 \<Rightarrow> (rpc_error, unit) io" where
  "stage_gas E c k gas = io_match (apply_gas_usage_to_slot E c (kr_slot k) gas) (\<lambda>r. case r of
       Inr congestion \<Rightarrow> io_return ()
     | Inl e \<Rightarrow> if is_panic e then io_fail InternalError else io_return ())"

definition commitment_request_handler ::
  "env \<Rightarrow> config \<Rightarrow> commitment_request option \<Rightarrow> (rpc_error, signed_commitment) io" where
  "commitment_request_handler E c params =
     io_bind (io_res (stage_validate E c params)) (\<lambda>k.
     io_bind (stage_exists E k) (\<lambda>_.
     io_bind (stage_authority E c k) (\<lambda>signed_commitment.
     io_bind (stage_save E signed_commitment) (\<lambda>_.
     io_bind (stage_fee E c k) (\<lambda>gas.
     io_bind (stage_gas E c k gas) (\<lambda>_.
     io_return signed_commitment))))))"

section \<open>The other methods\<close>

definition commitment_result_handler :: "env \<Rightarrow> string option \<Rightarrow> (rpc_error, signed_commitment) io" where
  "commitment_result_handler E params =
     io_bind (io_res (res_of InvalidParams params)) (\<lambda>request_hash.
     io_match (get_commitment_by_hash E request_hash) (\<lambda>r. case r of
       Inr (Some signed_commitment) \<Rightarrow> io_return signed_commitment
     | Inr None \<Rightarrow> io_fail InvalidRequest
     | Inl e \<Rightarrow> io_fail InternalError))"

definition hoodi_slot :: "u64 \<Rightarrow> slot_info" where
  "hoodi_slot slot = \<lparr>si_slot = slot, si_offerings = [\<lparr>of_chain_id = 560048, of_commitment_types = [1]\<rparr>]\<rparr>"

definition slots_between :: "u64 \<Rightarrow> u64 \<Rightarrow> u64 list" where
  "slots_between start stop = map of_nat [unat start ..< unat stop]"

definition slots_handler :: "env \<Rightarrow> config \<Rightarrow> (rpc_error, slot_info_response) io" where
  "slots_handler E c =
     io_bind (io_now E) (\<lambda>now.
     let current_slot = current_slot_estimate now (ba_genesis_time (cf_beacon_api c));
         lookahead_slots = dc_lookahead_epochs (cf_delegation c) * slots_per_epoch;
         start_slot = current_slot + 1;
         end_slot = start_slot + lookahead_slots
     in io_return \<lparr>sr_slots = map hoodi_slot (slots_between start_slot end_slot)\<rparr>)"

definition congestion_ppm :: "f64 \<Rightarrow> u64" where
  "congestion_ppm ratio = f64_to_u64 (f64_mul (f64_clamp ratio (FNum 0) (FNum 1)) (FNum 1000000))"

definition fee_payload :: "fee_calculation \<Rightarrow> bytes" where
  "fee_payload fee = to_le_bytes (fe_total_cost fee) @ to_le_bytes (fe_final_price fee)
     @ to_le_bytes (fe_estimated_gas fee) @ to_le_bytes (congestion_ppm (fe_congestion_ratio fee))"

definition fee_handler :: "env \<Rightarrow> config \<Rightarrow> commitment_request option \<Rightarrow> (rpc_error, fee_info) io" where
  "fee_handler E c params =
     io_bind (io_res (res_of InvalidParams params)) (\<lambda>request.
     if cr_commitment_type request \<noteq> 1 then io_fail InvalidParams
     else
       io_bind (io_res (res_code InvalidParams (validate_and_extract_slot (payload_of E)
         (cr_commitment_type request) (cr_payload request)))) (\<lambda>slot.
       io_bind (io_code InternalError (is_slot_acceptable_for_fees E c slot)) (\<lambda>acceptable.
       if \<not> acceptable then io_fail InvalidParams
       else
         io_bind (io_code InternalError (calculate_fee_for_commitment E c
           (cr_commitment_type request) (cr_payload request) slot)) (\<lambda>fee.
         io_return \<lparr>fi_payload = fee_payload fee, fi_commitment_type = cr_commitment_type request\<rparr>))))"

section \<open>Rules\<close>

lemma io_code_Inr: "io_code code m w = (Inr b, w') \<longleftrightarrow> m w = (Inr b, w')"
  by (simp add: io_code_def io_map_err_Inr)

lemma res_code_Inr [iff]: "res_code code r = Inr b \<longleftrightarrow> r = Inr b"
  by (simp add: res_code_def)

lemma validate_slasher_Inr [simp]: "validate_slasher_address c s = Inr u \<longleftrightarrow> is_whitelisted c s"
  by (simp add: validate_slasher_address_def)

lemma extract_slot_Inr [simp]: "validate_and_extract_slot P t p = Inr s \<longleftrightarrow> extract_slot P t p = Inr s"
  by (simp add: validate_and_extract_slot_def)

lemma find_signing_key_Inr:
  "find_signing_key_for_committer c a = Inr k \<longleftrightarrow>
     normalize_address a = normalize_address (sk_committer_address (cf_signing c))
     \<and> k = sk_ecdsa_private_key (cf_signing c)"
  by (auto simp: find_signing_key_for_committer_def)

lemma check_delegation_bls_Inr:
  "check_delegation_bls E c d = Inr u \<Longrightarrow> verify_delegation_signature (hash_of E) (blst_of E) d = Inr True"
  by (auto simp: check_delegation_bls_def split: sum.splits if_splits)

section \<open>Delegation authority\<close>

definition scheduled :: "env \<Rightarrow> config \<Rightarrow> u64 \<Rightarrow> bls_public_key \<Rightarrow> bool" where
  "scheduled E c slot proposer =
     (\<exists>duties duty. beacon_answer E (cf_beacon_api c) (slot_to_epoch slot) duties
        \<and> duty \<in> set (pd_data duties) \<and> parse_slot duty = Inr slot
        \<and> parse_pubkey (hash_of E) duty = Inr proposer)"

definition authorises :: "env \<Rightarrow> config \<Rightarrow> u64 \<Rightarrow> string \<Rightarrow> signed_delegation \<Rightarrow> bool" where
  "authorises E c slot committer d =
     (committer_matches slot committer d
      \<and> verify_delegation_signature (hash_of E) (blst_of E) d = Inr True
      \<and> scheduled E c slot (dm_proposer (sd_message d)))"

lemma check_proposer_Inr:
  assumes "check_proposer E c slot d w = (Inr u, w')"
  shows "scheduled E c slot (dm_proposer (sd_message d))"
proof -
  obtain duty w1 where "get_proposer_for_slot E (cf_beacon_api c) slot w = (Inr (Some duty), w1)"
    and "parse_pubkey (hash_of E) duty = Inr (dm_proposer (sd_message d))"
    using assms by (auto simp: check_proposer_def io_Inr split: option.splits if_splits)
  then show ?thesis
    using get_proposer_for_slot_Some unfolding scheduled_def by blast
qed

lemma verify_delegation_authority_Inr:
  assumes "scan_law E" "verify_delegation_authority E c slot committer w = (Inr a, w')"
  shows "\<exists>r \<in> set (db_delegations (w_db w)). dr_is_active r \<and> dr_slot_number r = slot
    \<and> (\<exists>d. delegation_of_row r = Inr d \<and> authorises E c slot committer d \<and> a = dm_committer (sd_message d))"
proof -
  obtain ds w1 d w2 w3 u u' where ds: "get_delegations_for_slot E slot w = (Inr ds, w1)"
    and f: "List.find (committer_matches slot committer) ds = Some d"
    and bls: "check_delegation_bls E c d = Inr u"
    and pr: "check_proposer E c slot d w2 = (Inr u', w3)" and a: "a = dm_committer (sd_message d)"
    using assms(2)
    by (auto simp: verify_delegation_authority_def io_Inr split: option.splits)
  from f have d: "d \<in> set ds" "committer_matches slot committer d" by (auto dest: find_Some_mem)
  have "authorises E c slot committer d"
    using d(2) check_delegation_bls_Inr [OF bls] check_proposer_Inr [OF pr] by (simp add: authorises_def)
  then show ?thesis using get_delegations_for_slot_mem [OF assms(1) ds d(1)] a by blast
qed

context quiet_rel
begin

lemma code_obeys [pres]: "obeys R m \<Longrightarrow> obeys R (io_code code m)"
  unfolding io_code_def by (intro pres)

lemma check_proposer_obeys [pres]: "obeys R (check_proposer E c s d)"
  unfolding check_proposer_def by (intro pres)

lemma verify_authority_obeys [pres]: "obeys R (verify_delegation_authority E c s a)"
  unfolding verify_delegation_authority_def by (intro pres)

lemma stage_exists_obeys [pres]: "obeys R (stage_exists E k)"
  unfolding stage_exists_def by (intro pres)

lemma stage_authority_obeys [pres]: "obeys R (stage_authority E c k)"
  unfolding stage_authority_def by (intro pres)

lemma commitment_result_obeys [pres]: "obeys R (commitment_result_handler E p)"
  unfolding commitment_result_handler_def by (intro pres)

lemma slots_obeys [pres]: "obeys R (slots_handler E c)"
  unfolding slots_handler_def Let_def by (intro pres)

end

section \<open>Results of the stages\<close>

lemma stage_validate_Inr:
  "stage_validate E c params = Inr k \<longleftrightarrow>
     params = Some (kr_request k) \<and> cr_commitment_type (kr_request k) = 1
     \<and> is_whitelisted c (cr_slasher (kr_request k))
     \<and> extract_slot (payload_of E) 1 (cr_payload (kr_request k)) = Inr (kr_slot k)
     \<and> generate_request_hash (hash_of E) (kr_request k) = Inr (kr_hash k)"
  by (cases k; cases params) (auto simp: stage_validate_def)

lemma stage_exists_Inr:
  "stage_exists E k w = (Inr u, w') \<Longrightarrow>
   kr_hash k \<notin> ci_request_hash ` set (db_commitments (w_db w)) \<and> w_db w' = w_db w"
  by (auto simp: stage_exists_def io_Inr io_code_Inr dest!: commitment_exists_Inr split: if_splits)

text \<open>A commitment the gateway may give out: signed with its key, for a delegation that authorises it.\<close>

definition properly_signed :: "env \<Rightarrow> config \<Rightarrow> signed_commitment \<Rightarrow> bool" where
  "properly_signed E c sc =
     (sign_commitment (hash_of E) (secp_of E) (sg_commitment sc) (sk_ecdsa_private_key (cf_signing c))
        = Inr (sg_signature sc))"

lemma stage_authority_Inr:
  assumes "scan_law E" "stage_authority E c k w = (Inr sc, w')"
  shows "sg_commitment sc = commitment_of_request k \<and> properly_signed E c sc \<and> w_db w' = w_db w
    \<and> (\<exists>r \<in> set (db_delegations (w_db w)). dr_is_active r \<and> dr_slot_number r = kr_slot k
       \<and> (\<exists>d. delegation_of_row r = Inr d \<and> authorises E c (kr_slot k) (cr_slasher (kr_request k)) d
            \<and> normalize_address (dm_committer (sd_message d))
                = normalize_address (sk_committer_address (cf_signing c))))"
proof -
  have db: "w_db w' = w_db w" using same_db.stage_authority_obeys assms(2) by (rule same_db_D)
  obtain a w1 where v: "verify_delegation_authority E c (kr_slot k) (cr_slasher (kr_request k)) w = (Inr a, w1)"
    and n: "normalize_address a = normalize_address (sk_committer_address (cf_signing c))"
    and s: "sign_commitment (hash_of E) (secp_of E) (commitment_of_request k)
              (sk_ecdsa_private_key (cf_signing c)) = Inr (sg_signature sc)"
      "sg_commitment sc = commitment_of_request k"
    using assms(2) by (auto simp: stage_authority_def io_Inr io_code_Inr find_signing_key_Inr)
  show ?thesis
    using verify_delegation_authority_Inr [OF assms(1) v] n s db by (auto simp: properly_signed_def)
qed

lemma stage_save_Inr:
  assumes "stage_save E sc w = (Inr u, w')"
  shows "\<exists>uid. save_commitment E sc w = (Inr (Some uid), w')"
  using assms by (auto simp: stage_save_def io_Inr io_code_Inr split: option.splits)

section \<open>Rejections\<close>

lemma io_code_Inl: "io_code code m w = (Inl e, w') \<Longrightarrow> e = code \<and> (\<exists>d. m w = (Inl d, w'))"
  by (auto simp: io_code_def io_map_err_def res_map_err_def split: prod.splits sum.splits)

lemma stage_save_Inl:
  assumes "stage_save E sc w = (Inl e, w')" "e \<noteq> InternalError"
  shows "e = InvalidRequest \<and> w_db w' = w_db w
    \<and> co_request_hash (sg_commitment sc) \<in> ci_request_hash ` set (db_commitments (w_db w))"
proof -
  have "e = InvalidRequest" "save_commitment E sc w = (Inr None, w')"
    using assms by (auto simp: stage_save_def io_bind_Inl io_code_Inr io_fail_def io_return_def
        dest: io_code_Inl split: option.splits)
  then show ?thesis using save_commitment_None by blast
qed

lemma stage_fee_Inl: "stage_fee E c k w = (Inl e, w') \<Longrightarrow> e = InternalError"
  by (auto simp: stage_fee_def io_bind_Inl io_return_def dest: io_code_Inl)

lemma stage_gas_Inl:
  assumes "stage_gas E c k g w = (Inl e, w')"
  shows "e = InternalError"
proof -
  obtain r w1 where "apply_gas_usage_to_slot E c (kr_slot k) g w = (r, w1)" by force
  then show ?thesis
    using assms by (cases r) (auto simp: stage_gas_def io_match_def io_return_def io_fail_def split: if_splits)
qed

text \<open>An answer other than InternalError means that the request has changed nothing.\<close>

lemma handler_rejects:
  assumes "commitment_request_handler E c params w = (Inl e, w')" "e \<noteq> InternalError"
  shows "w_db w' = w_db w"
proof -
  consider (validate) "w' = w"
    | (exists) k where "stage_exists E k w = (Inl e, w')"
    | (authority) k u w1 where "stage_exists E k w = (Inr u, w1)" "stage_authority E c k w1 = (Inl e, w')"
    | (save) k u w1 sc w2 where "stage_exists E k w = (Inr u, w1)" "stage_authority E c k w1 = (Inr sc, w2)"
        "stage_save E sc w2 = (Inl e, w')"
    using assms stage_fee_Inl stage_gas_Inl
    by (fastforce simp: commitment_request_handler_def io_bind_Inl io_res_eq io_return_def)
  then show ?thesis
  proof cases
    case exists
    then show ?thesis by (rule same_db_D [OF same_db.stage_exists_obeys])
  next
    case authority
    then show ?thesis
      using same_db_D [OF same_db.stage_exists_obeys] same_db_D [OF same_db.stage_authority_obeys] by metis
  next
    case save
    then show ?thesis
      using stage_save_Inl [OF save(3) assms(2)] same_db_D [OF same_db.stage_exists_obeys]
        same_db_D [OF same_db.stage_authority_obeys] by metis
  qed simp
qed

text \<open>A request whose hash is stored is refused before anything is changed.\<close>

lemma handler_duplicate:
  assumes "generate_request_hash (hash_of E) request = Inr h"
    and "h \<in> ci_request_hash ` set (db_commitments (w_db w))"
    and "commitment_request_handler E c (Some request) w = (r, w')"
  shows "(\<exists>e. r = Inl e) \<and> w_db w' = w_db w"
proof (cases "stage_validate E c (Some request)")
  case (Inl e)
  then show ?thesis using assms(3) by (auto simp: commitment_request_handler_def io_bind_def io_res_def)
next
  case (Inr k)
  then have "kr_hash k = h" using assms(1) by (auto simp: stage_validate_Inr)
  moreover obtain x w1 where e: "stage_exists E k w = (x, w1)" by force
  ultimately obtain d where "x = Inl d" using assms(2) stage_exists_Inr by (cases x) blast+
  then show ?thesis
    using assms(3) Inr e same_db_D [OF same_db.stage_exists_obeys e]
    by (auto simp: commitment_request_handler_def io_bind_def io_res_def)
qed

text \<open>What a commitment that is given out rests on.\<close>

lemma handler_Inr:
  assumes "commitment_request_handler E c params w = (Inr sc, w')"
  obtains k u w1 w2 u' w3 g w4 u'' where
    "stage_validate E c params = Inr k" "stage_exists E k w = (Inr u, w1)"
    "stage_authority E c k w1 = (Inr sc, w2)" "stage_save E sc w2 = (Inr u', w3)"
    "stage_fee E c k w3 = (Inr g, w4)" "stage_gas E c k g w4 = (Inr u'', w')"
  using assms by (auto simp: commitment_request_handler_def io_Inr)

section \<open>Slots and fees\<close>

lemma slots_handler_list:
  assumes "unat (current_slot_estimate (e_now E (w_tick w)) (ba_genesis_time (cf_beacon_api c))) + 1
      + 32 * unat (dc_lookahead_epochs (cf_delegation c)) < 2 ^ 64"
  shows "\<exists>slots. fst (slots_handler E c w) = Inr \<lparr>sr_slots = map hoodi_slot slots\<rparr>
    \<and> map unat slots = [unat (current_slot_estimate (e_now E (w_tick w)) (ba_genesis_time (cf_beacon_api c))) + 1
        ..< unat (current_slot_estimate (e_now E (w_tick w)) (ba_genesis_time (cf_beacon_api c))) + 1
          + 32 * unat (dc_lookahead_epochs (cf_delegation c))]"
proof -
  let ?cur = "current_slot_estimate (e_now E (w_tick w)) (ba_genesis_time (cf_beacon_api c))"
  let ?l = "dc_lookahead_epochs (cf_delegation c)"
  have 1: "unat (?cur + 1) = unat ?cur + 1" using assms by (simp add: unat_word_ariths)
  have 2: "unat (?l * 32) = 32 * unat ?l" using assms by (simp add: unat_word_ariths)
  have 3: "unat (?cur + 1 + ?l * 32) = unat ?cur + 1 + 32 * unat ?l"
    using assms 1 2 by (simp add: unat_word_ariths(1) [of "?cur + 1" "?l * 32"])
  let ?slots = "slots_between (?cur + 1) (?cur + 1 + ?l * 32)"
  have "fst (slots_handler E c w) = Inr \<lparr>sr_slots = map hoodi_slot ?slots\<rparr>"
    by (simp add: slots_handler_def io_bind_def io_now_def io_return_def Let_def slots_per_epoch_def)
  moreover have "map unat ?slots = map (\<lambda>n. n) [unat ?cur + 1 ..< unat ?cur + 1 + 32 * unat ?l]"
    unfolding slots_between_def 1 3 map_map
    using assms by (intro map_cong refl) (auto simp: unat_of_nat intro: mod_less)
  ultimately show ?thesis by auto
qed

text \<open>The congestion is reported in parts per million, never more than a million.\<close>

lemma congestion_ppm_bound: "unat (congestion_ppm ratio) \<le> 1000000"
proof (cases "ratio = FNaN")
  case True
  then show ?thesis by (simp add: congestion_ppm_def f64_clamp_nan f64_mul_def)
next
  case False
  have r: "f64_le (FNum 0) (f64_clamp ratio (FNum 0) (FNum 1))" "f64_le (f64_clamp ratio (FNum 0) (FNum 1)) (FNum 1)"
    using f64_clamp_range [OF False, of "FNum 0" "FNum 1"] by simp_all
  have zero: "unat (f64_to_u64 z) \<le> 1000000" if "f64_le z (FNum (of_nat 1000000))" for z
    using f64_to_u64_mono [OF that] f64_to_u64_of_nat [of 1000000]
    by (simp add: word_le_nat_alt del: of_nat_numeral)
  have "f64_le (f64_mul (f64_clamp ratio (FNum 0) (FNum 1)) (FNum 1000000)) (FNum (of_nat 1000000))"
  proof (cases "f64_clamp ratio (FNum 0) (FNum 1)")
    case (FNum q)
    then have q: "0 \<le> q" "q \<le> 1" using r by simp_all
    have "f64_mul (FNum q) (FNum 1000000) = round_f64 False (q * 1000000)"
      using q f64_mul_pos [of q 1000000] by simp
    moreover have "f64_le (round_f64 False (q * 1000000)) (FNum (of_nat 1000000))"
      using q by (intro round_f64_upper) simp_all
    ultimately show ?thesis using FNum by simp
  qed (use r in \<open>auto simp: f64_mul_def round_f64_def signed_zero_def\<close>)
  then show ?thesis unfolding congestion_ppm_def by (rule zero)
qed

lemma fee_handler_Inr:
  assumes "fee_handler E c params w = (Inr info, w')"
  shows "\<exists>request slot fee w1. params = Some request \<and> cr_commitment_type request = 1
    \<and> extract_slot (payload_of E) 1 (cr_payload request) = Inr slot
    \<and> calculate_fee_for_commitment E c 1 (cr_payload request) slot w1 = (Inr fee, w')
    \<and> info = \<lparr>fi_payload = fee_payload fee, fi_commitment_type = 1\<rparr>"
  using assms by (cases params) (auto simp: fee_handler_def io_Inr io_code_Inr split: if_splits)

end
