(* ===== verification/Delegation_Polling.thy ===== *)
theory Delegation_Polling
  imports Delegation_Ops Relay_Api
begin

text \<open>
  The delegation service (\<open>services/delegation_polling.rs\<close>): one polling cycle over the slots of
  the lookahead range, and one cleanup. The jobs that run them are in \<open>Startup\<close>; the counters of the
  cycle are its result.
\<close>

section \<open>Polling\<close>

definition is_eligible :: "validator_info \<Rightarrow> bool" where
  "is_eligible status = (if vi_is_slashed status then False
     else if \<not> vi_is_active status then False else True)"

text \<open>A delegation whose validator status cannot be fetched is rejected.\<close>

definition filter_step ::
  "env \<Rightarrow> beacon_api_config \<Rightarrow> signed_delegation \<Rightarrow> signed_delegation list \<times> nat \<Rightarrow>
   (err, signed_delegation list \<times> nat) io" where
  "filter_step E c d = (\<lambda>(eligible, ineligible_count).
     io_match (cache_get_status E c (dm_proposer (sd_message d))) (\<lambda>r. io_return (case r of
       Inr status \<Rightarrow> if is_eligible status then (eligible @ [d], ineligible_count)
                     else (eligible, ineligible_count + 1)
     | Inl e \<Rightarrow> (eligible, ineligible_count + 1))))"

definition filter_eligible_delegations ::
  "env \<Rightarrow> beacon_api_config \<Rightarrow> signed_delegation list \<Rightarrow> (err, signed_delegation list \<times> nat) io" where
  "filter_eligible_delegations E c ds = io_fold (filter_step E c) ds ([], 0)"

definition is_verified :: "env \<Rightarrow> signed_delegation \<Rightarrow> bool" where
  "is_verified E d = (verify_delegation_signature (hash_of E) (blst_of E) d = Inr True)"

definition poll_delegations_for_slot :: "env \<Rightarrow> config \<Rightarrow> u64 \<Rightarrow> (err, nat) io" where
  "poll_delegations_for_slot E c slot =
     io_bind (io_context ''Failed to fetch delegations'' (relay_get_delegations E (cf_constraints_api c) slot)) (\<lambda>ds.
     if ds = [] then io_return 0
     else
       let ours = pubkey_to_bytes (blst_of E) (sk_bls_public_key (cf_signing c));
           relevant = filter (\<lambda>d. pk_bytes (dm_delegate (sd_message d)) = ours) ds in
       if relevant = [] then io_return 0
       else
         let verified = filter (is_verified E) relevant in
         if verified = [] then io_return 0
         else
           io_bind (filter_eligible_delegations E (cf_beacon_api c) verified) (\<lambda>(eligible, ineligible_count).
           if eligible = [] then io_return 0
           else
             io_bind (io_context ''Failed to save delegations'' (save_delegations_batch E eligible)) (\<lambda>ids.
             io_return (length ids))))"

record poll_counters =
  pc_found :: nat
  pc_saves :: nat
  pc_errors :: nat

definition slots_inclusive :: "u64 \<Rightarrow> u64 \<Rightarrow> u64 list" where
  "slots_inclusive start stop = map of_nat [unat start ..< Suc (unat stop)]"

definition poll_step :: "env \<Rightarrow> config \<Rightarrow> u64 \<Rightarrow> poll_counters \<Rightarrow> (err, poll_counters) io" where
  "poll_step E c slot k =
     io_match (poll_delegations_for_slot E c slot) (\<lambda>r.
     io_bind (io_sleep 100) (\<lambda>_.
     io_return (case r of
       Inr count \<Rightarrow> k\<lparr>pc_found := pc_found k + count, pc_saves := pc_saves k + 1\<rparr>
     | Inl e \<Rightarrow> k\<lparr>pc_errors := pc_errors k + 1\<rparr>)))"

definition poll_range :: "config \<Rightarrow> u64 \<Rightarrow> u64 list" where
  "poll_range c now =
     (let current_slot = current_slot_estimate now (ba_genesis_time (cf_beacon_api c));
          lookahead_slots = dc_lookahead_epochs (cf_delegation c) * slots_per_epoch
      in slots_inclusive current_slot (current_slot + lookahead_slots))"

definition poll_delegations :: "env \<Rightarrow> config \<Rightarrow> (err, poll_counters) io" where
  "poll_delegations E c =
     io_bind (io_now E) (\<lambda>now.
     io_fold (poll_step E c) (poll_range c now) \<lparr>pc_found = 0, pc_saves = 0, pc_errors = 0\<rparr>)"

section \<open>Cleanup\<close>

definition select_active :: "env \<Rightarrow> nat \<Rightarrow> db \<Rightarrow> (uuid \<times> bytes) list" where
  "select_active E n d =
     map (\<lambda>r. (dr_id r, dr_proposer_pubkey r)) (scan E n (filter dr_is_active (db_delegations d)))"

text \<open>A failed status lookup leaves the delegation active.\<close>

definition cleanup_step :: "env \<Rightarrow> beacon_api_config \<Rightarrow> uuid \<times> bytes \<Rightarrow> unit \<Rightarrow> (err, unit) io" where
  "cleanup_step E c = (\<lambda>(delegation_id, proposer_bytes) u.
     if length proposer_bytes \<noteq> 48 then io_return ()
     else io_match (cache_get_status E c (BlsPublicKey proposer_bytes)) (\<lambda>r. case r of
       Inr status \<Rightarrow>
         if vi_is_slashed status \<or> \<not> vi_is_active status
         then io_bind (sql E (\<lambda>n. deactivate_where (\<lambda>row. dr_id row = delegation_id))) (\<lambda>_. io_return ())
         else io_return ()
     | Inl e \<Rightarrow> io_return ()))"

definition cleanup_expired_delegations :: "env \<Rightarrow> config \<Rightarrow> (err, unit) io" where
  "cleanup_expired_delegations E c =
     io_bind (io_now E) (\<lambda>now.
     let current_slot = current_slot_estimate now (ba_genesis_time (cf_beacon_api c)) in
     io_bind (deactivate_expired_delegations E current_slot) (\<lambda>_.
     io_bind (sql_query E (select_active E)) (\<lambda>active.
     if active = [] then io_return ()
     else io_fold (cleanup_step E (cf_beacon_api c)) active ())))"

section \<open>The cache only holds answers of the beacon nodes\<close>

definition status_answer :: "env \<Rightarrow> beacon_api_config \<Rightarrow> bls_public_key \<Rightarrow> validator_info \<Rightarrow> bool" where
  "status_answer E c k info =
     (\<exists>n base resp data. base \<in> set (ba_primary_endpoint c # ba_fallback_endpoints c)
        \<and> e_http E n (HttpGet (join_url base (validator_path (hash_of E) k))) = Some resp
        \<and> hr_status resp = 200 \<and> json_validator (json_of E) (hr_body resp) = Some data
        \<and> parse_validator_info (vr_data data) = Inr info)"

definition cache_sound :: "env \<Rightarrow> beacon_api_config \<Rightarrow> world \<Rightarrow> bool" where
  "cache_sound E c w = (\<forall>(k, info) \<in> set (w_cache w). status_answer E c k info)"

lemma get_validator_status_Inr:
  assumes "get_validator_status E c k w = (Inr info, w')"
  shows "status_answer E c k info"
proof -
  let ?req = "\<lambda>base. make_request E (json_validator (json_of E)) base (validator_path (hash_of E) k)"
  obtain data where t: "try_endpoints ?req (ba_primary_endpoint c) (ba_fallback_endpoints c) w = (Inr data, w')"
    and p: "parse_validator_info (vr_data data) = Inr info"
    using assms by (auto simp: get_validator_status_def io_Inr)
  obtain before b after w1 where
    l: "ba_primary_endpoint c # ba_fallback_endpoints c = before @ b # after"
    and m: "?req b w1 = (Inr data, w')"
    using beacon_get.success [OF t] by blast
  have "b \<in> set (ba_primary_endpoint c # ba_fallback_endpoints c)" unfolding l by simp
  then show ?thesis using make_request_Inr [OF m] p unfolding status_answer_def by blast
qed

text \<open>Programs that leave the cache alone, as a relation through the combinators.\<close>

definition same_cache :: "world \<Rightarrow> world \<Rightarrow> bool" where
  "same_cache w w' = (w_cache w' = w_cache w)"

interpretation same_cache: step_rel same_cache
  by unfold_locales (auto simp: same_cache_def)

lemma get_validator_status_cache: "obeys same_cache (get_validator_status E c k)"
proof -
  have h: "obeys same_cache (io_http E req)" for req
    by (simp add: obeys_def same_cache_def io_http_def Let_def)
  have m: "obeys same_cache (make_request E p b ep)" for p :: "bytes \<Rightarrow> 'x option" and b ep
    unfolding make_request_def reqwest_get_def Let_def by (intro pres h)
  have f: "(\<And>e. obeys same_cache (f e)) \<Longrightarrow> obeys same_cache (try_fallbacks f err es)"
    for f :: "string \<Rightarrow> (err, 'x) io" and err es
    by (induction es arbitrary: err) (auto intro!: pres)
  show ?thesis unfolding get_validator_status_def try_endpoints_def by (intro pres m f)
qed

lemma cache_get_status_sound:
  assumes "cache_law E" "cache_sound E c w" "cache_get_status E c k w = (r, w')"
  shows "cache_sound E c w' \<and> w_db w' = w_db w \<and> (\<forall>info. r = Inr info \<longrightarrow> status_answer E c k info)"
proof -
  have db: "w_db w' = w_db w"
    using obeysD [OF same_db.cache_get_status_obeys assms(3)] by (simp add: same_db_def)
  show ?thesis
  proof (cases "e_cache E (w_tick w) (w_cache w) k")
    case (Some info)
    then have "map_of (w_cache w) k = Some info" using assms(1) unfolding cache_law_def by blast
    then have "status_answer E c k info" using assms(2) by (auto simp: cache_sound_def dest: map_of_SomeD)
    then show ?thesis using assms(2,3) Some db
      by (auto simp: cache_get_status_def io_bind_def io_cache_get_def io_return_def cache_sound_def)
  next
    case None
    obtain x w1 where g: "get_validator_status E c k (tick w) = (x, w1)" by force
    have c1: "w_cache w1 = w_cache w"
      using obeysD [OF get_validator_status_cache g] by (simp add: same_cache_def)
    show ?thesis
    proof (cases x)
      case (Inl e)
      then show ?thesis using assms(2,3) None g c1 db
        by (auto simp: cache_get_status_def io_bind_def io_cache_get_def cache_sound_def)
    next
      case (Inr info)
      then have "status_answer E c k info" using get_validator_status_Inr g by blast
      then show ?thesis using assms(2,3) None g c1 db Inr
        by (auto simp: cache_get_status_def io_bind_def io_cache_get_def io_cache_insert_def
            io_return_def cache_sound_def)
    qed
  qed
qed

section \<open>What polling adds\<close>

definition polled :: "env \<Rightarrow> config \<Rightarrow> signed_delegation \<Rightarrow> bool" where
  "polled E c d =
     (pk_bytes (dm_delegate (sd_message d)) = pubkey_to_bytes (blst_of E) (sk_bls_public_key (cf_signing c))
      \<and> is_verified E d
      \<and> (\<exists>info. status_answer E (cf_beacon_api c) (dm_proposer (sd_message d)) info
           \<and> vi_is_active info \<and> \<not> vi_is_slashed info))"

text \<open>The database grows by rows of delegations with \<open>P\<close>, and nothing else changes.\<close>

definition adds :: "(signed_delegation \<Rightarrow> bool) \<Rightarrow> world \<Rightarrow> world \<Rightarrow> bool" where
  "adds P w w' =
     (\<exists>new. db_delegations (w_db w') = db_delegations (w_db w) @ new
        \<and> (\<forall>r \<in> set new. \<exists>uid d. P d \<and> r = delegation_row_of uid d \<and> delegation_check r)
        \<and> db_commitments (w_db w') = db_commitments (w_db w)
        \<and> db_congestion (w_db w') = db_congestion (w_db w))"

interpretation adds: quiet_rel "adds P" for P
proof unfold_locales
  fix u v w :: world
  assume uv: "adds P u v" and vw: "adds P v w"
  from uv obtain a where "db_delegations (w_db v) = db_delegations (w_db u) @ a"
    "\<forall>r \<in> set a. \<exists>uid d. P d \<and> r = delegation_row_of uid d \<and> delegation_check r"
    "db_commitments (w_db v) = db_commitments (w_db u)" "db_congestion (w_db v) = db_congestion (w_db u)"
    unfolding adds_def by blast
  moreover from vw obtain b where "db_delegations (w_db w) = db_delegations (w_db v) @ b"
    "\<forall>r \<in> set b. \<exists>uid d. P d \<and> r = delegation_row_of uid d \<and> delegation_check r"
    "db_commitments (w_db w) = db_commitments (w_db v)" "db_congestion (w_db w) = db_congestion (w_db v)"
    unfolding adds_def by blast
  ultimately show "adds P u w" unfolding adds_def by (intro exI [of _ "a @ b"]) auto
qed (auto simp: adds_def)

context quiet_rel
begin

lemma save_batch_obeys:
  assumes "\<And>uid d w. d \<in> set ds \<Longrightarrow> is_verified E d \<Longrightarrow>
             R w (w\<lparr>w_db := snd (insert_delegation_on_conflict (delegation_row_of uid d) (w_db w))\<rparr>)"
  shows "obeys R (save_delegations_batch E ds)"
proof (cases "list_all (is_verified E) ds")
  case True
  then show ?thesis unfolding save_delegations_batch_def insert_in_batch_def
    by (intro pres transaction_obeys fold_obeys_mem sql_obeys assms) (auto simp: list_all_iff)
next
  case False
  have stop: "\<exists>e. io_for ds (\<lambda>d. io_res (check_delegation E d)) w = (Inl e, w)" for w
    using False
  proof (induction ds)
    case (Cons d ds)
    show ?case
    proof (cases "check_delegation E d")
      case (Inr u)
      then have "is_verified E d" by (simp add: check_delegation_Inr is_verified_def)
      then show ?thesis using Cons Inr by (auto simp: io_bind_def io_res_def)
    qed (auto simp: io_bind_def io_res_def)
  qed simp
  have "snd (save_delegations_batch E ds w) = w" for w
    using stop [of w] by (auto simp: save_delegations_batch_def io_bind_def)
  then show ?thesis by (simp add: obeys_def refl)
qed

end

lemma save_batch_adds:
  assumes "\<And>d. d \<in> set ds \<Longrightarrow> is_verified E d \<Longrightarrow> P d"
  shows "obeys (adds P) (save_delegations_batch E ds)"
proof (rule adds.save_batch_obeys)
  fix uid d and w :: world
  assume d: "d \<in> set ds" "is_verified E d"
  then show "adds P w (w\<lparr>w_db := snd (insert_delegation_on_conflict (delegation_row_of uid d) (w_db w))\<rparr>)"
    using assms [OF d] by (auto simp: adds_def insert_delegation_on_conflict_def)
qed

lemma save_batch_cache: "obeys same_cache (save_delegations_batch E ds)"
proof -
  have s: "obeys same_cache (sql E f)" for f :: "nat \<Rightarrow> db \<Rightarrow> 'x res \<times> db"
    by (auto simp: obeys_def same_cache_def sql_def Let_def split: prod.split fault.split)
  have u: "obeys same_cache (io_uuid E)"
    by (simp add: obeys_def same_cache_def io_uuid_def)
  have t: "obeys same_cache m \<Longrightarrow> obeys same_cache (sql_transaction E a b m)" for a b and m :: "(err, 'x) io"
    by (auto simp: obeys_def same_cache_def sql_transaction_def split: prod.split sum.split fault.split)
      (metis snd_conv tick_simps(3))+
  show ?thesis unfolding save_delegations_batch_def insert_in_batch_def by (intro pres t s u)
qed

lemma filter_step_sound:
  assumes "cache_law E" "cache_sound E c w" "filter_step E c d (es, k) w = (r, w')"
  shows "cache_sound E c w' \<and> w_db w' = w_db w \<and> (\<exists>es' k'. r = Inr (es', k')
    \<and> (es' = es \<or> es' = es @ [d] \<and> (\<exists>info. status_answer E c (dm_proposer (sd_message d)) info
         \<and> vi_is_active info \<and> \<not> vi_is_slashed info)))"
proof -
  obtain x w1 where g: "cache_get_status E c (dm_proposer (sd_message d)) w = (x, w1)" by force
  note s = cache_get_status_sound [OF assms(1,2) g]
  have "w' = w1" and r: "r = Inr (case x of
       Inr status \<Rightarrow> if is_eligible status then (es @ [d], k) else (es, k + 1)
     | Inl e \<Rightarrow> (es, k + 1))"
    using assms(3) g by (auto simp: filter_step_def io_match_def io_return_def)
  then show ?thesis using s by (cases x) (auto simp: is_eligible_def split: if_splits)
qed

lemma filter_eligible_sound:
  assumes "cache_law E" "cache_sound E c w" "io_fold (filter_step E c) ds (es, k) w = (r, w')"
  shows "cache_sound E c w' \<and> w_db w' = w_db w \<and> (\<exists>es' k'. r = Inr (es', k')
    \<and> (\<forall>d \<in> set es'. d \<in> set es \<or> d \<in> set ds \<and> (\<exists>info.
         status_answer E c (dm_proposer (sd_message d)) info \<and> vi_is_active info \<and> \<not> vi_is_slashed info)))"
  using assms(2,3)
proof (induction ds arbitrary: es k w)
  case Nil
  then show ?case by (auto simp: io_return_def)
next
  case (Cons d ds)
  obtain x w1 where f: "filter_step E c d (es, k) w = (x, w1)" by force
  from filter_step_sound [OF assms(1) Cons.prems(1) f] obtain es1 k1 where
    1: "cache_sound E c w1" "w_db w1 = w_db w" "x = Inr (es1, k1)"
      "es1 = es \<or> es1 = es @ [d] \<and> (\<exists>info. status_answer E c (dm_proposer (sd_message d)) info
         \<and> vi_is_active info \<and> \<not> vi_is_slashed info)" by blast
  then have "io_fold (filter_step E c) ds (es1, k1) w1 = (r, w')"
    using Cons.prems(2) f by (simp add: io_bind_def)
  from Cons.IH [OF 1(1) this] 1 show ?case by fastforce
qed

lemma poll_slot_adds:
  assumes "cache_law E" "cache_sound E (cf_beacon_api c) w" "poll_delegations_for_slot E c slot w = (r, w')"
  shows "cache_sound E (cf_beacon_api c) w' \<and> adds (polled E c) w w'"
proof -
  let ?ours = "pubkey_to_bytes (blst_of E) (sk_bls_public_key (cf_signing c))"
  obtain x w1 where g: "relay_get_delegations E (cf_constraints_api c) slot w = (x, w1)" by force
  have 1: "w_db w1 = w_db w" "w_cache w1 = w_cache w"
  proof -
    show "w_db w1 = w_db w" using same_db.relay_get_delegations_obeys g by (rule same_db_D)
    show "w_cache w1 = w_cache w" using g
      by (auto simp: relay_get_delegations_def io_bind_def io_context_def io_map_err_def io_http_def
          io_fail_def io_return_def io_res_def Let_def split: prod.splits sum.splits if_splits)
  qed
  show ?thesis
  proof (cases x)
    case (Inl e)
    then have "w' = w1" using assms(3) g
      by (auto simp: poll_delegations_for_slot_def io_bind_def io_context_def io_map_err_def)
    then show ?thesis using 1 assms(2) by (auto simp: cache_sound_def adds_def)
  next
    case (Inr ds)
    define verified where "verified =
      filter (is_verified E) (filter (\<lambda>d. pk_bytes (dm_delegate (sd_message d)) = ?ours) ds)"
    have cs: "cache_sound E (cf_beacon_api c) w1" using assms(2) 1 by (simp add: cache_sound_def)
    obtain y w2 where f: "filter_eligible_delegations E (cf_beacon_api c) verified w1 = (y, w2)" by force
    from filter_eligible_sound [OF assms(1) cs, of verified "[]" 0 y w2] f
    obtain es k where 2: "cache_sound E (cf_beacon_api c) w2" "w_db w2 = w_db w1" "y = Inr (es, k)"
      "\<forall>d \<in> set es. d \<in> set verified \<and> (\<exists>info. status_answer E (cf_beacon_api c)
         (dm_proposer (sd_message d)) info \<and> vi_is_active info \<and> \<not> vi_is_slashed info)"
      by (auto simp: filter_eligible_delegations_def)
    have P: "polled E c d" if "d \<in> set es" for d
      using 2(4) that by (auto simp: polled_def verified_def)
    have cases: "w' = w1 \<or> w' = w2 \<or> w' = snd (save_delegations_batch E es w2)"
      using assms(3) g Inr f 2(3)
      by (auto simp: poll_delegations_for_slot_def io_bind_def io_context_def io_map_err_def io_return_def
          Let_def verified_def filter_empty_conv split: if_splits prod.splits sum.splits)
    have s: "adds (polled E c) w2 (snd (save_delegations_batch E es w2))"
      using save_batch_adds [of es E "polled E c"] P unfolding obeys_def by blast
    have s': "w_cache (snd (save_delegations_batch E es w2)) = w_cache w2"
      using save_batch_cache [of E es] by (simp add: obeys_def same_cache_def)
    show ?thesis
      using cases s s' cs 1 2(1,2) by (auto simp: cache_sound_def adds_def)
  qed
qed

lemma poll_step_adds:
  assumes "cache_law E" "cache_sound E (cf_beacon_api c) w" "poll_step E c slot k w = (r, w')"
  shows "cache_sound E (cf_beacon_api c) w' \<and> adds (polled E c) w w' \<and> (\<exists>k'. r = Inr k')"
proof -
  obtain x w1 where g: "poll_delegations_for_slot E c slot w = (x, w1)" by force
  have "w_db w' = w_db w1" "w_cache w' = w_cache w1" "\<exists>k'. r = Inr k'"
    using assms(3) g by (auto simp: poll_step_def io_match_def io_bind_def io_sleep_def io_return_def)
  then show ?thesis using poll_slot_adds [OF assms(1,2) g] by (auto simp: cache_sound_def adds_def)
qed

lemma poll_fold_adds:
  assumes "cache_law E" "cache_sound E (cf_beacon_api c) w" "io_fold (poll_step E c) slots k w = (r, w')"
  shows "cache_sound E (cf_beacon_api c) w' \<and> adds (polled E c) w w' \<and> (\<exists>k'. r = Inr k')"
  using assms(2,3)
proof (induction slots arbitrary: k w)
  case Nil
  then show ?case by (auto simp: io_return_def intro: adds.refl)
next
  case (Cons s slots)
  obtain x w1 where g: "poll_step E c s k w = (x, w1)" by force
  from poll_step_adds [OF assms(1) Cons.prems(1) g] obtain k1
    where 1: "cache_sound E (cf_beacon_api c) w1" "adds (polled E c) w w1" "x = Inr k1" by blast
  then have "io_fold (poll_step E c) slots k1 w1 = (r, w')"
    using Cons.prems(2) g by (simp add: io_bind_def)
  from Cons.IH [OF 1(1) this] 1(2) adds.trans show ?case by blast
qed

lemma poll_delegations_adds:
  assumes "cache_law E" "cache_sound E (cf_beacon_api c) w" "poll_delegations E c w = (r, w')"
  shows "cache_sound E (cf_beacon_api c) w' \<and> adds (polled E c) w w' \<and> (\<exists>k. r = Inr k)"
proof -
  have "cache_sound E (cf_beacon_api c) (tick w)" using assms(2) by (simp add: cache_sound_def)
  from poll_fold_adds [OF assms(1) this] assms(3) show ?thesis
    by (auto simp: poll_delegations_def io_bind_def io_now_def adds_def)
qed

section \<open>What cleanup retires\<close>

definition retired :: "(delegation_row \<Rightarrow> bool) \<Rightarrow> delegation_row \<Rightarrow> delegation_row \<Rightarrow> bool" where
  "retired Q r r' = (r' = r \<or> Q r \<and> r' = r\<lparr>dr_is_active := False\<rparr>)"

text \<open>Some rows with \<open>Q\<close> become inactive, and nothing else changes.\<close>

definition retires :: "(delegation_row \<Rightarrow> bool) \<Rightarrow> world \<Rightarrow> world \<Rightarrow> bool" where
  "retires Q w w' =
     (list_all2 (retired Q) (db_delegations (w_db w)) (db_delegations (w_db w'))
      \<and> db_commitments (w_db w') = db_commitments (w_db w)
      \<and> db_congestion (w_db w') = db_congestion (w_db w))"

lemma retired_trans: "retired Q r s \<Longrightarrow> retired Q s t \<Longrightarrow> retired Q r t"
  by (auto simp: retired_def)

interpretation retires: quiet_rel "retires Q" for Q
proof unfold_locales
  show "retires Q w w" for w by (auto simp: retires_def retired_def intro: list_all2_refl)
  show "retires Q u w" if "retires Q u v" "retires Q v w" for u v w
    using that by (auto simp: retires_def intro: list_all2_trans [OF retired_trans])
  show "retires Q w w'" if "w_db w' = w_db w" for w w'
    using that by (auto simp: retires_def retired_def intro: list_all2_refl)
qed

lemma deactivate_where_retires:
  assumes "\<And>r. r \<in> set (db_delegations (w_db w)) \<Longrightarrow> P r \<Longrightarrow> Q r"
    and "w_db w' = snd (deactivate_where P (w_db w)) \<or> w_db w' = w_db w"
  shows "retires Q w w'"
  using assms
  by (auto simp: retires_def deactivate_where_def list.rel_map retired_def deactivate_row_def
      intro!: list.rel_refl_strong)

lemma sql_db:
  "sql E f w = (r, w') \<Longrightarrow> w_db w' = snd (f (w_tick w) (w_db w)) \<or> w_db w' = w_db w"
  "sql E f w = (r, w') \<Longrightarrow> w_cache w' = w_cache w"
  by (auto simp: sql_def Let_def split: prod.splits fault.splits)

text \<open>An unfit validator: the beacon nodes reported it slashed or inactive.\<close>

definition unfit :: "env \<Rightarrow> beacon_api_config \<Rightarrow> bytes \<Rightarrow> bool" where
  "unfit E c key =
     (\<exists>info. status_answer E c (BlsPublicKey key) info \<and> (vi_is_slashed info \<or> \<not> vi_is_active info))"

definition names_key :: "world \<Rightarrow> uuid \<times> bytes \<Rightarrow> bool" where
  "names_key w = (\<lambda>(uid, key). \<forall>r \<in> set (db_delegations (w_db w)). dr_id r = uid \<longrightarrow> dr_proposer_pubkey r = key)"

lemma names_key_retires:
  assumes "retires Q w w'" "names_key w p"
  shows "names_key w' p"
proof -
  have "\<exists>r \<in> set (db_delegations (w_db w)). dr_id r' = dr_id r \<and> dr_proposer_pubkey r' = dr_proposer_pubkey r"
    if r': "r' \<in> set (db_delegations (w_db w'))" for r'
  proof -
    have l: "list_all2 (retired Q) (db_delegations (w_db w)) (db_delegations (w_db w'))"
      using assms(1) by (simp add: retires_def)
    obtain i where i: "i < length (db_delegations (w_db w'))" "db_delegations (w_db w') ! i = r'"
      using r' by (auto simp: in_set_conv_nth)
    then have "retired Q (db_delegations (w_db w) ! i) r'" "i < length (db_delegations (w_db w))"
      using l by (auto simp: list_all2_conv_all_nth)
    then show ?thesis by (intro bexI [of _ "db_delegations (w_db w) ! i"]) (auto simp: retired_def)
  qed
  then show ?thesis using assms(2) by (fastforce simp: names_key_def split: prod.splits)
qed

lemma cleanup_step_retires:
  assumes "cache_law E" "cache_sound E c w" "names_key w p" "cleanup_step E c p u w = (r, w')"
  shows "cache_sound E c w' \<and> retires (\<lambda>row. unfit E c (dr_proposer_pubkey row)) w w'"
proof -
  obtain uid key where p: "p = (uid, key)" by force
  obtain x w1 where g: "cache_get_status E c (BlsPublicKey key) w = (x, w1)" by force
  note s = cache_get_status_sound [OF assms(1,2) g]
  obtain y w2 where d: "sql E (\<lambda>n. deactivate_where (\<lambda>row. dr_id row = uid)) w1 = (y, w2)" by force
  have cases: "w' = w \<or> w' = w1 \<or> w' = w2 \<and> (\<exists>info. x = Inr info \<and> (vi_is_slashed info \<or> \<not> vi_is_active info))"
    using assms(4) g d
    by (auto simp: p cleanup_step_def io_match_def io_return_def io_bind_def
        split: if_splits sum.splits)
  have "retires (\<lambda>row. unfit E c (dr_proposer_pubkey row)) w w2"
    if "x = Inr info" "vi_is_slashed info \<or> \<not> vi_is_active info" for info
  proof (rule deactivate_where_retires)
    show "w_db w2 = snd (deactivate_where (\<lambda>row. dr_id row = uid) (w_db w)) \<or> w_db w2 = w_db w"
      using sql_db(1) [OF d] s by simp
  next
    fix row assume "row \<in> set (db_delegations (w_db w))" "dr_id row = uid"
    then show "unfit E c (dr_proposer_pubkey row)"
      using assms(3) s that by (auto simp: p names_key_def unfit_def)
  qed
  moreover have "retires Q w w1" for Q using s by (intro retires.quiet) simp
  moreover have "cache_sound E c w2" using s sql_db(2) [OF d] by (simp add: cache_sound_def)
  ultimately show ?thesis using cases s assms(2) retires.refl by blast
qed

lemma cleanup_fold_retires:
  assumes "cache_law E" "cache_sound E c w" "\<forall>p \<in> set ps. names_key w p"
    and "io_fold (cleanup_step E c) ps u w = (r, w')"
  shows "cache_sound E c w' \<and> retires (\<lambda>row. unfit E c (dr_proposer_pubkey row)) w w'"
  using assms(2-4)
proof (induction ps arbitrary: u w)
  case Nil
  then show ?case by (auto simp: io_return_def intro: retires.refl)
next
  case (Cons p ps)
  obtain x w1 where g: "cleanup_step E c p u w = (x, w1)" by force
  have 1: "cache_sound E c w1 \<and> retires (\<lambda>row. unfit E c (dr_proposer_pubkey row)) w w1"
    using Cons.prems(2) by (intro cleanup_step_retires [OF assms(1) Cons.prems(1) _ g]) simp
  show ?case
  proof (cases x)
    case (Inl e)
    then show ?thesis using Cons.prems(3) g 1 by (simp add: io_bind_def)
  next
    case (Inr v)
    then have rest: "io_fold (cleanup_step E c) ps v w1 = (r, w')"
      using Cons.prems(3) g by (simp add: io_bind_def)
    have "\<forall>q \<in> set ps. names_key w1 q" using Cons.prems(2) 1 names_key_retires by auto
    from Cons.IH [OF _ this rest] 1 show ?thesis using retires.trans by blast
  qed
qed

lemma retires_mono: "(\<And>r. Q r \<Longrightarrow> Q' r) \<Longrightarrow> retires Q w w' \<Longrightarrow> retires Q' w w'"
  by (auto simp: retires_def retired_def elim!: list.rel_mono_strong)

text \<open>A delegation is retired for one of two reasons: its slot has passed, or its validator is unfit.\<close>

definition due :: "env \<Rightarrow> config \<Rightarrow> u64 \<Rightarrow> delegation_row \<Rightarrow> bool" where
  "due E c now row =
     (sint (dr_slot_number row) < sint (current_slot_estimate now (ba_genesis_time (cf_beacon_api c)))
      \<or> unfit E (cf_beacon_api c) (dr_proposer_pubkey row))"

lemma select_active_names:
  assumes "scan_law E" "distinct (map dr_id (db_delegations (w_db w)))"
    and "p \<in> set (select_active E n (w_db w))" "w_db w' = w_db w"
  shows "names_key w' p"
  using assms distinct_map_inj_on_set [OF assms(2)]
  by (auto simp: names_key_def select_active_def set_scan)

lemma cleanup_retires:
  assumes laws: "scan_law E" "cache_law E" and cs: "cache_sound E (cf_beacon_api c) w"
    and ids: "distinct (map dr_id (db_delegations (w_db w)))"
    and run: "cleanup_expired_delegations E c w = (r, w')"
  shows "cache_sound E (cf_beacon_api c) w' \<and> retires (due E c (e_now E (w_tick w))) w w'"
proof -
  let ?now = "e_now E (w_tick w)"
  let ?cur = "current_slot_estimate ?now (ba_genesis_time (cf_beacon_api c))"
  obtain x w1 where d: "deactivate_expired_delegations E ?cur (tick w) = (x, w1)" by force
  have db1: "w_db w1 = snd (deactivate_where (expired ?cur) (w_db w)) \<or> w_db w1 = w_db w"
    and ca1: "w_cache w1 = w_cache w"
    using d sql_db [of E _ "tick w"]
    by (auto simp: deactivate_expired_delegations_def io_context_def io_map_err_def split: prod.splits)
  have r1: "retires (due E c ?now) w w1"
    by (rule deactivate_where_retires [OF _ db1]) (simp add: due_def expired_def)
  have cs1: "cache_sound E (cf_beacon_api c) w1" using cs ca1 by (simp add: cache_sound_def)
  obtain y w2 where q: "sql_query E (select_active E) w1 = (y, w2)" by force
  have db2: "w_db w2 = w_db w1" "w_cache w2 = w_cache w1"
    using q by (auto simp: sql_query_def sql_def Let_def split: fault.splits)
  have cs2: "cache_sound E (cf_beacon_api c) w2" using cs1 db2 by (simp add: cache_sound_def)
  have r2: "retires (due E c ?now) w w2" using r1 db2 by (simp add: retires_def)
  have ids1: "distinct (map dr_id (db_delegations (w_db w1)))"
    using db1 ids by (auto simp: deactivate_where_def comp_def)
  show ?thesis
  proof (cases "\<exists>ps v. x = Inr v \<and> y = Inr ps \<and> ps \<noteq> []")
    case True
    then obtain ps v where xy: "x = Inr v" "y = Inr ps" "ps \<noteq> []" by blast
    have "ps = select_active E (w_tick w1) (w_db w1)" using q xy by (auto dest: sql_query_Inr)
    then have n: "\<forall>p \<in> set ps. names_key w2 p"
      using select_active_names [OF laws(1) ids1] db2 by blast
    have f: "io_fold (cleanup_step E (cf_beacon_api c)) ps () w2 = (r, w')"
      using run d q xy by (simp add: cleanup_expired_delegations_def io_bind_def io_now_def Let_def)
    have "retires (due E c ?now) w2 w'"
      by (rule retires_mono [OF _ conjunct2 [OF cleanup_fold_retires [OF laws(2) cs2 n f]]])
        (simp add: due_def)
    then show ?thesis using cleanup_fold_retires [OF laws(2) cs2 n f] r2 retires.trans by blast
  next
    case False
    then have "w' = w1 \<or> w' = w2"
      using run d q
      by (auto simp: cleanup_expired_delegations_def io_bind_def io_now_def io_return_def Let_def
          split: sum.splits if_splits)
    then show ?thesis using r1 r2 cs1 cs2 by blast
  qed
qed

text \<open>A cleanup that succeeds leaves no active delegation of a past slot.\<close>

lemma not_expired_retires:
  assumes "retires Q w w'" "\<forall>r \<in> set (db_delegations (w_db w)). \<not> expired cur r"
  shows "\<forall>r \<in> set (db_delegations (w_db w')). \<not> expired cur r"
proof
  fix r' assume "r' \<in> set (db_delegations (w_db w'))"
  then obtain i where i: "i < length (db_delegations (w_db w'))" "db_delegations (w_db w') ! i = r'"
    by (auto simp: in_set_conv_nth)
  moreover have l: "list_all2 (retired Q) (db_delegations (w_db w)) (db_delegations (w_db w'))"
    using assms(1) by (simp add: retires_def)
  ultimately have "retired Q (db_delegations (w_db w) ! i) r'" "i < length (db_delegations (w_db w))"
    by (auto simp: list_all2_conv_all_nth)
  then show "\<not> expired cur r'" using assms(2) nth_mem by (fastforce simp: retired_def expired_def)
qed

lemma cleanup_success:
  assumes "cleanup_expired_delegations E c w = (Inr u, w')"
  shows "\<forall>r \<in> set (db_delegations (w_db w')).
    \<not> expired (current_slot_estimate (e_now E (w_tick w)) (ba_genesis_time (cf_beacon_api c))) r"
proof -
  let ?cur = "current_slot_estimate (e_now E (w_tick w)) (ba_genesis_time (cf_beacon_api c))"
  let ?rest = "io_bind (sql_query E (select_active E)) (\<lambda>active.
     if active = [] then io_return () else io_fold (cleanup_step E (cf_beacon_api c)) active ())"
  obtain k w1 where d: "deactivate_expired_delegations E ?cur (tick w) = (Inr k, w1)" and r: "?rest w1 = (Inr u, w')"
    using assms by (auto simp: cleanup_expired_delegations_def io_bind_Inr io_now_def Let_def)
  have "\<forall>r \<in> set (db_delegations (w_db w1)). \<not> expired ?cur r"
    using deactivate_expired_Inr [OF d] by (auto simp: deactivate_where_def deactivate_row_def expired_def)
  moreover have "retires (\<lambda>_. True) v (v\<lparr>w_db := snd (deactivate_where P (w_db v))\<rparr>)" for P v
    by (rule deactivate_where_retires [where P = P]) simp_all
  then have "obeys (retires (\<lambda>_. True)) ?rest"
    unfolding cleanup_step_def split_beta by (intro pres retires.sql_obeys)
  from obeysD [OF this r] have "retires (\<lambda>_. True) w1 w'" .
  ultimately show ?thesis by (rule not_expired_retires [rotated])
qed

end
