(* ===== verification/Constraint_Submission.thy ===== *)
theory Constraint_Submission
  imports Commitment_Ops Delegation_Ops Relay_Api
begin

text \<open>
  The constraint service (\<open>services/constraint_submission.rs\<close>): one round over the current slot and
  the next three, which turns the unprocessed commitments of a delegation into one signed
  constraints message, submits it and then marks the commitments; and the immediate submission of a
  single constraint. The job that runs the rounds is in \<open>Startup\<close>.
\<close>

section \<open>Definitions\<close>

record pending_constraint =
  pn_slot :: u64
  pn_payload :: bytes
  pn_committer_address :: string
  pn_submission_deadline :: u64

definition parse_authorized_builders :: "hash_lib \<Rightarrow> string list \<Rightarrow> bls_public_key list res" where
  "parse_authorized_builders H builder_keys =
     res_traverse (\<lambda>key_str. res_bind (context_res ''Failed to parse builder public key''
       (parse_hex_bytes H key_str 48)) (\<lambda>bs. Inr (BlsPublicKey bs))) builder_keys"

text \<open>The loop over the commitments, with its two accumulators.\<close>

fun convert_commitments ::
  "string \<Rightarrow> signed_commitment list \<Rightarrow> constraint_item list \<times> string list \<Rightarrow> constraint_item list \<times> string list"
  where
  "convert_commitments committer [] acc = acc"
| "convert_commitments committer (sc # scs) (constraints, processed_hashes) =
     (let c = sg_commitment sc in
      if co_slasher c \<noteq> committer then convert_commitments committer scs (constraints, processed_hashes)
      else if co_commitment_type c = 1
        then convert_commitments committer scs
               (constraints @ [from_inclusion_commitment (co_payload c)],
                processed_hashes @ [co_request_hash c])
      else convert_commitments committer scs (constraints, processed_hashes))"

definition create_constraints_from_commitments ::
  "env \<Rightarrow> u64 \<Rightarrow> string \<Rightarrow> (err, constraint_item list \<times> string list) io" where
  "create_constraints_from_commitments E slot committer_address =
     io_bind (io_context ''Failed to get unprocessed commitments''
       (get_unprocessed_commitments_for_slot E slot)) (\<lambda>commitments.
     if commitments = [] then io_return ([], [])
     else io_return (convert_commitments committer_address commitments ([], [])))"

definition sign_for_delegation ::
  "env \<Rightarrow> config \<Rightarrow> bls_manager \<Rightarrow> signed_delegation \<Rightarrow> u64 \<Rightarrow> constraint_item list \<Rightarrow> signed_constraints res" where
  "sign_for_delegation E c bm d slot constraints =
     res_bind (context_res ''Failed to parse authorized builder public keys from config''
       (parse_authorized_builders (hash_of E) (ca_authorized_builders (cf_constraints_api c)))) (\<lambda>receivers.
     let m = new_constraints_message (dm_proposer (sd_message d)) (dm_delegate (sd_message d))
               slot constraints receivers in
     res_bind (context_res ''Failed to sign constraints message''
       (sign_constraints_message (hash_of E) (blst_of E) bm m (sk_bls_private_key (cf_signing c)))) (\<lambda>signature_bytes.
     Inr \<lparr>sc_message = m, sc_signature = BlsSignature signature_bytes\<rparr>))"

definition process_delegation_constraints ::
  "env \<Rightarrow> config \<Rightarrow> bls_manager \<Rightarrow> signed_delegation \<Rightarrow> u64 \<Rightarrow> (err, unit) io" where
  "process_delegation_constraints E c bm d slot =
     io_bind (create_constraints_from_commitments E slot (dm_committer (sd_message d))) (\<lambda>(constraints, processed_hashes).
     if constraints = [] then io_return ()
     else
       io_bind (io_res (sign_for_delegation E c bm d slot constraints)) (\<lambda>signed_constraints.
       io_bind (io_context ''Failed to submit constraints to API''
         (submit_constraints E (cf_constraints_api c) signed_constraints)) (\<lambda>_.
       if processed_hashes \<noteq> []
       then io_bind (io_context ''Failed to mark commitments as processed''
              (mark_commitments_as_processed E processed_hashes)) (\<lambda>_. io_return ())
       else io_return ())))"

definition is_ours :: "env \<Rightarrow> config \<Rightarrow> signed_delegation \<Rightarrow> bool" where
  "is_ours E c d = (pk_bytes (dm_delegate (sd_message d))
     = pubkey_to_bytes (blst_of E) (sk_bls_public_key (cf_signing c)))"

definition delegation_step ::
  "env \<Rightarrow> config \<Rightarrow> bls_manager \<Rightarrow> u64 \<Rightarrow> signed_delegation \<Rightarrow> unit \<Rightarrow> (err, unit) io" where
  "delegation_step E c bm slot d u =
     (if \<not> is_ours E c d then io_return ()
      else io_match (process_delegation_constraints E c bm d slot) (\<lambda>_. io_return ()))"

definition process_constraints_for_slot :: "env \<Rightarrow> config \<Rightarrow> bls_manager \<Rightarrow> u64 \<Rightarrow> (err, unit) io" where
  "process_constraints_for_slot E c bm slot =
     io_bind (io_context ''Failed to get delegations'' (get_delegations_for_slot E slot)) (\<lambda>ds.
     if ds = [] then io_return () else io_fold (delegation_step E c bm slot) ds ())"

definition pending_slots :: "u64 \<Rightarrow> u64 list" where
  "pending_slots current_slot = map of_nat [unat current_slot ..< Suc (unat (current_slot + 3))]"

definition pending_step :: "env \<Rightarrow> config \<Rightarrow> bls_manager \<Rightarrow> u64 \<Rightarrow> unit \<Rightarrow> (err, unit) io" where
  "pending_step E c bm slot u =
     io_bind (io_now E) (\<lambda>now.
     if \<not> is_within_constraint_window now (ba_genesis_time (cf_beacon_api c)) slot then io_return ()
     else io_match (process_constraints_for_slot E c bm slot) (\<lambda>_. io_return ()))"

definition process_pending_constraints :: "env \<Rightarrow> config \<Rightarrow> bls_manager \<Rightarrow> (err, unit) io" where
  "process_pending_constraints E c bm =
     io_bind (io_now E) (\<lambda>now.
     io_fold (pending_step E c bm)
       (pending_slots (current_slot_estimate now (ba_genesis_time (cf_beacon_api c)))) ())"

definition submission_match :: "env \<Rightarrow> config \<Rightarrow> string \<Rightarrow> signed_delegation \<Rightarrow> bool" where
  "submission_match E c committer d = (is_ours E c d \<and> dm_committer (sd_message d) = committer)"

definition show_submission :: "nat \<Rightarrow> string" where
  "show_submission status = ''ConstraintSubmissionResponse { status: '' @ show_nat status @ '' }''"

definition submit_constraint ::
  "env \<Rightarrow> config \<Rightarrow> bls_manager \<Rightarrow> u64 \<Rightarrow> bytes \<Rightarrow> string \<Rightarrow> (err, string) io" where
  "submit_constraint E c bm slot payload committer_address =
     (if committer_address \<noteq> sk_committer_address (cf_signing c)
      then io_fail (Bail ''Committer address does not match our configured address'')
      else
        io_bind (io_context ''Failed to get delegations for slot'' (get_delegations_for_slot E slot)) (\<lambda>ds.
        io_bind (io_res (res_of (Bail ''No valid delegation found'')
          (List.find (submission_match E c committer_address) ds))) (\<lambda>d.
        io_bind (io_res (sign_for_delegation E c bm d slot [from_inclusion_commitment payload])) (\<lambda>signed_constraints.
        let deadline_secs = constraint_deadline_for_slot (ba_genesis_time (cf_beacon_api c)) slot in
        io_bind (io_now E) (\<lambda>now_secs.
        if deadline_secs \<le> now_secs then io_fail (Bail ''Constraint submission deadline elapsed'')
        else
          io_bind (io_context ''Constraint submission timed out'' (io_timeout E
            (io_context ''Failed to submit constraint to API''
              (submit_constraints E (cf_constraints_api c) signed_constraints)))) (\<lambda>status.
          io_return (show_submission status)))))))"

definition is_within_submission_window :: "env \<Rightarrow> config \<Rightarrow> u64 \<Rightarrow> (err, bool) io" where
  "is_within_submission_window E c slot =
     io_bind (io_now E) (\<lambda>now.
     io_return (is_within_constraint_window now (ba_genesis_time (cf_beacon_api c)) slot))"

definition get_submission_deadline :: "config \<Rightarrow> u64 \<Rightarrow> u64 res" where
  "get_submission_deadline c slot =
     system_time (constraint_deadline_for_slot (ba_genesis_time (cf_beacon_api c)) slot)"

section \<open>Conversion\<close>

definition convertible :: "string \<Rightarrow> signed_commitment \<Rightarrow> bool" where
  "convertible committer sc =
     (co_slasher (sg_commitment sc) = committer \<and> co_commitment_type (sg_commitment sc) = 1)"

lemma convert_commitments_filter:
  "convert_commitments committer scs (cs, hs) =
     (cs @ map (\<lambda>sc. from_inclusion_commitment (co_payload (sg_commitment sc))) (filter (convertible committer) scs),
      hs @ map (\<lambda>sc. co_request_hash (sg_commitment sc)) (filter (convertible committer) scs))"
  by (induction scs arbitrary: cs hs) (auto simp: Let_def convertible_def)

lemma create_constraints_Inr:
  assumes "create_constraints_from_commitments E slot committer w = (Inr (cs, hs), w')"
  shows "\<exists>scs. get_unprocessed_commitments_for_slot E slot w = (Inr scs, w')
    \<and> cs = map (\<lambda>sc. from_inclusion_commitment (co_payload (sg_commitment sc))) (filter (convertible committer) scs)
    \<and> hs = map (\<lambda>sc. co_request_hash (sg_commitment sc)) (filter (convertible committer) scs)"
  using assms
  by (auto simp: create_constraints_from_commitments_def io_Inr convert_commitments_filter split: if_splits)

lemma sign_for_delegation_Inr:
  "sign_for_delegation E c bm d slot cs = Inr sc \<Longrightarrow>
   cm_constraints (sc_message sc) = cs \<and> cm_slot (sc_message sc) = slot
   \<and> cm_proposer (sc_message sc) = dm_proposer (sd_message d)
   \<and> cm_delegate (sc_message sc) = dm_delegate (sd_message d)
   \<and> sign_constraints_message (hash_of E) (blst_of E) bm (sc_message sc) (sk_bls_private_key (cf_signing c))
       = Inr (sig_bytes (sc_signature sc))"
  by (auto simp: sign_for_delegation_def Let_def new_constraints_message_def)

section \<open>What the service does to the database\<close>

lemma mark_commitments_db:
  "mark_commitments_as_processed E hs w = (r, w') \<Longrightarrow>
   (w_db w' = snd (mark_processed hs (w_db w)) \<or> w_db w' = w_db w) \<and> w_events w' = w_events w"
  by (auto simp: mark_commitments_as_processed_def io_return_def io_context_def io_map_err_def sql_def Let_def
      split: if_splits prod.splits fault.splits)

text \<open>The relay accepted a message of these constraints for this slot, signed with our BLS key.\<close>

definition relay_accepted ::
  "env \<Rightarrow> config \<Rightarrow> bls_manager \<Rightarrow> signed_delegation \<Rightarrow> u64 \<Rightarrow> constraint_item list \<Rightarrow> event list \<Rightarrow> bool" where
  "relay_accepted E c bm d slot cs evs =
     (\<exists>url sc resp. EvHttp (HttpPostConstraints url sc) (Some resp) \<in> set evs
        \<and> (hr_status resp = 200 \<or> hr_status resp = 202)
        \<and> cm_constraints (sc_message sc) = cs \<and> cm_slot (sc_message sc) = slot
        \<and> cm_delegate (sc_message sc) = dm_delegate (sd_message d)
        \<and> cm_proposer (sc_message sc) = dm_proposer (sd_message d)
        \<and> sign_constraints_message (hash_of E) (blst_of E) bm (sc_message sc) (sk_bls_private_key (cf_signing c))
            = Inr (sig_bytes (sc_signature sc)))"

context log_rel
begin

lemma create_constraints_obeys [pres]: "obeys R (create_constraints_from_commitments E s a)"
  unfolding create_constraints_from_commitments_def by (intro pres)

lemma process_delegation_obeys:
  assumes "\<And>hs w. R w (w\<lparr>w_db := snd (mark_processed hs (w_db w))\<rparr>)"
  shows "obeys R (process_delegation_constraints E c bm d s)"
  unfolding process_delegation_constraints_def split_beta
  by (intro pres mark_commitments_obeys assms)

lemma process_slot_obeys:
  assumes "\<And>hs w. R w (w\<lparr>w_db := snd (mark_processed hs (w_db w))\<rparr>)"
  shows "obeys R (process_constraints_for_slot E c bm s)"
  unfolding process_constraints_for_slot_def delegation_step_def
  by (intro pres process_delegation_obeys assms)

lemma process_pending_obeys:
  assumes "\<And>hs w. R w (w\<lparr>w_db := snd (mark_processed hs (w_db w))\<rparr>)"
  shows "obeys R (process_pending_constraints E c bm)"
  unfolding process_pending_constraints_def pending_step_def
  by (intro pres process_slot_obeys assms)

lemma submit_constraint_obeys [pres]: "obeys R (submit_constraint E c bm s p a)"
  unfolding submit_constraint_def Let_def by (intro pres)

end

lemma process_delegation_marks:
  assumes "process_delegation_constraints E c bm d slot w = (r, w')" "w_db w' \<noteq> w_db w"
  shows "\<exists>scs w1 evs. get_unprocessed_commitments_for_slot E slot w = (Inr scs, w1)
    \<and> w_db w' = snd (mark_processed (map (\<lambda>sc. co_request_hash (sg_commitment sc))
        (filter (convertible (dm_committer (sd_message d))) scs)) (w_db w))
    \<and> w_events w' = w_events w @ evs
    \<and> relay_accepted E c bm d slot
        (map (\<lambda>sc. from_inclusion_commitment (co_payload (sg_commitment sc)))
          (filter (convertible (dm_committer (sd_message d))) scs)) evs"
proof -
  let ?a = "dm_committer (sd_message d)"
  obtain x w1 where g: "create_constraints_from_commitments E slot ?a w = (x, w1)" by force
  have db1: "w_db w1 = w_db w" using same_db.create_constraints_obeys g by (rule same_db_D)
  show ?thesis
  proof (cases x)
    case (Inl e)
    then show ?thesis using assms g db1 by (auto simp: process_delegation_constraints_def io_bind_def)
  next
    case (Inr p)
    obtain cs hs where p: "p = (cs, hs)" by force
    obtain scs where scs: "get_unprocessed_commitments_for_slot E slot w = (Inr scs, w1)"
      and cs: "cs = map (\<lambda>sc. from_inclusion_commitment (co_payload (sg_commitment sc))) (filter (convertible ?a) scs)"
      and hs: "hs = map (\<lambda>sc. co_request_hash (sg_commitment sc)) (filter (convertible ?a) scs)"
      using create_constraints_Inr g Inr p by blast
    have "cs \<noteq> []" using assms g db1 Inr p
      by (auto simp: process_delegation_constraints_def io_bind_def io_return_def)
    moreover obtain sc where s: "sign_for_delegation E c bm d slot cs = Inr sc"
      using assms g db1 Inr p calculation
      by (cases "sign_for_delegation E c bm d slot cs")
        (auto simp: process_delegation_constraints_def io_bind_def io_res_def)
    moreover obtain y w2 where sub: "submit_constraints E (cf_constraints_api c) sc w1 = (y, w2)" by force
    have db2: "w_db w2 = w_db w1" using same_db.submit_constraints_obeys sub by (rule same_db_D)
    have rest: "(case y of Inl e \<Rightarrow> w' = w2 | Inr v \<Rightarrow> \<exists>z. mark_commitments_as_processed E hs w2 = (z, w'))"
      using assms(1) g Inr p calculation sub cs hs
      by (auto simp: process_delegation_constraints_def io_bind_def io_res_def io_context_def io_map_err_def
          io_return_def split: sum.splits prod.splits if_splits)
    then obtain v z where y: "y = Inr v" and m: "mark_commitments_as_processed E hs w2 = (z, w')"
      using assms(2) db1 db2 by (cases y) auto
    obtain evs url resp where ev: "w_events w2 = w_events w1 @ evs @ [EvHttp (HttpPostConstraints url sc) (Some resp)]"
      and st: "hr_status resp = 200 \<or> hr_status resp = 202"
      using submit_constraints_Inr [OF sub [unfolded y]] by blast
    have "w_events w' = w_events w @ evs @ [EvHttp (HttpPostConstraints url sc) (Some resp)]"
      using ev mark_commitments_db [OF m] get_unprocessed_frame [OF scs] by simp
    moreover have "relay_accepted E c bm d slot cs (evs @ [EvHttp (HttpPostConstraints url sc) (Some resp)])"
      unfolding relay_accepted_def using st sign_for_delegation_Inr [OF s] by fastforce
    moreover have "w_db w' = snd (mark_processed hs (w_db w))"
      using mark_commitments_db [OF m] db1 db2 assms(2) by auto
    ultimately show ?thesis using scs cs hs by blast
  qed
qed

section \<open>Only what the relay accepted is marked\<close>

text \<open>The relay accepted a message signed with our BLS key that carries the constraint of this row for its slot.\<close>

definition constraint_accepted :: "env \<Rightarrow> config \<Rightarrow> bls_manager \<Rightarrow> commitment_row \<Rightarrow> event list \<Rightarrow> bool" where
  "constraint_accepted E c bm r evs =
     (\<exists>url sc resp. EvHttp (HttpPostConstraints url sc) (Some resp) \<in> set evs
        \<and> (hr_status resp = 200 \<or> hr_status resp = 202)
        \<and> from_inclusion_commitment (ci_payload r) \<in> set (cm_constraints (sc_message sc))
        \<and> ci_slot_number r = Some (cm_slot (sc_message sc))
        \<and> sign_constraints_message (hash_of E) (blst_of E) bm (sc_message sc) (sk_bls_private_key (cf_signing c))
            = Inr (sig_bytes (sc_signature sc)))"

definition marked_if_accepted ::
  "env \<Rightarrow> config \<Rightarrow> bls_manager \<Rightarrow> event list \<Rightarrow> commitment_row \<Rightarrow> commitment_row \<Rightarrow> bool" where
  "marked_if_accepted E c bm evs r r' =
     (r' = r \<or> r' = r\<lparr>ci_constraint_processed := True\<rparr> \<and> constraint_accepted E c bm r evs)"

definition marks_accepted :: "env \<Rightarrow> config \<Rightarrow> bls_manager \<Rightarrow> world \<Rightarrow> world \<Rightarrow> bool" where
  "marks_accepted E c bm w w' =
     (\<exists>evs. w_events w' = w_events w @ evs
        \<and> (distinct (map ci_request_hash (db_commitments (w_db w))) \<longrightarrow>
            list_all2 (marked_if_accepted E c bm evs) (db_commitments (w_db w)) (db_commitments (w_db w'))))"

lemma marked_mono: "set evs \<subseteq> set evs' \<Longrightarrow> marked_if_accepted E c bm evs r r' \<Longrightarrow> marked_if_accepted E c bm evs' r r'"
  unfolding marked_if_accepted_def constraint_accepted_def by blast

lemma marked_trans:
  assumes "marked_if_accepted E c bm evs r s" "marked_if_accepted E c bm evs' s t"
  shows "marked_if_accepted E c bm (evs @ evs') r t"
proof -
  have "marked_if_accepted E c bm (evs @ evs') r s" "marked_if_accepted E c bm (evs @ evs') s t"
    using assms by (auto elim: marked_mono [rotated])
  then show ?thesis by (auto simp: marked_if_accepted_def constraint_accepted_def)
qed

lemma marked_hashes:
  "list_all2 (marked_if_accepted E c bm evs) rs rs' \<Longrightarrow> map ci_request_hash rs' = map ci_request_hash rs"
  by (induction rule: list_all2_induct) (auto simp: marked_if_accepted_def)

lemma marked_refl: "list_all2 (marked_if_accepted E c bm evs) rs rs"
  by (auto simp: marked_if_accepted_def intro: list_all2_refl)

interpretation marks: log_rel "marks_accepted E c bm" for E c bm
proof unfold_locales
  show "marks_accepted E c bm w w" for w
    by (auto simp: marks_accepted_def marked_refl)
  show "marks_accepted E c bm w w'" if "w_db w' = w_db w" "w_events w' = w_events w @ evs" for w w' evs
    using that by (auto simp: marks_accepted_def marked_refl)
  show "marks_accepted E c bm u w" if uv: "marks_accepted E c bm u v" and vw: "marks_accepted E c bm v w" for u v w
  proof -
    obtain a where a: "w_events v = w_events u @ a" "distinct (map ci_request_hash (db_commitments (w_db u))) \<longrightarrow>
        list_all2 (marked_if_accepted E c bm a) (db_commitments (w_db u)) (db_commitments (w_db v))"
      using uv unfolding marks_accepted_def by blast
    obtain b where b: "w_events w = w_events v @ b" "distinct (map ci_request_hash (db_commitments (w_db v))) \<longrightarrow>
        list_all2 (marked_if_accepted E c bm b) (db_commitments (w_db v)) (db_commitments (w_db w))"
      using vw unfolding marks_accepted_def by blast
    have "list_all2 (marked_if_accepted E c bm (a @ b)) (db_commitments (w_db u)) (db_commitments (w_db w))"
      if "distinct (map ci_request_hash (db_commitments (w_db u)))"
    proof -
      have 1: "list_all2 (marked_if_accepted E c bm a) (db_commitments (w_db u)) (db_commitments (w_db v))"
        using a(2) that by blast
      have 2: "list_all2 (marked_if_accepted E c bm b) (db_commitments (w_db v)) (db_commitments (w_db w))"
        using b(2) that marked_hashes [OF 1] by simp
      show ?thesis by (rule list_all2_trans [OF _ 1 2]) (rule marked_trans)
    qed
    then show ?thesis unfolding marks_accepted_def using a(1) b(1) by (intro exI [of _ "a @ b"]) simp
  qed
qed

text \<open>The log only grows.\<close>

definition log_grows :: "world \<Rightarrow> world \<Rightarrow> bool" where
  "log_grows w w' = (\<exists>evs. w_events w' = w_events w @ evs)"

interpretation grows: log_rel log_grows
  by unfold_locales (auto simp: log_grows_def)

lemma process_delegation_marked:
  assumes "scan_law E"
  shows "obeys (marks_accepted E c bm) (process_delegation_constraints E c bm d slot)"
  unfolding obeys_def
proof
  fix w :: world
  obtain r w' where run: "process_delegation_constraints E c bm d slot w = (r, w')" by force
  have "marks_accepted E c bm w w'"
  proof (cases "w_db w' = w_db w")
    case True
    have "obeys log_grows (process_delegation_constraints E c bm d slot)"
      by (rule grows.process_delegation_obeys) (simp add: log_grows_def)
    from obeysD [OF this run] show ?thesis using True unfolding log_grows_def by (auto intro: marks.log)
  next
    case False
    let ?conv = "convertible (dm_committer (sd_message d))"
    from process_delegation_marks [OF run False] obtain scs w1 evs where
      g: "get_unprocessed_commitments_for_slot E slot w = (Inr scs, w1)"
      and d: "w_db w' = snd (mark_processed (map (\<lambda>sc. co_request_hash (sg_commitment sc)) (filter ?conv scs)) (w_db w))"
      and e: "w_events w' = w_events w @ evs"
      and acc: "relay_accepted E c bm d slot
        (map (\<lambda>sc. from_inclusion_commitment (co_payload (sg_commitment sc))) (filter ?conv scs)) evs" by blast
    let ?hs = "map (\<lambda>sc. co_request_hash (sg_commitment sc)) (filter ?conv scs)"
    have "marked_if_accepted E c bm evs row (mark_row ?hs row)"
      if dist: "distinct (map ci_request_hash (db_commitments (w_db w)))"
        and row: "row \<in> set (db_commitments (w_db w))" for row
    proof (cases "ci_request_hash row \<in> set ?hs")
      case False
      then show ?thesis by (simp add: mark_row_def marked_if_accepted_def)
    next
      case True
      then obtain sc where sc: "sc \<in> set scs" "?conv sc" "co_request_hash (sg_commitment sc) = ci_request_hash row" by auto
      then obtain row2 where row2: "row2 \<in> set (db_commitments (w_db w))" "ci_slot_number row2 = Some slot"
        "commitment_of_row row2 = Inr sc" using get_unprocessed_mem [OF assms g] by auto
      have f: "co_request_hash (sg_commitment sc) = ci_request_hash row2" "co_payload (sg_commitment sc) = ci_payload row2"
        using commitment_of_row_fields [OF row2(3)] by simp_all
      have "row2 = row" using distinct_map_inj_on_set [OF dist row2(1) row] f(1) sc(3) by simp
      then have "constraint_accepted E c bm row evs"
        using acc sc(1,2) f(2) row2(2) unfolding relay_accepted_def constraint_accepted_def by force
      then show ?thesis using True by (simp add: mark_row_def marked_if_accepted_def)
    qed
    then show ?thesis using d e
      by (auto simp: marks_accepted_def mark_processed_def list.rel_map intro!: list.rel_refl_strong)
  qed
  then show "marks_accepted E c bm w (snd (process_delegation_constraints E c bm d slot w))"
    by (simp add: run)
qed

lemma process_pending_marked:
  "scan_law E \<Longrightarrow> obeys (marks_accepted E c bm) (process_pending_constraints E c bm)"
  unfolding process_pending_constraints_def pending_step_def process_constraints_for_slot_def delegation_step_def
  by (intro pres process_delegation_marked)

section \<open>Immediate submission\<close>

lemma submit_constraint_Inr:
  assumes "scan_law E" "submit_constraint E c bm slot payload committer w = (Inr msg, w')"
  shows "committer = sk_committer_address (cf_signing c)
    \<and> (\<exists>r d. r \<in> set (db_delegations (w_db w)) \<and> dr_is_active r \<and> dr_slot_number r = slot
         \<and> delegation_of_row r = Inr d \<and> submission_match E c committer d
         \<and> (\<exists>evs. w_events w' = w_events w @ evs
              \<and> relay_accepted E c bm d slot [from_inclusion_commitment payload] evs))
    \<and> (\<exists>n. unat (e_now E n) < unat (constraint_deadline_for_slot (ba_genesis_time (cf_beacon_api c)) slot))
    \<and> w_db w' = w_db w"
proof -
  obtain ds w1 d sc w2 status where
    cm: "committer = sk_committer_address (cf_signing c)"
    and ds: "get_delegations_for_slot E slot w = (Inr ds, w1)"
    and f: "List.find (submission_match E c committer) ds = Some d"
    and s: "sign_for_delegation E c bm d slot [from_inclusion_commitment payload] = Inr sc"
    and now: "\<not> constraint_deadline_for_slot (ba_genesis_time (cf_beacon_api c)) slot \<le> e_now E (w_tick w1)"
    and w2: "w2 = tick w1"
    and sub: "io_timeout E (io_context ''Failed to submit constraint to API''
              (submit_constraints E (cf_constraints_api c) sc)) w2 = (Inr status, w')"
    using assms(2) unfolding submit_constraint_def Let_def
    by (auto simp: io_Inr io_now_def split: if_splits)
  have sub': "submit_constraints E (cf_constraints_api c) sc w2 = (Inr status, w')"
    using sub by (auto simp: io_timeout_def io_Inr Let_def split: option.splits)
  have d: "d \<in> set ds" "submission_match E c committer d" using f by (auto dest: find_Some_mem)
  obtain evs url resp where ev: "w_events w' = w_events w2 @ evs @ [EvHttp (HttpPostConstraints url sc) (Some resp)]"
    and st: "hr_status resp = 200 \<or> hr_status resp = 202" and db: "w_db w' = w_db w2"
    using submit_constraints_Inr [OF sub'] by blast
  have w1: "w_events w1 = w_events w" "w_db w1 = w_db w"
    using ds by (auto simp: get_delegations_for_slot_def io_Inr dest!: sql_query_Inr)
  have "relay_accepted E c bm d slot [from_inclusion_commitment payload]
      (evs @ [EvHttp (HttpPostConstraints url sc) (Some resp)])"
    unfolding relay_accepted_def using st sign_for_delegation_Inr [OF s] by fastforce
  moreover have "w_events w' = w_events w @ evs @ [EvHttp (HttpPostConstraints url sc) (Some resp)]"
    using ev w1 w2 by simp
  moreover obtain r where "r \<in> set (db_delegations (w_db w))" "dr_slot_number r = slot" "dr_is_active r"
    "delegation_of_row r = Inr d" using get_delegations_for_slot_mem [OF assms(1) ds d(1)] by blast
  moreover have "unat (e_now E (w_tick w1)) < unat (constraint_deadline_for_slot (ba_genesis_time (cf_beacon_api c)) slot)"
    using now by (simp add: word_le_nat_alt not_le)
  ultimately show ?thesis using cm d(2) db w1 w2 by auto
qed

text \<open>Nothing is sent once the deadline has passed.\<close>

lemma submit_constraint_late:
  assumes "\<forall>n. constraint_deadline_for_slot (ba_genesis_time (cf_beacon_api c)) slot \<le> e_now E n"
  shows "w_events (snd (submit_constraint E c bm slot payload committer w)) = w_events w
    \<and> (\<exists>e. fst (submit_constraint E c bm slot payload committer w) = Inl e)"
proof -
  have q: "w_events (snd (get_delegations_for_slot E slot v)) = w_events v" for v
    by (auto simp: get_delegations_for_slot_def io_bind_def io_context_def io_map_err_def io_res_def
        sql_query_def sql_def Let_def split: sum.split fault.split)
  obtain x w1 where g: "get_delegations_for_slot E slot w = (x, w1)" by force
  then show ?thesis using assms q [of w]
    by (auto simp: submit_constraint_def io_fail_def io_bind_def io_context_def io_map_err_def io_res_def
        Let_def io_now_def split: sum.splits prod.splits)
qed

end
