(* ===== verification/Gateway.thy ===== *)
theory Gateway
  imports Rpc_Handlers Delegation_Polling Constraint_Submission
begin

text \<open>
  The gateway as a concurrent system (\<open>server.rs\<close>, \<open>main.rs\<close>): any number of \<open>commitmentRequest\<close>
  tasks, each at one of its stages, and background jobs, all on one database. \<open>db_step\<close> is the
  abstract specification of the database: what a statement of the gateway may do to it. Every program
  of the gateway refines its closure; the steps of the system are a stage of one task, or
  any number of \<open>db_step\<close>s of the other programs between two stages.
\<close>

section \<open>The abstract database\<close>

text \<open>
  A commitment the gateway stores: of type 1, signed with its key, for a whitelisted slasher, under
  the hash of the request it answers and the slot its payload names.
\<close>

definition request_of :: "commitment \<Rightarrow> commitment_request" where
  "request_of co = \<lparr>cr_commitment_type = co_commitment_type co, cr_payload = co_payload co,
     cr_slasher = co_slasher co\<rparr>"

definition issuable :: "env \<Rightarrow> config \<Rightarrow> signed_commitment \<Rightarrow> bool" where
  "issuable E c sc =
     (co_commitment_type (sg_commitment sc) = 1
      \<and> is_whitelisted c (co_slasher (sg_commitment sc))
      \<and> generate_request_hash (hash_of E) (request_of (sg_commitment sc))
          = Inr (co_request_hash (sg_commitment sc))
      \<and> properly_signed E c sc)"

definition issued_row :: "env \<Rightarrow> config \<Rightarrow> commitment_row \<Rightarrow> bool" where
  "issued_row E c r =
     (commitment_check r \<and> (\<exists>sc. commitment_of_row r = Inr sc \<and> issuable E c sc
        \<and> ci_request_hash r = co_request_hash (sg_commitment sc)
        \<and> ci_slot_number r = stored_slot (payload_of E) (sg_commitment sc)))"

definition verified_row :: "env \<Rightarrow> delegation_row \<Rightarrow> bool" where
  "verified_row E r =
     (delegation_check r \<and> (\<exists>d. delegation_of_row r = Inr d \<and> is_verified E d))"

inductive db_step :: "env \<Rightarrow> config \<Rightarrow> db \<Rightarrow> db \<Rightarrow> bool" for E c where
  commit: "issued_row E c r \<Longrightarrow> \<not> ci_constraint_processed r \<Longrightarrow>
     ci_request_hash r \<notin> ci_request_hash ` set (db_commitments d) \<Longrightarrow>
     db_step E c d (d\<lparr>db_commitments := db_commitments d @ [r]\<rparr>)"
| mark: "db_step E c d (snd (mark_processed hs d))"
| delegate: "verified_row E r \<Longrightarrow>
     delegation_key r \<notin> delegation_key ` set (db_delegations d) \<Longrightarrow>
     dr_id r \<notin> dr_id ` set (db_delegations d) \<Longrightarrow>
     db_step E c d (d\<lparr>db_delegations := db_delegations d @ [r]\<rparr>)"
| retire: "db_step E c d (snd (deactivate_where P d))"
| open_slot: "gr_slot r \<notin> gr_slot ` set (db_congestion d) \<Longrightarrow>
     db_step E c d (d\<lparr>db_congestion_seq := n, db_congestion := db_congestion d @ [r]\<rparr>)"
| sequence: "db_step E c d (d\<lparr>db_congestion_seq := n\<rparr>)"
| gas: "db_step E c d (snd (update_congestion s g t d))"
| prune: "db_step E c d (snd (delete_older t d))"

inductive_cases db_stepE: "db_step E c d d'"

definition changes :: "env \<Rightarrow> config \<Rightarrow> world \<Rightarrow> world \<Rightarrow> bool" where
  "changes E c w w' = (db_step E c)\<^sup>*\<^sup>* (w_db w) (w_db w')"

interpretation changes: quiet_rel "changes E c" for E c
  by unfold_locales (auto simp: changes_def)

section \<open>Every statement refines it\<close>

lemma changes_one: "db_step E c (w_db w) (w_db w') \<Longrightarrow> changes E c w w'"
  by (simp add: changes_def)

lemma changes_mark: "changes E c w (w\<lparr>w_db := snd (mark_processed hs (w_db w))\<rparr>)"
  by (rule changes_one) (simp add: db_step.mark)

lemma changes_retire: "changes E c w (w\<lparr>w_db := snd (deactivate_where P (w_db w))\<rparr>)"
  by (rule changes_one) (simp add: db_step.retire)

lemma changes_gas: "changes E c w (w\<lparr>w_db := snd (update_congestion s g t (w_db w))\<rparr>)"
  by (rule changes_one) (simp add: db_step.gas)

lemma changes_prune: "changes E c w (w\<lparr>w_db := snd (delete_older t (w_db w))\<rparr>)"
  by (rule changes_one) (simp add: db_step.prune)

lemma changes_open: "changes E c w (w\<lparr>w_db := snd (insert_congestion r (w_db w))\<rparr>)"
proof (cases "2 ^ 31 \<le> db_congestion_seq (w_db w) + 1")
  case True
  then show ?thesis by (intro changes.quiet) (simp add: insert_congestion_def Let_def)
next
  case False
  show ?thesis
  proof (cases "gr_slot r \<in> gr_slot ` set (db_congestion (w_db w))")
    case True
    then show ?thesis using \<open>\<not> _\<close> db_step.sequence [of E c "w_db w"]
      by (intro changes_one) (simp add: insert_congestion_def Let_def)
  next
    case new: False
    have "db_step E c (w_db w) ((w_db w)\<lparr>db_congestion_seq := db_congestion_seq (w_db w) + 1,
        db_congestion := db_congestion (w_db w) @ [r\<lparr>gr_id := db_congestion_seq (w_db w) + 1\<rparr>]\<rparr>)"
      using new by (intro db_step.open_slot) simp
    then show ?thesis using new False
      by (intro changes_one) (simp add: insert_congestion_def Let_def)
  qed
qed

lemma delegation_row_of_verified:
  assumes "delegation_check (delegation_row_of uid d)" "is_verified E d"
  shows "verified_row E (delegation_row_of uid d)"
  using assms delegation_row_reads_back by (auto simp: verified_row_def)

lemma changes_delegate:
  assumes "is_verified E d"
  shows "changes E c w (w\<lparr>w_db := snd (insert_delegation_on_conflict (delegation_row_of uid d) (w_db w))\<rparr>)"
    and "changes E c w (w\<lparr>w_db := snd (insert_delegation (delegation_row_of uid d) (w_db w))\<rparr>)"
proof -
  let ?r = "delegation_row_of uid d"
  have "w_db w' = w_db w \<or> db_step E c (w_db w) (w_db w')"
    if "w_db w' = snd (insert_delegation_on_conflict ?r (w_db w))
        \<or> w_db w' = snd (insert_delegation ?r (w_db w))" for w' :: world
    using that delegation_row_of_verified [OF _ assms]
    by (auto simp: insert_delegation_on_conflict_def insert_delegation_def intro: db_step.delegate
        split: if_splits)
  then show "changes E c w (w\<lparr>w_db := snd (insert_delegation_on_conflict ?r (w_db w))\<rparr>)"
    and "changes E c w (w\<lparr>w_db := snd (insert_delegation ?r (w_db w))\<rparr>)"
    by (metis changes.quiet changes_one world.select_convs(1) world.surjective world.update_convs(1))+
qed

lemma row_of_issuable:
  assumes "commitment_check (commitment_row_of (payload_of E) uid t time sc)" "issuable E c sc"
    and "i64_try_from (co_commitment_type (sg_commitment sc)) = Some t"
  shows "issued_row E c (commitment_row_of (payload_of E) uid t time sc)"
proof -
  have "commitment_of_row (commitment_row_of (payload_of E) uid t time sc) = Inr sc"
    by (rule commitment_of_row_of [OF assms(3)])
  then show ?thesis using assms(1,2) by (auto simp: issued_row_def commitment_row_of_def)
qed

lemma changes_commit:
  assumes "issuable E c sc" "i64_try_from (co_commitment_type (sg_commitment sc)) = Some t"
  shows "changes E c w (w\<lparr>w_db := snd (insert_commitment
           (commitment_row_of (payload_of E) uid t time sc) (w_db w))\<rparr>)"
proof -
  let ?r = "commitment_row_of (payload_of E) uid t time sc"
  have "snd (insert_commitment ?r (w_db w)) = w_db w
      \<or> db_step E c (w_db w) (snd (insert_commitment ?r (w_db w)))"
    using row_of_issuable [OF _ assms]
    by (auto simp: insert_commitment_def commitment_row_of_def intro!: db_step.commit)
  then show ?thesis by (auto intro: changes.quiet changes_one)
qed

section \<open>Every program refines it\<close>

lemma save_batch_changes: "obeys (changes E c) (save_delegations_batch E ds)"
  by (intro changes.save_batch_obeys changes_delegate)

lemma poll_slot_changes: "obeys (changes E c) (poll_delegations_for_slot E c s)"
  unfolding poll_delegations_for_slot_def filter_eligible_delegations_def filter_step_def Let_def split_beta
  by (intro pres save_batch_changes)

lemma poll_changes: "obeys (changes E c) (poll_delegations E c)"
  unfolding poll_delegations_def poll_step_def by (intro pres poll_slot_changes)

lemma cleanup_changes: "obeys (changes E c) (cleanup_expired_delegations E c)"
  unfolding cleanup_expired_delegations_def cleanup_step_def Let_def split_beta
  by (intro pres changes.deactivate_expired_obeys changes.sql_obeys changes_retire)

lemma submission_changes: "obeys (changes E c) (process_pending_constraints E c bm)"
  by (intro changes.process_pending_obeys changes_mark)

lemma fee_changes: "obeys (changes E c) (calculate_fee_for_commitment E c t p s)"
  by (intro changes.calculate_fee_obeys changes_open)

lemma fee_handler_changes: "obeys (changes E c) (fee_handler E c params)"
  unfolding fee_handler_def is_slot_acceptable_for_fees_def by (intro pres fee_changes)

lemma stage_save_changes: "issuable E c sc \<Longrightarrow> obeys (changes E c) (stage_save E sc)"
  unfolding stage_save_def by (intro pres changes.save_commitment_obeys changes_commit)

lemma stage_fee_changes: "obeys (changes E c) (stage_fee E c k)"
  unfolding stage_fee_def by (intro pres fee_changes)

lemma stage_gas_changes: "obeys (changes E c) (stage_gas E c k g)"
  unfolding stage_gas_def by (intro pres changes.apply_gas_usage_obeys changes_gas)

text \<open>A validated request yields an issuable commitment.\<close>

lemma authority_issuable:
  assumes "stage_validate E c params = Inr k" "stage_authority E c k w = (Inr sc, w')"
  shows "issuable E c sc \<and> sg_commitment sc = commitment_of_request k"
proof -
  have sc: "sg_commitment sc = commitment_of_request k" "properly_signed E c sc"
    using assms(2)
    by (auto simp: stage_authority_def io_Inr io_code_Inr find_signing_key_Inr properly_signed_def)
  have "request_of (commitment_of_request k) = kr_request k"
    by (simp add: request_of_def commitment_of_request_def)
  then show ?thesis using sc assms(1)
    by (auto simp: issuable_def stage_validate_Inr) (simp_all add: commitment_of_request_def)
qed

lemma handler_changes: "obeys (changes E c) (commitment_request_handler E c params)"
  unfolding commitment_request_handler_def
  by (intro changes.res_bind_obeys changes.bind_obeys_result stage_save_changes stage_fee_changes
      stage_gas_changes changes.return_obeys changes.stage_exists_obeys changes.stage_authority_obeys)
    (auto dest: authority_issuable)

end
