(* ===== verification/Gateway_System.thy ===== *)
theory Gateway_System
  imports Gateway
begin

text \<open>
  Invariants of the abstract database, and the interleaved system: tasks that run the stages of
  \<open>commitmentRequest\<close> and background programs between them.
\<close>

section \<open>Invariants of the abstract database\<close>

definition db_sound :: "env \<Rightarrow> config \<Rightarrow> db \<Rightarrow> bool" where
  "db_sound E c d =
     (distinct (map ci_request_hash (db_commitments d)) \<and> list_all (issued_row E c) (db_commitments d)
      \<and> distinct (map delegation_key (db_delegations d)) \<and> distinct (map dr_id (db_delegations d))
      \<and> list_all (verified_row E) (db_delegations d)
      \<and> distinct (map gr_slot (db_congestion d)))"

lemma issued_mark_row [simp]: "issued_row E c (mark_row hs r) = issued_row E c r"
  by (simp add: issued_row_def)

lemma verified_deactivate_row [simp]: "verified_row E (deactivate_row P r) = verified_row E r"
  by (simp add: verified_row_def)

lemma db_step_sound: "db_step E c d d' \<Longrightarrow> db_sound E c d \<Longrightarrow> db_sound E c d'"
proof (induction rule: db_step.induct)
  case (mark d hs)
  then show ?case by (simp add: db_sound_def mark_processed_def comp_def list_all_iff)
next
  case (retire d P)
  then show ?case by (simp add: db_sound_def deactivate_where_def comp_def list_all_iff)
next
  case (gas d s g t)
  then show ?case
    by (simp add: db_sound_def update_congestion_def comp_def congestion_updated_def if_distrib cong: if_cong)
next
  case (prune d t)
  then show ?case by (simp add: db_sound_def delete_older_def distinct_map_filter)
qed (auto simp: db_sound_def)

lemma db_steps_sound: "(db_step E c)\<^sup>*\<^sup>* d d' \<Longrightarrow> db_sound E c d \<Longrightarrow> db_sound E c d'"
  by (induction rule: rtranclp_induct) (auto dest: db_step_sound)

text \<open>Commitments are never lost, and only their processed flag changes, from False to True.\<close>

definition same_or_processed :: "commitment_row \<Rightarrow> commitment_row \<Rightarrow> bool" where
  "same_or_processed r r' = (r' = r \<or> r' = r\<lparr>ci_constraint_processed := True\<rparr>)"

definition commitments_kept :: "db \<Rightarrow> db \<Rightarrow> bool" where
  "commitments_kept d d' =
     (\<exists>kept new. db_commitments d' = kept @ new \<and> list_all2 same_or_processed (db_commitments d) kept)"

lemma kept_refl: "commitments_kept d d"
  unfolding commitments_kept_def
  by (intro exI [of _ "db_commitments d"] exI [of _ "[]"])
    (auto simp: same_or_processed_def intro: list_all2_refl)

lemma kept_trans:
  assumes "commitments_kept d e" "commitments_kept e f"
  shows "commitments_kept d f"
proof -
  obtain k n where 1: "db_commitments e = k @ n" "list_all2 same_or_processed (db_commitments d) k"
    using assms(1) by (auto simp: commitments_kept_def)
  obtain k' n' where 2: "db_commitments f = k' @ n'" "list_all2 same_or_processed (k @ n) k'"
    using assms(2) 1(1) by (auto simp: commitments_kept_def)
  then obtain a b where k': "k' = a @ b" "list_all2 same_or_processed k a"
    by (auto simp: list_all2_append1)
  have "list_all2 same_or_processed (db_commitments d) a"
    using 1(2) k'(2) by (rule list_all2_trans [rotated]) (auto simp: same_or_processed_def)
  then show ?thesis using 2(1) k'(1) by (auto simp: commitments_kept_def)
qed

lemma db_step_kept: "db_step E c d d' \<Longrightarrow> commitments_kept d d'"
proof (induction rule: db_step.induct)
  case (commit r d)
  then show ?case unfolding commitments_kept_def
    by (intro exI [of _ "db_commitments d"] exI [of _ "[r]"])
      (auto simp: same_or_processed_def intro: list_all2_refl)
next
  case (mark d hs)
  have "list_all2 same_or_processed (db_commitments d) (map (mark_row hs) (db_commitments d))"
    by (auto simp: list.rel_map same_or_processed_def mark_row_def intro!: list.rel_refl_strong)
  then show ?case unfolding commitments_kept_def
    by (intro exI [of _ "map (mark_row hs) (db_commitments d)"] exI [of _ "[]"])
      (simp add: mark_processed_def)
qed (use kept_refl in \<open>auto simp: commitments_kept_def deactivate_where_def update_congestion_def delete_older_def\<close>)

lemma db_steps_kept: "(db_step E c)\<^sup>*\<^sup>* d d' \<Longrightarrow> commitments_kept d d'"
  by (induction rule: rtranclp_induct) (auto intro: kept_refl kept_trans dest: db_step_kept)

lemma list_all2_memD: "list_all2 P xs ys \<Longrightarrow> x \<in> set xs \<Longrightarrow> \<exists>y \<in> set ys. P x y"
  by (induction rule: list_all2_induct) auto

lemma kept_mem:
  assumes "commitments_kept d d'" "r \<in> set (db_commitments d)"
  shows "\<exists>r' \<in> set (db_commitments d'). same_or_processed r r'"
proof -
  obtain kept new where k: "db_commitments d' = kept @ new"
    "list_all2 same_or_processed (db_commitments d) kept"
    using assms(1) by (auto simp: commitments_kept_def)
  from list_all2_memD [OF k(2) assms(2)] k(1) show ?thesis by auto
qed

text \<open>A commitment is stored: reading its hash gives it back.\<close>

definition stored :: "db \<Rightarrow> signed_commitment \<Rightarrow> bool" where
  "stored d sc = (\<exists>r \<in> set (db_commitments d). ci_request_hash r = co_request_hash (sg_commitment sc)
     \<and> commitment_of_row r = Inr sc)"

lemma stored_kept: "commitments_kept d d' \<Longrightarrow> stored d sc \<Longrightarrow> stored d' sc"
proof -
  assume k: "commitments_kept d d'" and "stored d sc"
  then obtain r where r: "r \<in> set (db_commitments d)" "commitment_of_row r = Inr sc"
    "ci_request_hash r = co_request_hash (sg_commitment sc)" by (auto simp: stored_def)
  then obtain r' where "r' \<in> set (db_commitments d')" "same_or_processed r r'"
    using kept_mem [OF k] by blast
  then show "stored d' sc" using r
    by (intro bexI [of _ r'] stored_def [THEN iffD2])
      (auto simp: same_or_processed_def commitment_of_row_def)
qed

lemma stored_unique:
  assumes "distinct (map ci_request_hash (db_commitments d))" "stored d a" "stored d b"
    and "co_request_hash (sg_commitment a) = co_request_hash (sg_commitment b)"
  shows "a = b"
proof -
  obtain r s where "r \<in> set (db_commitments d)" "commitment_of_row r = Inr a"
    "s \<in> set (db_commitments d)" "commitment_of_row s = Inr b" "ci_request_hash r = ci_request_hash s"
    using assms(2-4) by (auto simp: stored_def)
  then show ?thesis using distinct_map_inj_on_set [OF assms(1)] by (metis Inr_inject)
qed

lemma changes_kept: "changes E c w w' \<Longrightarrow> commitments_kept (w_db w) (w_db w')"
  by (simp add: changes_def db_steps_kept)

lemma changes_sound: "changes E c w w' \<Longrightarrow> db_sound E c (w_db w) \<Longrightarrow> db_sound E c (w_db w')"
  by (simp add: changes_def db_steps_sound)

lemma saved_is_stored:
  assumes "stage_save E sc w = (Inr u, w')"
  shows "stored (w_db w') sc
    \<and> co_request_hash (sg_commitment sc) \<notin> ci_request_hash ` set (db_commitments (w_db w))"
proof -
  obtain uid where "save_commitment E sc w = (Inr (Some uid), w')"
    using stage_save_Inr [OF assms] by blast
  from save_commitment_Some [OF this] obtain t n where
    t: "i64_try_from (co_commitment_type (sg_commitment sc)) = Some t"
    and new: "co_request_hash (sg_commitment sc) \<notin> ci_request_hash ` set (db_commitments (w_db w))"
    and rows: "db_commitments (w_db w') = db_commitments (w_db w)
       @ [commitment_row_of (payload_of E) uid t (e_db_time E n) sc]"
    by (auto simp: Let_def)
  have "ci_request_hash (commitment_row_of (payload_of E) uid t (e_db_time E n) sc)
      = co_request_hash (sg_commitment sc)"
    by (simp add: commitment_row_of_def)
  then show ?thesis
    using new rows commitment_of_row_of [OF t] by (auto simp: stored_def)
qed

section \<open>The interleaved system\<close>

datatype task =
    Waiting "commitment_request option"
  | Validated checked_request
  | Unseen checked_request
  | Signed checked_request signed_commitment
  | Saved checked_request signed_commitment
  | Priced checked_request signed_commitment u64
  | Finished "rpc_error + signed_commitment"

definition continue_with :: "('a \<Rightarrow> task) \<Rightarrow> (rpc_error + 'a) \<times> world \<Rightarrow> task \<times> world" where
  "continue_with f = (\<lambda>(r, w). (case r of Inl e \<Rightarrow> Finished (Inl e) | Inr a \<Rightarrow> f a, w))"

fun task_next :: "env \<Rightarrow> config \<Rightarrow> task \<Rightarrow> world \<Rightarrow> task \<times> world" where
  "task_next E c (Waiting params) w = continue_with Validated (stage_validate E c params, w)"
| "task_next E c (Validated k) w = continue_with (\<lambda>_. Unseen k) (stage_exists E k w)"
| "task_next E c (Unseen k) w = continue_with (Signed k) (stage_authority E c k w)"
| "task_next E c (Signed k sc) w = continue_with (\<lambda>_. Saved k sc) (stage_save E sc w)"
| "task_next E c (Saved k sc) w = continue_with (Priced k sc) (stage_fee E c k w)"
| "task_next E c (Priced k sc g) w = continue_with (\<lambda>_. Finished (Inr sc)) (stage_gas E c k g w)"
| "task_next E c (Finished r) w = (Finished r, w)"

text \<open>A task that runs alone is the handler.\<close>

fun run_stages :: "nat \<Rightarrow> env \<Rightarrow> config \<Rightarrow> task \<Rightarrow> world \<Rightarrow> task \<times> world" where
  "run_stages 0 E c t w = (t, w)"
| "run_stages (Suc n) E c t w = (let (t', w') = task_next E c t w in run_stages n E c t' w')"

lemma run_finished: "run_stages n E c (Finished r) w = (Finished r, w)"
  by (induction n) simp_all

lemma run_continue:
  "run_stages (Suc n) E c t w = (case task_next E c t w of (t', w') \<Rightarrow> run_stages n E c t' w')"
  by (simp split: prod.split)

lemma run_continue_with:
  "(case continue_with f p of (t, w) \<Rightarrow> run_stages n E c t w)
     = (case p of (r, w) \<Rightarrow> case r of Inl e \<Rightarrow> (Finished (Inl e), w) | Inr a \<Rightarrow> run_stages n E c (f a) w)"
  by (simp add: continue_with_def run_finished split: prod.split sum.split)

record system =
  sy_world :: world
  sy_tasks :: "nat \<Rightarrow> task option"

text \<open>
  \<open>arrive\<close>: a request comes in. \<open>run\<close>: a task runs its next stage. \<open>others\<close>: any other program of the
  gateway (a background job, the \<open>fee\<close> method, a part of another stage) has run in between.
\<close>

inductive system_step :: "env \<Rightarrow> config \<Rightarrow> system \<Rightarrow> system \<Rightarrow> bool" for E c where
  arrive: "sy_tasks s i = None \<Longrightarrow>
     system_step E c s (s\<lparr>sy_tasks := (sy_tasks s)(i \<mapsto> Waiting params)\<rparr>)"
| run: "sy_tasks s i = Some t \<Longrightarrow> task_next E c t (sy_world s) = (t', w') \<Longrightarrow>
     system_step E c s \<lparr>sy_world = w', sy_tasks = (sy_tasks s)(i \<mapsto> t')\<rparr>"
| others: "changes E c (sy_world s) w' \<Longrightarrow> system_step E c s (s\<lparr>sy_world := w'\<rparr>)"

inductive_cases system_stepE: "system_step E c s s'"

definition initial :: "env \<Rightarrow> config \<Rightarrow> system \<Rightarrow> bool" where
  "initial E c s = (db_sound E c (w_db (sy_world s)) \<and> sy_tasks s = Map.empty)"

inductive reachable :: "env \<Rightarrow> config \<Rightarrow> system \<Rightarrow> bool" for E c where
  start: "initial E c s \<Longrightarrow> reachable E c s"
| step: "reachable E c s \<Longrightarrow> system_step E c s s' \<Longrightarrow> reachable E c s'"

section \<open>The invariant of the tasks\<close>

text \<open>What a task has established by the stage it is at.\<close>

fun task_inv :: "env \<Rightarrow> config \<Rightarrow> db \<Rightarrow> task \<Rightarrow> bool" where
  "task_inv E c d (Waiting params) = True"
| "task_inv E c d (Validated k) = (\<exists>params. stage_validate E c params = Inr k)"
| "task_inv E c d (Unseen k) = (\<exists>params. stage_validate E c params = Inr k)"
| "task_inv E c d (Signed k sc) = issuable E c sc"
| "task_inv E c d (Saved k sc) = (issuable E c sc \<and> stored d sc)"
| "task_inv E c d (Priced k sc g) = (issuable E c sc \<and> stored d sc)"
| "task_inv E c d (Finished r) = (case r of Inl e \<Rightarrow> True | Inr sc \<Rightarrow> issuable E c sc \<and> stored d sc)"

text \<open>The commitment a task has stored, if it has.\<close>

fun task_saved :: "task \<Rightarrow> signed_commitment option" where
  "task_saved (Saved k sc) = Some sc"
| "task_saved (Priced k sc g) = Some sc"
| "task_saved (Finished (Inr sc)) = Some sc"
| "task_saved _ = None"

text \<open>The request hash of the commitment a task has answered with.\<close>

fun answer_hash :: "task option \<Rightarrow> string option" where
  "answer_hash (Some (Finished (Inr sc))) = Some (co_request_hash (sg_commitment sc))"
| "answer_hash _ = None"

lemma answer_hash_Some:
  "answer_hash t = Some h \<longleftrightarrow> (\<exists>sc. t = Some (Finished (Inr sc)) \<and> co_request_hash (sg_commitment sc) = h)"
  by (cases t rule: answer_hash.cases) auto

lemma task_inv_kept: "commitments_kept d d' \<Longrightarrow> task_inv E c d t \<Longrightarrow> task_inv E c d' t"
  by (cases t) (auto dest: stored_kept split: sum.splits)

lemma task_saved_stored: "task_inv E c d t \<Longrightarrow> task_saved t = Some sc \<Longrightarrow> issuable E c sc \<and> stored d sc"
  by (cases t rule: task_saved.cases) auto

lemma task_next_changes:
  assumes "task_inv E c (w_db w) t" "task_next E c t w = (t', w')"
  shows "changes E c w w'"
proof (cases t)
  case (Validated k)
  then show ?thesis using assms obeysD [OF changes.stage_exists_obeys]
    by (auto simp: continue_with_def split: prod.splits)
next
  case (Unseen k)
  then show ?thesis using assms obeysD [OF changes.stage_authority_obeys]
    by (auto simp: continue_with_def split: prod.splits)
next
  case (Signed k sc)
  then show ?thesis using assms obeysD [OF stage_save_changes]
    by (auto simp: continue_with_def split: prod.splits)
next
  case (Saved k sc)
  then show ?thesis using assms obeysD [OF stage_fee_changes]
    by (auto simp: continue_with_def split: prod.splits)
next
  case (Priced k sc g)
  then show ?thesis using assms obeysD [OF stage_gas_changes]
    by (auto simp: continue_with_def split: prod.splits)
qed (use assms in \<open>auto simp: continue_with_def changes.refl\<close>)

lemma task_next_inv:
  assumes "task_inv E c (w_db w) t" "task_next E c t w = (t', w')"
  shows "task_inv E c (w_db w') t'"
proof -
  have kept: "commitments_kept (w_db w) (w_db w')"
    using task_next_changes [OF assms] by (rule changes_kept)
  show ?thesis
  proof (cases t)
    case (Unseen k)
    then show ?thesis using assms authority_issuable
      by (auto simp: continue_with_def split: prod.splits sum.splits)
  next
    case (Signed k sc)
    then show ?thesis using assms saved_is_stored
      by (auto simp: continue_with_def split: prod.splits sum.splits)
  qed (use assms kept in \<open>auto simp: continue_with_def stored_kept split: prod.splits sum.splits\<close>)
qed

text \<open>A step of a task stores a commitment only under a hash that was free.\<close>

lemma task_next_saved:
  assumes "task_next E c t w = (t', w')" "task_saved t' = Some sc"
  shows "task_saved t = Some sc
    \<or> co_request_hash (sg_commitment sc) \<notin> ci_request_hash ` set (db_commitments (w_db w))"
  using assms
  by (cases t) (auto simp: continue_with_def dest!: saved_is_stored split: prod.splits sum.splits)

definition system_inv :: "env \<Rightarrow> config \<Rightarrow> system \<Rightarrow> bool" where
  "system_inv E c s =
     (db_sound E c (w_db (sy_world s))
      \<and> (\<forall>i t. sy_tasks s i = Some t \<longrightarrow> task_inv E c (w_db (sy_world s)) t)
      \<and> (\<forall>i j a b t u. i \<noteq> j \<longrightarrow> sy_tasks s i = Some t \<longrightarrow> sy_tasks s j = Some u \<longrightarrow>
           task_saved t = Some a \<longrightarrow> task_saved u = Some b \<longrightarrow>
           co_request_hash (sg_commitment a) \<noteq> co_request_hash (sg_commitment b)))"

lemma saved_hash_present:
  assumes "task_inv E c d t" "task_saved t = Some sc"
  shows "co_request_hash (sg_commitment sc) \<in> ci_request_hash ` set (db_commitments d)"
proof -
  obtain r where "r \<in> set (db_commitments d)" "ci_request_hash r = co_request_hash (sg_commitment sc)"
    using task_saved_stored [OF assms] by (auto simp: stored_def)
  then show ?thesis by (metis imageI)
qed

lemma system_step_inv: "system_step E c s s' \<Longrightarrow> system_inv E c s \<Longrightarrow> system_inv E c s'"
proof (induction rule: system_step.induct)
  case (arrive s i params)
  then show ?case by (auto simp: system_inv_def split: if_splits)
next
  case (run s i t t' w')
  have ti: "task_inv E c (w_db (sy_world s)) t" using run by (simp add: system_inv_def)
  have ch: "changes E c (sy_world s) w'" by (rule task_next_changes [OF ti run(2)])
  have kept: "commitments_kept (w_db (sy_world s)) (w_db w')" by (rule changes_kept [OF ch])
  have inv: "task_inv E c (w_db w') u" if "sy_tasks s j = Some u" for j u
    using run(3) that task_inv_kept [OF kept] by (auto simp: system_inv_def)
  have old: "co_request_hash (sg_commitment a) \<noteq> co_request_hash (sg_commitment b)"
    if "j \<noteq> k" "sy_tasks s j = Some u" "sy_tasks s k = Some v" "task_saved u = Some a" "task_saved v = Some b"
    for j k u v a b
    using run(3) that unfolding system_inv_def by blast
  have new: "co_request_hash (sg_commitment a) \<noteq> co_request_hash (sg_commitment b)"
    if "task_saved t' = Some a" "j \<noteq> i" "sy_tasks s j = Some u" "task_saved u = Some b" for a b j u
    using task_next_saved [OF run(2) that(1)]
  proof
    assume "task_saved t = Some a"
    from old [OF that(2) [symmetric] run(1) that(3) this that(4)] show ?thesis .
  next
    assume free: "co_request_hash (sg_commitment a)
      \<notin> ci_request_hash ` set (db_commitments (w_db (sy_world s)))"
    have "task_inv E c (w_db (sy_world s)) u" using run(3) that(3) by (auto simp: system_inv_def)
    from saved_hash_present [OF this that(4)] free show ?thesis by metis
  qed
  have "db_sound E c (w_db w')" using run(3) changes_sound [OF ch] by (simp add: system_inv_def)
  moreover have "task_inv E c (w_db w') t'" by (rule task_next_inv [OF ti run(2)])
  ultimately show ?case using inv new old
    by (auto simp: system_inv_def split: if_splits) (metis new)+
next
  case (others s w')
  then show ?case
    using changes_sound [OF others(1)] task_inv_kept [OF changes_kept [OF others(1)]]
    by (auto simp: system_inv_def)
qed

lemma reachable_inv: "reachable E c s \<Longrightarrow> system_inv E c s"
proof (induction rule: reachable.induct)
  case (start s)
  then show ?case by (simp add: initial_def system_inv_def)
qed (rule system_step_inv)

text \<open>A task that runs its stages without interruption stays within the reachable systems.\<close>

lemma reachable_run:
  assumes "reachable E c s" "sy_tasks s i = Some t" "run_stages n E c t (sy_world s) = (t', w')"
  shows "reachable E c \<lparr>sy_world = w', sy_tasks = (sy_tasks s)(i \<mapsto> t')\<rparr>"
  using assms
proof (induction n arbitrary: s t)
  case 0
  then have "\<lparr>sy_world = w', sy_tasks = (sy_tasks s)(i \<mapsto> t')\<rparr> = s"
    by (cases s) (simp add: fun_upd_idem)
  then show ?case using 0(1) by (simp only:)
next
  case (Suc n)
  obtain u v where n: "task_next E c t (sy_world s) = (u, v)" by force
  let ?s = "\<lparr>sy_world = v, sy_tasks = (sy_tasks s)(i \<mapsto> u)\<rparr>"
  have "reachable E c ?s" using Suc.prems(1,2) n by (blast intro: reachable.step system_step.run)
  moreover have "run_stages n E c u (sy_world ?s) = (t', w')" using Suc.prems(3) n by simp
  ultimately have "reachable E c \<lparr>sy_world = w', sy_tasks = (sy_tasks ?s)(i \<mapsto> t')\<rparr>"
    by (intro Suc.IH) simp_all
  then show ?case by (simp only: system.select_convs fun_upd_upd)
qed

lemma run_stage:
  "run_stages (Suc n) E c (Waiting params) w = (case stage_validate E c params of
     Inl e \<Rightarrow> (Finished (Inl e), w) | Inr k \<Rightarrow> run_stages n E c (Validated k) w)"
  "run_stages (Suc n) E c (Validated k) w = (case stage_exists E k w of
     (Inl e, w') \<Rightarrow> (Finished (Inl e), w') | (Inr u, w') \<Rightarrow> run_stages n E c (Unseen k) w')"
  "run_stages (Suc n) E c (Unseen k) w = (case stage_authority E c k w of
     (Inl e, w') \<Rightarrow> (Finished (Inl e), w') | (Inr sc, w') \<Rightarrow> run_stages n E c (Signed k sc) w')"
  "run_stages (Suc n) E c (Signed k sc) w = (case stage_save E sc w of
     (Inl e, w') \<Rightarrow> (Finished (Inl e), w') | (Inr u, w') \<Rightarrow> run_stages n E c (Saved k sc) w')"
  "run_stages (Suc n) E c (Saved k sc) w = (case stage_fee E c k w of
     (Inl e, w') \<Rightarrow> (Finished (Inl e), w') | (Inr g, w') \<Rightarrow> run_stages n E c (Priced k sc g) w')"
  "run_stages (Suc n) E c (Priced k sc g) w = (case stage_gas E c k g w of
     (Inl e, w') \<Rightarrow> (Finished (Inl e), w') | (Inr u, w') \<Rightarrow> (Finished (Inr sc), w'))"
  by (simp_all add: continue_with_def run_finished split: prod.split sum.split)

lemma run_is_handler:
  "run_stages 6 E c (Waiting params) w =
     (case commitment_request_handler E c params w of (r, w') \<Rightarrow> (Finished r, w'))"
proof -
  have "run_stages (Suc (Suc (Suc (Suc (Suc (Suc 0)))))) E c (Waiting params) w =
     (case commitment_request_handler E c params w of (r, w') \<Rightarrow> (Finished r, w'))"
    by (simp only: run_stage commitment_request_handler_def io_bind_def io_res_def io_return_def)
      (simp split: prod.split sum.split)
  then show ?thesis by (simp add: numeral_eq_Suc)
qed

text \<open>After any further changes to the database, the result method gives a stored commitment back.\<close>

lemma result_of_stored:
  assumes "distinct (map ci_request_hash (db_commitments (w_db w)))" "stored (w_db w) sc"
  shows "fst (commitment_result_handler E (Some (co_request_hash (sg_commitment sc))) w)
     = (if e_fault E (w_tick w) = NoFault then Inr sc else Inl InternalError)"
proof -
  obtain r where r: "r \<in> set (db_commitments (w_db w))" "ci_request_hash r = co_request_hash (sg_commitment sc)"
    "commitment_of_row r = Inr sc" using assms(2) by (auto simp: stored_def)
  have "find_commitment (co_request_hash (sg_commitment sc)) (w_db w) = Some r"
    using find_commitment_mem [OF assms(1) r(1)] r(2) by simp
  then show ?thesis using r(3)
    by (auto simp: commitment_result_handler_def get_commitment_by_hash_def io_bind_def io_match_def io_res_def
        io_return_def io_fail_def io_context_def io_map_err_def sql_query_def sql_def Let_def split: fault.split)
qed

end
