(* ===== verification/Metrics_Server.thy ===== *)
theory Metrics_Server
  imports Gateway_System
begin

text \<open>
  Metrics (\<open>metrics.rs\<close> and the updater task of \<open>main.rs\<close>), the address and the method table of the
  RPC server (\<open>server.rs\<close>, \<open>rpc/methods.rs\<close>). A
  registry is a map from a gauge and its label to a value.
\<close>

section \<open>Gauges\<close>

record gauges =
  ga_int :: "string \<times> string \<rightharpoonup> i64"
  ga_f64 :: "string \<times> string \<rightharpoonup> f64"

definition set_int :: "string \<Rightarrow> string \<Rightarrow> i64 \<Rightarrow> gauges \<Rightarrow> gauges" where
  "set_int name label v g = g\<lparr>ga_int := (ga_int g)((name, label) \<mapsto> v)\<rparr>"

definition set_f64 :: "string \<Rightarrow> string \<Rightarrow> f64 \<Rightarrow> gauges \<Rightarrow> gauges" where
  "set_f64 name label v g = g\<lparr>ga_f64 := (ga_f64 g)((name, label) \<mapsto> v)\<rparr>"

definition update_commitment_stats :: "i64 \<Rightarrow> i64 \<Rightarrow> gauges \<Rightarrow> gauges" where
  "update_commitment_stats total_count type_1 g =
     set_int ''gateway_commitments_by_type'' ''inclusion'' type_1
       (set_int ''gateway_commitments_total'' ''all'' total_count g)"

definition update_delegation_stats :: "i64 \<Rightarrow> i64 \<Rightarrow> i64 \<Rightarrow> i64 \<Rightarrow> i64 \<Rightarrow> gauges \<Rightarrow> gauges" where
  "update_delegation_stats total_count active proposers delegates slots g =
     set_int ''gateway_slots_covered'' ''active'' slots
       (set_int ''gateway_unique_delegates'' ''all'' delegates
         (set_int ''gateway_unique_proposers'' ''all'' proposers
           (set_int ''gateway_delegations_active'' ''current'' active
             (set_int ''gateway_delegations_total'' ''all'' total_count g))))"

definition update_congestion_stats :: "f64 \<Rightarrow> f64 \<Rightarrow> f64 \<Rightarrow> gauges \<Rightarrow> gauges" where
  "update_congestion_stats avg_congestion highest avg_multiplier g =
     set_f64 ''gateway_average_fee_multiplier'' ''24h'' avg_multiplier
       (set_f64 ''gateway_highest_congestion_ratio'' ''24h'' highest
         (set_f64 ''gateway_average_congestion_ratio'' ''24h'' avg_congestion g))"

definition update_pricing_stats :: "u64 \<Rightarrow> u64 option \<Rightarrow> gauges \<Rightarrow> gauges" where
  "update_pricing_stats slot gas_price g =
     (let g1 = set_int ''gateway_current_slot'' ''beacon'' slot g in
      case gas_price of
        Some price \<Rightarrow> set_int ''gateway_base_gas_price_wei'' ''current'' price g1
      | None \<Rightarrow> g1)"

text \<open>\<open>if let Ok(v) = m\<close>: apply the update on success, keep the gauges on an error.\<close>

definition on_ok :: "(err, 'a) io \<Rightarrow> ('a \<Rightarrow> gauges \<Rightarrow> gauges) \<Rightarrow> gauges \<Rightarrow> (err, gauges) io" where
  "on_ok m f g = io_match m (\<lambda>r. io_return (case r of Inr v \<Rightarrow> f v g | Inl e \<Rightarrow> g))"

text \<open>\<open>MetricsRegistry::update_metrics\<close>, which sets the gauges itself.\<close>

definition update_metrics :: "env \<Rightarrow> config \<Rightarrow> gauges \<Rightarrow> (err, gauges) io" where
  "update_metrics E c g0 =
     io_bind (on_ok (get_commitment_stats E) (\<lambda>s g.
       set_int ''gateway_commitments_by_type'' ''inclusion'' (cs_commitment_type_1_count s)
         (set_int ''gateway_commitments_total'' ''all'' (cs_total_count s) g)) g0) (\<lambda>g1.
     io_bind (on_ok (get_delegation_stats E) (\<lambda>s g.
       set_int ''gateway_slots_covered'' ''active'' (ds_slots_covered s)
         (set_int ''gateway_unique_delegates'' ''all'' (ds_unique_delegates s)
           (set_int ''gateway_unique_proposers'' ''all'' (ds_unique_proposers s)
             (set_int ''gateway_delegations_active'' ''current'' (ds_active_count s)
               (set_int ''gateway_delegations_total'' ''all'' (ds_total_count s) g))))) g1) (\<lambda>g2.
     io_bind (on_ok (get_congestion_stats E) (\<lambda>s g.
       set_f64 ''gateway_average_fee_multiplier'' ''24h'' (gs_average_fee_multiplier s)
         (set_f64 ''gateway_highest_congestion_ratio'' ''24h'' (gs_highest_congestion_ratio s)
           (set_f64 ''gateway_average_congestion_ratio'' ''24h'' (gs_current_average_congestion s) g))) g2) (\<lambda>g3.
     on_ok (get_pricing_stats E c) (\<lambda>s g.
       (let g' = set_int ''gateway_current_slot'' ''beacon'' (ps_current_slot s) g in
        case ps_current_base_gas_price s of
          Some p \<Rightarrow> set_int ''gateway_base_gas_price_wei'' ''current'' p g'
        | None \<Rightarrow> g')) g3)))"

text \<open>One round of the updater task of \<open>main\<close>, which goes through the \<open>update_*\<close> methods.\<close>

definition metrics_updater_tick :: "env \<Rightarrow> config \<Rightarrow> gauges \<Rightarrow> (err, gauges) io" where
  "metrics_updater_tick E c g0 =
     io_bind (on_ok (get_commitment_stats E) (\<lambda>s.
       update_commitment_stats (cs_total_count s) (cs_commitment_type_1_count s)) g0) (\<lambda>g1.
     io_bind (on_ok (get_delegation_stats E) (\<lambda>s.
       update_delegation_stats (ds_total_count s) (ds_active_count s) (ds_unique_proposers s)
         (ds_unique_delegates s) (ds_slots_covered s)) g1) (\<lambda>g2.
     io_bind (on_ok (get_congestion_stats E) (\<lambda>s.
       update_congestion_stats (gs_current_average_congestion s) (gs_highest_congestion_ratio s)
         (gs_average_fee_multiplier s)) g2) (\<lambda>g3.
     on_ok (get_pricing_stats E c) (\<lambda>s.
       update_pricing_stats (ps_current_slot s) (ps_current_base_gas_price s)) g3)))"

section \<open>The server\<close>

definition server_address :: "config \<Rightarrow> string" where
  "server_address c = se_host (cf_server c) @ '':'' @ show_nat (unat (se_port (cf_server c)))"

definition pool_url :: "host \<Rightarrow> config \<Rightarrow> string" where
  "pool_url h c = (case ho_env h ''DATABASE_URL'' of Some url \<Rightarrow> url | None \<Rightarrow> database_url c)"

datatype rpc_params =
    RequestParams "commitment_request option"
  | HashParams "string option"
  | NoParams

datatype rpc_reply =
    CommitmentReply signed_commitment
  | SlotsReply slot_info_response
  | FeeReply fee_info

definition io_map :: "('a \<Rightarrow> 'b) \<Rightarrow> ('e, 'a) io \<Rightarrow> ('e, 'b) io" where
  "io_map f m = io_bind m (\<lambda>a. io_return (f a))"

fun request_params :: "rpc_params \<Rightarrow> commitment_request option" where
  "request_params (RequestParams p) = p"
| "request_params _ = None"

fun hash_params :: "rpc_params \<Rightarrow> string option" where
  "hash_params (HashParams p) = p"
| "hash_params _ = None"

text \<open>The method table; \<open>None\<close> is a method that is not registered.\<close>

definition rpc_dispatch :: "env \<Rightarrow> config \<Rightarrow> string \<Rightarrow> rpc_params \<Rightarrow> (rpc_error, rpc_reply) io option" where
  "rpc_dispatch E c name p =
     (if name = ''commitmentRequest''
        then Some (io_map CommitmentReply (commitment_request_handler E c (request_params p)))
      else if name = ''commitmentResult''
        then Some (io_map CommitmentReply (commitment_result_handler E (hash_params p)))
      else if name = ''slots'' then Some (io_map SlotsReply (slots_handler E c))
      else if name = ''fee'' then Some (io_map FeeReply (fee_handler E c (request_params p)))
      else None)"

lemma io_map_obeys: "obeys (changes E c) m \<Longrightarrow> obeys (changes E c) (io_map f m)"
  unfolding io_map_def by (intro pres)

lemma commitment_result_changes: "obeys (changes E c) (commitment_result_handler E p)"
  by (rule changes.commitment_result_obeys)

lemma slots_changes: "obeys (changes E c) (slots_handler E c)"
  by (rule changes.slots_obeys)

lemma dispatch_changes:
  assumes "rpc_dispatch E c name p = Some m"
  shows "obeys (changes E c) m"
  using assms
  by (auto simp: rpc_dispatch_def split: if_splits intro!: io_map_obeys handler_changes
      commitment_result_changes slots_changes fee_handler_changes)

lemma update_metrics_eq: "update_metrics E c g = metrics_updater_tick E c g"
  by (simp add: update_metrics_def metrics_updater_tick_def update_commitment_stats_def [abs_def]
      update_delegation_stats_def [abs_def] update_congestion_stats_def [abs_def]
      update_pricing_stats_def [abs_def] Let_def)

end
