(* ===== verification/Samples.thy ===== *)
theory Samples
  imports Metrics_Server
begin

text \<open>
  Concrete instances of the parameters, on which the witnesses evaluate: a hex codec, a stand-in
  for each cryptographic crate that has the documented behaviour, payload encodings, a well-behaved
  environment, a configuration, a delegation and a request it authorises.
\<close>

section \<open>Hashing and hex\<close>

definition nibble_value :: "char \<Rightarrow> nat option" where
  "nibble_value c = List.find (\<lambda>n. hex_digits ! n = to_ascii_lower c) [0..<16]"

fun sample_hex_encode :: "bytes \<Rightarrow> string" where
  "sample_hex_encode [] = []"
| "sample_hex_encode (b # bs) =
     hex_digits ! (unat b div 16) # hex_digits ! (unat b mod 16) # sample_hex_encode bs"

fun sample_hex_decode :: "string \<Rightarrow> bytes option" where
  "sample_hex_decode [] = Some []"
| "sample_hex_decode [c] = None"
| "sample_hex_decode (c # d # s) =
     (case (nibble_value c, nibble_value d, sample_hex_decode s) of
        (Some x, Some y, Some bs) \<Rightarrow> Some (of_nat (16 * x + y) # bs)
      | _ \<Rightarrow> None)"

fun token_bytes :: "abi_token \<Rightarrow> bytes" where
  "token_bytes (TUint n) = to_le_bytes n"
| "token_bytes (TBytes bs) = bs"
| "token_bytes (TFixedBytes bs) = bs"
| "token_bytes (TAddress bs) = bs"
| "token_bytes (TTuple ts) = concat (map token_bytes ts)"
| "token_bytes (TArray ts) = concat (map token_bytes ts)"

definition pad :: "nat \<Rightarrow> bytes \<Rightarrow> bytes" where
  "pad n bs = take n (bs @ replicate n 0)"

definition sample_hash :: hash_lib where
  "sample_hash = \<lparr>hex_encode = sample_hex_encode, hex_decode = sample_hex_decode,
     keccak = (\<lambda>bs. pad 32 (rev bs)), abi_encode = (\<lambda>ts. concat (map token_bytes ts))\<rparr>"

lemma length_pad [simp]: "length (pad n bs) = n"
  by (simp add: pad_def)

lemma nibble_value_digit: "n < 16 \<Longrightarrow> nibble_value (hex_digits ! n) = Some n"
proof -
  have "\<forall>n \<in> set [0..<16]. nibble_value (hex_digits ! n) = Some n" by code_simp
  then show "n < 16 \<Longrightarrow> nibble_value (hex_digits ! n) = Some n" by simp
qed

lemma unat_byte: "unat (b :: u8) < 256"
  using unsigned_less [of b] by simp

lemma sample_hex_roundtrip: "sample_hex_decode (sample_hex_encode bs) = Some bs"
proof (induction bs)
  case (Cons b bs)
  have "unat b div 16 < 16" using unat_byte [of b] by (simp add: less_mult_imp_div_less)
  then show ?case using Cons
    by (simp add: nibble_value_digit word_unat_eq_iff unat_of_nat unat_byte del: of_nat_add of_nat_mult)
qed simp

lemma sample_hex_digits: "set (sample_hex_encode bs) \<subseteq> set hex_digits"
proof (induction bs)
  case (Cons b bs)
  have "unat b div 16 < length hex_digits" "unat b mod 16 < length hex_digits"
    using unat_byte [of b] by (simp_all add: hex_digits_def less_mult_imp_div_less)
  then show ?case using Cons nth_mem by simp
qed simp

lemma sample_hex_laws: "hex_laws sample_hash"
proof -
  have "length (sample_hex_encode bs) = 2 * length bs" for bs by (induction bs) auto
  then show ?thesis
    by (simp add: hex_laws_def sample_hash_def sample_hex_roundtrip sample_hex_digits)
qed

lemma sample_keccak_laws: "keccak_laws sample_hash"
  by (simp add: keccak_laws_def sample_hash_def)

section \<open>Payloads\<close>

definition sample_payload :: payload_lib where
  "sample_payload =
     \<lparr>json_inclusion = (\<lambda>bs. case bs of [] \<Rightarrow> None
        | b # r \<Rightarrow> if b = 123 then Some \<lparr>ip_slot = from_le_bytes (take 8 r), ip_signed_tx = drop 8 r\<rparr> else None),
      json_execution = (\<lambda>bs. None),
      json_of_inclusion = (\<lambda>p. Some (123 # to_le_bytes (ip_slot p) @ ip_signed_tx p)),
      rlp_is_list = (\<lambda>bs. bs \<noteq> [] \<and> hd bs = 192),
      rlp_item_count = (\<lambda>bs. Some 2),
      rlp_u64_at = (\<lambda>bs i. if i = 0 then Some (from_le_bytes (take 8 (tl bs))) else None),
      rlp_bytes_at = (\<lambda>bs i. if i = 1 then Some (drop 9 bs) else None),
      rlp_of_pair = (\<lambda>slot tx. 192 # to_le_bytes slot @ tx)\<rparr>"

text \<open>The payloads of the sample environment: one byte names the slot.\<close>

definition short_payload :: payload_lib where
  "short_payload = sample_payload\<lparr>json_inclusion := (\<lambda>bs. None),
     rlp_u64_at := (\<lambda>bs i. Some (of_int (uint (bs ! 1)))), rlp_bytes_at := (\<lambda>bs i. Some (drop 2 bs)),
     rlp_of_pair := (\<lambda>slot tx. 192 # of_int (uint slot) # tx)\<rparr>"

lemma length_to_le_bytes [simp]: "length (to_le_bytes x) = 8"
  by (simp add: to_le_bytes_def)

lemma sample_rlp_laws: "rlp_laws sample_payload"
  by (simp add: rlp_laws_def sample_payload_def Let_def from_to_le_bytes)

lemma sample_json_payload_laws: "json_payload_laws sample_payload"
  by (auto simp: json_payload_laws_def sample_payload_def from_to_le_bytes)

section \<open>Signatures\<close>

fun sample_secret_bytes :: "secp_secret \<Rightarrow> bytes" where "sample_secret_bytes (SecpSecret b) = b"
fun sample_public_bytes :: "secp_public \<Rightarrow> bytes" where "sample_public_bytes (SecpPublic b) = b"

definition sample_secp :: secp_lib where
  "sample_secp =
     \<lparr>secp_key_from_slice = (\<lambda>bs. Some (SecpSecret bs)),
      secp_public_of = (\<lambda>k. SecpPublic (sample_secret_bytes k)),
      secp_serialize_uncompressed = (\<lambda>k. 4 # pad 64 (sample_public_bytes k)),
      secp_message_ok = (\<lambda>m. length m = 32),
      secp_sign_recoverable = (\<lambda>m k. (1, pad 64 (m @ sample_secret_bytes k))),
      secp_recovery_id_ok = (\<lambda>i. i < 4),
      secp_from_compact = (\<lambda>bs rid. if length bs = 64 then Some (SecpSignature bs) else None),
      secp_verify = (\<lambda>m s k. s = SecpSignature (pad 64 (m @ sample_public_bytes k)))\<rparr>"

lemma sample_secp_laws: "secp_laws sample_secp"
  by (simp add: secp_laws_def sample_secp_def)

fun sample_blst_bytes :: "blst_public \<Rightarrow> bytes" where "sample_blst_bytes (BlstPublic b) = b"
fun sample_blst_secret :: "blst_secret \<Rightarrow> bytes" where "sample_blst_secret (BlstSecret b) = b"

definition sample_blst :: blst_lib where
  "sample_blst =
     \<lparr>blst_pk_from_bytes = (\<lambda>bs. if length bs = 48 then Some (BlstPublic bs) else None),
      blst_pk_to_bytes = sample_blst_bytes,
      blst_sig_from_bytes = (\<lambda>bs. if length bs = 96 then Some (BlstSignature bs) else None),
      blst_sk_from_bytes = (\<lambda>bs. Some (BlstSecret bs)),
      blst_sk_to_pk = (\<lambda>k. BlstPublic (pad 48 (sample_blst_secret k))),
      blst_sign = (\<lambda>k m dst. pad 96 (m @ pad 48 (sample_blst_secret k))),
      blst_verify = (\<lambda>s m dst k. s = BlstSignature (pad 96 (m @ sample_blst_bytes k)))\<rparr>"

section \<open>Responses\<close>

definition proposer_key :: bytes where "proposer_key = replicate 48 7"
definition gateway_key :: bytes where "gateway_key = pad 48 (replicate 32 9)"

definition sample_json :: json_lib where
  "sample_json =
     \<lparr>json_duties = (\<lambda>bs. Some \<lparr>pd_execution_optimistic = False, pd_finalized = True,
        pd_data = [\<lparr>vd_validator_index = ''5'', vd_pubkey = ''0x'' @ sample_hex_encode proposer_key,
                    vd_slot = ''100''\<rparr>]\<rparr>),
      json_validator = (\<lambda>bs. Some \<lparr>vr_data = \<lparr>va_index = ''5'', va_status = ''active_ongoing'',
        va_validator = \<lparr>vt_pubkey = ''0x'' @ sample_hex_encode proposer_key, vt_slashed = False\<rparr>\<rparr>\<rparr>),
      json_delegations = (\<lambda>bs. Some []),
      json_rpc = (\<lambda>bs. Some \<lparr>jr_has_error = False, jr_result_str = Some ''0x64''\<rparr>),
      json_constraints_ok = (\<lambda>sc. True),
      u256_from_hex = (\<lambda>s. Some 100)\<rparr>"

definition sample_crates :: crates where
  "sample_crates = \<lparr>c_hash = sample_hash, c_payload = short_payload, c_secp = sample_secp,
     c_blst = sample_blst, c_json = sample_json, c_powf = (\<lambda>a k. FNum 0), c_chrono_ok = (\<lambda>t. True)\<rparr>"

definition sample_env :: env where
  "sample_env = \<lparr>e_crates = sample_crates, e_now = (\<lambda>n. 2200), e_fault = (\<lambda>n. NoFault),
     e_http = (\<lambda>n req. Some \<lparr>hr_status = 200, hr_body = []\<rparr>), e_uuid = (\<lambda>n. of_nat n),
     e_db_time = (\<lambda>n. 2200000000), e_avg = (\<lambda>xs. FNum 1), e_scan = (\<lambda>n k. [0..<k]),
     e_timeout = (\<lambda>n. None), e_cache = (\<lambda>n log k. map_of log k)\<rparr>"

lemma sample_scan_law: "scan_law sample_env"
  by (auto simp: scan_law_def sample_env_def)

lemma sample_cache_law: "cache_law sample_env"
  by (simp add: cache_law_def sample_env_def)

section \<open>A configuration, a delegation and a request\<close>

definition sample_address :: string where
  "sample_address = ''0x00000000000000000000000000000000000000aa''"

definition sample_signing :: signing_config where
  "sample_signing = \<lparr>sk_ecdsa_private_key = SecpSecret (replicate 32 3),
     sk_bls_private_key = BlstSecret (replicate 32 9), sk_bls_public_key = BlstPublic gateway_key,
     sk_committer_address = sample_address\<rparr>"

definition sample_config :: config where
  "sample_config = (default_config sample_signing)\<lparr>cf_slasher_whitelist := [sample_address],
     cf_beacon_api := default_beacon_api\<lparr>ba_primary_endpoint := ''http://b'', ba_genesis_time := 1000\<rparr>,
     cf_reth := default_reth\<lparr>rc_fee_config := default_fee_config\<lparr>fc_default_gas_limit := 62096\<rparr>\<rparr>\<rparr>"

definition sample_message :: delegation_message where
  "sample_message = \<lparr>dm_proposer = BlsPublicKey proposer_key, dm_delegate = BlsPublicKey gateway_key,
     dm_committer = sample_address, dm_slot = 100\<rparr>"

text \<open>The signature \<open>sample_blst\<close> accepts for this message under the proposer's key.\<close>

definition sample_delegation_signature :: bytes where
  "sample_delegation_signature =
     pad 96 (pad 32 (rev (delegation_domain_separator @ proposer_key @ gateway_key
       @ replicate 19 0 @ [0xAA] @ to_le_bytes 100)) @ proposer_key)"

definition sample_delegation :: signed_delegation where
  "sample_delegation = \<lparr>sd_message = sample_message, sd_signature = BlsSignature sample_delegation_signature\<rparr>"

definition sample_db :: db where
  "sample_db = empty_db\<lparr>db_delegations := [delegation_row_of 1 sample_delegation]\<rparr>"

definition sample_world :: world where
  "sample_world = \<lparr>w_db = sample_db, w_tick = 0, w_cache = [], w_events = []\<rparr>"

definition sample_request :: commitment_request where
  "sample_request = \<lparr>cr_commitment_type = 1, cr_payload = [192, 100, 1, 2, 3],
     cr_slasher = sample_address\<rparr>"

definition succeeds :: "('e + 'a) \<times> world \<Rightarrow> bool" where
  "succeeds p = (case fst p of Inl e \<Rightarrow> False | Inr a \<Rightarrow> True)"

lemma succeedsD: "succeeds p \<Longrightarrow> \<exists>a w. p = (Inr a, w)"
  by (cases p) (auto simp: succeeds_def split: sum.splits)

lemma sample_delegation_verifies: "is_verified sample_env sample_delegation"
  by code_simp

section \<open>The sample request, stage by stage\<close>

definition sample_checked :: checked_request where
  "sample_checked = \<lparr>kr_request = sample_request, kr_slot = 100,
     kr_hash = ''0x'' @ sample_hex_encode (pad 32 (rev (to_le_bytes 1 @ [192, 100, 1, 2, 3]
        @ replicate 19 0 @ [0xAA])))\<rparr>"

definition sample_signed :: signed_commitment where
  "sample_signed = \<lparr>sg_commitment = commitment_of_request sample_checked,
     sg_signature = ''0x'' @ sample_hex_encode (pad 64 (pad 32 (rev (to_le_bytes 1 @ [192, 100, 1, 2, 3]
        @ pad 32 (rev (to_le_bytes 1 @ [192, 100, 1, 2, 3] @ replicate 19 0 @ [0xAA]))
        @ replicate 19 0 @ [0xAA])) @ replicate 32 3) @ [28])\<rparr>"

lemma sample_validate: "stage_validate sample_env sample_config (Some sample_request) = Inr sample_checked"
  by code_simp

lemma sample_authority:
  "fst (stage_authority sample_env sample_config sample_checked (tick sample_world)) = Inr sample_signed"
  by code_simp

lemma sample_signed_formats:
  "hex_format 64 (co_request_hash (sg_commitment sample_signed)) \<and> hex_format 130 (sg_signature sample_signed)
   \<and> hex_format 40 sample_address \<and> stored_slot short_payload (sg_commitment sample_signed) = Some 100"
  by code_simp

lemma sample_env_sel [simp]:
  "e_crates sample_env = sample_crates" "e_fault sample_env n = NoFault"
  "e_uuid sample_env n = of_nat n" "e_db_time sample_env n = 2200000000"
  by (simp_all add: sample_env_def)

lemma sample_crates_sel [simp]:
  "c_payload sample_crates = short_payload" "c_chrono_ok sample_crates t = True"
  "c_powf sample_crates = (\<lambda>a k. FNum 0)"
  by (simp_all add: sample_crates_def)

lemma sample_save:
  assumes "db_commitments (w_db w) = []"
  shows "\<exists>w' r. stage_save sample_env sample_signed w = (Inr (), w') \<and> w_db w' = (w_db w)\<lparr>db_commitments := [r]\<rparr>"
proof -
  let ?r = "commitment_row_of short_payload (of_nat (w_tick w)) 1 2200000000 sample_signed"
  have ct: "co_commitment_type (sg_commitment sample_signed) = 1"
    "co_slasher (sg_commitment sample_signed) = sample_address"
    by (simp_all add: sample_signed_def commitment_of_request_def sample_checked_def sample_request_def)
  have "commitment_check ?r"
    using sample_signed_formats ct by (simp add: commitment_check_def commitment_row_of_def)
  then have "insert_commitment ?r (w_db w) = (Inr True, (w_db w)\<lparr>db_commitments := [?r]\<rparr>)"
    using assms by (simp add: insert_commitment_def)
  then show ?thesis
    using ct by (simp add: stage_save_def save_commitment_def io_bind_def io_code_def io_map_err_def io_uuid_def
        io_res_def io_context_def sql_def Let_def i64_try_from_def io_return_def) blast
qed

lemma sample_price:
  "gc_current_tx_price (calculate_projected_congestion (\<lambda>a k. FNum 0)
     (rc_fee_config (cf_reth sample_config)) (slot_congestion_new 100 100 62096 t\<lparr>gc_id := i\<rparr>) 31048) = 100"
  by code_simp

lemma sample_gas_price:
  "fst (get_cached_gas_price sample_env sample_config w)
     = Inr \<lparr>gp_gas_price = 100, gp_block_number = 100, gp_timestamp = 2200\<rparr>"
  by code_simp

lemma sample_numbers:
  "estimate_gas_for_commitment short_payload 1 [192, 100, 1, 2, 3] = Inr 31048"
  "gas_price_as_u64_clamped \<lparr>gp_gas_price = 100, gp_block_number = b, gp_timestamp = t\<rparr> = 100"
  "checked_mul 100 31048 = Some 3104800"
  "slot_start_timestamp 1000 100 = 2200"
  "system_time 2200 = Inr 2200"
  "fc_default_gas_limit (rc_fee_config (cf_reth sample_config)) = 62096"
  "ba_genesis_time (cf_beacon_api sample_config) = 1000"
  by (code_simp; simp)+

lemma sample_get_or_create:
  assumes "db_congestion (w_db w) = []" "db_congestion_seq (w_db w) = 0"
  shows "\<exists>w' r. get_or_create_slot_congestion sample_env 100 100 62096 1000 w
      = (Inr (slot_congestion_new 100 100 62096 2200\<lparr>gc_id := Some 1\<rparr>), w')
    \<and> db_congestion (w_db w') = [r] \<and> gr_slot r = 100 \<and> gr_slot_start_time r = 2200000000
    \<and> gr_last_updated r = Some 2200000000
    \<and> gr_created_at r = Some 2200000000"
  using assms
  by (simp add: get_or_create_slot_congestion_def sample_numbers io_bind_def io_res_def Let_def
      io_context_def io_map_err_def sql_def insert_congestion_returning_def insert_congestion_def
      congestion_row_of_def slot_congestion_new_def io_return_def)

lemma sample_fee:
  assumes "db_congestion (w_db w) = []" "db_congestion_seq (w_db w) = 0"
  shows "\<exists>w' fee r. calculate_fee_for_commitment sample_env sample_config 1 [192, 100, 1, 2, 3] 100 w = (Inr fee, w')
    \<and> fe_estimated_gas fee = 31048 \<and> db_congestion (w_db w') = [r] \<and> gr_slot r = 100
    \<and> gr_slot_start_time r = 2200000000 \<and> gr_last_updated r = Some 2200000000
    \<and> gr_created_at r = Some 2200000000"
proof -
  obtain w1 where g: "get_cached_gas_price sample_env sample_config w
      = (Inr \<lparr>gp_gas_price = 100, gp_block_number = 100, gp_timestamp = 2200\<rparr>, w1)"
    using sample_gas_price [of w] by (metis prod.collapse)
  have "w_db w1 = w_db w" using same_db.get_cached_gas_price_obeys g by (rule same_db_D)
  then obtain w2 r where c: "get_or_create_slot_congestion sample_env 100 100 62096 1000 w1
      = (Inr (slot_congestion_new 100 100 62096 2200\<lparr>gc_id := Some 1\<rparr>), w2)"
    and r: "db_congestion (w_db w2) = [r]" "gr_slot r = 100" "gr_slot_start_time r = 2200000000"
      "gr_last_updated r = Some 2200000000"
      "gr_created_at r = Some 2200000000"
    using sample_get_or_create [of w1] assms by auto
  show ?thesis
    using g c r
    by (simp add: calculate_fee_for_commitment_def io_bind_def io_res_def Let_def sample_numbers
        sample_price io_return_def)
qed

lemma sample_time: "system_time_of_db 2200000000 = Inr 2200"
  by code_simp

lemma sample_update:
  assumes "db_congestion (w_db w) = [r]" "gr_slot r = 100" "gr_slot_start_time r = 2200000000"
    "gr_last_updated r = Some 2200000000" "gr_created_at r = Some 2200000000"
  shows "\<exists>x w'. update_slot_congestion_gas_usage sample_env 100 g k w = (Inr x, w')"
proof -
  have f: "find_congestion 100 (w_db w) = Some r"
    using assms(1,2) by (simp add: find_congestion_def)
  have "\<exists>c0. congestion_of_row r = Inr c0"
    using assms(3-5) by (simp add: congestion_of_row_def system_time_opt_def sample_time)
  then obtain c0 where c0: "congestion_of_row r = Inr c0" by blast
  show ?thesis
    using f c0 by (simp add: update_slot_congestion_gas_usage_def
        sql_transaction_def io_bind_def io_context_def io_map_err_def io_res_def sql_query_def sql_def
        Let_def io_return_def update_congestion_def)
qed

lemma sample_gas:
  assumes "db_congestion (w_db w) = [r]" "gr_slot r = 100" "gr_slot_start_time r = 2200000000"
    "gr_last_updated r = Some 2200000000" "gr_created_at r = Some 2200000000"
    and "kr_slot k = 100"
  shows "\<exists>w'. stage_gas sample_env c k g w = (Inr (), w')"
proof -
  obtain x w' where "update_slot_congestion_gas_usage sample_env 100 g
      (fc_scaling_factor (rc_fee_config (cf_reth c))) w = (Inr x, w')"
    using sample_update [OF assms(1-5)] by blast
  then have "\<exists>x w'. apply_gas_usage_to_slot sample_env c 100 g w = (Inr x, w')"
    by (simp add: apply_gas_usage_to_slot_def)
  then show ?thesis
    using assms(6) by (auto simp: stage_gas_def io_match_def io_return_def)
qed

text \<open>The sample request is answered.\<close>

lemma sample_handler:
  "\<exists>w'. commitment_request_handler sample_env sample_config (Some sample_request) sample_world
     = (Inr sample_signed, w')"
proof -
  have k: "kr_slot sample_checked = 100" "kr_request sample_checked = sample_request"
    "cr_commitment_type sample_request = 1" "cr_payload sample_request = [192, 100, 1, 2, 3]"
    by (simp_all add: sample_checked_def sample_request_def)
  have e: "stage_exists sample_env sample_checked sample_world = (Inr (), tick sample_world)"
    by (simp add: stage_exists_def commitment_exists_def io_bind_def io_code_def io_context_def
        io_map_err_def sql_query_def sql_def Let_def io_return_def sample_world_def sample_db_def
        empty_db_def tick_def)
  obtain w1 where a: "stage_authority sample_env sample_config sample_checked (tick sample_world)
      = (Inr sample_signed, w1)"
    using sample_authority by (metis prod.collapse)
  have d1: "w_db w1 = sample_db"
    using same_db_D [OF same_db.stage_authority_obeys a] by (simp add: sample_world_def)
  then obtain w2 r2 where s: "stage_save sample_env sample_signed w1 = (Inr (), w2)"
    and d2: "w_db w2 = sample_db\<lparr>db_commitments := [r2]\<rparr>"
    using sample_save [of w1] by (auto simp: sample_db_def empty_db_def)
  obtain w3 fee r where f: "calculate_fee_for_commitment sample_env sample_config 1 [192, 100, 1, 2, 3] 100 w2
      = (Inr fee, w3)"
    and r: "db_congestion (w_db w3) = [r]" "gr_slot r = 100" "gr_slot_start_time r = 2200000000"
      "gr_last_updated r = Some 2200000000" "gr_created_at r = Some 2200000000"
    using sample_fee [of w2] d2 by (auto simp: sample_db_def empty_db_def)
  obtain w4 where g: "stage_gas sample_env sample_config sample_checked (fe_estimated_gas fee) w3 = (Inr (), w4)"
    using sample_gas [OF r k(1)] by blast
  have "stage_fee sample_env sample_config sample_checked w2 = (Inr (fe_estimated_gas fee), w3)"
    using f k by (simp add: stage_fee_def io_bind_def io_code_def io_map_err_def io_return_def)
  then show ?thesis
    using e a s g by (simp add: commitment_request_handler_def io_bind_def io_res_def sample_validate io_return_def)
qed

section \<open>Worlds for the background services\<close>

text \<open>A relay that offers the sample delegation; a configuration that looks at the current slot only.\<close>

definition relay_env :: env where
  "relay_env = sample_env\<lparr>e_crates := sample_crates\<lparr>c_json :=
     sample_json\<lparr>json_delegations := (\<lambda>bs. Some [sample_delegation])\<rparr>\<rparr>\<rparr>"

definition near_config :: config where
  "near_config = sample_config\<lparr>cf_delegation := (cf_delegation sample_config)\<lparr>dc_lookahead_epochs := 0\<rparr>\<rparr>"

definition empty_world :: world where
  "empty_world = \<lparr>w_db = empty_db, w_tick = 0, w_cache = [], w_events = []\<rparr>"

text \<open>The sample commitment is stored and not processed.\<close>

definition committed_world :: world where
  "committed_world = sample_world\<lparr>w_db := sample_db\<lparr>db_commitments :=
     [commitment_row_of short_payload 7 1 2200000000 sample_signed]\<rparr>\<rparr>"

definition sample_bm :: bls_manager where
  "sample_bm = \<lparr>bm_application_gateway_domain = application_gateway_domain\<rparr>"

text \<open>The environment once slot 100 is over.\<close>

definition late_env :: env where
  "late_env = sample_env\<lparr>e_now := (\<lambda>n. 9000)\<rparr>"

lemma relay_laws: "scan_law relay_env" "cache_law relay_env" "scan_law late_env" "cache_law late_env"
  using sample_scan_law sample_cache_law
  by (simp_all add: relay_env_def late_env_def scan_law_def cache_law_def)

section \<open>The sample request in the interleaved system\<close>

lemma sample_db_sound: "db_sound sample_env sample_config sample_db"
proof -
  have "delegation_check (delegation_row_of 1 sample_delegation)" by code_simp
  from delegation_row_reads_back [OF this] this sample_delegation_verifies show ?thesis
    by (auto simp: db_sound_def sample_db_def empty_db_def verified_row_def)
qed

definition idle_system :: system where
  "idle_system = \<lparr>sy_world = sample_world, sy_tasks = Map.empty\<rparr>"

definition waiting_system :: system where
  "waiting_system = \<lparr>sy_world = sample_world, sy_tasks = Map.empty(0 \<mapsto> Waiting (Some sample_request))\<rparr>"

lemma idle_reachable: "reachable sample_env sample_config idle_system"
  by (rule reachable.start) (simp add: initial_def idle_system_def sample_world_def sample_db_sound)

lemma waiting_reachable: "reachable sample_env sample_config waiting_system"
proof -
  have "system_step sample_env sample_config idle_system waiting_system"
    using system_step.arrive [of idle_system 0 sample_env sample_config "Some sample_request"]
    by (simp add: idle_system_def waiting_system_def)
  with idle_reachable show ?thesis by (rule reachable.step)
qed

lemma answered_reachable:
  "\<exists>s. reachable sample_env sample_config s \<and> sy_tasks s = [0 \<mapsto> Finished (Inr sample_signed)]"
proof -
  obtain w' where "commitment_request_handler sample_env sample_config (Some sample_request) sample_world
      = (Inr sample_signed, w')"
    using sample_handler by blast
  then have "run_stages 6 sample_env sample_config (Waiting (Some sample_request)) (sy_world waiting_system)
      = (Finished (Inr sample_signed), w')"
    by (simp add: run_is_handler waiting_system_def del: run_stages.simps)
  moreover have "sy_tasks waiting_system 0 = Some (Waiting (Some sample_request))"
    by (simp add: waiting_system_def)
  ultimately have "reachable sample_env sample_config
      \<lparr>sy_world = w', sy_tasks = (sy_tasks waiting_system)(0 \<mapsto> Finished (Inr sample_signed))\<rparr>"
    using reachable_run [OF waiting_reachable] by blast
  then show ?thesis by (intro exI) (auto simp: waiting_system_def)
qed

section \<open>A Reth node that is down\<close>

definition no_reth_env :: env where
  "no_reth_env = sample_env\<lparr>e_http := (\<lambda>n req. case req of
     HttpPostRpc url m i \<Rightarrow> None | _ \<Rightarrow> Some \<lparr>hr_status = 200, hr_body = []\<rparr>)\<rparr>"

lemma no_reth_authority:
  "fst (stage_authority no_reth_env sample_config sample_checked (tick sample_world)) = Inr sample_signed"
  by code_simp

lemma no_reth_price: "isl (fst (get_cached_gas_price no_reth_env sample_config w))"
  by code_simp

lemma no_reth_validate: "stage_validate no_reth_env sample_config (Some sample_request) = Inr sample_checked"
  by code_simp

lemma no_reth_save: "stage_save no_reth_env sc w = stage_save sample_env sc w"
  by (simp add: stage_save_def save_commitment_def io_bind_def io_code_def io_map_err_def io_uuid_def sql_def
      io_context_def no_reth_env_def)

text \<open>Its gas price, and with it the fee of the sample request, always fails.\<close>

lemma no_reth_fee: "\<exists>w'. stage_fee no_reth_env sample_config sample_checked w = (Inl InternalError, w')"
proof -
  have g: "estimate_gas_for_commitment (payload_of no_reth_env) 1 [192, 100, 1, 2, 3] = Inr 31048"
    by code_simp
  obtain d w1 where "get_cached_gas_price no_reth_env sample_config w = (Inl d, w1)"
    using no_reth_price [of w] by (metis isl_def prod.collapse)
  then have "calculate_fee_for_commitment no_reth_env sample_config 1 [192, 100, 1, 2, 3] 100 w = (Inl d, w1)"
    using g by (simp add: calculate_fee_for_commitment_def io_bind_def io_res_def Let_def)
  then show ?thesis
    by (simp add: stage_fee_def io_bind_def io_code_def io_map_err_def sample_checked_def sample_request_def)
qed

lemma no_reth_exists: "stage_exists no_reth_env sample_checked sample_world = (Inr (), tick sample_world)"
  by (simp add: stage_exists_def commitment_exists_def io_bind_def io_code_def io_context_def
      io_map_err_def sql_query_def sql_def Let_def io_return_def sample_world_def sample_db_def
      empty_db_def tick_def no_reth_env_def)

end
