(* ===== verification/Props_Data.thy ===== *)
theory Props_Data
  imports Samples
begin

text \<open>Properties of the data: slots and deadlines, hex fields, addresses, payloads, signatures, configuration.\<close>

text \<open>
  Every slot lies in its epoch, whatever the 64-bit slot number: the first and the last
  slot of the epoch enclose it and are 31 apart.
\<close>

lemma slot_in_its_epoch:
  "unat (epoch_to_first_slot (slot_to_epoch s)) \<le> unat s
   \<and> unat s \<le> unat (epoch_to_last_slot (slot_to_epoch s))
   \<and> unat (epoch_to_last_slot (slot_to_epoch s)) = unat (epoch_to_first_slot (slot_to_epoch s)) + 31"
proof -
  have "unat s = unat s div 32 * 32 + unat s mod 32" by simp
  moreover have "unat s mod 32 < 32" by simp
  ultimately show ?thesis by (simp add: epoch_bounds)
qed

text \<open>
  As long as the deadline of a slot fits 64 bits, the window is open exactly until 8 seconds
  into the slot, and the slot the clock gives is within its own window only in its first 8 seconds.
\<close>

lemma constraint_window:
  assumes "unat g + unat s * 12 + 8 < 2 ^ 64" "g \<le> now" "s = current_slot_estimate now g"
  shows "is_within_constraint_window now g s \<longleftrightarrow> (unat now - unat g) mod 12 \<le> 8"
proof -
  have s: "unat s = (unat now - unat g) div 12"
    using assms(2,3) by (simp add: unat_current_slot)
  have "is_within_constraint_window now g s \<longleftrightarrow> unat now \<le> unat g + unat s * 12 + 8"
    using assms(1) by (simp add: is_within_constraint_window_def word_le_nat_alt unat_deadline)
  moreover have "unat now = unat g + (unat s * 12 + (unat now - unat g) mod 12)"
    unfolding s using assms(2) by (simp add: word_le_nat_alt)
  ultimately show ?thesis by linarith
qed

text \<open>
  A public key and a signature of the right length survive the trip through their JSON form, and
  what is read always has the right length.
\<close>

lemma key_fields_roundtrip:
  assumes "hex_laws H" "wf_pk k" "wf_sig s"
  shows "pk_deserialize H (pk_serialize H k) = Inr k \<and> sig_deserialize H (sig_serialize H s) = Inr s"
  using assms by (simp add: pk_serde_roundtrip sig_serde_roundtrip)

text \<open>
  C36: comparing normalised addresses ignores letter case and an optional \<open>0x\<close> or \<open>0X\<close> prefix.
\<close>

theorem normalize_address_canonical:
  assumes "strip_prefix ''0x'' s = None" "strip_prefix ''0X'' s = None"
    and "strip_prefix ''0x'' t = None" "strip_prefix ''0X'' t = None"
    and "map to_ascii_lower s = map to_ascii_lower t"
    and "p \<in> set ['''', ''0x'', ''0X'']" "q \<in> set ['''', ''0x'', ''0X'']"
  shows "normalize_address (p @ s) = normalize_address (q @ t)"
proof -
  have "normalize_address (r @ u) = map to_ascii_lower u"
    if "strip_prefix ''0x'' u = None" "strip_prefix ''0X'' u = None" "r \<in> set ['''', ''0x'', ''0X'']" for r u
    using that normalize_address_prefixed [of u] normalize_address_plain [of u] by auto
  then show ?thesis using assms by metis
qed

theorem normalize_address_canonical_witness:
  "normalize_address (''0x'' @ ''AbCd'') = normalize_address (''0X'' @ ''aBcD'')"
  by (rule normalize_address_canonical) (code_simp | simp)+



text \<open>
  C34: a signature the gateway gives out verifies under the public key of the key that made it, on
  the same commitment.
\<close>

theorem signature_verifies:
  assumes "hex_laws H" "keccak_laws H" "secp_laws S" "sign_commitment H S c k = Inr sg"
  shows "verify_commitment_signature H S c sg (secp_public_of S k) = Inr True"
  by (rule verify_sign_commitment [OF assms])

theorem signature_verifies_witness:
  "verify_commitment_signature sample_hash sample_secp (sg_commitment sample_signed)
     (sg_signature sample_signed) (secp_public_of sample_secp (SecpSecret (replicate 32 3))) = Inr True"
proof (rule signature_verifies [OF sample_hex_laws sample_keccak_laws sample_secp_laws])
  show "sign_commitment sample_hash sample_secp (sg_commitment sample_signed) (SecpSecret (replicate 32 3))
      = Inr (sg_signature sample_signed)"
    by code_simp
qed


definition sample_host :: host where
  "sample_host = \<lparr>ho_exists = (\<lambda>p. True), ho_read = (\<lambda>p. Some ''''),
     ho_env = (\<lambda>v. Some (replicate 64 CHR ''a''))\<rparr>"

definition sample_toml :: toml_parser where
  "sample_toml = (\<lambda>s. Some (\<lambda>k. sample_config\<lparr>cf_constraints_api := default_constraints_api\<lparr>
     ca_relay_endpoint := ''http://r''\<rparr>\<rparr>))"




end
