(* ===== verification/Props_Fees.thy ===== *)
theory Props_Fees
  imports Samples
begin

text \<open>Properties of the congestion metrics, the price and the records of \<open>slot_congestion\<close>.\<close>

text \<open>
  C22: the fee multiplier is between 1 and 100 after any update, for every record, every amount of
  gas, every scaling factor and whatever \<open>powf\<close> returns, NaN and infinities included; and the gas
  limit, the base price and the slot do not change.
\<close>

theorem multiplier_between_1_and_100:
  "f64_le (FNum 1) (gc_calculated_fee_multiplier (add_gas_usage powf gas k c))
   \<and> f64_le (gc_calculated_fee_multiplier (add_gas_usage powf gas k c)) (FNum 100)
   \<and> gc_slot (add_gas_usage powf gas k c) = gc_slot c
   \<and> gc_total_gas_limit (add_gas_usage powf gas k c) = gc_total_gas_limit c
   \<and> gc_base_gas_price (add_gas_usage powf gas k c) = gc_base_gas_price c"
  by (simp add: add_gas_usage_multiplier add_gas_usage_frame)

text \<open>
  C23: the tracked price never falls below the base price and never exceeds 100 times it, although
  it is computed in doubles, for every base price up to \<open>2 ^ 53 / 100\<close> wei.
\<close>

theorem tracked_price_bounds:
  assumes "100 * unat (gc_base_gas_price c) \<le> 2 ^ 53"
  shows "gc_base_gas_price c \<le> gc_current_tx_price (add_gas_usage powf gas k c)
    \<and> unat (gc_current_tx_price (add_gas_usage powf gas k c)) \<le> 100 * unat (gc_base_gas_price c)"
proof
  have "unat (gc_base_gas_price c) \<le> 2 ^ 53" using assms by linarith
  then show "gc_base_gas_price c \<le> gc_current_tx_price (add_gas_usage powf gas k c)"
    by (rule add_gas_usage_price_lower)
  show "unat (gc_current_tx_price (add_gas_usage powf gas k c)) \<le> 100 * unat (gc_base_gas_price c)"
    using assms by (rule add_gas_usage_price_upper)
qed

theorem tracked_price_bounds_witness:
  "\<exists>p. p = gc_current_tx_price (add_gas_usage f64_mul 15000000 (FNum 2) (slot_congestion_new 5 1000 30000000 0))
     \<and> 1000 \<le> unat p \<and> unat p \<le> 100000"
  using tracked_price_bounds [of "slot_congestion_new 5 1000 30000000 0" f64_mul 15000000 "FNum 2"]
  by (simp add: slot_congestion_new_def word_le_nat_alt)

text \<open>
  The bound on the base price is needed: at \<open>2 ^ 53 + 1\<close> wei the price charged with multiplier 1 is
  one wei below the base price, because the cast to a double rounds down.
\<close>

lemma price_below_base_above_2_53:
  "bounded_price 9007199254740993 (FNum 1) = 9007199254740992"
  by code_simp



text \<open>
  C25: a sequence of updates accumulates the sum of the gas exactly, saturating at the largest
  \<open>u64\<close> instead of wrapping.
\<close>

theorem gas_accumulates:
  "unat (gc_preconfirmed_gas (fold (\<lambda>g. add_gas_usage powf g k) gs (slot_congestion_new slot base limit start)))
     = min (sum_list (map unat gs)) (2 ^ 64 - 1)"
  by (simp add: add_gas_usage_sum) (simp add: slot_congestion_new_def)

text \<open>
  C26: the record of a slot is created once. After the first call every further call, with any
  gas price or limit, leaves the table as it is and returns the record of the same row.
\<close>

theorem slot_record_created_once:
  assumes "get_or_create_slot_congestion E s base limit g w = (Inr c1, w1)"
    and "get_or_create_slot_congestion E s base2 limit2 g w1 = (Inr c2, w2)"
    and "distinct (map gr_slot (db_congestion (w_db w1)))"
  shows "db_congestion (w_db w2) = db_congestion (w_db w1)
    \<and> gc_id c2 = gc_id c1 \<and> gc_preconfirmed_gas c2 = gc_preconfirmed_gas c1
    \<and> gc_base_gas_price c2 = gc_base_gas_price c1 \<and> gc_total_gas_limit c2 = gc_total_gas_limit c1
    \<and> gc_current_tx_price c2 = gc_current_tx_price c1"
proof -
  obtain r where r: "r \<in> set (db_congestion (w_db w1))" "gr_slot r = s" "congestion_matches c1 r"
    using get_or_create_Inr(1) [OF assms(1)] by blast
  then have same: "db_congestion (w_db w2) = db_congestion (w_db w1)"
    using get_or_create_Inr(2) [OF assms(2)] by blast
  moreover obtain r2 where r2: "r2 \<in> set (db_congestion (w_db w2))" "gr_slot r2 = s" "congestion_matches c2 r2"
    using get_or_create_Inr(1) [OF assms(2)] by blast
  moreover have "r2 = r"
    using distinct_map_inj_on_set [OF assms(3), of r2 r] r r2 same by simp
  ultimately show ?thesis using r by (simp add: congestion_matches_def)
qed

theorem slot_record_created_once_witness:
  "\<exists>c1 w1. get_or_create_slot_congestion sample_env 100 100 62096 1000 sample_world = (Inr c1, w1)
     \<and> (\<forall>c2 w2. get_or_create_slot_congestion sample_env 100 7 8 1000 w1 \<noteq> (Inr c2, w2)
          \<or> gc_base_gas_price c2 = gc_base_gas_price c1)"
proof -
  obtain w1 r where c: "get_or_create_slot_congestion sample_env 100 100 62096 1000 sample_world
      = (Inr (slot_congestion_new 100 100 62096 2200\<lparr>gc_id := Some 1\<rparr>), w1)"
    and "db_congestion (w_db w1) = [r]"
    using sample_get_or_create [of sample_world] by (auto simp: sample_world_def sample_db_def empty_db_def)
  then have d: "distinct (map gr_slot (db_congestion (w_db w1)))" by simp
  from slot_record_created_once [OF c _ d, of 7 8] c show ?thesis by blast
qed

text \<open>
  C27: a committed gas update changes the row of its slot and no other: the stored gas is the
  saturating sum, the stored multiplier is between 1 and 100, and the returned record has the stored values.
\<close>

theorem gas_update_stored:
  assumes "update_slot_congestion_gas_usage E s gas k w = (Inr c, w')"
  shows "\<exists>r0 r1. r0 \<in> set (db_congestion (w_db w)) \<and> gr_slot r0 = s
    \<and> gr_preconfirmed_gas r1 = saturating_add (gr_preconfirmed_gas r0) gas
    \<and> gc_preconfirmed_gas c = gr_preconfirmed_gas r1 \<and> gc_current_tx_price c = gr_current_tx_price r1
    \<and> f64_le (FNum 1) (gr_calculated_fee_multiplier r1) \<and> f64_le (gr_calculated_fee_multiplier r1) (FNum 100)
    \<and> gr_base_gas_price r1 = gr_base_gas_price r0 \<and> gr_total_gas_limit r1 = gr_total_gas_limit r0
    \<and> filter (\<lambda>r. gr_slot r \<noteq> s) (db_congestion (w_db w')) = filter (\<lambda>r. gr_slot r \<noteq> s) (db_congestion (w_db w))
    \<and> r1 \<in> set (db_congestion (w_db w'))
    \<and> db_commitments (w_db w') = db_commitments (w_db w) \<and> db_delegations (w_db w') = db_delegations (w_db w)"
proof -
  obtain r c0 t where r: "find_congestion s (w_db w) = Some r" "congestion_of_row r = Inr c0"
    and c: "c = add_gas_usage (c_powf (e_crates E)) gas k c0"
    and d: "w_db w' = snd (update_congestion s c t (w_db w))"
    using update_gas_usage_Inr [OF assms] by blast
  have mem: "r \<in> set (db_congestion (w_db w))" "gr_slot r = s" using find_congestion_Some [OF r(1)] by auto
  have m: "gc_preconfirmed_gas c0 = gr_preconfirmed_gas r"
    using congestion_of_row_matches [OF r(2)] by (simp add: congestion_matches_def)
  have other: "filter (\<lambda>r. gr_slot r \<noteq> s) (map (\<lambda>r. if gr_slot r = s then congestion_updated y t r else r) rs)
      = filter (\<lambda>r. gr_slot r \<noteq> s) rs" for rs y
    by (induction rs) (auto simp: congestion_updated_def)
  have "congestion_updated c t r \<in> set (db_congestion (w_db w'))"
    using mem by (auto simp: d update_congestion_def)
  then show ?thesis
    using mem other m add_gas_usage_multiplier add_gas_usage_frame(6)
    apply -
    apply (rule exI [of _ r])
    apply (rule exI [of _ "congestion_updated c t r"])
    apply (simp add: d update_congestion_def congestion_updated_def c)
    done
qed

theorem gas_update_stored_witness:
  "\<exists>w1 c w2. update_slot_congestion_gas_usage sample_env 100 31048 (FNum 2) w1 = (Inr c, w2)
     \<and> (\<exists>r1 \<in> set (db_congestion (w_db w2)). f64_le (gr_calculated_fee_multiplier r1) (FNum 100))"
proof -
  have empty: "db_congestion (w_db sample_world) = []" "db_congestion_seq (w_db sample_world) = 0"
    by (simp_all add: sample_world_def sample_db_def empty_db_def)
  obtain w1 :: world and r where "db_congestion (w_db w1) = [r]" "gr_slot r = 100" "gr_slot_start_time r = 2200000000"
    "gr_last_updated r = Some 2200000000" "gr_created_at r = Some 2200000000"
    using sample_get_or_create [OF empty] by blast
  from sample_update [OF this] obtain c w2
    where "update_slot_congestion_gas_usage sample_env 100 31048 (FNum 2) w1 = (Inr c, w2)" by blast
  with gas_update_stored [OF this] show ?thesis by blast
qed

text \<open>
  C28: the gas estimate of an inclusion commitment is 31000 plus 16 per byte of its transaction,
  without overflow, for every payload that parses; and the total cost a fee quotes is the exact
  product of its price and this estimate.
\<close>

theorem fee_total_exact:
  assumes "calculate_fee_for_commitment E c 1 payload slot w = (Inr fee, w')"
    and "parse_inclusion_payload (payload_of E) payload = Inr p" "31000 + 16 * length (ip_signed_tx p) < 2 ^ 64"
  shows "unat (fe_estimated_gas fee) = 31000 + 16 * length (ip_signed_tx p)
    \<and> unat (fe_total_cost fee) = unat (fe_final_price fee) * (31000 + 16 * length (ip_signed_tx p))
    \<and> fe_slot fee = slot"
  using calculate_fee_Inr(2-4) [OF assms(1)] estimate_gas_inclusion [OF assms(2,3)] by auto

theorem fee_total_exact_witness:
  "\<exists>fee w'. calculate_fee_for_commitment sample_env sample_config 1 [192, 100, 1, 2, 3] 100 sample_world = (Inr fee, w')
     \<and> unat (fe_total_cost fee) = unat (fe_final_price fee) * 31048"
proof -
  obtain w' fee where f: "calculate_fee_for_commitment sample_env sample_config 1 [192, 100, 1, 2, 3] 100 sample_world
      = (Inr fee, w')"
    using sample_fee [of sample_world] by (auto simp: sample_world_def sample_db_def empty_db_def)
  have "parse_inclusion_payload (payload_of sample_env) [192, 100, 1, 2, 3]
      = Inr \<lparr>ip_slot = 100, ip_signed_tx = [1, 2, 3]\<rparr>"
    by code_simp
  from fee_total_exact [OF f this] f show ?thesis by auto
qed

end
