(* ===== verification/Props_Clients.thy ===== *)
theory Props_Clients
  imports Samples
begin

text \<open>Properties of the clients: the beacon nodes, the relay and the Reth node.\<close>

text \<open>
  C31: the proposer duties are asked of the endpoints in the configured order, each at most once; an
  error is returned only after every one of them has been asked.
\<close>

theorem beacon_endpoints_in_order:
  "\<exists>n evs. w_events (snd (get_proposer_duties E c epoch w)) = w_events w @ evs
     \<and> n \<le> Suc (length (ba_fallback_endpoints c))
     \<and> map event_request evs = map (\<lambda>base. Some (HttpGet (join_url base (duties_path epoch))))
         (take n (ba_primary_endpoint c # ba_fallback_endpoints c))
     \<and> (n = Suc (length (ba_fallback_endpoints c)) \<or> (\<exists>v. fst (get_proposer_duties E c epoch w) = Inr v))"
  using beacon_get.asked [of E "json_duties (json_of E)" "duties_path epoch" "ba_primary_endpoint c"
      "ba_fallback_endpoints c" w "fst (get_proposer_duties E c epoch w)" "snd (get_proposer_duties E c epoch w)"]
  by (simp add: get_proposer_duties_def)

text \<open>
  A proposer found for a slot is an entry for exactly this slot in an answer 200 of a
  configured endpoint for the epoch of the slot.
\<close>

lemma proposer_from_endpoint:
  assumes "get_proposer_for_slot E c slot w = (Inr (Some duty), w')"
  shows "parse_slot duty = Inr slot
    \<and> (\<exists>n base resp duties. base \<in> set (ba_primary_endpoint c # ba_fallback_endpoints c)
         \<and> e_http E n (HttpGet (join_url base (duties_path (slot div 32)))) = Some resp \<and> hr_status resp = 200
         \<and> json_duties (json_of E) (hr_body resp) = Some duties \<and> duty \<in> set (pd_data duties))"
  using get_proposer_for_slot_Some [OF assms]
  unfolding beacon_answer_def slot_to_epoch_def slots_per_epoch_def by blast

text \<open>
  C32: a submission to the relay makes at most as many POSTs as the configuration allows
  (at least one is allowed), sleeps at most 30 seconds per POST, and leaves the database alone, whatever
  the relay answers.
\<close>

theorem submission_retries_bounded:
  "\<exists>evs. w_events (snd (submit_constraints E c sc w)) = w_events w @ evs
     \<and> requests evs \<le> max 1 (unat (ca_max_retries c))
     \<and> slept evs \<le> max 1 (unat (ca_max_retries c)) * 30000
     \<and> w_db (snd (submit_constraints E c sc w)) = w_db w"
proof -
  obtain r w' where run: "submit_constraints E c sc w = (r, w')" by force
  have db: "w_db w' = w_db w" using same_db.submit_constraints_obeys run by (rule same_db_D)
  show ?thesis
  proof (cases "json_constraints_ok (json_of E) sc")
    case False
    then have "w' = w" using run
      by (auto simp: submit_constraints_def io_bind_def io_res_def ensure_def context_res_def res_map_err_def)
    then show ?thesis using run by (intro exI [of _ "[]"]) simp
  next
    case True
    then have "submit_attempts E (build_url c ''constraints/v0/builder/constraints'') sc (max_attempts c) (0, None) w
        = (r, w')"
      using run by (simp add: submit_constraints_def io_bind_def io_res_def ensure_def context_res_def res_map_err_def)
    from submit_retry.bound [OF this] show ?thesis using run db by (auto simp: max_attempts_def)
  qed
qed



text \<open>
  A call of the Reth node makes at most \<open>max_retries\<close> requests and sleeps at most
  \<open>100 * max_retries\<close> milliseconds after each.
\<close>

lemma rpc_retries_bounded:
  "\<exists>evs. w_events (snd (make_rpc_call E c m i w)) = w_events w @ evs
     \<and> requests evs \<le> unat (rc_max_retries c)
     \<and> slept evs \<le> unat (rc_max_retries c) * (100 * unat (rc_max_retries c))"
  using rpc_retry.bound [of E "HttpPostRpc (rc_endpoint c) m i" "unat (rc_max_retries c)"
      "unat (rc_max_retries c)" "()" w]
  by (simp add: make_rpc_call_def) (metis prod.collapse)

text \<open>
  With \<open>max_retries = 0\<close> the Reth node is never asked: no request is sent, and the gas price always fails.
\<close>

lemma no_retries_means_no_request:
  "get_gas_price E (c\<lparr>rc_max_retries := 0\<rparr>) w
     = (Inl (Ctx ''Failed to get gas price from Reth node'' (Bail ''Failed to connect to Reth node'')), w)"
  by (simp add: get_gas_price_def make_rpc_call_def io_bind_def io_context_def io_map_err_def io_fail_def)

end
