(* ===== verification/Props_Services.thy ===== *)
theory Props_Services
  imports Samples
begin

text \<open>Properties of the background services: delegation polling, cleanup and constraint submission.\<close>

text \<open>
  C10: a polling cycle always ends without an error, and whatever the relay, the beacon nodes and the
  database do, it only adds delegations that are addressed to this gateway's BLS key, carry a valid BLS
  signature, and whose proposer the beacon nodes reported active and not slashed.
\<close>

theorem polling_adds_only_eligible:
  assumes "cache_law E" "cache_sound E (cf_beacon_api c) w" "poll_delegations E c w = (r, w')"
  shows "(\<exists>counters. r = Inr counters)
    \<and> (\<exists>new. db_delegations (w_db w') = db_delegations (w_db w) @ new
         \<and> (\<forall>row \<in> set new. \<exists>d. delegation_of_row row = Inr d \<and> is_ours E c d
              \<and> verify_delegation_signature (hash_of E) (blst_of E) d = Inr True
              \<and> (\<exists>info. status_answer E (cf_beacon_api c) (dm_proposer (sd_message d)) info
                   \<and> vi_is_active info \<and> \<not> vi_is_slashed info)))
    \<and> db_commitments (w_db w') = db_commitments (w_db w)
    \<and> cache_sound E (cf_beacon_api c) w'"
proof -
  note p = poll_delegations_adds [OF assms]
  from p obtain new where new: "db_delegations (w_db w') = db_delegations (w_db w) @ new"
    "\<forall>row \<in> set new. \<exists>uid d. polled E c d \<and> row = delegation_row_of uid d \<and> delegation_check row"
    by (auto simp: adds_def)
  have "\<exists>d. polled E c d \<and> delegation_of_row row = Inr d" if "row \<in> set new" for row
    using new(2) that delegation_row_reads_back by (metis (no_types))
  then show ?thesis using p new(1) unfolding polled_def is_ours_def is_verified_def adds_def by blast
qed

theorem polling_adds_only_eligible_witness:
  "\<exists>row d. db_delegations (w_db (snd (poll_delegations relay_env near_config empty_world))) = [row]
     \<and> dr_slot_number row = 100 \<and> delegation_of_row row = Inr d \<and> is_ours relay_env near_config d"
proof -
  have one: "map dr_slot_number (db_delegations (w_db (snd (poll_delegations relay_env near_config empty_world)))) = [100]"
    by code_simp
  have "cache_sound relay_env (cf_beacon_api near_config) empty_world"
    by (simp add: cache_sound_def empty_world_def)
  from polling_adds_only_eligible [OF relay_laws(2) this prod.collapse [symmetric]] one
  show ?thesis by (auto simp: empty_world_def empty_db_def)
qed



text \<open>
  C8: the constraints service marks a commitment as processed only if, in this very round, the
  relay answered 200 or 202 to a POST of a constraints message that carries the constraint of this
  commitment for its slot, signed with the gateway's BLS key; no row is lost and no other column changes.
\<close>

theorem processed_only_if_accepted:
  assumes "scan_law E" "distinct (map ci_request_hash (db_commitments (w_db w)))"
    and "process_pending_constraints E c bm w = (r, w')"
  shows "\<exists>evs. w_events w' = w_events w @ evs
    \<and> list_all2 (\<lambda>row row'. row' = row
        \<or> row' = row\<lparr>ci_constraint_processed := True\<rparr> \<and> constraint_accepted E c bm row evs)
        (db_commitments (w_db w)) (db_commitments (w_db w'))"
  using obeysD [OF process_pending_marked [OF assms(1)] assms(3)] assms(2)
  by (auto simp: marks_accepted_def marked_if_accepted_def [abs_def])

theorem processed_only_if_accepted_witness:
  "\<exists>row row'. db_commitments (w_db committed_world) = [row] \<and> \<not> ci_constraint_processed row
     \<and> db_commitments (w_db (snd (process_pending_constraints sample_env sample_config sample_bm committed_world))) = [row']
     \<and> ci_constraint_processed row'
     \<and> constraint_accepted sample_env sample_config sample_bm row
         (w_events (snd (process_pending_constraints sample_env sample_config sample_bm committed_world)))"
proof -
  define v where "v = snd (process_pending_constraints sample_env sample_config sample_bm committed_world)"
  define v1 where "v1 = snd (pending_step sample_env sample_config sample_bm 100 () (tick committed_world))"
  let ?rest = "io_fold (pending_step sample_env sample_config sample_bm) [101, 102, 103] ()"
  have first: "map ci_constraint_processed (db_commitments (w_db v1)) = [True]"
    unfolding v1_def by code_simp
  have now: "e_now sample_env n = 2200" for n by (simp add: sample_env_def)
  have slots: "pending_slots (current_slot_estimate 2200 (ba_genesis_time (cf_beacon_api sample_config)))
      = [100, 101, 102, 103]" by code_simp
  have "fst (pending_step E c bm s () w) = Inr ()" for E c bm s w
    by (simp add: pending_step_def io_bind_def io_now_def io_match_def io_return_def split: prod.split)
  then have "pending_step sample_env sample_config sample_bm 100 () (tick committed_world) = (Inr (), v1)"
    unfolding v1_def by (metis prod.collapse)
  then have v: "v = snd (?rest v1)"
    unfolding v_def process_pending_constraints_def
    by (simp add: io_bind_def io_now_def slots now)
  have "obeys (changes sample_env sample_config) ?rest"
    unfolding pending_step_def by (intro pres changes.process_slot_obeys changes_mark)
  then have kept: "commitments_kept (w_db v1) (w_db v)"
    unfolding v by (intro changes_kept [of sample_env sample_config]) (simp add: obeys_def)
  obtain r1 where "db_commitments (w_db v1) = [r1]" "ci_constraint_processed r1" using first by auto
  with kept have all: "\<exists>r' rs. db_commitments (w_db v) = r' # rs \<and> ci_constraint_processed r'"
    by (auto simp: commitments_kept_def list_all2_Cons1 same_or_processed_def)
  obtain row where row: "db_commitments (w_db committed_world) = [row]" "\<not> ci_constraint_processed row"
    by (simp add: committed_world_def commitment_row_of_def)
  have ev: "w_events committed_world = []" by (simp add: committed_world_def sample_world_def)
  have dist: "distinct (map ci_request_hash (db_commitments (w_db committed_world)))" by (simp add: row)
  have run: "process_pending_constraints sample_env sample_config sample_bm committed_world
      = (fst (process_pending_constraints sample_env sample_config sample_bm committed_world), v)"
    by (simp add: v_def)
  from processed_only_if_accepted [OF sample_scan_law dist run] show ?thesis
    unfolding v_def [symmetric] row(1) ev using all row(2) by (auto simp: list_all2_Cons1)
qed

text \<open>
  C19: the constraints made of the commitments of a slot are those of exactly its unprocessed rows of
  type 1 whose slasher is the committer, the oldest first, each once, together with their request hashes.
\<close>

theorem constraints_of_commitments:
  assumes "scan_law E" "distinct (map ci_request_hash (db_commitments (w_db w)))"
    and "create_constraints_from_commitments E slot committer w = (Inr (constraints, hashes), w')"
  shows "\<exists>rows. set rows = {row \<in> set (db_commitments (w_db w)). ci_slot_number row = Some slot
        \<and> \<not> ci_constraint_processed row \<and> ci_slasher row = committer \<and> ci_commitment_type row = 1}
    \<and> sorted (map ci_created_at rows)
    \<and> constraints = map (\<lambda>row. from_inclusion_commitment (ci_payload row)) rows
    \<and> hashes = map ci_request_hash rows \<and> distinct hashes"
proof -
  obtain scs where g: "get_unprocessed_commitments_for_slot E slot w = (Inr scs, w')"
    and cs: "constraints = map (\<lambda>sc. from_inclusion_commitment (co_payload (sg_commitment sc)))
      (filter (convertible committer) scs)"
    and hs: "hashes = map (\<lambda>sc. co_request_hash (sg_commitment sc)) (filter (convertible committer) scs)"
    using create_constraints_Inr [OF assms(3)] by blast
  obtain n where l: "list_all2 (\<lambda>r sc. commitment_of_row r = Inr sc) (select_unprocessed E slot n (w_db w)) scs"
    using get_unprocessed_Inr [OF g] by blast
  let ?conv = "\<lambda>row. ci_slasher row = committer \<and> ci_commitment_type row = 1"
  let ?rows = "filter ?conv (select_unprocessed E slot n (w_db w))"
  have f: "map (\<lambda>sc. from_inclusion_commitment (co_payload (sg_commitment sc))) (filter (convertible committer) scs)
        = map (\<lambda>row. from_inclusion_commitment (ci_payload row)) ?rows
      \<and> map (\<lambda>sc. co_request_hash (sg_commitment sc)) (filter (convertible committer) scs)
        = map ci_request_hash ?rows"
    using l
  proof (induction rule: list_all2_induct)
    case (Cons row rows sc scs)
    then show ?case using commitment_of_row_fields [OF Cons.hyps(1)] by (simp add: convertible_def)
  qed simp
  have "distinct (map ci_request_hash ?rows)"
    using select_unprocessed_distinct [OF assms(1,2)] by (rule distinct_map_filter)
  moreover have "sorted (map ci_created_at ?rows)"
    using select_unprocessed_sorted by (rule sorted_filter)
  moreover have "set ?rows = {row \<in> set (db_commitments (w_db w)). ci_slot_number row = Some slot
        \<and> \<not> ci_constraint_processed row \<and> ?conv row}"
    using select_unprocessed_set [OF assms(1)] by auto
  ultimately show ?thesis
    unfolding cs hs conjunct1 [OF f] conjunct2 [OF f] by (intro exI [of _ ?rows] conjI refl)
qed

theorem constraints_of_commitments_witness:
  "\<exists>rows. set rows = {row \<in> set (db_commitments (w_db committed_world)). ci_slot_number row = Some 100
        \<and> \<not> ci_constraint_processed row \<and> ci_slasher row = sample_address \<and> ci_commitment_type row = 1}
     \<and> map (\<lambda>row. from_inclusion_commitment (ci_payload row)) rows
         = [\<lparr>ct_constraint_type = 1, ct_payload = [192, 100, 1, 2, 3]\<rparr>]"
proof -
  have "fst (create_constraints_from_commitments sample_env 100 sample_address committed_world)
      = Inr ([\<lparr>ct_constraint_type = 1, ct_payload = [192, 100, 1, 2, 3]\<rparr>], [kr_hash sample_checked])"
    by code_simp
  then obtain w' where run: "create_constraints_from_commitments sample_env 100 sample_address committed_world
      = (Inr ([\<lparr>ct_constraint_type = 1, ct_payload = [192, 100, 1, 2, 3]\<rparr>], [kr_hash sample_checked]), w')"
    by (metis prod.collapse)
  have "distinct (map ci_request_hash (db_commitments (w_db committed_world)))"
    by (simp add: committed_world_def)
  from constraints_of_commitments [OF sample_scan_law this run] show ?thesis by metis
qed

text \<open>
  C20: an immediate submission that succeeds was asked for the configured committer, rests on an
  active stored delegation of this slot to this gateway and this committer, was started before the
  deadline of the slot, and had its signed message accepted by the relay.
\<close>

theorem immediate_submission_checked:
  assumes "scan_law E" "submit_constraint E c bm slot payload committer w = (Inr msg, w')"
  shows "committer = sk_committer_address (cf_signing c)
    \<and> (\<exists>row d evs. row \<in> set (db_delegations (w_db w)) \<and> dr_is_active row \<and> dr_slot_number row = slot
         \<and> delegation_of_row row = Inr d \<and> is_ours E c d \<and> dm_committer (sd_message d) = committer
         \<and> w_events w' = w_events w @ evs
         \<and> relay_accepted E c bm d slot [from_inclusion_commitment payload] evs)
    \<and> (\<exists>n. unat (e_now E n) < unat (constraint_deadline_for_slot (ba_genesis_time (cf_beacon_api c)) slot))
    \<and> w_db w' = w_db w"
  using submit_constraint_Inr [OF assms] unfolding submission_match_def by blast

theorem immediate_submission_checked_witness:
  "\<exists>d evs. fst (submit_constraint sample_env sample_config sample_bm 100 [192, 100, 1, 2, 3] sample_address sample_world)
       = Inr ''ConstraintSubmissionResponse { status: 200 }''
     \<and> is_ours sample_env sample_config d
     \<and> relay_accepted sample_env sample_config sample_bm d 100 [from_inclusion_commitment [192, 100, 1, 2, 3]] evs"
proof -
  have f: "fst (submit_constraint sample_env sample_config sample_bm 100 [192, 100, 1, 2, 3] sample_address sample_world)
      = Inr ''ConstraintSubmissionResponse { status: 200 }''"
    by code_simp
  then obtain w' where "submit_constraint sample_env sample_config sample_bm 100 [192, 100, 1, 2, 3] sample_address
      sample_world = (Inr ''ConstraintSubmissionResponse { status: 200 }'', w')"
    by (metis prod.collapse)
  from immediate_submission_checked [OF sample_scan_law this] f show ?thesis by blast
qed

text \<open>
  C21: once the deadline of the slot has passed, an immediate submission sends nothing and fails.
\<close>

theorem no_submission_after_deadline:
  assumes "\<forall>n. constraint_deadline_for_slot (ba_genesis_time (cf_beacon_api c)) slot \<le> e_now E n"
  shows "w_events (snd (submit_constraint E c bm slot payload committer w)) = w_events w
    \<and> (\<exists>e. fst (submit_constraint E c bm slot payload committer w) = Inl e)"
  using assms by (rule submit_constraint_late)

theorem no_submission_after_deadline_witness:
  "w_events (snd (submit_constraint late_env sample_config sample_bm 100 [] sample_address sample_world)) = []"
proof -
  have d: "constraint_deadline_for_slot (ba_genesis_time (cf_beacon_api sample_config)) 100 = 2208" by code_simp
  have "\<forall>n. constraint_deadline_for_slot (ba_genesis_time (cf_beacon_api sample_config)) 100 \<le> e_now late_env n"
    unfolding d by (simp add: late_env_def)
  from no_submission_after_deadline [OF this] show ?thesis by (simp add: sample_world_def)
qed

end
