(* ===== verification/Liveness.thy ===== *)
theory Liveness
  imports Gateway_System
begin

text \<open>
  Progress of \<open>commitmentRequest\<close>: with a database that answers and a beacon node that names the
  proposer, every stage up to the insert succeeds on an authorised request. Each lemma is the
  converse of a result lemma of the component: what is enough for the operation to succeed.
\<close>

section \<open>Statements on a database that answers\<close>

definition db_healthy :: "env \<Rightarrow> bool" where
  "db_healthy E = (\<forall>n. e_fault E n = NoFault)"

lemma sql_query_ok: "db_healthy E \<Longrightarrow> sql_query E q w = (Inr (q (w_tick w) (w_db w)), tick w)"
  by (cases w) (simp add: db_healthy_def sql_query_def sql_def tick_def)

lemma sql_ok:
  "db_healthy E \<Longrightarrow> f (w_tick w) (w_db w) = (r, d) \<Longrightarrow> sql E f w = (r, (tick w)\<lparr>w_db := d\<rparr>)"
  by (simp add: db_healthy_def sql_def)

section \<open>The delegation\<close>

text \<open>The rows of the slot are all read, and each gives its delegation.\<close>

lemma get_delegations_ok:
  assumes "db_healthy E" "scan_law E" "list_all (verified_row E) (db_delegations (w_db w))"
  shows "\<exists>ds. get_delegations_for_slot E s w = (Inr ds, tick w)
    \<and> (\<forall>r \<in> set (db_delegations (w_db w)). dr_slot_number r = s \<longrightarrow> dr_is_active r \<longrightarrow>
         (\<exists>d \<in> set ds. delegation_of_row r = Inr d))"
proof -
  let ?rows = "select_for_slot E s (w_tick w) (w_db w)"
  define g where "g r = (SOME d. delegation_of_row r = Inr d)" for r
  have g: "delegation_of_row r = Inr (g r)" if "r \<in> set ?rows" for r
  proof -
    have "\<exists>d. delegation_of_row r = Inr d"
      using that assms by (auto simp: select_for_slot_set list_all_iff verified_row_def)
    then show ?thesis unfolding g_def by (rule someI_ex)
  qed
  have "res_traverse delegation_of_row ?rows = Inr (map g ?rows)" using g by (rule res_traverse_total)
  then have "get_delegations_for_slot E s w = (Inr (map g ?rows), tick w)"
    by (simp add: get_delegations_for_slot_def io_bind_def io_context_def io_map_err_def
        sql_query_ok [OF assms(1)] io_res_def)
  then show ?thesis using g assms(2) by (fastforce simp: select_for_slot_set)
qed

lemma check_bls_ok:
  "bls_manager_new (hash_of E) (dc_domain_application_gateway (cf_delegation c)) = Inr bm \<Longrightarrow>
   is_verified E d \<Longrightarrow> check_delegation_bls E c d = Inr ()"
  by (simp add: check_delegation_bls_def is_verified_def)

section \<open>The proposer\<close>

text \<open>The primary endpoint answers every request for the duties and names this proposer for the slot.\<close>

definition beacon_names :: "env \<Rightarrow> config \<Rightarrow> u64 \<Rightarrow> bls_public_key \<Rightarrow> bool" where
  "beacon_names E c slot proposer =
     (\<forall>n. \<exists>resp duties duty. e_http E n (HttpGet (join_url (ba_primary_endpoint (cf_beacon_api c))
            (duties_path (slot_to_epoch slot)))) = Some resp
        \<and> hr_status resp = 200 \<and> json_duties (json_of E) (hr_body resp) = Some duties
        \<and> find_duty slot (pd_data duties) = Inr (Some duty)
        \<and> parse_pubkey (hash_of E) duty = Inr proposer)"

lemma check_proposer_ok:
  assumes "beacon_names E c slot (dm_proposer (sd_message d))"
  shows "\<exists>w'. check_proposer E c slot d w = (Inr (), w')"
proof -
  obtain resp duties duty where
    h: "e_http E (w_tick w) (HttpGet (join_url (ba_primary_endpoint (cf_beacon_api c))
          (duties_path (slot_to_epoch slot)))) = Some resp" "hr_status resp = 200"
      "json_duties (json_of E) (hr_body resp) = Some duties"
    and f: "find_duty slot (pd_data duties) = Inr (Some duty)"
      "parse_pubkey (hash_of E) duty = Inr (dm_proposer (sd_message d))"
    using assms unfolding beacon_names_def by blast
  have "\<exists>w1. get_proposer_duties E (cf_beacon_api c) (slot_to_epoch slot) w = (Inr duties, w1)"
    using h by (simp add: get_proposer_duties_def try_endpoints_def io_match_def make_request_def reqwest_get_def Let_def io_bind_def
        io_context_def io_map_err_def io_http_def io_res_def io_return_def Let_def)
  then obtain w1 where "get_proposer_duties E (cf_beacon_api c) (slot_to_epoch slot) w = (Inr duties, w1)" ..
  then show ?thesis
    using f by (simp add: check_proposer_def get_proposer_for_slot_def io_bind_def io_context_def
        io_map_err_def io_res_def io_return_def)
qed

text \<open>
  What makes the first matching delegation the right one: there is one, and all that match are of the
  scheduled proposer.
\<close>

definition delegated :: "db \<Rightarrow> u64 \<Rightarrow> string \<Rightarrow> bls_public_key \<Rightarrow> bool" where
  "delegated d slot committer proposer =
     (let matching = filter (\<lambda>r. dr_slot_number r = slot \<and> dr_is_active r
            \<and> normalize_address (dr_committer_address r) = normalize_address committer) (db_delegations d)
      in matching \<noteq> [] \<and> list_all (\<lambda>r. dr_proposer_pubkey r = pk_bytes proposer) matching)"

lemma authority_ok:
  assumes "db_healthy E" "scan_law E" "list_all (verified_row E) (db_delegations (w_db w))"
    and "bls_manager_new (hash_of E) (dc_domain_application_gateway (cf_delegation c)) = Inr bm"
    and "delegated (w_db w) slot committer P" "beacon_names E c slot P"
  shows "\<exists>a w'. verify_delegation_authority E c slot committer w = (Inr a, w')
    \<and> normalize_address a = normalize_address committer"
proof -
  obtain ds where ds: "get_delegations_for_slot E slot w = (Inr ds, tick w)"
    and all: "\<forall>r \<in> set (db_delegations (w_db w)). dr_slot_number r = slot \<longrightarrow> dr_is_active r \<longrightarrow>
         (\<exists>d \<in> set ds. delegation_of_row r = Inr d)"
    using get_delegations_ok [OF assms(1-3)] by blast
  obtain r where r: "r \<in> set (db_delegations (w_db w))" "dr_slot_number r = slot" "dr_is_active r"
    "normalize_address (dr_committer_address r) = normalize_address committer"
    using assms(5) by (auto simp: delegated_def filter_empty_conv)
  then obtain d0 where "d0 \<in> set ds" "committer_matches slot committer d0"
    using all by (auto simp: committer_matches_def is_valid_for_slot_def delegation_of_row_Inr)
  then obtain d where d: "List.find (committer_matches slot committer) ds = Some d"
    by (cases "List.find (committer_matches slot committer) ds") (auto simp: find_None_all)
  then have m: "d \<in> set ds" "committer_matches slot committer d" by (auto dest: find_Some_mem)
  obtain s where s: "s \<in> set (db_delegations (w_db w))" "dr_slot_number s = slot" "dr_is_active s"
    "delegation_of_row s = Inr d"
    using get_delegations_for_slot_mem [OF assms(2) ds m(1)] by blast
  have "pk_bytes (dm_proposer (sd_message d)) = pk_bytes P"
    using assms(5) s m(2)
    by (auto simp: delegated_def Let_def list_all_iff committer_matches_def delegation_of_row_Inr)
  then have p: "beacon_names E c slot (dm_proposer (sd_message d))"
    using assms(6) bls_public_key.expand by metis
  have "is_verified E d" using assms(3) s by (auto simp: list_all_iff verified_row_def)
  then have b: "check_delegation_bls E c d = Inr ()" using assms(4) by (intro check_bls_ok)
  obtain w' where "check_proposer E c slot d (tick w) = (Inr (), w')" using check_proposer_ok [OF p] by blast
  then have "verify_delegation_authority E c slot committer w = (Inr (dm_committer (sd_message d)), w')"
    using d b by (simp add: verify_delegation_authority_def io_bind_def io_context_def io_map_err_def ds
        io_res_def io_return_def)
  then show ?thesis using m(2) by (auto simp: committer_matches_def)
qed

section \<open>The signature\<close>

lemma hex_format_encode: "hex_laws H \<Longrightarrow> hex_format (2 * length bs) (''0x'' @ hex_encode H bs)"
  by (auto simp: hex_format_def hex_encode_length list_all_iff hex_char_def hex_digits_def
      dest: hex_encode_chars)

lemma sign_commitment_ok:
  assumes "hex_laws H" "keccak_laws H" "secp_laws S"
    and "generate_request_hash H request = Inr h" "cr_slasher request = co_slasher co"
    and "co_request_hash co = h"
  shows "\<exists>sg. sign_commitment H S co k = Inr sg \<and> hex_format 130 sg"
proof -
  obtain a e where a: "parse_ethereum_address H (co_slasher co) = Inr a"
    and h: "h = ''0x'' @ hex_encode H (keccak H e)"
    using assms(4,5) by (auto simp: generate_request_hash_def abi_encode_commitment_request_def keccak256_def)
  have "parse_hex_bytes H h 32 = Inr (keccak H e)"
    unfolding h using assms(2) by (intro hex_bytes.roundtrip(1) [OF assms(1)]) (simp add: keccak_laws_def)
  then obtain encoded where enc: "abi_encode_commitment H co = Inr encoded"
    using a assms(6) by (simp add: abi_encode_commitment_def)
  obtain rid raw where sign: "secp_sign_recoverable S (keccak256 H encoded) k = (rid, raw)" by force
  have "length (keccak256 H encoded) = 32" using assms(2) by (simp add: keccak_laws_def keccak256_def)
  from secp_laws_sign [OF assms(3) this sign] have m: "secp_message_ok S (keccak256 H encoded)" "length raw = 64"
    by auto
  have "sign_commitment H S co k = Inr (''0x'' @ hex_encode H (raw @ [of_nat rid + 27]))"
    using enc m sign by (simp add: sign_commitment_def secp_message_def)
  moreover have "hex_format 130 (''0x'' @ hex_encode H (raw @ [of_nat rid + 27]))"
    using hex_format_encode [OF assms(1), of "raw @ [of_nat rid + 27]"] m(2) by simp
  ultimately show ?thesis by blast
qed

section \<open>The insert\<close>

lemma save_ok:
  assumes "db_healthy E" "\<forall>n. e_uuid E n \<notin> ci_id ` set (db_commitments (w_db w))"
    and "co_request_hash (sg_commitment sc) \<notin> ci_request_hash ` set (db_commitments (w_db w))"
    and "hex_format 64 (co_request_hash (sg_commitment sc))" "hex_format 40 (co_slasher (sg_commitment sc))"
    and "hex_format 130 (sg_signature sc)" "co_commitment_type (sg_commitment sc) = 1"
  shows "\<exists>w'. stage_save E sc w = (Inr (), w')"
proof -
  let ?r = "commitment_row_of (payload_of E) (e_uuid E (w_tick w)) 1 (e_db_time E (Suc (w_tick w))) sc"
  have t: "i64_try_from (1 :: u64) = Some 1" by (simp add: i64_try_from_def)
  have "0 \<le> sint s" if "stored_slot P co = Some s" for P co s
    using that by (auto simp: stored_slot_def i64_try_from_def sint_nonneg_iff split: sum.splits if_splits)
  then have "commitment_check ?r"
    using assms(4-6) by (simp add: commitment_check_def commitment_row_of_def split: option.split)
  then have "insert_commitment ?r (w_db w)
      = (Inr True, (w_db w)\<lparr>db_commitments := db_commitments (w_db w) @ [?r]\<rparr>)"
    using assms(2,3) by (simp add: insert_commitment_def commitment_row_of_def)
  then show ?thesis
    by (simp add: stage_save_def save_commitment_def io_bind_def io_code_def io_map_err_def io_uuid_def assms(7) t
        io_res_def io_context_def sql_ok [OF assms(1)] io_return_def)
qed

section \<open>The fee\<close>

text \<open>The Reth node answers every request for the gas price with \<open>p\<close>.\<close>

definition reth_quotes :: "env \<Rightarrow> config \<Rightarrow> nat \<Rightarrow> bool" where
  "reth_quotes E c p =
     (rc_max_retries (cf_reth c) \<noteq> 0 \<and>
      (\<forall>n. \<exists>resp reply hex. e_http E n (HttpPostRpc (rc_endpoint (cf_reth c)) ''eth_gasPrice'' 1) = Some resp
         \<and> 200 \<le> hr_status resp \<and> hr_status resp < 300
         \<and> json_rpc (json_of E) (hr_body resp) = Some reply \<and> \<not> jr_has_error reply
         \<and> jr_result_str reply = Some hex \<and> u256_from_hex (json_of E) (strip_0x hex) = Some p))"

lemma get_cached_gas_price_ok:
  assumes "reth_quotes E c p"
  shows "\<exists>info w'. get_cached_gas_price E c w = (Inr info, w') \<and> gp_gas_price info = p"
proof -
  obtain resp reply hex where
    r: "e_http E (w_tick w) (HttpPostRpc (rc_endpoint (cf_reth c)) ''eth_gasPrice'' 1) = Some resp"
      "200 \<le> hr_status resp" "hr_status resp < 300" "json_rpc (json_of E) (hr_body resp) = Some reply"
      "\<not> jr_has_error reply" "jr_result_str reply = Some hex" "u256_from_hex (json_of E) (strip_0x hex) = Some p"
    using assms unfolding reth_quotes_def by blast
  obtain m where m: "unat (rc_max_retries (cf_reth c)) = Suc m"
    using assms unfolding reth_quotes_def by (metis not0_implies_Suc unat_eq_0)
  have "\<exists>w1. make_rpc_call E (cf_reth c) ''eth_gasPrice'' 1 w = (Inr reply, w1)"
    using r by (simp add: make_rpc_call_def m io_match_def io_http_def io_return_def Let_def)
  then obtain w1 where c1: "make_rpc_call E (cf_reth c) ''eth_gasPrice'' 1 w = (Inr reply, w1)" ..
  obtain n w2 where c2: "get_block_number E (cf_reth c) w1 = (n, w2)" by force
  show ?thesis
    using r(6,7) by (simp add: get_cached_gas_price_def get_gas_price_def io_context_def io_map_err_def
        io_bind_def io_match_def c1 c2 io_res_def io_now_def io_return_def del: One_nat_def)
qed

text \<open>A record of the slot that can be read back.\<close>

definition readable :: "congestion_row \<Rightarrow> bool" where
  "readable r = (\<exists>cong. congestion_of_row r = Inr cong)"

text \<open>
  The times are in the range of \<open>SystemTime\<close>, the sequence of the table is not used up, and what
  is stored for the slot can be read.
\<close>

definition congestion_ready :: "env \<Rightarrow> config \<Rightarrow> u64 \<Rightarrow> db \<Rightarrow> bool" where
  "congestion_ready E c slot d =
     (let ts = slot_start_timestamp (ba_genesis_time (cf_beacon_api c)) slot in
      unat ts < 2 ^ 63 \<and> c_chrono_ok (e_crates E) ts \<and> db_congestion_seq d + 1 < 2 ^ 31
      \<and> (\<forall>n. 0 \<le> e_db_time E n \<and> e_db_time E n < 2 ^ 63)
      \<and> (\<forall>r \<in> set (db_congestion d). gr_slot r = slot \<longrightarrow> readable r))"

lemma system_time_small: "unat t < 2 ^ 63 \<Longrightarrow> system_time t = Inr t"
  by (simp add: system_time_def i64_max_def)

lemma system_time_of_db_ok: "0 \<le> m \<Longrightarrow> m < 2 ^ 63 \<Longrightarrow> \<exists>t. system_time_of_db m = Inr t"
proof -
  assume "0 \<le> m" "m < 2 ^ 63"
  then have "0 \<le> m div 1000000" "m div 1000000 < 2 ^ 63" by auto
  then have "unat (word_of_int (m div 1000000) :: u64) < 2 ^ 63"
    by (simp add: unat_eq_nat_uint uint_word_of_int)
  from system_time_small [OF this] show ?thesis by (simp add: system_time_of_db_def)
qed

lemma readable_new:
  assumes "unat t < 2 ^ 63" "0 \<le> m" "m < 2 ^ 63"
  shows "readable (congestion_row_of (slot_congestion_new slot b l t) m\<lparr>gr_id := i\<rparr>)"
proof -
  have "system_time_of_db (sint t * 1000000) = Inr t"
    using system_time_small [OF assms(1)] by (simp add: system_time_of_db_def)
  then show ?thesis
    using system_time_of_db_ok [OF assms(2,3)]
    by (auto simp: readable_def congestion_of_row_def congestion_row_of_def slot_congestion_new_def
        system_time_opt_def)
qed

lemma find_congestion_ok:
  "s \<in> gr_slot ` set (db_congestion d) \<Longrightarrow>
   \<exists>r. find_congestion s d = Some r \<and> r \<in> set (db_congestion d) \<and> gr_slot r = s"
  unfolding find_congestion_def
  by (cases "List.find (\<lambda>r. gr_slot r = s) (db_congestion d)") (auto simp: find_None_all dest: find_Some_mem)

text \<open>What the INSERT of the record does when the slot has a record, and when it has none.\<close>

lemma insert_congestion_present:
  "gr_slot r \<in> gr_slot ` set (db_congestion d) \<Longrightarrow> db_congestion_seq d + 1 < 2 ^ 31 \<Longrightarrow>
   insert_congestion_returning r d = (Inr None, d\<lparr>db_congestion_seq := db_congestion_seq d + 1\<rparr>)"
  by (simp add: insert_congestion_returning_def insert_congestion_def Let_def)

lemma insert_congestion_new:
  "gr_slot r \<notin> gr_slot ` set (db_congestion d) \<Longrightarrow> db_congestion_seq d + 1 < 2 ^ 31 \<Longrightarrow>
   insert_congestion_returning r d = (Inr (Some (db_congestion_seq d + 1)),
     d\<lparr>db_congestion_seq := db_congestion_seq d + 1,
       db_congestion := db_congestion d @ [r\<lparr>gr_id := db_congestion_seq d + 1\<rparr>]\<rparr>)"
  by (simp add: insert_congestion_returning_def insert_congestion_def Let_def)

lemma find_congestion_new:
  "gr_slot r \<notin> gr_slot ` set rows \<Longrightarrow> find_congestion (gr_slot r) (d\<lparr>db_congestion := rows @ [r]\<rparr>) = Some r"
  unfolding find_congestion_def by (induction rows) auto

text \<open>
  The record of the slot is found or made; its base price is the one stored or the one offered.
  Afterwards there is a readable record.
\<close>

lemma get_or_create_ok:
  assumes "db_healthy E" "congestion_ready E c slot (w_db w)"
  shows "\<exists>cong w'. get_or_create_slot_congestion E slot base limit (ba_genesis_time (cf_beacon_api c)) w
      = (Inr cong, w')
    \<and> (gc_base_gas_price cong = base
       \<or> (\<exists>r \<in> set (db_congestion (w_db w)). gr_slot r = slot \<and> gc_base_gas_price cong = gr_base_gas_price r))
    \<and> (\<exists>r. find_congestion slot (w_db w') = Some r \<and> readable r)"
proof -
  let ?ts = "slot_start_timestamp (ba_genesis_time (cf_beacon_api c)) slot"
  let ?new = "slot_congestion_new slot base limit ?ts"
  let ?row = "congestion_row_of ?new (e_db_time E (w_tick w))"
  have ready: "unat ?ts < 2 ^ 63" "c_chrono_ok (e_crates E) ?ts" "db_congestion_seq (w_db w) + 1 < 2 ^ 31"
    "0 \<le> e_db_time E (w_tick w)" "e_db_time E (w_tick w) < 2 ^ 63"
    "\<forall>r \<in> set (db_congestion (w_db w)). gr_slot r = slot \<longrightarrow> readable r"
    using assms(2) by (auto simp: congestion_ready_def Let_def)
  have key: "gr_slot ?row = slot" by (simp add: congestion_row_of_def slot_congestion_new_def)
  note run = get_or_create_slot_congestion_def io_bind_def io_res_def io_return_def io_context_def io_map_err_def
    system_time_small [OF ready(1)] ready(2) sql_ok [OF assms(1)] Let_def
  show ?thesis
  proof (cases "slot \<in> gr_slot ` set (db_congestion (w_db w))")
    case True
    obtain r where r: "find_congestion slot (w_db w) = Some r" "r \<in> set (db_congestion (w_db w))" "gr_slot r = slot"
      using find_congestion_ok [OF True] by blast
    then have f: "find_congestion slot (w_db w\<lparr>db_congestion_seq := n\<rparr>) = Some r" for n
      by (simp add: find_congestion_def)
    obtain cong where cong: "congestion_of_row r = Inr cong" using ready(6) r by (auto simp: readable_def)
    then have "gc_base_gas_price cong = gr_base_gas_price r" by (auto simp: congestion_of_row_def)
    then show ?thesis
      using r f cong insert_congestion_present [of ?row "w_db w"] True ready(3)
      by (auto simp: run key get_slot_congestion_def sql_query_ok [OF assms(1)] readable_def)
  next
    case False
    let ?id = "db_congestion_seq (w_db w) + 1"
    have "readable (?row\<lparr>gr_id := ?id\<rparr>)" using readable_new [OF ready(1,4,5)] .
    moreover have "find_congestion slot ((w_db w)\<lparr>db_congestion_seq := ?id,
        db_congestion := db_congestion (w_db w) @ [?row\<lparr>gr_id := ?id\<rparr>]\<rparr>) = Some (?row\<lparr>gr_id := ?id\<rparr>)"
      using find_congestion_new [of "?row\<lparr>gr_id := ?id\<rparr>" "db_congestion (w_db w)"] False by (simp add: key)
    ultimately show ?thesis
      using insert_congestion_new [of ?row "w_db w"] False ready(3)
      by (simp add: run key) (simp add: slot_congestion_new_def)
  qed
qed

text \<open>
  No overflow in the price: the quoted base price, or the one stored for the slot, is at most
  \<open>2^53 / 100\<close> and 100 times it times the gas fits in 64 bits.
\<close>

definition price_fits :: "nat \<Rightarrow> nat \<Rightarrow> bool" where
  "price_fits base gas = (100 * base \<le> 2 ^ 53 \<and> 100 * base * gas < 2 ^ 64)"

definition fee_config_ok :: "fee_config \<Rightarrow> bool" where
  "fee_config_ok fc = (f64_le (FNum 1) (fc_min_fee_multiplier fc)
     \<and> f64_le (fc_min_fee_multiplier fc) (fc_max_fee_multiplier fc)
     \<and> f64_le (fc_max_fee_multiplier fc) (FNum 100))"

definition payable :: "config \<Rightarrow> u64 \<Rightarrow> nat \<Rightarrow> nat \<Rightarrow> db \<Rightarrow> bool" where
  "payable c slot p gas d =
     (fee_config_ok (rc_fee_config (cf_reth c)) \<and> price_fits p gas
      \<and> (\<forall>r \<in> set (db_congestion d). gr_slot r = slot \<longrightarrow> price_fits (unat (gr_base_gas_price r)) gas))"

lemma total_cost_ok:
  assumes "fee_config_ok fc" "price_fits (unat (gc_base_gas_price cong)) (unat gas)"
  shows "\<exists>t. checked_mul (gc_current_tx_price (calculate_projected_congestion powf fc cong gas)) gas = Some t"
proof -
  let ?p = "calculate_projected_congestion powf fc cong gas"
  have m: "f64_le (FNum 1) (gc_calculated_fee_multiplier ?p)" "f64_le (gc_calculated_fee_multiplier ?p) (FNum 100)"
    using projected_multiplier_range [of fc powf cong gas] assms(1) f64_le_trans
    unfolding fee_config_ok_def by blast+
  have "gc_current_tx_price ?p = bounded_price (gc_base_gas_price cong) (gc_calculated_fee_multiplier ?p)"
    by (simp add: calculate_projected_congestion_def Let_def add_gas_usage_frame)
  then have "unat (gc_current_tx_price ?p) \<le> 100 * unat (gc_base_gas_price cong)"
    using bounded_price_upper [OF _ m] assms(2) by (simp add: price_fits_def)
  then have "unat (gc_current_tx_price ?p) * unat gas \<le> 100 * unat (gc_base_gas_price cong) * unat gas"
    by (rule mult_right_mono) simp
  then have "unat (gc_current_tx_price ?p) * unat gas < 2 ^ 64"
    using assms(2) unfolding price_fits_def by linarith
  then show ?thesis by (simp add: checked_mul_def)
qed

lemma calculate_fee_ok:
  assumes "db_healthy E" "reth_quotes E c p" "congestion_ready E c slot (w_db w)"
    and "estimate_gas_for_commitment (payload_of E) t payload = Inr gas" "payable c slot p (unat gas) (w_db w)"
  shows "\<exists>fee w'. calculate_fee_for_commitment E c t payload slot w = (Inr fee, w')
    \<and> (\<exists>r. find_congestion slot (w_db w') = Some r \<and> readable r)"
proof -
  let ?fc = "rc_fee_config (cf_reth c)"
  obtain info w1 where g: "get_cached_gas_price E c w = (Inr info, w1)" and p: "gp_gas_price info = p"
    using get_cached_gas_price_ok [OF assms(2)] by blast
  have db: "w_db w1 = w_db w" using same_db.get_cached_gas_price_obeys g by (rule same_db_D)
  have ready: "congestion_ready E c slot (w_db w1)" using assms(3) db by simp
  let ?base = "gas_price_as_u64_clamped info"
  obtain cong w2 where c: "get_or_create_slot_congestion E slot ?base (fc_default_gas_limit ?fc)
      (ba_genesis_time (cf_beacon_api c)) w1 = (Inr cong, w2)"
    and b: "gc_base_gas_price cong = ?base
      \<or> (\<exists>r \<in> set (db_congestion (w_db w1)). gr_slot r = slot \<and> gc_base_gas_price cong = gr_base_gas_price r)"
    and r: "\<exists>r. find_congestion slot (w_db w2) = Some r \<and> readable r"
    using get_or_create_ok [OF assms(1) ready] by blast
  have "unat ?base = p"
    using assms(5) p by (simp add: unat_gas_price_clamped payable_def price_fits_def)
  then have fits: "price_fits (unat (gc_base_gas_price cong)) (unat gas)" "fee_config_ok ?fc"
    using b assms(5) db by (auto simp: payable_def)
  obtain total where "checked_mul (gc_current_tx_price
      (calculate_projected_congestion (c_powf (e_crates E)) ?fc cong gas)) gas = Some total"
    using total_cost_ok [OF fits(2,1)] by blast
  then show ?thesis
    using r by (simp add: calculate_fee_for_commitment_def Let_def io_bind_def g
        assms(4) c io_res_def io_return_def)
qed

section \<open>The gas\<close>

lemma stage_gas_ok:
  assumes "db_healthy E" "find_congestion (kr_slot k) (w_db w) = Some r" "readable r"
  shows "\<exists>w'. stage_gas E c k g w = (Inr (), w')"
proof -
  obtain cong where cong: "congestion_of_row r = Inr cong" using assms(3) by (auto simp: readable_def)
  have n: "e_fault E n = NoFault" for n using assms(1) by (simp add: db_healthy_def)
  have "\<exists>x w'. apply_gas_usage_to_slot E c (kr_slot k) g w = (Inr x, w')"
    using assms(2) cong
    by (simp add: apply_gas_usage_to_slot_def update_slot_congestion_gas_usage_def sql_transaction_def n
        io_bind_def io_context_def io_map_err_def io_res_def sql_query_ok [OF assms(1)] sql_def
        io_return_def update_congestion_def Let_def)
  then show ?thesis by (auto simp: stage_gas_def io_match_def io_return_def)
qed

section \<open>The whole request\<close>

text \<open>What the outside has to do, for any request of the slot.\<close>

definition outside_works :: "env \<Rightarrow> config \<Rightarrow> u64 \<Rightarrow> bls_public_key \<Rightarrow> nat \<Rightarrow> bool" where
  "outside_works E c slot proposer gas_price =
     (scan_law E \<and> hex_laws (hash_of E) \<and> keccak_laws (hash_of E) \<and> secp_laws (secp_of E)
      \<and> db_healthy E \<and> beacon_names E c slot proposer \<and> reth_quotes E c gas_price)"

text \<open>What the request has to be, beyond passing the first checks.\<close>

definition admissible :: "env \<Rightarrow> config \<Rightarrow> checked_request \<Rightarrow> bls_public_key \<Rightarrow> db \<Rightarrow> bool" where
  "admissible E c k proposer d =
     (hex_format 40 (cr_slasher (kr_request k))
      \<and> normalize_address (cr_slasher (kr_request k)) = normalize_address (sk_committer_address (cf_signing c))
      \<and> delegated d (kr_slot k) (cr_slasher (kr_request k)) proposer
      \<and> kr_hash k \<notin> ci_request_hash ` set (db_commitments d)
      \<and> (\<forall>n. e_uuid E n \<notin> ci_id ` set (db_commitments d)))"

lemma stage_exists_ok:
  "db_healthy E \<Longrightarrow> kr_hash k \<notin> ci_request_hash ` set (db_commitments (w_db w)) \<Longrightarrow>
   stage_exists E k w = (Inr (), tick w)"
  by (simp add: stage_exists_def commitment_exists_def io_bind_def io_code_def io_context_def io_map_err_def
      sql_query_ok io_return_def)

lemma stage_authority_ok:
  assumes works: "outside_works E c (kr_slot k) P p"
    and "list_all (verified_row E) (db_delegations (w_db w))"
    and "bls_manager_new (hash_of E) (dc_domain_application_gateway (cf_delegation c)) = Inr bm"
    and "stage_validate E c params = Inr k" "admissible E c k P (w_db w)"
  shows "\<exists>sc w'. stage_authority E c k w = (Inr sc, w') \<and> hex_format 130 (sg_signature sc)"
proof -
  have laws: "hex_laws (hash_of E)" "keccak_laws (hash_of E)" "secp_laws (secp_of E)" "db_healthy E" "scan_law E"
    "beacon_names E c (kr_slot k) P"
    using works by (simp_all add: outside_works_def)
  let ?a = "cr_slasher (kr_request k)"
  have adm: "delegated (w_db w) (kr_slot k) ?a P"
    "normalize_address ?a = normalize_address (sk_committer_address (cf_signing c))"
    using assms(5) by (simp_all add: admissible_def)
  obtain a w1 where a: "verify_delegation_authority E c (kr_slot k) ?a w = (Inr a, w1)"
    and n: "normalize_address a = normalize_address ?a"
    using authority_ok [OF laws(4,5) assms(2,3) adm(1) laws(6)] by blast
  have key: "find_signing_key_for_committer c a = Inr (sk_ecdsa_private_key (cf_signing c))"
    using n adm(2) by (simp add: find_signing_key_Inr)
  have "generate_request_hash (hash_of E) (kr_request k) = Inr (kr_hash k)"
    using assms(4) by (simp add: stage_validate_Inr)
  from sign_commitment_ok [OF laws(1-3) this, of "commitment_of_request k"]
  obtain sg where sg: "sign_commitment (hash_of E) (secp_of E) (commitment_of_request k)
      (sk_ecdsa_private_key (cf_signing c)) = Inr sg" "hex_format 130 sg"
    by (auto simp: commitment_of_request_def)
  then show ?thesis
    using key by (simp add: stage_authority_def io_bind_def io_code_def io_map_err_def a io_res_def
        io_return_def res_code_def)
qed

lemma stage_save_ok:
  assumes works: "outside_works E c (kr_slot k) P p" and "stage_validate E c params = Inr k"
    and "admissible E c k P (w_db w)" "sg_commitment sc = commitment_of_request k" "hex_format 130 (sg_signature sc)"
  shows "\<exists>w'. stage_save E sc w = (Inr (), w')"
proof (rule save_ok)
  obtain e where "''0x'' @ hex_encode (hash_of E) (keccak (hash_of E) e) = kr_hash k"
    using assms(2) by (auto simp: stage_validate_Inr generate_request_hash_def keccak256_def)
  then show "hex_format 64 (co_request_hash (sg_commitment sc))"
    using hex_format_encode [of "hash_of E" "keccak (hash_of E) e"] works assms(4)
    by (simp add: commitment_of_request_def outside_works_def keccak_laws_def)
qed (use assms in \<open>simp_all add: outside_works_def admissible_def commitment_of_request_def stage_validate_Inr\<close>)

text \<open>A stage that touches neither the commitments nor the congestion of the slot.\<close>

lemma stage_save_frame:
  "stage_save E sc w = (r, w') \<Longrightarrow> db_congestion (w_db w') = db_congestion (w_db w)
     \<and> db_congestion_seq (w_db w') = db_congestion_seq (w_db w)"
  by (auto simp: stage_save_def save_commitment_def io_bind_def io_code_def io_map_err_def io_uuid_def io_res_def
      io_context_def sql_def insert_commitment_def io_return_def io_fail_def Let_def
      split: prod.splits sum.splits fault.splits if_splits option.splits)

text \<open>
  An admissible request is answered with its commitment when the outside works, the congestion of the
  slot is in order and the price does not overflow.
\<close>

lemma handler_answers:
  assumes works: "outside_works E c (kr_slot k) P p"
    and sound: "db_sound E c (w_db w)"
    and domain: "bls_manager_new (hash_of E) (dc_domain_application_gateway (cf_delegation c)) = Inr bm"
    and valid: "stage_validate E c params = Inr k" and adm: "admissible E c k P (w_db w)"
    and ready: "congestion_ready E c (kr_slot k) (w_db w)"
    and gas: "estimate_gas_for_commitment (payload_of E) 1 (cr_payload (kr_request k)) = Inr gas"
    and pay: "payable c (kr_slot k) p (unat gas) (w_db w)"
  shows "\<exists>sc w'. commitment_request_handler E c params w = (Inr sc, w')"
proof -
  have h: "db_healthy E" "reth_quotes E c p" using works by (simp_all add: outside_works_def)
  have e: "stage_exists E k w = (Inr (), tick w)"
    using h(1) adm by (intro stage_exists_ok) (simp_all add: admissible_def)
  have v: "list_all (verified_row E) (db_delegations (w_db (tick w)))" using sound by (simp add: db_sound_def)
  have adm1: "admissible E c k P (w_db (tick w))" using adm by simp
  obtain sc w1 where a: "stage_authority E c k (tick w) = (Inr sc, w1)" "hex_format 130 (sg_signature sc)"
    using stage_authority_ok [OF works v domain valid adm1] by blast
  have db1: "w_db w1 = w_db w" using same_db_D [OF same_db.stage_authority_obeys a(1)] by simp
  have sc: "sg_commitment sc = commitment_of_request k" using authority_issuable [OF valid a(1)] by simp
  obtain w2 where s: "stage_save E sc w1 = (Inr (), w2)"
    using stage_save_ok [OF works valid _ sc a(2)] adm db1 by metis
  have db2: "db_congestion (w_db w2) = db_congestion (w_db w)"
    "db_congestion_seq (w_db w2) = db_congestion_seq (w_db w)"
    using stage_save_frame [OF s] db1 by simp_all
  have t: "cr_commitment_type (kr_request k) = 1" using valid by (simp add: stage_validate_Inr)
  have ready2: "congestion_ready E c (kr_slot k) (w_db w2)" and pay2: "payable c (kr_slot k) p (unat gas) (w_db w2)"
    using ready pay by (simp_all add: congestion_ready_def payable_def db2)
  obtain fee w3 r where f: "calculate_fee_for_commitment E c 1 (cr_payload (kr_request k)) (kr_slot k) w2 = (Inr fee, w3)"
    and r: "find_congestion (kr_slot k) (w_db w3) = Some r" "readable r"
    using calculate_fee_ok [OF h ready2 gas pay2] by blast
  have f: "stage_fee E c k w2 = (Inr (fe_estimated_gas fee), w3)"
    using f t by (simp add: stage_fee_def io_bind_def io_code_def io_map_err_def io_return_def)
  obtain w4 where g: "stage_gas E c k (fe_estimated_gas fee) w3 = (Inr (), w4)"
    using stage_gas_ok [OF h(1) r] by blast
  show ?thesis
    using e a(1) s f g by (simp add: commitment_request_handler_def io_bind_def io_res_def valid io_return_def)
qed

end
