(* ===== verification/Submission_Progress.thy ===== *)
theory Submission_Progress
  imports Liveness
begin

text \<open>
  Progress of the constraints service: with a database that answers and a relay that accepts, a
  round of \<open>process_pending_constraints\<close> submits and marks every unprocessed commitment of the slots
  it looks at whose slasher is the committer of an active delegation to this gateway.
\<close>

section \<open>Worlds that differ by marks\<close>

definition marked_from :: "world \<Rightarrow> world \<Rightarrow> bool" where
  "marked_from w w' = (\<exists>hs. w_db w' = snd (mark_processed hs (w_db w)))"

lemma mark_row_twice: "mark_row hs (mark_row hs' r) = mark_row (hs' @ hs) r"
  by (simp add: mark_row_def)

lemma mark_processed_none: "snd (mark_processed [] d) = d"
proof -
  have "map (mark_row []) rs = rs" for rs by (simp add: mark_row_def map_idI)
  then show ?thesis by (simp add: mark_processed_def)
qed

lemma mark_processed_twice:
  "snd (mark_processed hs (snd (mark_processed hs' d))) = snd (mark_processed (hs' @ hs) d)"
  by (simp add: mark_processed_def mark_row_twice comp_def)

interpretation marked_from: quiet_rel marked_from
proof unfold_locales
  show "marked_from w w" for w unfolding marked_from_def by (metis mark_processed_none)
  show "marked_from u w" if "marked_from u v" "marked_from v w" for u v w
    using that unfolding marked_from_def by (metis mark_processed_twice)
  show "marked_from w w'" if "w_db w' = w_db w" for w w' :: world
    using that unfolding marked_from_def by (metis mark_processed_none)
qed

lemma mark_marked: "marked_from w (w\<lparr>w_db := snd (mark_processed hs (w_db w))\<rparr>)"
  by (auto simp: marked_from_def)

text \<open>What survives marks: the delegations, the soundness, and a commitment up to its flag.\<close>

lemma marked_from_frame:
  assumes "marked_from w w'"
  shows "db_delegations (w_db w') = db_delegations (w_db w)"
    and "db_sound E c (w_db w) \<Longrightarrow> db_sound E c (w_db w')"
    and "r \<in> set (db_commitments (w_db w)) \<Longrightarrow>
      r \<in> set (db_commitments (w_db w')) \<or> r\<lparr>ci_constraint_processed := True\<rparr> \<in> set (db_commitments (w_db w'))"
  using assms db_step_sound [OF db_step.mark [of E c "w_db w"]]
  by (auto simp: marked_from_def mark_processed_def mark_row_def image_iff)

section \<open>A loop that reaches a goal at one of its elements\<close>

context step_rel
begin

lemma fold_reaches:
  assumes f: "\<And>y s. obeys R (f y s)"
    and runs: "\<And>y s v. y \<in> set xs \<Longrightarrow> R w v \<Longrightarrow> \<exists>s' v'. f y s v = (Inr s', v')"
    and goal: "\<And>s v. x \<in> set xs \<Longrightarrow> R w v \<Longrightarrow> Q (snd (f x s v))"
    and keeps: "\<And>u v. R u v \<Longrightarrow> Q u \<Longrightarrow> Q v"
    and "R w v"
  shows "\<exists>s' w'. io_fold f xs s v = (Inr s', w') \<and> (x \<in> set xs \<longrightarrow> Q w')"
  using assms(2,3,5)
proof (induction xs arbitrary: s v)
  case (Cons y ys)
  obtain s1 v1 where y: "f y s v = (Inr s1, v1)" using Cons.prems(1) [of y v s] Cons.prems(3) by auto
  have r1: "R w v1" using trans [OF Cons.prems(3) obeysD [OF f y]] .
  have "\<exists>s' w'. io_fold f ys s1 v1 = (Inr s', w') \<and> (x \<in> set ys \<longrightarrow> Q w')"
    using Cons.prems r1 by (intro Cons.IH) auto
  then obtain s' w' where rest: "io_fold f ys s1 v1 = (Inr s', w')" "x \<in> set ys \<longrightarrow> Q w'" by blast
  have "Q w'" if "x = y"
  proof -
    have "Q v1" using Cons.prems(2) [of v s] Cons.prems(3) that y by simp
    moreover have "R v1 w'" using fold_obeys [OF f] rest(1) by (rule obeysD)
    ultimately show ?thesis by (rule keeps [rotated])
  qed
  then show ?case using y rest by (auto simp: io_bind_def)
qed (simp add: io_return_def)

end

section \<open>One delegation\<close>

text \<open>The relay accepts whatever is submitted, and the builders of the configuration can be parsed.\<close>

definition relay_accepts :: "env \<Rightarrow> config \<Rightarrow> bool" where
  "relay_accepts E c =
     ((\<exists>rs. parse_authorized_builders (hash_of E) (ca_authorized_builders (cf_constraints_api c)) = Inr rs)
      \<and> (\<forall>n sc. json_constraints_ok (json_of E) sc
          \<and> (\<exists>resp. e_http E n (HttpPostConstraints
                (build_url (cf_constraints_api c) ''constraints/v0/builder/constraints'') sc) = Some resp
              \<and> (hr_status resp = 200 \<or> hr_status resp = 202))))"

lemma submit_constraints_ok:
  assumes "relay_accepts E c"
  shows "\<exists>status w'. submit_constraints E (cf_constraints_api c) sc w = (Inr status, w')"
proof -
  let ?url = "build_url (cf_constraints_api c) ''constraints/v0/builder/constraints''"
  obtain resp where r: "json_constraints_ok (json_of E) sc"
    "e_http E (w_tick w) (HttpPostConstraints ?url sc) = Some resp" "hr_status resp = 200 \<or> hr_status resp = 202"
    using assms unfolding relay_accepts_def by blast
  obtain m where "max_attempts (cf_constraints_api c) = Suc m"
    by (cases "max_attempts (cf_constraints_api c)") (auto simp: max_attempts_def)
  then show ?thesis
    using r by (auto simp: submit_constraints_def io_bind_def io_res_def io_match_def io_http_def io_return_def Let_def)
qed

lemma sign_for_delegation_ok:
  "relay_accepts E c \<Longrightarrow> \<exists>sc. sign_for_delegation E c bm d slot cs = Inr sc"
  by (auto simp: relay_accepts_def sign_for_delegation_def sign_constraints_message_def
      abi_encode_constraints_message_def Let_def)

lemma get_unprocessed_ok:
  assumes "db_healthy E" "scan_law E" "db_sound E c (w_db w)" "unat slot < 2 ^ 63"
  shows "\<exists>scs. get_unprocessed_commitments_for_slot E slot w = (Inr scs, tick w)
    \<and> (\<forall>r \<in> set (db_commitments (w_db w)). ci_slot_number r = Some slot \<longrightarrow> \<not> ci_constraint_processed r \<longrightarrow>
         (\<exists>sc \<in> set scs. commitment_of_row r = Inr sc))"
proof -
  let ?rows = "select_unprocessed E slot (w_tick w) (w_db w)"
  define g where "g r = (SOME sc. commitment_of_row r = Inr sc)" for r
  have g: "commitment_of_row r = Inr (g r)" if "r \<in> set ?rows" for r
  proof -
    have "\<exists>sc. commitment_of_row r = Inr sc"
      using that assms(2,3) by (auto simp: select_unprocessed_set db_sound_def list_all_iff issued_row_def)
    then show ?thesis unfolding g_def by (rule someI_ex)
  qed
  have "res_traverse commitment_of_row ?rows = Inr (map g ?rows)" using g by (rule res_traverse_total)
  then have "get_unprocessed_commitments_for_slot E slot w = (Inr (map g ?rows), tick w)"
    using assms(4) by (simp add: get_unprocessed_commitments_for_slot_def io_bind_def io_context_def io_map_err_def
        sql_query_ok [OF assms(1)] io_res_def i64_try_from_def)
  then show ?thesis using g assms(2) by (fastforce simp: select_unprocessed_set)
qed

text \<open>A commitment the round is to submit for the committer.\<close>

definition due_for :: "u64 \<Rightarrow> string \<Rightarrow> commitment_row \<Rightarrow> bool" where
  "due_for slot committer r = (ci_slot_number r = Some slot \<and> ci_slasher r = committer)"

lemma issued_row_type:
  assumes "issued_row E c r" "commitment_of_row r = Inr sc"
  shows "co_commitment_type (sg_commitment sc) = 1"
    and "co_slasher (sg_commitment sc) = ci_slasher r" "co_request_hash (sg_commitment sc) = ci_request_hash r"
  using assms commitment_of_row_fields [OF assms(2)] by (auto simp: issued_row_def issuable_def)

lemma stored_slot_small: "stored_slot P co = Some slot \<Longrightarrow> unat slot < 2 ^ 63"
  by (auto simp: stored_slot_def i64_try_from_def split: sum.splits if_splits)

lemma issued_row_slot: "issued_row E c r \<Longrightarrow> ci_slot_number r = Some slot \<Longrightarrow> unat slot < 2 ^ 63"
  unfolding issued_row_def by (metis stored_slot_small)

lemma create_constraints_ok:
  assumes "db_healthy E" "scan_law E" "db_sound E c (w_db w)" "unat slot < 2 ^ 63"
  shows "\<exists>cs hs. create_constraints_from_commitments E slot committer w = (Inr (cs, hs), tick w)
    \<and> (cs = [] \<longleftrightarrow> hs = [])
    \<and> (\<forall>r \<in> set (db_commitments (w_db w)). due_for slot committer r \<longrightarrow> \<not> ci_constraint_processed r \<longrightarrow>
         ci_request_hash r \<in> set hs)"
proof -
  obtain scs where scs: "get_unprocessed_commitments_for_slot E slot w = (Inr scs, tick w)"
    and all: "\<forall>r \<in> set (db_commitments (w_db w)). ci_slot_number r = Some slot \<longrightarrow> \<not> ci_constraint_processed r \<longrightarrow>
         (\<exists>sc \<in> set scs. commitment_of_row r = Inr sc)"
    using get_unprocessed_ok [OF assms] by blast
  let ?conv = "filter (convertible committer) scs"
  have "create_constraints_from_commitments E slot committer w
      = (Inr (map (\<lambda>sc. from_inclusion_commitment (co_payload (sg_commitment sc))) ?conv,
          map (\<lambda>sc. co_request_hash (sg_commitment sc)) ?conv), tick w)"
    using scs by (simp add: create_constraints_from_commitments_def io_bind_def io_context_def io_map_err_def
        convert_commitments_filter io_return_def)
  moreover have "ci_request_hash r \<in> set (map (\<lambda>sc. co_request_hash (sg_commitment sc)) ?conv)"
    if r: "r \<in> set (db_commitments (w_db w))" "due_for slot committer r" "\<not> ci_constraint_processed r" for r
  proof -
    obtain sc where sc: "sc \<in> set scs" "commitment_of_row r = Inr sc" using all r by (auto simp: due_for_def)
    have "issued_row E c r" using assms(3) r(1) by (simp add: db_sound_def list_all_iff)
    from issued_row_type [OF this sc(2)] r(2)
    have "convertible committer sc" "co_request_hash (sg_commitment sc) = ci_request_hash r"
      by (simp_all add: convertible_def due_for_def)
    then show ?thesis using sc(1) by force
  qed
  ultimately show ?thesis by simp
qed

lemma processed_same: "ci_constraint_processed r \<Longrightarrow> r\<lparr>ci_constraint_processed := True\<rparr> = (r :: commitment_row)"
  by simp

lemma process_delegation_ok:
  assumes "db_healthy E" "scan_law E" "relay_accepts E c" "db_sound E c (w_db w)" "unat slot < 2 ^ 63"
  shows "\<exists>w'. process_delegation_constraints E c bm d slot w = (Inr (), w')
    \<and> (\<forall>r \<in> set (db_commitments (w_db w)). due_for slot (dm_committer (sd_message d)) r \<longrightarrow>
         r\<lparr>ci_constraint_processed := True\<rparr> \<in> set (db_commitments (w_db w')))"
proof -
  let ?a = "dm_committer (sd_message d)"
  obtain cs hs where create: "create_constraints_from_commitments E slot ?a w = (Inr (cs, hs), tick w)"
    and empty: "cs = [] \<longleftrightarrow> hs = []"
    and hash: "\<forall>r \<in> set (db_commitments (w_db w)). due_for slot ?a r \<longrightarrow> \<not> ci_constraint_processed r \<longrightarrow>
         ci_request_hash r \<in> set hs"
    using create_constraints_ok [OF assms(1,2,4,5)] by blast
  have mark: "mark_row hs r = r\<lparr>ci_constraint_processed := True\<rparr>"
    if "r \<in> set (db_commitments (w_db w))" "due_for slot ?a r" for r
    using hash that processed_same unfolding mark_row_def by metis
  have marked: "r\<lparr>ci_constraint_processed := True\<rparr> \<in> set (db_commitments (snd (mark_processed hs (w_db w))))"
    if "r \<in> set (db_commitments (w_db w))" "due_for slot ?a r" for r
    using mark [OF that] that(1) by (force simp: mark_processed_def)
  show ?thesis
  proof (cases "hs = []")
    case True
    then have "process_delegation_constraints E c bm d slot w = (Inr (), tick w)"
      using empty by (simp add: process_delegation_constraints_def io_bind_def create io_return_def)
    then show ?thesis using marked unfolding True mark_processed_none by auto
  next
    case False
    obtain sc where sc: "sign_for_delegation E c bm d slot cs = Inr sc"
      using sign_for_delegation_ok [OF assms(3)] by blast
    obtain st w1 where sub: "submit_constraints E (cf_constraints_api c) sc (tick w) = (Inr st, w1)"
      using submit_constraints_ok [OF assms(3)] by blast
    have db1: "w_db w1 = w_db w" using same_db_D [OF same_db.submit_constraints_obeys sub] by simp
    have "process_delegation_constraints E c bm d slot w
        = (Inr (), (tick w1)\<lparr>w_db := snd (mark_processed hs (w_db w1))\<rparr>)"
      using False empty by (simp add: process_delegation_constraints_def io_bind_def create io_res_def sc io_context_def
          io_map_err_def sub mark_commitments_as_processed_def sql_ok [OF assms(1)] mark_processed_def io_return_def)
    then show ?thesis using marked by (simp add: db1)
  qed
qed

section \<open>The delegations of a slot\<close>

text \<open>The delegation that makes a commitment of a slot due: active, to this gateway, of this committer.\<close>

definition serves :: "env \<Rightarrow> config \<Rightarrow> db \<Rightarrow> u64 \<Rightarrow> string \<Rightarrow> bool" where
  "serves E c d slot committer =
     (\<exists>row \<in> set (db_delegations d). dr_slot_number row = slot \<and> dr_is_active row
        \<and> dr_committer_address row = committer
        \<and> dr_delegate_pubkey row = pubkey_to_bytes (blst_of E) (sk_bls_public_key (cf_signing c)))"

definition processed_in :: "commitment_row \<Rightarrow> world \<Rightarrow> bool" where
  "processed_in r w = (r\<lparr>ci_constraint_processed := True\<rparr> \<in> set (db_commitments (w_db w)))"

lemma processed_marked:
  assumes "marked_from u v" "processed_in r u"
  shows "processed_in r v"
proof -
  obtain hs where "w_db v = snd (mark_processed hs (w_db u))"
    using assms(1) unfolding marked_from_def by blast
  then have "db_commitments (w_db v) = map (mark_row hs) (db_commitments (w_db u))"
    by (simp add: mark_processed_def)
  moreover have "mark_row hs (r\<lparr>ci_constraint_processed := True\<rparr>) = r\<lparr>ci_constraint_processed := True\<rparr>"
    by (simp add: mark_row_def)
  ultimately show ?thesis using assms(2) unfolding processed_in_def by (metis image_eqI set_map)
qed

lemma delegation_step_marked: "obeys marked_from (delegation_step E c bm slot d u)"
  unfolding delegation_step_def by (intro pres marked_from.process_delegation_obeys mark_marked)

lemma delegation_step_runs: "\<exists>v'. delegation_step E c bm slot d u v = (Inr (), v')"
  by (simp add: delegation_step_def io_return_def io_match_def split: prod.split)

lemma delegation_step_processes:
  assumes "db_healthy E" "scan_law E" "relay_accepts E c" "db_sound E c (w_db v)"
    and "is_ours E c d" "due_for slot (dm_committer (sd_message d)) r" "unat slot < 2 ^ 63"
    and "r \<in> set (db_commitments (w_db v)) \<or> processed_in r v"
  shows "processed_in r (snd (delegation_step E c bm slot d u v))"
proof -
  have "r \<in> set (db_commitments (w_db v)) \<Longrightarrow> processed_in r (snd (delegation_step E c bm slot d u v))"
    using process_delegation_ok [OF assms(1-4,7), of bm d] assms(5,6)
    by (auto simp: delegation_step_def io_match_def io_return_def processed_in_def)
  moreover have "marked_from v (snd (delegation_step E c bm slot d u v))"
    using delegation_step_marked by (simp add: obeys_def)
  ultimately show ?thesis using assms(8) processed_marked by blast
qed

lemma process_slot_ok:
  assumes "db_healthy E" "scan_law E" "relay_accepts E c" "db_sound E c (w_db w)"
    and "serves E c (w_db w) slot committer" "due_for slot committer r" "unat slot < 2 ^ 63"
    and "r \<in> set (db_commitments (w_db w)) \<or> processed_in r w"
  shows "processed_in r (snd (process_constraints_for_slot E c bm slot w))"
proof -
  have v: "list_all (verified_row E) (db_delegations (w_db w))" using assms(4) by (simp add: db_sound_def)
  obtain ds where ds: "get_delegations_for_slot E slot w = (Inr ds, tick w)"
    and all: "\<forall>r \<in> set (db_delegations (w_db w)). dr_slot_number r = slot \<longrightarrow> dr_is_active r \<longrightarrow>
         (\<exists>d \<in> set ds. delegation_of_row r = Inr d)"
    using get_delegations_ok [OF assms(1,2) v] by blast
  obtain row where row: "row \<in> set (db_delegations (w_db w))" "dr_slot_number row = slot" "dr_is_active row"
    "dr_committer_address row = committer"
    "dr_delegate_pubkey row = pubkey_to_bytes (blst_of E) (sk_bls_public_key (cf_signing c))"
    using assms(5) by (auto simp: serves_def)
  then obtain d where d: "d \<in> set ds" "delegation_of_row row = Inr d" using all by blast
  then have ours: "is_ours E c d" "dm_committer (sd_message d) = committer"
    using row by (simp_all add: is_ours_def delegation_of_row_Inr)
  have ne: "ds \<noteq> []" using d(1) by auto
  have "\<exists>s' w'. io_fold (delegation_step E c bm slot) ds () (tick w) = (Inr s', w') \<and> (d \<in> set ds \<longrightarrow> processed_in r w')"
  proof (rule marked_from.fold_reaches [where w = w])
    fix u v assume m: "marked_from w v"
    have "r \<in> set (db_commitments (w_db v)) \<or> processed_in r v"
      using assms(8) marked_from_frame(3) [OF m] processed_marked [OF m] by (auto simp: processed_in_def)
    then show "processed_in r (snd (delegation_step E c bm slot d u v))"
      using assms(6) ours by (intro delegation_step_processes assms marked_from_frame(2) [OF m]) auto
  qed (auto intro: delegation_step_marked delegation_step_runs processed_marked marked_from.quiet)
  then show ?thesis
    using d(1) ne by (auto simp: process_constraints_for_slot_def io_bind_def io_context_def io_map_err_def ds)
qed

section \<open>The round\<close>

lemma pending_step_marked: "obeys marked_from (pending_step E c bm slot u)"
  unfolding pending_step_def by (intro pres marked_from.process_slot_obeys mark_marked)

lemma pending_step_runs: "\<exists>v'. pending_step E c bm slot u v = (Inr (), v')"
  by (simp add: pending_step_def io_bind_def io_now_def io_match_def io_return_def split: prod.split)

text \<open>The clock stays within the window of the slot.\<close>

definition in_window :: "env \<Rightarrow> config \<Rightarrow> u64 \<Rightarrow> bool" where
  "in_window E c slot = (\<forall>n. is_within_constraint_window (e_now E n) (ba_genesis_time (cf_beacon_api c)) slot)"

lemma round_processes:
  assumes "db_healthy E" "scan_law E" "relay_accepts E c" "db_sound E c (w_db w)"
    and "serves E c (w_db w) slot committer" "due_for slot committer r" "in_window E c slot"
    and "slot \<in> set (pending_slots (current_slot_estimate (e_now E (w_tick w)) (ba_genesis_time (cf_beacon_api c))))"
    and "r \<in> set (db_commitments (w_db w))"
  shows "\<exists>w'. process_pending_constraints E c bm w = (Inr (), w') \<and> processed_in r w'"
proof -
  let ?slots = "pending_slots (current_slot_estimate (e_now E (w_tick w)) (ba_genesis_time (cf_beacon_api c)))"
  have small: "unat slot < 2 ^ 63"
    using assms(4,6,9) issued_row_slot by (auto simp: db_sound_def list_all_iff due_for_def)
  have "\<exists>s' w'. io_fold (pending_step E c bm) ?slots () (tick w) = (Inr s', w')
      \<and> (slot \<in> set ?slots \<longrightarrow> processed_in r w')"
  proof (rule marked_from.fold_reaches [where w = w])
    fix u v assume m: "marked_from w v"
    let ?v = "tick v"
    have mt: "marked_from w ?v" using m by (simp add: marked_from_def)
    have "processed_in r (snd (process_constraints_for_slot E c bm slot ?v))"
    proof (rule process_slot_ok [OF assms(1-3) marked_from_frame(2) [OF mt assms(4)] _ assms(6) small])
      show "serves E c (w_db ?v) slot committer"
        using assms(5) unfolding serves_def marked_from_frame(1) [OF mt] .
      show "r \<in> set (db_commitments (w_db ?v)) \<or> processed_in r ?v"
        using marked_from_frame(3) [OF mt assms(9)] by (auto simp: processed_in_def)
    qed
    then show "processed_in r (snd (pending_step E c bm slot u v))"
      using assms(7) by (simp add: pending_step_def io_bind_def io_now_def io_match_def io_return_def in_window_def
          split_beta)
  qed (auto intro: pending_step_marked pending_step_runs processed_marked marked_from.quiet)
  then show ?thesis
    using assms(8) by (simp add: process_pending_constraints_def io_bind_def io_now_def)
qed

end
