(* ===== verification/Polling_Progress.thy ===== *)
theory Polling_Progress
  imports Liveness
begin

text \<open>
  Progress of the delegation service: polling a slot stores a delegation the relay offers when it is
  verified, to this gateway and of an eligible proposer. The batch is one transaction, so every
  delegation saved with it has to pass the checks of the table.
\<close>

section \<open>The status of the proposer\<close>

text \<open>
  The primary beacon endpoint knows the validator, and every answer of any endpoint about it, also
  those that are cached, says that it is eligible.
\<close>

definition validator_ok :: "env \<Rightarrow> config \<Rightarrow> bls_public_key \<Rightarrow> bool" where
  "validator_ok E c k =
     ((\<forall>n. \<exists>resp data info. e_http E n (HttpGet (join_url (ba_primary_endpoint (cf_beacon_api c))
            (validator_path (hash_of E) k))) = Some resp
         \<and> hr_status resp = 200 \<and> json_validator (json_of E) (hr_body resp) = Some data
         \<and> parse_validator_info (vr_data data) = Inr info)
      \<and> (\<forall>info. status_answer E (cf_beacon_api c) k info \<longrightarrow> is_eligible info))"

lemma cache_get_status_ok:
  assumes "cache_law E" "cache_sound E (cf_beacon_api c) w" "validator_ok E c k"
  shows "\<exists>info w'. cache_get_status E (cf_beacon_api c) k w = (Inr info, w') \<and> is_eligible info"
proof -
  obtain x w' where g: "cache_get_status E (cf_beacon_api c) k w = (x, w')" by force
  have "\<exists>info. x = Inr info"
  proof (cases "e_cache E (w_tick w) (w_cache w) k")
    case None
    obtain resp data info where "e_http E (Suc (w_tick w)) (HttpGet (join_url (ba_primary_endpoint (cf_beacon_api c))
          (validator_path (hash_of E) k))) = Some resp"
      "hr_status resp = 200" "json_validator (json_of E) (hr_body resp) = Some data"
      "parse_validator_info (vr_data data) = Inr info"
      using assms(3) unfolding validator_ok_def by blast
    then show ?thesis
      using g None by (auto simp: cache_get_status_def io_bind_def io_cache_get_def get_validator_status_def
          try_endpoints_def io_match_def make_request_def reqwest_get_def Let_def io_context_def io_map_err_def io_http_def io_res_def
          io_return_def io_cache_insert_def Let_def) metis
  qed (use g in \<open>auto simp: cache_get_status_def io_bind_def io_cache_get_def io_return_def\<close>)
  then show ?thesis
    using g cache_get_status_sound [OF assms(1,2) g] assms(3) by (auto simp: validator_ok_def)
qed

text \<open>The filter keeps every delegation of an eligible proposer and adds none.\<close>

lemma filter_fold_ok:
  assumes "cache_law E" "cache_sound E (cf_beacon_api c) w"
  shows "\<exists>ds' n' w'. io_fold (filter_step E (cf_beacon_api c)) xs (acc, n) w = (Inr (ds', n'), w')
    \<and> set acc \<subseteq> set ds' \<and> set ds' \<subseteq> set acc \<union> set xs \<and> length ds' \<le> length acc + length xs
    \<and> (\<forall>d \<in> set xs. validator_ok E c (dm_proposer (sd_message d)) \<longrightarrow> d \<in> set ds')"
  using assms(2)
proof (induction xs arbitrary: acc n w)
  case (Cons x xs)
  obtain r w1 where g: "cache_get_status E (cf_beacon_api c) (dm_proposer (sd_message x)) w = (r, w1)" by force
  have cs: "cache_sound E (cf_beacon_api c) w1" using cache_get_status_sound [OF assms(1) Cons.prems g] by simp
  obtain acc1 n1 where s: "filter_step E (cf_beacon_api c) x (acc, n) w = (Inr (acc1, n1), w1)"
    and a: "set acc \<subseteq> set acc1" "set acc1 \<subseteq> insert x (set acc)" "length acc1 \<le> Suc (length acc)"
      "validator_ok E c (dm_proposer (sd_message x)) \<Longrightarrow> x \<in> set acc1"
  proof -
    have "\<exists>acc1 n1. filter_step E (cf_beacon_api c) x (acc, n) w = (Inr (acc1, n1), w1)
      \<and> set acc \<subseteq> set acc1 \<and> set acc1 \<subseteq> insert x (set acc) \<and> length acc1 \<le> Suc (length acc)
      \<and> (validator_ok E c (dm_proposer (sd_message x)) \<longrightarrow> x \<in> set acc1)"
      using g cache_get_status_ok [OF assms(1) Cons.prems, of "dm_proposer (sd_message x)"]
      by (auto simp: filter_step_def io_match_def io_return_def split: sum.split)
    then show thesis using that by blast
  qed
  obtain ds' n' w' where rest: "io_fold (filter_step E (cf_beacon_api c)) xs (acc1, n1) w1 = (Inr (ds', n'), w')"
    "set acc1 \<subseteq> set ds'" "set ds' \<subseteq> set acc1 \<union> set xs" "length ds' \<le> length acc1 + length xs"
    "\<forall>d \<in> set xs. validator_ok E c (dm_proposer (sd_message d)) \<longrightarrow> d \<in> set ds'"
    using Cons.IH [OF cs, of acc1 n1] by blast
  have "length ds' \<le> length acc + length (x # xs)" using rest(4) a(3) by simp
  moreover have "set ds' \<subseteq> set acc \<union> set (x # xs)" "set acc \<subseteq> set ds'" using rest a by auto
  moreover have "\<forall>d \<in> set (x # xs). validator_ok E c (dm_proposer (sd_message d)) \<longrightarrow> d \<in> set ds'"
    using rest(2,5) a(4) by auto
  ultimately show ?case using s rest(1) by (auto simp: io_bind_def)
qed (simp add: io_return_def)

lemma filter_eligible_same_db: "obeys same_db (filter_eligible_delegations E c ds)"
  unfolding filter_eligible_delegations_def filter_step_def split_beta by (intro pres)

section \<open>The batch\<close>

text \<open>What the table asks of a delegation, whatever its id.\<close>

definition storable :: "signed_delegation \<Rightarrow> bool" where
  "storable d = delegation_check (delegation_row_of 0 d)"

definition row_key :: "signed_delegation \<Rightarrow> bytes \<times> i64" where
  "row_key d = (pk_bytes (dm_proposer (sd_message d)), dm_slot (sd_message d))"

lemma delegation_row_facts:
  "delegation_check (delegation_row_of uid d) = storable d"
  "delegation_key (delegation_row_of uid d) = row_key d"
  "dr_id (delegation_row_of uid d) = uid"
  by (simp_all add: storable_def delegation_check_def delegation_row_of_def delegation_key_def row_key_def)

text \<open>The identifiers drawn in the next \<open>k\<close> interactions are new and different.\<close>

definition fresh_ids :: "env \<Rightarrow> nat \<Rightarrow> world \<Rightarrow> bool" where
  "fresh_ids E k w = (inj_on (e_uuid E) {w_tick w ..< w_tick w + k}
     \<and> (\<forall>n \<in> {w_tick w ..< w_tick w + k}. e_uuid E n \<notin> dr_id ` set (db_delegations (w_db w))))"

lemma insert_in_batch_ok:
  assumes "db_healthy E" "fresh_ids E (Suc (Suc k)) w" "storable d"
  shows "\<exists>ids' w'. insert_in_batch E d ids w = (Inr ids', w') \<and> fresh_ids E k w'
    \<and> set (db_delegations (w_db w)) \<subseteq> set (db_delegations (w_db w'))
    \<and> set (db_delegations (w_db w')) \<subseteq> set (db_delegations (w_db w)) \<union> range (\<lambda>uid. delegation_row_of uid d)
    \<and> row_key d \<in> delegation_key ` set (db_delegations (w_db w'))"
proof -
  let ?uid = "e_uuid E (w_tick w)"
  let ?r = "delegation_row_of ?uid d"
  obtain b d' where i: "insert_delegation_on_conflict ?r (w_db w) = (Inr b, d')"
    using assms(2,3) by (cases "row_key d \<in> delegation_key ` set (db_delegations (w_db w))")
      (auto simp: insert_delegation_on_conflict_def delegation_row_facts fresh_ids_def)
  have run: "insert_in_batch E d ids w
      = (Inr (if b then ids @ [?uid] else ids), (tick (tick w))\<lparr>w_db := d'\<rparr>)"
    using i by (simp add: insert_in_batch_def io_bind_def io_uuid_def io_context_def io_map_err_def
        sql_ok [OF assms(1)] io_return_def)
  have id: "e_uuid E n \<noteq> ?uid" if "w_tick w < n" "n < Suc (Suc (w_tick w + k))" for n
    using that assms(2) by (auto simp: fresh_ids_def dest: inj_onD [of _ _ n "w_tick w"])
  have "fresh_ids E k ((tick (tick w))\<lparr>w_db := d'\<rparr>)"
    using i assms(2) id unfolding fresh_ids_def
    by (auto simp: insert_delegation_on_conflict_Inr delegation_row_facts intro: inj_on_subset split: if_splits)
  then show ?thesis
    using i unfolding run
    by (auto simp: insert_delegation_on_conflict_Inr delegation_row_facts split: if_splits)
qed

lemma insert_fold_ok:
  assumes "db_healthy E" "fresh_ids E (2 * length ds) w" "list_all storable ds"
  shows "\<exists>ids' w'. io_fold (insert_in_batch E) ds ids w = (Inr ids', w')
    \<and> set (db_delegations (w_db w)) \<subseteq> set (db_delegations (w_db w'))
    \<and> set (db_delegations (w_db w')) \<subseteq> set (db_delegations (w_db w)) \<union> (\<Union>d \<in> set ds. range (\<lambda>uid. delegation_row_of uid d))
    \<and> row_key ` set ds \<subseteq> delegation_key ` set (db_delegations (w_db w'))"
  using assms(2,3)
proof (induction ds arbitrary: ids w)
  case (Cons d ds)
  have "storable d" "fresh_ids E (Suc (Suc (2 * length ds))) w" using Cons.prems by simp_all
  then obtain ids1 w1 where 1: "insert_in_batch E d ids w = (Inr ids1, w1)" "fresh_ids E (2 * length ds) w1"
    "set (db_delegations (w_db w)) \<subseteq> set (db_delegations (w_db w1))"
    "set (db_delegations (w_db w1)) \<subseteq> set (db_delegations (w_db w)) \<union> range (\<lambda>uid. delegation_row_of uid d)"
    "row_key d \<in> delegation_key ` set (db_delegations (w_db w1))"
    using insert_in_batch_ok [OF assms(1)] by blast
  obtain ids' w' where 2: "io_fold (insert_in_batch E) ds ids1 w1 = (Inr ids', w')"
    "set (db_delegations (w_db w1)) \<subseteq> set (db_delegations (w_db w'))"
    "set (db_delegations (w_db w')) \<subseteq> set (db_delegations (w_db w1)) \<union> (\<Union>d \<in> set ds. range (\<lambda>uid. delegation_row_of uid d))"
    "row_key ` set ds \<subseteq> delegation_key ` set (db_delegations (w_db w'))"
    using Cons.IH [OF 1(2)] Cons.prems(2) by fastforce
  have "row_key d \<in> delegation_key ` set (db_delegations (w_db w'))" using 1(5) 2(2) by blast
  then show ?case using 1(1,3,4) 2 by (auto simp: io_bind_def)
qed (simp add: io_return_def)

lemma save_batch_ok:
  assumes "db_healthy E" "fresh_ids E (2 * length ds) (tick w)"
    and "list_all storable ds" "list_all (is_verified E) ds"
  shows "\<exists>ids w'. save_delegations_batch E ds w = (Inr ids, w')
    \<and> set (db_delegations (w_db w)) \<subseteq> set (db_delegations (w_db w'))
    \<and> set (db_delegations (w_db w')) \<subseteq> set (db_delegations (w_db w)) \<union> (\<Union>d \<in> set ds. range (\<lambda>uid. delegation_row_of uid d))
    \<and> row_key ` set ds \<subseteq> delegation_key ` set (db_delegations (w_db w'))"
proof -
  have n: "e_fault E n = NoFault" for n using assms(1) by (simp add: db_healthy_def)
  have checks: "io_for ds (\<lambda>d. io_res (check_delegation E d)) w = (Inr (map (\<lambda>_. ()) ds), w)"
    using assms(4)
  proof (induction ds)
    case (Cons d ds)
    then have "check_delegation E d = Inr ()" by (simp add: check_delegation_Inr is_verified_def)
    then show ?case using Cons by (simp add: io_bind_def io_res_def io_return_def)
  qed (simp add: io_return_def)
  from insert_fold_ok [OF assms(1-3), of "[]"] obtain ids w1 where
    f: "io_fold (insert_in_batch E) ds [] (tick w) = (Inr ids, w1)"
    "set (db_delegations (w_db w)) \<subseteq> set (db_delegations (w_db w1))"
    "set (db_delegations (w_db w1)) \<subseteq> set (db_delegations (w_db w)) \<union> (\<Union>d \<in> set ds. range (\<lambda>uid. delegation_row_of uid d))"
    "row_key ` set ds \<subseteq> delegation_key ` set (db_delegations (w_db w1))"
    by auto
  then have "save_delegations_batch E ds w = (Inr ids, tick w1)"
    by (simp add: save_delegations_batch_def io_bind_def checks sql_transaction_def n)
  then show ?thesis using f by simp
qed

section \<open>A slot\<close>

text \<open>The relay answers every request for the delegations of the slot with this list.\<close>

definition relay_offers :: "env \<Rightarrow> config \<Rightarrow> u64 \<Rightarrow> signed_delegation list \<Rightarrow> bool" where
  "relay_offers E c slot ds =
     (\<forall>n. \<exists>resp. e_http E n (HttpGet (build_url (cf_constraints_api c) (delegations_path slot))) = Some resp
        \<and> hr_status resp = 200 \<and> json_delegations (json_of E) (hr_body resp) = Some ds)"

lemma relay_get_ok:
  assumes "relay_offers E c slot ds"
  shows "\<exists>w'. relay_get_delegations E (cf_constraints_api c) slot w = (Inr ds, w')
    \<and> w_db w' = w_db w \<and> w_cache w' = w_cache w"
proof -
  obtain resp where "e_http E (w_tick w) (HttpGet (build_url (cf_constraints_api c) (delegations_path slot))) = Some resp"
    "hr_status resp = 200" "json_delegations (json_of E) (hr_body resp) = Some ds"
    using assms unfolding relay_offers_def by blast
  then show ?thesis
    by (simp add: relay_get_delegations_def io_bind_def io_context_def io_map_err_def io_http_def io_res_def Let_def)
qed

lemma filter_eligible_ok:
  assumes "cache_law E" "cache_sound E (cf_beacon_api c) w"
    and "d \<in> set xs" "validator_ok E c (dm_proposer (sd_message d))"
  shows "\<exists>es n w'. filter_eligible_delegations E (cf_beacon_api c) xs w = (Inr (es, n), w')
    \<and> w_db w' = w_db w \<and> set es \<subseteq> set xs \<and> length es \<le> length xs \<and> d \<in> set es"
proof -
  obtain es n w' where f: "filter_eligible_delegations E (cf_beacon_api c) xs w = (Inr (es, n), w')"
    "set es \<subseteq> set xs" "length es \<le> length xs" "d \<in> set es"
    using filter_fold_ok [OF assms(1,2), of xs "[]" 0] assms(3,4)
    by (auto simp: filter_eligible_delegations_def)
  then show ?thesis using same_db_D [OF filter_eligible_same_db f(1)] by blast
qed

lemma poll_slot_stores:
  assumes "db_healthy E" "\<forall>n. inj_on (e_uuid E) {n ..< n + 2 * length ds}"
    and "\<forall>n. e_uuid E n \<notin> dr_id ` set (db_delegations (w_db w))"
    and "cache_law E" "cache_sound E (cf_beacon_api c) w"
    and "relay_offers E c slot ds" "list_all storable ds"
    and d: "d \<in> set ds" "is_ours E c d" "is_verified E d" "validator_ok E c (dm_proposer (sd_message d))"
  shows "\<exists>k w'. poll_delegations_for_slot E c slot w = (Inr k, w')
    \<and> (\<exists>row \<in> set (db_delegations (w_db w')). delegation_key row = row_key d
         \<and> (row \<in> set (db_delegations (w_db w)) \<or> (\<exists>uid. \<exists>d' \<in> set ds. row = delegation_row_of uid d')))"
proof -
  let ?ours = "\<lambda>d. pk_bytes (dm_delegate (sd_message d)) = pubkey_to_bytes (blst_of E) (sk_bls_public_key (cf_signing c))"
  let ?xs = "filter (is_verified E) (filter ?ours ds)"
  have dx: "d \<in> set ?xs" "length ?xs \<le> length ds"
    using d le_trans [OF length_filter_le length_filter_le] by (simp_all add: is_ours_def)
  obtain w1 where g: "relay_get_delegations E (cf_constraints_api c) slot w = (Inr ds, w1)"
    and w1: "w_db w1 = w_db w" "w_cache w1 = w_cache w" using relay_get_ok [OF assms(6)] by blast
  have "cache_sound E (cf_beacon_api c) w1" using assms(5) w1 by (simp add: cache_sound_def)
  from filter_eligible_ok [OF assms(4) this dx(1) d(4)] obtain es n w2 where
    f: "filter_eligible_delegations E (cf_beacon_api c) ?xs w1 = (Inr (es, n), w2)"
    and es: "set es \<subseteq> set ?xs" "length es \<le> length ?xs" "d \<in> set es" and db2: "w_db w2 = w_db w"
    using w1 by auto
  have ok: "list_all storable es" "list_all (is_verified E) es" using es(1) assms(7) by (auto simp: list_all_iff)
  have "inj_on (e_uuid E) {w_tick (tick w2) ..< w_tick (tick w2) + 2 * length es}"
    using le_trans [OF es(2) dx(2)] by (intro inj_on_subset [OF spec [OF assms(2), of "w_tick (tick w2)"]]) auto
  then have "fresh_ids E (2 * length es) (tick w2)" using assms(3) db2 by (simp add: fresh_ids_def)
  from save_batch_ok [OF assms(1) this ok] obtain ids w3 where s: "save_delegations_batch E es w2 = (Inr ids, w3)"
    "set (db_delegations (w_db w3)) \<subseteq> set (db_delegations (w_db w)) \<union> (\<Union>d \<in> set es. range (\<lambda>uid. delegation_row_of uid d))"
    "row_key ` set es \<subseteq> delegation_key ` set (db_delegations (w_db w3))"
    using db2 by auto
  have ne: "ds \<noteq> []" "filter ?ours ds \<noteq> []" "?xs \<noteq> []" "es \<noteq> []"
    using dx(1) es(3) d(1) by (auto simp: filter_empty_conv)
  have run: "poll_delegations_for_slot E c slot w = (Inr (length ids), w3)"
    by (simp add: poll_delegations_for_slot_def io_bind_def io_context_def io_map_err_def io_return_def Let_def
        g f s(1) ne del: filter_filter)
  obtain row where row: "row \<in> set (db_delegations (w_db w3))" "delegation_key row = row_key d"
    using s(3) es(3) by force
  then have "row \<in> set (db_delegations (w_db w)) \<or> (\<exists>uid. \<exists>d' \<in> set ds. row = delegation_row_of uid d')"
    using s(2) es(1) by fastforce
  then show ?thesis using run row by blast
qed

end
