(* ===== verification/Props_Progress.thy ===== *)
theory Props_Progress
  imports Samples Submission_Progress Polling_Progress
begin

text \<open>
  Properties of progress: what the gateway is certain to do when the outside answers, for a
  request, for a round of the constraints service and for polling a slot.
\<close>

text \<open>
  C3: a valid request is answered: when the database, the beacon node and the Reth node answer, the
  first checks pass, a delegation of the scheduled proposer is stored for the gateway's committer, the
  hash is new and the price fits, \<open>commitmentRequest\<close> returns a commitment for exactly this request,
  signed with the gateway's key, and has stored it.
\<close>

theorem valid_request_is_answered:
  assumes "outside_works E c (kr_slot k) proposer price" "db_sound E c (w_db w)"
    and "bls_manager_new (hash_of E) (dc_domain_application_gateway (cf_delegation c)) = Inr bm"
    and "stage_validate E c params = Inr k" "admissible E c k proposer (w_db w)"
    and "congestion_ready E c (kr_slot k) (w_db w)"
    and "estimate_gas_for_commitment (payload_of E) 1 (cr_payload (kr_request k)) = Inr gas"
    and "payable c (kr_slot k) price (unat gas) (w_db w)"
  shows "\<exists>sc w'. commitment_request_handler E c params w = (Inr sc, w')
    \<and> sg_commitment sc = commitment_of_request k \<and> properly_signed E c sc \<and> stored (w_db w') sc"
proof -
  obtain sc w' where h: "commitment_request_handler E c params w = (Inr sc, w')"
    using handler_answers [OF assms] by blast
  then obtain k' u w1 w2 u' w3 g w4 u'' where s:
    "stage_validate E c params = Inr k'" "stage_exists E k' w = (Inr u, w1)"
    "stage_authority E c k' w1 = (Inr sc, w2)" "stage_save E sc w2 = (Inr u', w3)"
    "stage_fee E c k' w3 = (Inr g, w4)" "stage_gas E c k' g w4 = (Inr u'', w')"
    by (rule handler_Inr)
  have "k' = k" using s(1) assms(4) by simp
  then have "sg_commitment sc = commitment_of_request k" "properly_signed E c sc"
    using authority_issuable [OF s(1,3)] by (simp_all add: issuable_def)
  moreover have "stored (w_db w') sc"
    using saved_is_stored [OF s(4)] changes_kept [OF obeysD [OF stage_fee_changes s(5)]]
      changes_kept [OF obeysD [OF stage_gas_changes s(6)]] stored_kept by blast
  ultimately show ?thesis using h by blast
qed

lemma sample_works: "outside_works sample_env sample_config 100 (BlsPublicKey proposer_key) 100"
proof -
  have h: "e_http sample_env n req = Some \<lparr>hr_status = 200, hr_body = []\<rparr>" for n req
    by (simp add: sample_env_def)
  have "\<exists>duties duty. json_duties (json_of sample_env) [] = Some duties
      \<and> find_duty 100 (pd_data duties) = Inr (Some duty)
      \<and> parse_pubkey (hash_of sample_env) duty = Inr (BlsPublicKey proposer_key)"
  proof -
    let ?duty = "\<lparr>vd_validator_index = ''5'', vd_pubkey = ''0x'' @ sample_hex_encode proposer_key, vd_slot = ''100''\<rparr>"
    have "json_duties (json_of sample_env) []
        = Some \<lparr>pd_execution_optimistic = False, pd_finalized = True, pd_data = [?duty]\<rparr>"
      "find_duty 100 [?duty] = Inr (Some ?duty)" "parse_pubkey (hash_of sample_env) ?duty = Inr (BlsPublicKey proposer_key)"
      by code_simp+
    then show ?thesis by fastforce
  qed
  then have "beacon_names sample_env sample_config 100 (BlsPublicKey proposer_key)"
    by (simp add: beacon_names_def h)
  moreover have "reth_quotes sample_env sample_config 100"
  proof -
    have "rc_max_retries (cf_reth sample_config) \<noteq> 0"
      "json_rpc (json_of sample_env) [] = Some \<lparr>jr_has_error = False, jr_result_str = Some ''0x64''\<rparr>"
      "u256_from_hex (json_of sample_env) (strip_0x ''0x64'') = Some 100"
      by code_simp+
    then show ?thesis by (simp add: reth_quotes_def h)
  qed
  moreover have "hash_of sample_env = sample_hash" "secp_of sample_env = sample_secp"
    by (simp_all add: sample_crates_def)
  ultimately show ?thesis
    by (simp add: outside_works_def sample_scan_law sample_hex_laws sample_keccak_laws sample_secp_laws db_healthy_def)
qed

lemma sample_domain:
  "\<exists>bm. bls_manager_new (hash_of sample_env) (dc_domain_application_gateway (cf_delegation sample_config)) = Inr bm"
proof -
  have "bls_manager_new (hash_of sample_env) (dc_domain_application_gateway (cf_delegation sample_config)) = Inr sample_bm"
    by code_simp
  then show ?thesis ..
qed

lemma sample_admissible: "admissible sample_env sample_config sample_checked (BlsPublicKey proposer_key) sample_db"
proof -
  have k: "kr_slot sample_checked = 100" "cr_slasher (kr_request sample_checked) = sample_address"
    by (simp_all add: sample_checked_def sample_request_def)
  have "delegated sample_db 100 sample_address (BlsPublicKey proposer_key)" by code_simp
  moreover have "normalize_address sample_address = normalize_address (sk_committer_address (cf_signing sample_config))"
    by code_simp
  ultimately show ?thesis
    using sample_signed_formats by (simp add: admissible_def k sample_db_def empty_db_def)
qed

lemma sample_fee_config: "fee_config_ok (rc_fee_config (cf_reth sample_config))"
  unfolding fee_config_ok_def by code_simp

theorem valid_request_is_answered_witness:
  "\<exists>sc w'. commitment_request_handler sample_env sample_config (Some sample_request) sample_world = (Inr sc, w')
     \<and> sg_commitment sc = commitment_of_request sample_checked \<and> stored (w_db w') sc"
proof -
  have db: "w_db sample_world = sample_db" by (simp add: sample_world_def)
  have s: "kr_slot sample_checked = 100" by (simp add: sample_checked_def)
  have none: "db_congestion sample_db = []" "db_congestion_seq sample_db = 0"
    by (simp_all add: sample_db_def empty_db_def)
  have ready: "congestion_ready sample_env sample_config (kr_slot sample_checked) (w_db sample_world)"
    by (simp add: congestion_ready_def Let_def db s none sample_numbers)
  have pay: "payable sample_config (kr_slot sample_checked) 100 (unat (31048 :: u64)) (w_db sample_world)"
    by (simp add: payable_def db none sample_fee_config price_fits_def)
  have gas: "estimate_gas_for_commitment (payload_of sample_env) 1 (cr_payload (kr_request sample_checked)) = Inr 31048"
    by (simp add: sample_checked_def sample_request_def sample_numbers)
  obtain bm where bm: "bls_manager_new (hash_of sample_env) (dc_domain_application_gateway (cf_delegation sample_config)) = Inr bm"
    using sample_domain by blast
  have works: "outside_works sample_env sample_config (kr_slot sample_checked) (BlsPublicKey proposer_key) 100"
    unfolding s by (rule sample_works)
  have sound: "db_sound sample_env sample_config (w_db sample_world)" unfolding db by (rule sample_db_sound)
  have adm: "admissible sample_env sample_config sample_checked (BlsPublicKey proposer_key) (w_db sample_world)"
    unfolding db by (rule sample_admissible)
  from valid_request_is_answered [OF works sound bm sample_validate adm ready gas pay] show ?thesis by blast
qed

text \<open>
  C9: a round of the constraints service leaves nothing due behind: when the database answers and the
  relay accepts, every unprocessed commitment of a slot the round looks at, within the window of that
  slot, whose slasher is the committer of an active delegation of the slot to this gateway is marked
  as processed, and the relay has accepted a signed message with its constraint.
\<close>

theorem due_commitments_are_submitted:
  assumes "db_healthy E" "scan_law E" "relay_accepts E c" "db_sound E c (w_db w)"
    and "slot \<in> set (pending_slots (current_slot_estimate (e_now E (w_tick w)) (ba_genesis_time (cf_beacon_api c))))"
    and "in_window E c slot" "serves E c (w_db w) slot (ci_slasher row)"
    and "row \<in> set (db_commitments (w_db w))" "ci_slot_number row = Some slot" "\<not> ci_constraint_processed row"
  shows "\<exists>w' evs. process_pending_constraints E c bm w = (Inr (), w')
    \<and> row\<lparr>ci_constraint_processed := True\<rparr> \<in> set (db_commitments (w_db w'))
    \<and> w_events w' = w_events w @ evs \<and> constraint_accepted E c bm row evs"
proof -
  have "due_for slot (ci_slasher row) row" using assms(9) by (simp add: due_for_def)
  from round_processes [OF assms(1-4,7) this assms(6,5,8)] obtain w' where
    r: "process_pending_constraints E c bm w = (Inr (), w')" "processed_in row w'" by blast
  have d: "distinct (map ci_request_hash (db_commitments (w_db w)))" using assms(4) by (simp add: db_sound_def)
  obtain evs where ev: "w_events w' = w_events w @ evs"
    and m: "list_all2 (marked_if_accepted E c bm evs) (db_commitments (w_db w)) (db_commitments (w_db w'))"
    using obeysD [OF process_pending_marked [OF assms(2)] r(1)] d unfolding marks_accepted_def by blast
  have "distinct (map ci_request_hash (db_commitments (w_db w')))"
    using marked_hashes [OF m] d by simp
  moreover obtain row' where row': "row' \<in> set (db_commitments (w_db w'))" "marked_if_accepted E c bm evs row row'"
    using list_all2_memD [OF m assms(8)] by blast
  moreover have "ci_request_hash row' = ci_request_hash (row\<lparr>ci_constraint_processed := True\<rparr>)"
    using row'(2) by (auto simp: marked_if_accepted_def)
  ultimately have "row' = row\<lparr>ci_constraint_processed := True\<rparr>"
    using r(2) unfolding processed_in_def by (blast dest: distinct_map_inj_on_set)
  then have "row' \<noteq> row" using assms(10) by (metis commitment_row.select_convs(9) commitment_row.surjective commitment_row.update_convs(9))
  then have "constraint_accepted E c bm row evs" using row'(2) by (auto simp: marked_if_accepted_def)
  then show ?thesis using r ev unfolding processed_in_def by blast
qed

lemma committed_db_sound: "db_sound sample_env sample_config (w_db committed_world)"
proof -
  let ?r = "commitment_row_of short_payload 7 1 2200000000 sample_signed"
  have t: "co_commitment_type (sg_commitment sample_signed) = 1" "co_slasher (sg_commitment sample_signed) = sample_address"
    by (simp_all add: sample_signed_def commitment_of_request_def sample_checked_def sample_request_def)
  have "issuable sample_env sample_config sample_signed"
    using authority_issuable [OF sample_validate] sample_authority by (metis prod.collapse)
  moreover have "commitment_check ?r"
    using sample_signed_formats t by (simp add: commitment_check_def commitment_row_of_def)
  moreover have "i64_try_from (1 :: u64) = Some 1" by (simp add: i64_try_from_def)
  ultimately have "issued_row sample_env sample_config ?r"
    using row_of_issuable [of sample_env 7 1 2200000000 sample_signed sample_config] t by simp
  then show ?thesis
    using sample_db_sound by (simp add: db_sound_def committed_world_def sample_db_def empty_db_def)
qed

theorem due_commitments_are_submitted_witness:
  "\<exists>w' row evs. db_commitments (w_db committed_world) = [row]
     \<and> process_pending_constraints sample_env sample_config sample_bm committed_world = (Inr (), w')
     \<and> row\<lparr>ci_constraint_processed := True\<rparr> \<in> set (db_commitments (w_db w'))
     \<and> constraint_accepted sample_env sample_config sample_bm row evs"
proof -
  let ?r = "commitment_row_of short_payload 7 1 2200000000 sample_signed"
  have one: "db_commitments (w_db committed_world) = [?r]" by (simp add: committed_world_def)
  have f: "ci_slasher ?r = sample_address" "ci_slot_number ?r = Some 100" "\<not> ci_constraint_processed ?r"
    using sample_signed_formats
    by (simp_all add: commitment_row_of_def sample_signed_def commitment_of_request_def sample_checked_def sample_request_def)
  have accepts: "relay_accepts sample_env sample_config"
  proof -
    have "parse_authorized_builders (hash_of sample_env) (ca_authorized_builders (cf_constraints_api sample_config)) = Inr []"
      by code_simp
    then show ?thesis by (auto simp: relay_accepts_def sample_env_def sample_crates_def sample_json_def)
  qed
  have slot: "100 \<in> set (pending_slots (current_slot_estimate (e_now sample_env (w_tick committed_world))
      (ba_genesis_time (cf_beacon_api sample_config))))" by code_simp
  have "is_within_constraint_window 2200 (ba_genesis_time (cf_beacon_api sample_config)) 100" by code_simp
  then have window: "in_window sample_env sample_config 100" by (simp add: in_window_def sample_env_def)
  have serves: "serves sample_env sample_config (w_db committed_world) 100 (ci_slasher ?r)"
  proof -
    have "pubkey_to_bytes (blst_of sample_env) (sk_bls_public_key (cf_signing sample_config)) = gateway_key" by code_simp
    then show ?thesis
      unfolding f by (simp add: serves_def committed_world_def sample_db_def delegation_row_of_def sample_delegation_def
          sample_message_def)
  qed
  have healthy: "db_healthy sample_env" by (simp add: db_healthy_def)
  have mem: "?r \<in> set (db_commitments (w_db committed_world))" unfolding one by simp
  from due_commitments_are_submitted
    [OF healthy sample_scan_law accepts committed_db_sound slot window serves mem f(2,3), of sample_bm] one
  show ?thesis by blast
qed

text \<open>
  C11: polling a slot stores what the relay offers: when the database, the relay and the beacon node
  answer and everything offered passes the checks of the table, a verified delegation to this
  gateway whose proposer is eligible has a row for its proposer and slot afterwards: the row that was
  there before, or one made of a delegation that was offered.
\<close>

theorem offered_delegation_is_stored:
  assumes "db_healthy E" "\<forall>n. inj_on (e_uuid E) {n ..< n + 2 * length ds}"
    and "\<forall>n. e_uuid E n \<notin> dr_id ` set (db_delegations (w_db w))"
    and "cache_law E" "cache_sound E (cf_beacon_api c) w"
    and "relay_offers E c slot ds" "list_all storable ds"
    and "d \<in> set ds" "is_ours E c d" "is_verified E d" "validator_ok E c (dm_proposer (sd_message d))"
  shows "\<exists>k w'. poll_delegations_for_slot E c slot w = (Inr k, w')
    \<and> (\<exists>row \<in> set (db_delegations (w_db w')).
         dr_proposer_pubkey row = pk_bytes (dm_proposer (sd_message d)) \<and> dr_slot_number row = dm_slot (sd_message d)
         \<and> (row \<in> set (db_delegations (w_db w)) \<or> (\<exists>uid. \<exists>d' \<in> set ds. row = delegation_row_of uid d')))"
  using poll_slot_stores [OF assms] by (simp add: delegation_key_def row_key_def)

theorem offered_delegation_is_stored_witness:
  "\<exists>k w' row. poll_delegations_for_slot relay_env near_config 100 empty_world = (Inr k, w')
     \<and> row \<in> set (db_delegations (w_db w')) \<and> dr_is_active row \<and> dr_slot_number row = 100
     \<and> dr_proposer_pubkey row = proposer_key"
proof -
  have h: "e_http relay_env n req = Some \<lparr>hr_status = 200, hr_body = []\<rparr>" for n req
    by (simp add: relay_env_def sample_env_def)
  have healthy: "db_healthy relay_env" by (simp add: db_healthy_def relay_env_def)
  have uuid: "e_uuid relay_env n = of_nat n" for n by (simp add: relay_env_def)
  have inj: "\<forall>n. inj_on (e_uuid relay_env) {n ..< n + 2 * length [sample_delegation]}"
  proof
    fix n
    have "(of_nat (Suc n) :: uuid) \<noteq> of_nat n" by simp
    moreover have "{n ..< n + 2 * length [sample_delegation]} = {n, Suc n}" by auto
    ultimately show "inj_on (e_uuid relay_env) {n ..< n + 2 * length [sample_delegation]}"
      by (simp add: inj_on_def uuid)
  qed
  have new: "\<forall>n. e_uuid relay_env n \<notin> dr_id ` set (db_delegations (w_db empty_world))"
    by (simp add: empty_world_def empty_db_def)
  have cs: "cache_sound relay_env (cf_beacon_api near_config) empty_world"
    by (simp add: cache_sound_def empty_world_def)
  have offers: "relay_offers relay_env near_config 100 [sample_delegation]"
    by (simp add: relay_offers_def h) (simp add: relay_env_def)
  have storable: "list_all storable [sample_delegation]" by code_simp
  have ours: "is_ours relay_env near_config sample_delegation" by code_simp
  have ver: "is_verified relay_env sample_delegation" by code_simp
  have ok: "validator_ok relay_env near_config (dm_proposer (sd_message sample_delegation))"
  proof -
    obtain data where data: "\<forall>bs. json_validator (json_of relay_env) bs = Some data"
      "parse_validator_info (vr_data data) = Inr \<lparr>vi_is_active = True, vi_is_slashed = False, vi_validator_index = 5\<rparr>"
    proof -
      let ?data = "\<lparr>vr_data = \<lparr>va_index = ''5'', va_status = ''active_ongoing'',
        va_validator = \<lparr>vt_pubkey = ''0x'' @ sample_hex_encode proposer_key, vt_slashed = False\<rparr>\<rparr>\<rparr>"
      have "\<forall>bs. json_validator (json_of relay_env) bs = Some ?data" by (simp add: relay_env_def sample_json_def)
      moreover have "parse_validator_info (vr_data ?data)
          = Inr \<lparr>vi_is_active = True, vi_is_slashed = False, vi_validator_index = 5\<rparr>" by code_simp
      ultimately show thesis by (rule that)
    qed
    then show ?thesis by (auto simp: validator_ok_def h status_answer_def is_eligible_def)
  qed
  from offered_delegation_is_stored [OF healthy inj new relay_laws(2) cs offers storable _ ours ver ok]
  obtain k w' row where "poll_delegations_for_slot relay_env near_config 100 empty_world = (Inr k, w')"
    "row \<in> set (db_delegations (w_db w'))" "\<exists>uid. row = delegation_row_of uid sample_delegation"
    by (auto simp: empty_world_def empty_db_def)
  then show ?thesis by (auto simp: delegation_row_of_def sample_delegation_def sample_message_def)
qed

end
