(* ===== verification/Startup.thy ===== *)
theory Startup
  imports Metrics_Server
begin

text \<open>
  Startup, background tasks and shutdown (\<open>main.rs\<close>, \<open>server.rs\<close>, the connection of \<open>db/mod.rs\<close>, the
  schedulers of the services and the collectors of \<open>metrics.rs\<close>). The state is the process: the
  world, the log directives, the scheduled jobs, the spawned tasks and the address served. What the
  operating system and the crates decide while the process comes up is the record \<open>platform\<close>.
\<close>

section \<open>The process and its platform\<close>

text \<open>
  The context of the RPC handlers (\<open>types/context.rs\<close>). A Reth client is its endpoint and its number of
  retries, a beacon client its configuration; the connection pool is the database of the world.
\<close>

record fee_pricing_engine =
  fe_reth_client :: "string \<times> 32 word"
  fe_config :: config
  fe_fee_config :: fee_config

definition fee_pricing_engine_new :: "string \<times> 32 word \<Rightarrow> config \<Rightarrow> fee_pricing_engine" where
  "fee_pricing_engine_new reth_client c =
     \<lparr>fe_reth_client = reth_client, fe_config = c, fe_fee_config = rc_fee_config (cf_reth c)\<rparr>"

record rpc_context =
  rx_config :: config
  rx_fee_engine :: fee_pricing_engine
  rx_beacon_client :: beacon_api_config

definition rpc_context_new :: "config \<Rightarrow> fee_pricing_engine \<Rightarrow> beacon_api_config \<Rightarrow> rpc_context" where
  "rpc_context_new c fee_engine beacon_client =
     \<lparr>rx_config = c, rx_fee_engine = fee_engine, rx_beacon_client = beacon_client\<rparr>"

datatype job = PollJob | CleanupJob | SubmissionJob

datatype background = FeeRefresh u64 | MetricsUpdater u64 | MetricsHttp string

record process =
  pr_world :: world
  pr_directives :: "string list"
  pr_jobs :: "(string \<times> job) list"
  pr_background :: "background list"
  pr_serving :: "string option"
  pr_rpc_context :: "rpc_context option"

type_synonym 'a boot = "(process, err, 'a) prog"

text \<open>A Prometheus collector: its name, its help text and its only label.\<close>

type_synonym collector = "string \<times> string \<times> string"

record platform =
  pf_host :: host
  pf_toml :: toml_parser
  pf_directive_ok :: "string \<Rightarrow> bool"
  pf_log_init_ok :: bool
  pf_db_exists :: "string \<Rightarrow> bool option"
  pf_create_db_ok :: "string \<Rightarrow> bool"
  pf_connect_ok :: "string \<Rightarrow> nat \<Rightarrow> bool"
  pf_migrate_ok :: "string \<Rightarrow> bool"
  pf_client_ok :: "u64 \<Rightarrow> bool"
  pf_scheduler_ok :: "string \<Rightarrow> bool"
  pf_cron_ok :: "string \<Rightarrow> bool"
  pf_add_ok :: "job \<Rightarrow> bool"
  pf_start_ok :: "string \<Rightarrow> bool"
  pf_shutdown_ok :: "string \<Rightarrow> bool"
  pf_collector_ok :: "collector \<Rightarrow> bool"
  pf_register_ok :: "collector list \<Rightarrow> collector \<Rightarrow> bool"
  pf_bind_ok :: "string \<Rightarrow> bool"

text \<open>A call of the platform, a program on the world, and an update of the process.\<close>

definition call :: "bool \<Rightarrow> string \<Rightarrow> unit boot" where
  "call ok msg = io_res (context_res msg (ensure ok IoErr))"

definition on_world :: "(err, 'a) io \<Rightarrow> 'a boot" where
  "on_world m = (\<lambda>p. case m (pr_world p) of (r, w) \<Rightarrow> (r, p\<lparr>pr_world := w\<rparr>))"

definition spawn :: "background \<Rightarrow> unit boot" where
  "spawn b = (\<lambda>p. (Inr (), p\<lparr>pr_background := pr_background p @ [b]\<rparr>))"

section \<open>Logging and the database\<close>

definition method_directive :: "string \<Rightarrow> string" where
  "method_directive m =
     ''jsonrpsee[method_call{name = '' @ [CHR 0x22] @ m @ [CHR 0x22] @ ''}]=trace''"

definition setup_logging :: "platform \<Rightarrow> config \<Rightarrow> unit boot" where
  "setup_logging PF c =
     (let methods = if lg_enable_method_tracing (cf_logging c) then lg_traced_methods (cf_logging c) else [] in
      io_bind (io_res (res_traverse (\<lambda>m. res_bind (ensure (pf_directive_ok PF (method_directive m)) IoErr)
        (\<lambda>_. Inr (method_directive m))) methods)) (\<lambda>directives.
      io_bind (io_res (ensure (pf_log_init_ok PF) IoErr)) (\<lambda>_.
      (\<lambda>p. (Inr (), p\<lparr>pr_directives := directives\<rparr>)))))"

text \<open>A database that has just been created and migrated has the tables, and no row in them.\<close>

definition create_database :: "platform \<Rightarrow> string \<Rightarrow> unit boot" where
  "create_database PF url =
     io_bind (call (pf_create_db_ok PF url) ''Failed to create database'') (\<lambda>_.
     (\<lambda>p. (Inr (), p\<lparr>pr_world := (pr_world p)\<lparr>w_db := empty_db\<rparr>\<rparr>)))"

definition run_migrations :: "platform \<Rightarrow> string \<Rightarrow> unit boot" where
  "run_migrations PF url = call (pf_migrate_ok PF url) ''Failed to run database migrations''"

definition create_pool :: "platform \<Rightarrow> config \<Rightarrow> unit boot" where
  "create_pool PF c =
     (let url = pool_url (pf_host PF) c in
      io_bind (io_res (context_res ''Failed to check if database exists''
        (res_of IoErr (pf_db_exists PF url)))) (\<lambda>db_exists.
      io_bind (if \<not> db_exists then create_database PF url else io_return ()) (\<lambda>_.
      io_bind (call (pf_connect_ok PF url 10) ''Failed to create database connection pool'') (\<lambda>_.
      run_migrations PF url))))"

definition test_connection :: "env \<Rightarrow> (err, unit) io" where
  "test_connection E =
     io_bind (io_context ''Failed to execute test query'' (sql_query E (\<lambda>n d. 1 :: int))) (\<lambda>row.
     if row = 1 then io_return () else io_fail (Bail ''Database connection test failed''))"

section \<open>Clients\<close>

definition reqwest_client_new :: "platform \<Rightarrow> u64 \<Rightarrow> unit res" where
  "reqwest_client_new PF timeout_secs =
     context_res ''Failed to create HTTP client'' (ensure (pf_client_ok PF timeout_secs) HttpErr)"

definition with_default_client :: "platform \<Rightarrow> beacon_api_config \<Rightarrow> beacon_api_config res" where
  "with_default_client PF c =
     res_bind (reqwest_client_new PF (ba_request_timeout_secs c)) (\<lambda>_. beacon_client_new c)"

text \<open>
  The Reth client of \<open>main\<close> gets its own configuration, copied from the section \<open>reth\<close>. A client is
  its endpoint and its number of retries.
\<close>

definition reth_api_config_of :: "reth_config \<Rightarrow> reth_api_config" where
  "reth_api_config_of c = \<lparr>ra_endpoint = rc_endpoint c, ra_request_timeout_secs = rc_request_timeout_secs c,
     ra_max_retries = rc_max_retries c\<rparr>"

definition reth_client_new :: "platform \<Rightarrow> reth_api_config \<Rightarrow> (string \<times> 32 word) res" where
  "reth_client_new PF c =
     res_bind (context_res ''Failed to create HTTP client''
       (ensure (pf_client_ok PF (ra_request_timeout_secs c)) HttpErr)) (\<lambda>_.
     Inr (ra_endpoint c, ra_max_retries c))"

definition start_cache_refresh_service :: "fee_pricing_engine \<Rightarrow> unit boot" where
  "start_cache_refresh_service e = spawn (FeeRefresh (cache_refresh_interval_secs (fe_fee_config e)))"

section \<open>The services\<close>

definition add_job :: "platform \<Rightarrow> string \<Rightarrow> job \<Rightarrow> string \<Rightarrow> string \<Rightarrow> (string \<times> job) boot" where
  "add_job PF cron j create_msg add_msg =
     io_bind (call (pf_cron_ok PF cron) create_msg) (\<lambda>_.
     io_bind (call (pf_add_ok PF j) add_msg) (\<lambda>_.
     io_return (cron, j)))"

definition start_jobs :: "platform \<Rightarrow> string \<Rightarrow> string \<Rightarrow> (string \<times> job) list \<Rightarrow> unit boot" where
  "start_jobs PF service msg js =
     io_bind (call (pf_start_ok PF service) msg) (\<lambda>_.
     (\<lambda>p. (Inr (), p\<lparr>pr_jobs := pr_jobs p @ js\<rparr>)))"

definition stop_jobs :: "platform \<Rightarrow> string \<Rightarrow> string \<Rightarrow> job set \<Rightarrow> unit boot" where
  "stop_jobs PF service msg js =
     io_bind (call (pf_shutdown_ok PF service) msg) (\<lambda>_.
     (\<lambda>p. (Inr (), p\<lparr>pr_jobs := filter (\<lambda>x. snd x \<notin> js) (pr_jobs p)\<rparr>)))"

definition delegation_service_new :: "platform \<Rightarrow> env \<Rightarrow> config \<Rightarrow> bls_manager boot" where
  "delegation_service_new PF E c =
     io_bind (call (pf_scheduler_ok PF ''delegation'') ''Failed to create job scheduler'') (\<lambda>_.
     io_res (context_res ''Failed to create BLS manager for delegation signature verification''
       (bls_manager_new (hash_of E) (dc_domain_application_gateway (cf_delegation c)))))"

definition delegation_service_start :: "platform \<Rightarrow> unit boot" where
  "delegation_service_start PF =
     io_bind (add_job PF ''0/30 * * * * *'' PollJob ''Failed to create delegation polling job''
       ''Failed to add delegation polling job to scheduler'') (\<lambda>poll.
     io_bind (add_job PF ''0 */5 * * * *'' CleanupJob ''Failed to create cleanup job''
       ''Failed to add cleanup job to scheduler'') (\<lambda>cleanup.
     start_jobs PF ''delegation'' ''Failed to start job scheduler'' [poll, cleanup]))"

definition delegation_service_stop :: "platform \<Rightarrow> unit boot" where
  "delegation_service_stop PF =
     stop_jobs PF ''delegation'' ''Failed to shutdown job scheduler'' {PollJob, CleanupJob}"

definition poll_once :: "env \<Rightarrow> config \<Rightarrow> (err, poll_counters) io" where
  "poll_once E c = poll_delegations E c"

definition constraint_service_new :: "platform \<Rightarrow> unit boot" where
  "constraint_service_new PF =
     call (pf_scheduler_ok PF ''constraints'') ''Failed to create constraint submission scheduler''"

definition constraint_service_start :: "platform \<Rightarrow> unit boot" where
  "constraint_service_start PF =
     io_bind (add_job PF ''*/2 * * * * *'' SubmissionJob ''Failed to create constraint submission job''
       ''Failed to add constraint submission job to scheduler'') (\<lambda>submission.
     start_jobs PF ''constraints'' ''Failed to start constraint submission scheduler'' [submission])"

definition constraint_service_stop :: "platform \<Rightarrow> unit boot" where
  "constraint_service_stop PF =
     stop_jobs PF ''constraints'' ''Failed to shutdown constraint submission scheduler'' {SubmissionJob}"

definition submit_constraint_now ::
  "env \<Rightarrow> config \<Rightarrow> bls_manager \<Rightarrow> u64 \<Rightarrow> bytes \<Rightarrow> string \<Rightarrow> (err, string) io" where
  "submit_constraint_now E c bm slot payload committer_address =
     submit_constraint E c bm slot payload committer_address"

text \<open>What a job does when its time comes: an error is only logged.\<close>

fun run_job :: "env \<Rightarrow> config \<Rightarrow> bls_manager \<Rightarrow> job \<Rightarrow> (err, unit) io" where
  "run_job E c bm PollJob = io_match (poll_delegations E c) (\<lambda>_. io_return ())"
| "run_job E c bm CleanupJob = io_match (cleanup_expired_delegations E c) (\<lambda>_. io_return ())"
| "run_job E c bm SubmissionJob = io_match (process_pending_constraints E c bm) (\<lambda>_. io_return ())"

section \<open>Metrics and the servers\<close>

text \<open>The collectors, in the order \<open>MetricsRegistry::new\<close> registers them.\<close>

definition int_collectors :: "collector list" where
  "int_collectors =
     [(''gateway_commitments_total'', ''Total number of commitments'', ''type''),
      (''gateway_commitments_by_type'', ''Commitments by type'', ''commitment_type''),
      (''gateway_delegations_total'', ''Total delegations'', ''status''),
      (''gateway_delegations_active'', ''Active delegations count'', ''label''),
      (''gateway_unique_proposers'', ''Unique proposers count'', ''label''),
      (''gateway_unique_delegates'', ''Unique delegates count'', ''label''),
      (''gateway_slots_covered'', ''Number of slots with delegations'', ''label'')]"

definition f64_collectors :: "collector list" where
  "f64_collectors =
     [(''gateway_average_congestion_ratio'', ''Average congestion ratio (0.0-1.0)'', ''window''),
      (''gateway_highest_congestion_ratio'', ''Highest congestion ratio'', ''window''),
      (''gateway_average_fee_multiplier'', ''Average fee multiplier'', ''window'')]"

definition pricing_collectors :: "collector list" where
  "pricing_collectors =
     [(''gateway_current_slot'', ''Current beacon chain slot'', ''label''),
      (''gateway_base_gas_price_wei'', ''Current base gas price in wei'', ''label'')]"

definition collectors :: "collector list" where
  "collectors = int_collectors @ f64_collectors @ pricing_collectors"

fun register_all :: "platform \<Rightarrow> collector list \<Rightarrow> collector list \<Rightarrow> unit res" where
  "register_all PF regs [] = Inr ()"
| "register_all PF regs (x # xs) =
     res_bind (ensure (pf_register_ok PF regs x) IoErr) (\<lambda>_. register_all PF (regs @ [x]) xs)"

definition metrics_registry_new :: "platform \<Rightarrow> gauges res" where
  "metrics_registry_new PF =
     res_bind (res_traverse (\<lambda>x. ensure (pf_collector_ok PF x) IoErr) collectors) (\<lambda>_.
     res_bind (register_all PF [] collectors) (\<lambda>_.
     Inr \<lparr>ga_int = Map.empty, ga_f64 = Map.empty\<rparr>))"

text \<open>The metrics endpoint, over the text encoder of \<open>prometheus\<close>.\<close>

definition render_metrics :: "(gauges \<Rightarrow> bytes res) \<Rightarrow> gauges \<Rightarrow> string res" where
  "render_metrics encode g =
     res_bind (encode g) (\<lambda>buffer. res_of Utf8Err (string_from_utf8 buffer))"

definition metrics_handler :: "(gauges \<Rightarrow> bytes res) \<Rightarrow> gauges \<Rightarrow> nat \<times> string" where
  "metrics_handler encode g = (case render_metrics encode g of
       Inr body \<Rightarrow> (200, body)
     | Inl e \<Rightarrow> (500, ''Internal Server Error''))"

text \<open>
  The task of the metrics server: \<open>hyper\<close> panics, in the task only, when the address cannot be bound;
  otherwise every request is answered from the gauges at that time.
\<close>

definition metrics_address :: string where "metrics_address = ''0.0.0.0:9090''"

definition metrics_server_task ::
  "platform \<Rightarrow> (gauges \<Rightarrow> bytes res) \<Rightarrow> gauges list \<Rightarrow> (nat \<times> string) list res" where
  "metrics_server_task PF encode seen =
     res_bind (ensure (pf_bind_ok PF metrics_address) (Panic ''error binding to 0.0.0.0:9090'')) (\<lambda>_.
     Inr (map (metrics_handler encode) seen))"

definition rpc_methods :: "string list" where
  "rpc_methods = [''commitmentRequest'', ''commitmentResult'', ''slots'', ''fee'']"

text \<open>\<open>jsonrpsee\<close> refuses a name that is already registered.\<close>

fun register_methods :: "string list \<Rightarrow> string list \<Rightarrow> string list res" where
  "register_methods names [] = Inr names"
| "register_methods names (m # ms) =
     (if m \<in> set names then Inl (Bail ''method already registered'') else register_methods (names @ [m]) ms)"

definition setup_rpc_methods :: "string list res" where
  "setup_rpc_methods = register_methods [] rpc_methods"

definition run_server :: "platform \<Rightarrow> rpc_context \<Rightarrow> config \<Rightarrow> unit boot" where
  "run_server PF rpc_context c =
     io_bind (io_res (ensure (pf_bind_ok PF (server_address c)) IoErr)) (\<lambda>_.
     io_bind (io_res setup_rpc_methods) (\<lambda>_.
     (\<lambda>p. (Inr (), p\<lparr>pr_serving := Some (server_address c), pr_rpc_context := Some rpc_context\<rparr>))))"

section \<open>main\<close>

text \<open>
  \<open>main\<close> up to the point where it waits for the RPC server to stop. A failed initial poll is only
  logged. \<open>gateway_stop\<close> is what it does afterwards.
\<close>

definition gateway_start :: "platform \<Rightarrow> env \<Rightarrow> (config \<times> bls_manager \<times> gauges) boot" where
  "gateway_start PF E =
     io_bind (io_res (config_load (e_crates E) (pf_toml PF) (pf_host PF))) (\<lambda>c.
     io_bind (setup_logging PF c) (\<lambda>_.
     io_bind (create_pool PF c) (\<lambda>_.
     io_bind (on_world (test_connection E)) (\<lambda>_.
     io_bind (io_res (reth_client_new PF (reth_api_config_of (cf_reth c)))) (\<lambda>reth_client.
     io_bind (start_cache_refresh_service (fee_pricing_engine_new reth_client c)) (\<lambda>_.
     io_bind (io_res (with_default_client PF (cf_beacon_api c))) (\<lambda>beacon_client.
     io_bind (io_res (constraints_client_new (pf_client_ok PF) (cf_constraints_api c))) (\<lambda>_.
     io_bind (delegation_service_new PF E c) (\<lambda>_.
     io_bind (delegation_service_start PF) (\<lambda>_.
     io_match (on_world (poll_once E c)) (\<lambda>_.
     io_bind (io_res (bls_manager_new (hash_of E) (dc_domain_application_gateway (cf_delegation c)))) (\<lambda>bm.
     io_bind (constraint_service_new PF) (\<lambda>_.
     io_bind (constraint_service_start PF) (\<lambda>_.
     io_bind (io_res (metrics_registry_new PF)) (\<lambda>g.
     io_bind (spawn (MetricsUpdater 15)) (\<lambda>_.
     io_bind (spawn (MetricsHttp metrics_address)) (\<lambda>_.
     io_bind (run_server PF (rpc_context_new c (fee_pricing_engine_new reth_client c) beacon_client) c) (\<lambda>_.
     io_return (c, bm, g)))))))))))))))))))"

fun is_metrics_task :: "background \<Rightarrow> bool" where
  "is_metrics_task (FeeRefresh s) = False"
| "is_metrics_task _ = True"

definition gateway_stop :: "process \<Rightarrow> process" where
  "gateway_stop p = p\<lparr>pr_serving := None, pr_background := filter (\<lambda>b. \<not> is_metrics_task b) (pr_background p)\<rparr>"

section \<open>What startup does to the process\<close>

definition all_jobs :: "(string \<times> job) list" where
  "all_jobs = [(''0/30 * * * * *'', PollJob), (''0 */5 * * * *'', CleanupJob), (''*/2 * * * * *'', SubmissionJob)]"

lemma call_Inr: "call ok msg p = (Inr u, p') \<longleftrightarrow> ok \<and> p' = p"
  by (auto simp: call_def io_res_def)

lemma on_world_Inr: "on_world m p = (r, p') \<longleftrightarrow> (\<exists>w. m (pr_world p) = (r, w) \<and> p' = p\<lparr>pr_world := w\<rparr>)"
  by (auto simp: on_world_def split: prod.splits)

lemma test_connection_changes: "obeys (changes E c) (test_connection E)"
  unfolding test_connection_def by (intro pres)

lemma delegation_start_Inr:
  "delegation_service_start PF p = (Inr u, p') \<Longrightarrow> p' = p\<lparr>pr_jobs := pr_jobs p @ take 2 all_jobs\<rparr>"
  by (auto simp: delegation_service_start_def add_job_def start_jobs_def io_Inr call_Inr all_jobs_def)

lemma constraint_start_Inr:
  "constraint_service_start PF p = (Inr u, p') \<Longrightarrow> p' = p\<lparr>pr_jobs := pr_jobs p @ drop 2 all_jobs\<rparr>"
  by (auto simp: constraint_service_start_def add_job_def start_jobs_def io_Inr call_Inr all_jobs_def)

lemma create_pool_Inr:
  assumes "create_pool PF c p = (Inr u, p')"
  shows "pr_jobs p' = pr_jobs p \<and> pr_background p' = pr_background p \<and> pr_serving p' = pr_serving p
    \<and> w_db (pr_world p') = (if pf_db_exists PF (pool_url (pf_host PF) c) = Some False then empty_db else w_db (pr_world p))"
  using assms
  by (auto simp: create_pool_def create_database_def run_migrations_def Let_def io_Inr call_Inr split: if_splits)

lemma setup_logging_Inr:
  "setup_logging PF c p = (Inr u, p') \<Longrightarrow> \<exists>ds. p' = p\<lparr>pr_directives := ds\<rparr>"
  by (auto simp: setup_logging_def Let_def io_Inr)

lemma setup_rpc_methods_ok: "setup_rpc_methods = Inr rpc_methods"
  by code_simp

lemma run_server_Inr:
  "run_server PF x c p = (Inr u, p') \<longleftrightarrow>
     pf_bind_ok PF (server_address c)
     \<and> p' = p\<lparr>pr_serving := Some (server_address c), pr_rpc_context := Some x\<rparr>"
  by (auto simp: run_server_def setup_rpc_methods_ok io_Inr)

lemma delegation_new_Inr:
  "delegation_service_new PF E c p = (Inr bm, p') \<longleftrightarrow> pf_scheduler_ok PF ''delegation'' \<and> p' = p
     \<and> bls_manager_new (hash_of E) (dc_domain_application_gateway (cf_delegation c)) = Inr bm"
  by (auto simp: delegation_service_new_def io_Inr call_Inr)

text \<open>
  The parts of the context share one configuration: the fee engine and the beacon client are built
  from the configuration the handlers see, so one \<open>config\<close> argument stands for all three.
\<close>

definition context_of :: "config \<Rightarrow> rpc_context \<Rightarrow> bool" where
  "context_of c x = (rx_config x = c \<and> rx_beacon_client x = cf_beacon_api c
     \<and> fe_config (rx_fee_engine x) = c \<and> fe_fee_config (rx_fee_engine x) = rc_fee_config (cf_reth c)
     \<and> fe_reth_client (rx_fee_engine x) = (rc_endpoint (cf_reth c), rc_max_retries (cf_reth c)))"

lemma built_context:
  assumes "reth_client_new PF (reth_api_config_of (cf_reth c)) = Inr reth_client"
    and "with_default_client PF (cf_beacon_api c) = Inr beacon_client"
  shows "context_of c (rpc_context_new c (fee_pricing_engine_new reth_client c) beacon_client)"
  using assms
  by (auto simp: context_of_def rpc_context_new_def fee_pricing_engine_new_def reth_client_new_def
      reth_api_config_of_def with_default_client_def beacon_client_new_def split: if_splits)

lemma gateway_start_Inr:
  assumes "gateway_start PF E p = (Inr (c, bm, g), p')"
  obtains q p1 w2 r where "config_load (e_crates E) (pf_toml PF) (pf_host PF) = Inr c"
    and "create_pool PF c q = (Inr (), p1)" "pr_world q = pr_world p"
    and "test_connection E (pr_world p1) = (Inr (), w2)" "poll_delegations E c w2 = (r, pr_world p')"
    and "bls_manager_new (hash_of E) (dc_domain_application_gateway (cf_delegation c)) = Inr bm"
    and "metrics_registry_new PF = Inr g"
    and "pr_jobs p' = pr_jobs p @ all_jobs" "pr_serving p' = Some (server_address c)"
    and "pr_background p' = pr_background p
       @ [FeeRefresh (cache_refresh_interval_secs (rc_fee_config (cf_reth c))), MetricsUpdater 15, MetricsHttp metrics_address]"
    and "\<exists>x. pr_rpc_context p' = Some x \<and> context_of c x"
proof -
  from assms obtain q p1 p2 p3 p4 p5 p6 p7 p8 bm' r rc b where
    c: "config_load (e_crates E) (pf_toml PF) (pf_host PF) = Inr c"
    and l: "setup_logging PF c p = (Inr (), q)" and pool: "create_pool PF c q = (Inr (), p1)"
    and t: "on_world (test_connection E) p1 = (Inr (), p2)"
    and x: "reth_client_new PF (reth_api_config_of (cf_reth c)) = Inr rc" "with_default_client PF (cf_beacon_api c) = Inr b"
    and f: "start_cache_refresh_service (fee_pricing_engine_new rc c) p2 = (Inr (), p3)"
    and d: "delegation_service_new PF E c p3 = (Inr bm', p4)" "delegation_service_start PF p4 = (Inr (), p5)"
    and o: "on_world (poll_once E c) p5 = (r, p6)"
    and bm: "bls_manager_new (hash_of E) (dc_domain_application_gateway (cf_delegation c)) = Inr bm"
    and s: "constraint_service_new PF p6 = (Inr (), p7)" "constraint_service_start PF p7 = (Inr (), p8)"
    and g: "metrics_registry_new PF = Inr g"
    and run: "run_server PF (rpc_context_new c (fee_pricing_engine_new rc c) b) c (p8\<lparr>pr_background := pr_background p8 @ [MetricsUpdater 15, MetricsHttp metrics_address]\<rparr>) = (Inr (), p')"
    unfolding gateway_start_def spawn_def by (auto simp: io_Inr)
  obtain ds where q: "q = p\<lparr>pr_directives := ds\<rparr>" using setup_logging_Inr [OF l] by blast
  note p1 = create_pool_Inr [OF pool]
  obtain w2 where w2: "test_connection E (pr_world p1) = (Inr (), w2)" "p2 = p1\<lparr>pr_world := w2\<rparr>"
    using t by (auto simp: on_world_Inr)
  have p4: "p4 = p3" using d(1) by (simp add: delegation_new_Inr)
  have p3: "p3 = p2\<lparr>pr_background := pr_background p2
      @ [FeeRefresh (cache_refresh_interval_secs (rc_fee_config (cf_reth c)))]\<rparr>"
    using f by (simp add: start_cache_refresh_service_def spawn_def fee_pricing_engine_new_def)
  note p5 = delegation_start_Inr [OF d(2)]
  obtain w3 where w3: "poll_delegations E c (pr_world p5) = (r, w3)" "p6 = p5\<lparr>pr_world := w3\<rparr>"
    using o by (auto simp: on_world_Inr poll_once_def)
  have p7: "p7 = p6" using s(1) by (simp add: constraint_service_new_def call_Inr)
  note p8 = constraint_start_Inr [OF s(2)]
  have jobs: "pr_jobs p8 = pr_jobs p @ all_jobs"
    by (simp add: p8 p7 w3 p5 p4 p3 w2 p1 q append_take_drop_id)
  show thesis
    using run c pool w2 w3(1) bm g jobs built_context [OF x]
    by (intro that [of q p1 w2 r]) (simp_all add: run_server_Inr q p1 p8 p7 w3 p5 p4 p3)
qed

lemma same_of_call [pres]: "obeys (same_of f) (call ok msg)"
  unfolding call_def by (rule same_of.res_obeys)

lemma same_of_world [pres]: "(\<And>p w. f (p\<lparr>pr_world := w\<rparr>) = f p) \<Longrightarrow> obeys (same_of f) (on_world m)"
  by (auto simp: obeys_def same_of_def on_world_def split: prod.split)

lemma same_of_update [pres]: "(\<And>p. f (g p) = f p) \<Longrightarrow> obeys (same_of f) (\<lambda>p. (Inr (), g p))"
  by (simp add: obeys_def same_of_def)

lemmas startup_parts = setup_logging_def create_pool_def create_database_def run_migrations_def
  start_cache_refresh_service_def spawn_def delegation_service_new_def delegation_service_start_def
  constraint_service_new_def constraint_service_start_def add_job_def start_jobs_def Let_def

lemma startup_serving:
  "obeys (same_of pr_serving) (setup_logging PF c)" "obeys (same_of pr_serving) (create_pool PF c)"
  "obeys (same_of pr_serving) (start_cache_refresh_service e)"
  "obeys (same_of pr_serving) (delegation_service_new PF E c)"
  "obeys (same_of pr_serving) (delegation_service_start PF)"
  "obeys (same_of pr_serving) (constraint_service_new PF)"
  "obeys (same_of pr_serving) (constraint_service_start PF)"
  "obeys (same_of pr_serving) (spawn b)" "obeys (same_of pr_serving) (on_world m)"
  unfolding startup_parts by (intro pres; simp)+

lemma startup_jobs:
  "obeys (same_of pr_jobs) (setup_logging PF c)" "obeys (same_of pr_jobs) (create_pool PF c)"
  "obeys (same_of pr_jobs) (start_cache_refresh_service e)"
  "obeys (same_of pr_jobs) (delegation_service_new PF E c)" "obeys (same_of pr_jobs) (on_world m)"
  unfolding startup_parts by (intro pres; simp)+

lemma run_server_fails: "fails_within (=) (run_server PF x c)"
  by (auto simp: fails_within_def run_server_def setup_rpc_methods_ok io_bind_Inl io_res_def)

lemma gateway_start_Inl:
  assumes "gateway_start PF E p = (Inl e, p')"
  shows "pr_serving p' = pr_serving p"
proof -
  have run: "fails_within (same_of pr_serving) (io_bind (run_server PF r c) (\<lambda>_. io_return x))" for r c and x :: "'x"
    using run_server_fails [of PF r c]
    by (auto simp: fails_within_def same_of_def io_bind_Inl io_return_def)
  have "fails_within (same_of pr_serving) (gateway_start PF E)"
    unfolding gateway_start_def
    by (intro same_of.bind_fails_within same_of.match_fails_within run startup_serving same_of.res_obeys)
  then show ?thesis using assms by (simp add: fails_within_def same_of_def)
qed

text \<open>Nothing is scheduled unless the gateway domain of the configuration parses.\<close>

lemma gateway_start_no_domain:
  assumes "config_load (e_crates E) (pf_toml PF) (pf_host PF) = Inr c"
    and "bls_manager_new (hash_of E) (dc_domain_application_gateway (cf_delegation c)) = Inl d"
    and "gateway_start PF E p = (r, p')"
  shows "isl r \<and> pr_jobs p' = pr_jobs p"
proof -
  have dead: "delegation_service_new PF E c q \<noteq> (Inr a, q')" for q a q'
    using assms(2) by (simp add: delegation_new_Inr)
  have dead_step: "fails_within (same_of pr_jobs) (io_bind (delegation_service_new PF E c) f)" for f
    using startup_jobs(4) dead by (rule same_of.dead_fails_within)
  have "fails_within (same_of pr_jobs) (gateway_start PF E)"
    unfolding gateway_start_def assms(1) io_bind_res_Inr
    by (rule dead_step | rule same_of.bind_fails_within [OF same_of.res_obeys]
      | rule same_of.bind_fails_within [OF startup_jobs(1)] same_of.bind_fails_within [OF startup_jobs(2)]
          same_of.bind_fails_within [OF startup_jobs(3)] same_of.bind_fails_within [OF startup_jobs(5)])+
  then have "pr_jobs p' = pr_jobs p" if "isl r"
    using assms(3) that by (cases r) (simp_all add: fails_within_def same_of_def)
  moreover have "isl r"
  proof (cases r)
    case (Inr x)
    then show ?thesis using assms gateway_start_Inr by (cases x) fastforce
  qed simp
  ultimately show ?thesis by blast
qed
section \<open>When startup succeeds\<close>

definition platform_up :: "platform \<Rightarrow> string \<Rightarrow> bool" where
  "platform_up PF url =
     ((\<forall>d. pf_directive_ok PF d) \<and> pf_log_init_ok PF \<and> pf_db_exists PF url \<noteq> None \<and> pf_create_db_ok PF url
      \<and> pf_connect_ok PF url 10 \<and> pf_migrate_ok PF url \<and> (\<forall>t. pf_client_ok PF t) \<and> (\<forall>s. pf_scheduler_ok PF s)
      \<and> (\<forall>s. pf_cron_ok PF s) \<and> (\<forall>j. pf_add_ok PF j) \<and> (\<forall>s. pf_start_ok PF s) \<and> (\<forall>a. pf_bind_ok PF a))"

text \<open>\<open>prometheus\<close> accepts a collector under a name that is not taken yet.\<close>

definition registry_law :: "platform \<Rightarrow> bool" where
  "registry_law PF =
     ((\<forall>x \<in> set collectors. pf_collector_ok PF x)
      \<and> (\<forall>regs x. fst x \<notin> fst ` set regs \<longrightarrow> pf_register_ok PF regs x))"

lemma register_all_ok:
  assumes "\<forall>regs x. fst x \<notin> fst ` set regs \<longrightarrow> pf_register_ok PF regs x"
    and "distinct (map fst (regs @ xs))"
  shows "register_all PF regs xs = Inr ()"
  using assms(2)
proof (induction xs arbitrary: regs)
  case (Cons x xs)
  then have "fst x \<notin> fst ` set regs" by auto
  then have "pf_register_ok PF regs x" using assms(1) by blast
  then show ?case using Cons by simp
qed simp

lemma collector_names_distinct: "distinct (map fst collectors)"
  by code_simp

lemma metrics_registry_new_ok:
  assumes "registry_law PF"
  shows "metrics_registry_new PF = Inr \<lparr>ga_int = Map.empty, ga_f64 = Map.empty\<rparr>"
proof -
  have "res_traverse (\<lambda>x. ensure (pf_collector_ok PF x) IoErr) collectors = Inr (map (\<lambda>_. ()) collectors)"
    using assms by (intro res_traverse_total) (simp add: registry_law_def)
  moreover have "register_all PF [] collectors = Inr ()"
    using assms collector_names_distinct by (intro register_all_ok) (simp_all add: registry_law_def)
  ultimately show ?thesis by (simp add: metrics_registry_new_def)
qed

lemma setup_logging_up:
  assumes "platform_up PF url"
  shows "\<exists>ds. setup_logging PF c p = (Inr (), p\<lparr>pr_directives := ds\<rparr>)"
proof -
  have "res_traverse (\<lambda>m. res_bind (ensure (pf_directive_ok PF (method_directive m)) IoErr)
      (\<lambda>_. Inr (method_directive m))) ms = Inr (map method_directive ms)" for ms
    using assms by (intro res_traverse_total) (simp add: platform_up_def)
  then show ?thesis using assms
    unfolding setup_logging_def platform_up_def by (auto simp: io_bind_def io_res_def Let_def)
qed

lemma create_pool_up:
  assumes "platform_up PF (pool_url (pf_host PF) c)"
  shows "\<exists>q'. create_pool PF c q = (Inr (), q') \<and> w_tick (pr_world q') = w_tick (pr_world q)"
  using assms
  by (auto simp: platform_up_def create_pool_def create_database_def run_migrations_def call_def io_bind_def
      io_res_def io_return_def Let_def)

lemma test_connection_up: "e_fault E (w_tick w) = NoFault \<Longrightarrow> test_connection E w = (Inr (), tick w)"
  by (simp add: test_connection_def io_bind_def io_context_def io_map_err_def sql_query_def sql_def Let_def
      io_return_def)

lemma services_up:
  assumes "platform_up PF url" "bls_manager_new (hash_of E) (dc_domain_application_gateway (cf_delegation c)) = Inr bm"
  shows "delegation_service_new PF E c q = (Inr bm, q)" "constraint_service_new PF q = (Inr (), q)"
    "\<exists>q'. delegation_service_start PF q = (Inr (), q')" "\<exists>q'. constraint_service_start PF q = (Inr (), q')"
    "\<exists>q'. run_server PF x c q = (Inr (), q')"
  using assms
  by (simp_all add: platform_up_def delegation_service_new_def delegation_service_start_def constraint_service_new_def
      constraint_service_start_def add_job_def start_jobs_def run_server_def setup_rpc_methods_ok call_def io_bind_def
      io_res_def io_return_def)

lemma clients_up:
  assumes "platform_up PF url"
  shows "reth_client_new PF r = Inr (ra_endpoint r, ra_max_retries r)"
    "with_default_client PF bc = beacon_client_new bc"
  using assms by (simp_all add: platform_up_def reth_client_new_def with_default_client_def reqwest_client_new_def)

lemma gateway_start_succeeds:
  assumes "config_load (e_crates E) (pf_toml PF) (pf_host PF) = Inr c"
    and up: "platform_up PF (pool_url (pf_host PF) c)" and "registry_law PF"
    and "e_fault E (w_tick (pr_world p)) = NoFault"
    and "beacon_client_new (cf_beacon_api c) = Inr b" "constraints_client_new (pf_client_ok PF) (cf_constraints_api c) = Inr a"
    and bm: "bls_manager_new (hash_of E) (dc_domain_application_gateway (cf_delegation c)) = Inr bm"
  shows "\<exists>g p'. gateway_start PF E p = (Inr (c, bm, g), p')"
proof -
  note services = services_up [OF up bm]
  let ?e = "fee_pricing_engine_new (rc_endpoint (cf_reth c), rc_max_retries (cf_reth c)) c"
  obtain ds where l: "setup_logging PF c p = (Inr (), p\<lparr>pr_directives := ds\<rparr>)"
    using setup_logging_up [OF up] by blast
  obtain p1 where p1: "create_pool PF c (p\<lparr>pr_directives := ds\<rparr>) = (Inr (), p1)"
    "w_tick (pr_world p1) = w_tick (pr_world p)" using create_pool_up [OF up] by fastforce
  have t: "on_world (test_connection E) p1 = (Inr (), p1\<lparr>pr_world := tick (pr_world p1)\<rparr>)"
    using test_connection_up [of E "pr_world p1"] assms(4) p1 by (simp add: on_world_def)
  let ?p3 = "snd (start_cache_refresh_service ?e (p1\<lparr>pr_world := tick (pr_world p1)\<rparr>))"
  obtain p4 where p4: "delegation_service_start PF ?p3 = (Inr (), p4)" using services(3) by blast
  obtain r p5 where p5: "on_world (poll_once E c) p4 = (r, p5)" by force
  obtain p6 where p6: "constraint_service_start PF p5 = (Inr (), p6)" using services(4) by blast
  let ?p7 = "snd (spawn (MetricsHttp metrics_address) (snd (spawn (MetricsUpdater 15) p6)))"
  obtain p8 where p8: "run_server PF (rpc_context_new c ?e b) c ?p7 = (Inr (), p8)" using services(5) by blast
  show ?thesis
    using p4 p5 p6 p8
    by (simp add: gateway_start_def io_bind_def io_match_def io_res_def io_return_def assms(1,5,6) bm l p1 t
        clients_up [OF up] services(1,2) metrics_registry_new_ok [OF assms(3)] start_cache_refresh_service_def
        spawn_def reth_api_config_of_def split: prod.split)
qed

section \<open>Gauges are registered\<close>

text \<open>Every gauge that has a value belongs to a registered collector.\<close>

definition registered :: "gauges \<Rightarrow> bool" where
  "registered g = (fst ` dom (ga_int g) \<subseteq> fst ` set (int_collectors @ pricing_collectors)
     \<and> fst ` dom (ga_f64 g) \<subseteq> fst ` set f64_collectors)"

lemma set_int_registered:
  "registered g \<Longrightarrow> n \<in> fst ` set (int_collectors @ pricing_collectors) \<Longrightarrow> registered (set_int n l v g)"
  by (auto simp: registered_def set_int_def)

lemma set_f64_registered:
  "registered g \<Longrightarrow> n \<in> fst ` set f64_collectors \<Longrightarrow> registered (set_f64 n l v g)"
  by (auto simp: registered_def set_f64_def)

lemma on_ok_registered:
  assumes "\<And>v g. registered g \<Longrightarrow> registered (f v g)" "on_ok m f g w = (Inr g', w')" "registered g"
  shows "registered g'"
proof -
  obtain r w1 where "m w = (r, w1)" by force
  then show ?thesis using assms by (cases r) (auto simp: on_ok_def io_match_def io_return_def)
qed

lemma on_ok_Inr: "\<exists>g' w'. on_ok m f g w = (Inr g', w')"
  by (cases "m w") (simp add: on_ok_def io_match_def io_return_def)

lemma updates_registered:
  "registered g \<Longrightarrow> registered (update_commitment_stats a b g)"
  "registered g \<Longrightarrow> registered (update_delegation_stats a b p d s g)"
  "registered g \<Longrightarrow> registered (update_congestion_stats x y z g)"
  "registered g \<Longrightarrow> registered (update_pricing_stats s q g)"
  unfolding update_commitment_stats_def update_delegation_stats_def update_congestion_stats_def
    update_pricing_stats_def Let_def
  by (auto intro!: set_int_registered set_f64_registered
      simp: int_collectors_def f64_collectors_def pricing_collectors_def split: option.split)

lemma io_bind_returns:
  assumes "\<exists>a w'. m w = (Inr a, w')" "\<And>a w. \<exists>b w'. f a w = (Inr b, w')"
  shows "\<exists>b w'. io_bind m f w = (Inr b, w')"
  using assms unfolding io_bind_Inr by blast

lemma metrics_tick_returns: "\<exists>g' w'. metrics_updater_tick E c g w = (Inr g', w')"
  unfolding metrics_updater_tick_def by (intro io_bind_returns on_ok_Inr)

lemma metrics_tick_registered:
  assumes "metrics_updater_tick E c g w = (Inr g', w')" "registered g"
  shows "registered g'"
proof -
  from assms(1) obtain g1 w1 g2 w2 g3 w3 where
    1: "on_ok (get_commitment_stats E) (\<lambda>s. update_commitment_stats (cs_total_count s)
          (cs_commitment_type_1_count s)) g w = (Inr g1, w1)"
    and 2: "on_ok (get_delegation_stats E) (\<lambda>s. update_delegation_stats (ds_total_count s) (ds_active_count s)
          (ds_unique_proposers s) (ds_unique_delegates s) (ds_slots_covered s)) g1 w1 = (Inr g2, w2)"
    and 3: "on_ok (get_congestion_stats E) (\<lambda>s. update_congestion_stats (gs_current_average_congestion s)
          (gs_highest_congestion_ratio s) (gs_average_fee_multiplier s)) g2 w2 = (Inr g3, w3)"
    and 4: "on_ok (get_pricing_stats E c) (\<lambda>s. update_pricing_stats (ps_current_slot s)
          (ps_current_base_gas_price s)) g3 w3 = (Inr g', w')"
    by (auto simp: metrics_updater_tick_def io_bind_Inr)
  note r = on_ok_registered [OF updates_registered(1) 1 assms(2)]
  note r = on_ok_registered [OF updates_registered(2) 2 r]
  note r = on_ok_registered [OF updates_registered(3) 3 r]
  show ?thesis by (rule on_ok_registered [OF updates_registered(4) 4 r])
qed

end
