(* ===== verification/Props_Startup.thy ===== *)
theory Props_Startup
  imports Startup Props_Data
begin

text \<open>Properties of startup, of the jobs it schedules and of the metrics.\<close>

definition sample_platform :: platform where
  "sample_platform = \<lparr>pf_host = sample_host, pf_toml = sample_toml, pf_directive_ok = (\<lambda>d. True),
     pf_log_init_ok = True, pf_db_exists = (\<lambda>u. Some False), pf_create_db_ok = (\<lambda>u. True),
     pf_connect_ok = (\<lambda>u n. True), pf_migrate_ok = (\<lambda>u. True), pf_client_ok = (\<lambda>t. True),
     pf_scheduler_ok = (\<lambda>s. True), pf_cron_ok = (\<lambda>s. True), pf_add_ok = (\<lambda>j. True),
     pf_start_ok = (\<lambda>s. True), pf_shutdown_ok = (\<lambda>s. True), pf_collector_ok = (\<lambda>x. True),
     pf_register_ok = (\<lambda>regs x. fst x \<notin> fst ` set regs), pf_bind_ok = (\<lambda>a. True)\<rparr>"

definition sample_process :: process where
  "sample_process = \<lparr>pr_world = sample_world, pr_directives = [], pr_jobs = [], pr_background = [],
     pr_serving = None, pr_rpc_context = None\<rparr>"

lemma sample_registry_law: "registry_law sample_platform"
  by (simp add: registry_law_def sample_platform_def)

text \<open>
  C5: a gateway that comes up serves a validated configuration and a sound database: when \<open>main\<close>
  reaches the point where it waits for requests, the configuration has loaded, exactly the three jobs
  are scheduled and the three tasks are running, the gateway domain parses, every part of the handlers'
  context is built from this one configuration, and the world it serves
  requests in is a reachable state of the interleaved system, whether the database was created by this
  start or was sound before it. The polling cycle that startup runs does not break this.
\<close>

theorem startup_reaches_sound_state:
  assumes "gateway_start PF E p = (Inr (c, bm, g), p')"
    and "pf_db_exists PF (pool_url (pf_host PF) c) = Some False \<or> db_sound E c (w_db (pr_world p))"
  shows "config_load (e_crates E) (pf_toml PF) (pf_host PF) = Inr c
    \<and> pr_serving p' = Some (server_address c)
    \<and> pr_jobs p' = pr_jobs p @ [(''0/30 * * * * *'', PollJob), (''0 */5 * * * *'', CleanupJob),
        (''*/2 * * * * *'', SubmissionJob)]
    \<and> pr_background p' = pr_background p
        @ [FeeRefresh (cache_refresh_interval_secs (rc_fee_config (cf_reth c))), MetricsUpdater 15,
           MetricsHttp metrics_address]
    \<and> bls_manager_new (hash_of E) (dc_domain_application_gateway (cf_delegation c)) = Inr bm
    \<and> (\<exists>x. pr_rpc_context p' = Some x \<and> context_of c x)
    \<and> reachable E c \<lparr>sy_world = pr_world p', sy_tasks = Map.empty\<rparr>"
proof -
  from assms(1) obtain q p1 w2 r where
    c: "config_load (e_crates E) (pf_toml PF) (pf_host PF) = Inr c"
    and pool: "create_pool PF c q = (Inr (), p1)" "pr_world q = pr_world p"
    and t: "test_connection E (pr_world p1) = (Inr (), w2)"
    and o: "poll_delegations E c w2 = (r, pr_world p')"
    and rest: "bls_manager_new (hash_of E) (dc_domain_application_gateway (cf_delegation c)) = Inr bm"
      "pr_jobs p' = pr_jobs p @ all_jobs" "pr_serving p' = Some (server_address c)"
      "pr_background p' = pr_background p
       @ [FeeRefresh (cache_refresh_interval_secs (rc_fee_config (cf_reth c))), MetricsUpdater 15,
          MetricsHttp metrics_address]" "\<exists>x. pr_rpc_context p' = Some x \<and> context_of c x"
    by (rule gateway_start_Inr)
  have "db_sound E c empty_db" by (simp add: db_sound_def empty_db_def)
  then have "db_sound E c (w_db (pr_world p1))"
    using create_pool_Inr [OF pool(1)] pool(2) assms(2) by auto
  then have "db_sound E c (w_db (pr_world p'))"
    using obeysD [OF test_connection_changes t] obeysD [OF poll_changes o] changes_sound by blast
  then have "reachable E c \<lparr>sy_world = pr_world p', sy_tasks = Map.empty\<rparr>"
    by (intro reachable.start) (simp add: initial_def)
  then show ?thesis using c rest by (simp add: all_jobs_def)
qed

theorem startup_reaches_sound_state_witness:
  "\<exists>c bm g p'. gateway_start sample_platform sample_env sample_process = (Inr (c, bm, g), p')
     \<and> map snd (pr_jobs p') = [PollJob, CleanupJob, SubmissionJob]
     \<and> reachable sample_env c \<lparr>sy_world = pr_world p', sy_tasks = Map.empty\<rparr>"
proof -
  let ?load = "config_load (e_crates sample_env) sample_toml sample_host"
  let ?relay = "default_constraints_api\<lparr>ca_relay_endpoint := ''http://r''\<rparr>"
  have "res_map (\<lambda>c. (cf_beacon_api c, cf_constraints_api c, cf_delegation c)) ?load
      = Inr (cf_beacon_api sample_config, ?relay, cf_delegation sample_config)"
    by code_simp
  then obtain c where load: "?load = Inr c" and parts: "cf_beacon_api c = cf_beacon_api sample_config"
    "cf_constraints_api c = ?relay" "cf_delegation c = cf_delegation sample_config"
    by auto
  have "\<not> isl (beacon_client_new (cf_beacon_api sample_config))" by code_simp
  moreover have "\<not> isl (constraints_client_new (\<lambda>t. True) ?relay)" by code_simp
  moreover have "\<not> isl (bls_manager_new (hash_of sample_env) (dc_domain_application_gateway (cf_delegation sample_config)))"
    by code_simp
  ultimately obtain b a bm where c: "?load = Inr c" "beacon_client_new (cf_beacon_api c) = Inr b"
    "constraints_client_new (\<lambda>t. True) (cf_constraints_api c) = Inr a"
    "bls_manager_new (hash_of sample_env) (dc_domain_application_gateway (cf_delegation c)) = Inr bm"
    using load unfolding parts by (metis sum.collapse(2))
  have up: "platform_up sample_platform url" for url by (simp add: platform_up_def sample_platform_def)
  have f: "e_fault sample_env n = NoFault" for n by (simp add: sample_env_def)
  have sel: "pf_toml sample_platform = sample_toml" "pf_host sample_platform = sample_host"
    "pf_client_ok sample_platform = (\<lambda>t. True)" "pf_db_exists sample_platform = (\<lambda>u. Some False)"
    by (simp_all add: sample_platform_def)
  obtain g p' where run: "gateway_start sample_platform sample_env sample_process = (Inr (c, bm, g), p')"
    using gateway_start_succeeds [of sample_env sample_platform c sample_process b a bm] up sample_registry_law f c sel
    by auto
  have db: "pf_db_exists sample_platform (pool_url (pf_host sample_platform) c) = Some False
      \<or> db_sound sample_env c (w_db (pr_world sample_process))" by (simp add: sel)
  note served = startup_reaches_sound_state [OF run db]
  have "pr_jobs sample_process = []" by (simp add: sample_process_def)
  with served have "map snd (pr_jobs p') = [PollJob, CleanupJob, SubmissionJob]" by simp
  with run served show ?thesis
    by (intro exI [of _ c] exI [of _ bm] exI [of _ g] exI [of _ p'] conjI) simp_all
qed

text \<open>
  C38: a start that fails never serves: the RPC server is not up, with an invalid configuration
  nothing at all has happened, and with a gateway domain that does not parse no job is scheduled.
\<close>

theorem failed_start_serves_nothing:
  assumes "gateway_start PF E p = (r, p')" "isl r"
  shows "pr_serving p' = pr_serving p
    \<and> (isl (config_load (e_crates E) (pf_toml PF) (pf_host PF)) \<longrightarrow> p' = p)
    \<and> (\<forall>c d. config_load (e_crates E) (pf_toml PF) (pf_host PF) = Inr c \<longrightarrow>
         bls_manager_new (hash_of E) (dc_domain_application_gateway (cf_delegation c)) = Inl d \<longrightarrow>
         pr_jobs p' = pr_jobs p)"
proof -
  obtain e where r: "r = Inl e" using assms(2) by (cases r) auto
  have "p' = p" if "isl (config_load (e_crates E) (pf_toml PF) (pf_host PF))"
    using assms(1) that by (cases "config_load (e_crates E) (pf_toml PF) (pf_host PF)")
      (simp_all add: gateway_start_def io_bind_def io_res_def)
  then show ?thesis
    using gateway_start_Inl [of PF E p e p'] gateway_start_no_domain [OF _ _ assms(1)] assms(1) r by blast
qed

theorem failed_start_serves_nothing_witness:
  "\<exists>e p'. gateway_start (sample_platform\<lparr>pf_host := sample_host\<lparr>ho_exists := (\<lambda>p. False)\<rparr>\<rparr>) sample_env sample_process
       = (Inl e, p') \<and> p' = sample_process"
proof -
  let ?PF = "sample_platform\<lparr>pf_host := sample_host\<lparr>ho_exists := (\<lambda>p. False)\<rparr>\<rparr>"
  have load: "isl (config_load (e_crates sample_env) (pf_toml ?PF) (pf_host ?PF))"
    by code_simp
  then obtain e p' where run: "gateway_start ?PF sample_env sample_process = (Inl e, p')"
    by (cases "config_load (e_crates sample_env) (pf_toml ?PF) (pf_host ?PF)")
      (simp_all add: gateway_start_def io_bind_def io_res_def)
  from failed_start_serves_nothing [OF run] load run show ?thesis by simp
qed



end
