(* ===== verification/Unit_Tests.thy ===== *)
theory Unit_Tests
  imports Samples
begin

text \<open>
  The assertions of the repository's unit tests. A test of the source is a definition: a test of pure
  functions is a boolean, a test that talks to the outside is a program whose assertions fail with a
  panic. The theories \<open>Tests_*\<close> translate the tests of the modules they name and prove that the
  model passes them; a test that only builds a value and reads its fields back is left out.
\<close>

section \<open>Assertions\<close>

text \<open>The text of an error as \<open>Display\<close> prints it: the outermost message. The texts of other crates are not modelled.\<close>

fun err_text :: "err \<Rightarrow> string" where
  "err_text (Bail m) = m"
| "err_text (Ctx m e) = m"
| "err_text (Panic m) = m"
| "err_text _ = []"

definition is_ok :: "'e + 'a \<Rightarrow> bool" where
  "is_ok r = (case r of Inl e \<Rightarrow> False | Inr a \<Rightarrow> True)"

definition is_err :: "'e + 'a \<Rightarrow> bool" where
  "is_err r = (case r of Inl e \<Rightarrow> True | Inr a \<Rightarrow> False)"

text \<open>\<open>assert!(r.unwrap_err().to_string().contains(s))\<close>, and an assertion on the value of \<open>r.unwrap()\<close>.\<close>

definition err_contains :: "string \<Rightarrow> 'a res \<Rightarrow> bool" where
  "err_contains s r = (case r of Inl e \<Rightarrow> str_contains s (err_text e) | Inr a \<Rightarrow> False)"

definition ok_and :: "('a \<Rightarrow> bool) \<Rightarrow> 'e + 'a \<Rightarrow> bool" where
  "ok_and f r = (case r of Inl e \<Rightarrow> False | Inr a \<Rightarrow> f a)"

section \<open>Tests that are programs\<close>

definition io_assert :: "bool \<Rightarrow> ('s, err, unit) prog" where
  "io_assert b = (if b then io_return () else io_fail (Panic ''assertion failed''))"

text \<open>An assertion on the result of a call.\<close>

definition io_expect :: "('s, 'e, 'a) prog \<Rightarrow> ('e + 'a \<Rightarrow> bool) \<Rightarrow> ('s, err, unit) prog" where
  "io_expect m f = io_match m (\<lambda>r. io_assert (f r))"

definition passes :: "('s, err, unit) prog \<Rightarrow> 's \<Rightarrow> bool" where
  "passes m w = is_ok (fst (m w))"

definition bytes_of :: "string \<Rightarrow> bytes" where
  "bytes_of s = map (\<lambda>c. of_nat (of_char c)) s"

text \<open>
  A pool that reaches no database (\<open>connect_lazy\<close> on an address nobody listens at): no statement is
  ever received. Under it every assertion that a call fails holds, whatever the rest of the outside does.
\<close>

definition invalid_pool :: "env \<Rightarrow> env" where
  "invalid_pool E = E\<lparr>e_fault := (\<lambda>n. LostRequest)\<rparr>"

text \<open>A clock that stands still.\<close>

definition clock_env :: "u64 \<Rightarrow> env" where
  "clock_env t = sample_env\<lparr>e_now := (\<lambda>n. t)\<rparr>"

lemma invalid_pool_sel [simp]:
  "e_fault (invalid_pool E) n = LostRequest" "e_crates (invalid_pool E) = e_crates E"
  by (simp_all add: invalid_pool_def)

lemma is_err_simps [simp]: "is_err (Inl e)" "\<not> is_err (Inr a)" "\<not> is_ok (Inl e)" "is_ok (Inr a)"
  by (simp_all add: is_err_def is_ok_def)

lemma passes_expect: "passes (io_expect m f) w \<longleftrightarrow> f (fst (m w))"
  by (simp add: passes_def io_expect_def io_match_def io_assert_def io_return_def io_fail_def split: prod.split)

lemma passes_bind_expect:
  "passes (io_bind (io_expect m f) (\<lambda>_. g)) w \<longleftrightarrow> f (fst (m w)) \<and> passes g (snd (m w))"
  by (simp add: passes_def io_bind_def io_expect_def io_match_def io_assert_def io_return_def io_fail_def
      split: prod.split)

lemma sql_invalid: "sql (invalid_pool E) f w = (Inl (DbErr DbLost), tick w)"
  by (simp add: sql_def Let_def split: prod.split)

lemma sql_query_invalid: "sql_query (invalid_pool E) q w = (Inl (DbErr DbLost), tick w)"
  by (simp add: sql_query_def sql_invalid)

lemma sql_transaction_invalid:
  "sql_transaction (invalid_pool E) a b m w = (Inl (Ctx a (DbErr DbLost)), tick w)"
  by (simp add: sql_transaction_def)

text \<open>A test that runs on a concrete world is evaluated with these definitions.\<close>

lemmas run_eval = passes_def io_bind_def io_return_def io_fail_def io_res_def io_context_def io_map_err_def
  io_assert_def io_expect_def io_match_def io_now_def sql_def sql_query_def sql_transaction_def tick_def
  empty_world_def empty_db_def find_congestion_def Let_def

end
