(* ===== verification/Tests_Types.thy ===== *)
theory Tests_Types
  imports Unit_Tests
begin

text \<open>
  The tests of \<open>utils/address.rs\<close>, \<open>types/payload.rs\<close>, \<open>types/beacon.rs\<close> and \<open>crypto/bls.rs\<close>. The
  tests of payloads hold for every encoding with the documented round trip, those of keys and
  domains are evaluated with a real hex codec.
\<close>

section \<open>utils/address.rs\<close>

definition test_normalize_with_0x_prefix :: bool where
  "test_normalize_with_0x_prefix =
     (normalize_address ''0xf39Fd6e51aad88F6F4ce6aB8827279cffFb92266'' = ''f39fd6e51aad88f6f4ce6ab8827279cfffb92266'')"

definition test_normalize_without_0x_prefix :: bool where
  "test_normalize_without_0x_prefix =
     (normalize_address ''f39Fd6e51aad88F6F4ce6aB8827279cffFb92266'' = ''f39fd6e51aad88f6f4ce6ab8827279cfffb92266'')"

definition test_normalize_already_lowercase :: bool where
  "test_normalize_already_lowercase =
     (normalize_address ''0xf39fd6e51aad88f6f4ce6ab8827279cfffb92266'' = ''f39fd6e51aad88f6f4ce6ab8827279cfffb92266'')"

definition test_normalize_all_uppercase :: bool where
  "test_normalize_all_uppercase =
     (normalize_address ''0XF39FD6E51AAD88F6F4CE6AB8827279CFFFB92266'' = ''f39fd6e51aad88f6f4ce6ab8827279cfffb92266'')"

definition test_normalize_comparison :: bool where
  "test_normalize_comparison =
     (let normalized1 = normalize_address ''0xf39Fd6e51aad88F6F4ce6aB8827279cffFb92266'';
          normalized2 = normalize_address ''0XF39FD6E51AAD88F6F4CE6AB8827279CFFFB92266'';
          normalized3 = normalize_address ''f39fd6e51aad88f6f4ce6ab8827279cfffb92266''
      in normalized1 = normalized2 \<and> normalized1 = normalized3 \<and> normalized2 = normalized3)"

lemma address_tests:
  test_normalize_with_0x_prefix test_normalize_without_0x_prefix test_normalize_already_lowercase
  test_normalize_all_uppercase test_normalize_comparison
  by code_simp+

section \<open>types/payload.rs\<close>

definition test_extract_slot_from_json_inclusion_payload :: "payload_lib \<Rightarrow> bool" where
  "test_extract_slot_from_json_inclusion_payload P =
     ok_and (\<lambda>encoded. extract_slot P 1 encoded = Inr 12345)
       (encode_inclusion_payload P (inclusion_payload_new 12345 [1, 2, 3, 4]))"

definition test_extract_slot_from_rlp_inclusion_payload :: "payload_lib \<Rightarrow> bool" where
  "test_extract_slot_from_rlp_inclusion_payload P =
     ok_and (\<lambda>encoded. extract_slot P 1 encoded = Inr 67890)
       (encode_inclusion_payload_rlp P (inclusion_payload_new 67890 [5, 6, 7, 8]))"

definition test_parse_inclusion_payload_json :: "payload_lib \<Rightarrow> bool" where
  "test_parse_inclusion_payload_json P =
     ok_and (\<lambda>encoded. ok_and (\<lambda>parsed. ip_slot parsed = 123 \<and> ip_signed_tx parsed = [0xAA, 0xBB, 0xCC])
         (parse_inclusion_payload P encoded))
       (res_of JsonErr (json_of_inclusion P (inclusion_payload_new 123 [0xAA, 0xBB, 0xCC])))"

definition test_parse_inclusion_payload_rlp :: "payload_lib \<Rightarrow> bool" where
  "test_parse_inclusion_payload_rlp P =
     ok_and (\<lambda>encoded. ok_and (\<lambda>parsed. ip_slot parsed = 456 \<and> ip_signed_tx parsed = [0xDD, 0xEE, 0xFF])
         (parse_inclusion_payload P encoded))
       (encode_inclusion_payload_rlp P (inclusion_payload_new 456 [0xDD, 0xEE, 0xFF]))"

definition test_tx_hash_derivation :: "hash_lib \<Rightarrow> bool" where
  "test_tx_hash_derivation H =
     ok_and (\<lambda>h. length h = 32)
       (tx_hash H (inclusion_payload_new 789 [0xF8, 0x6C, 0x01, 0x85, 0x04, 0xA8, 0x17, 0xC8, 0x00]))"

definition test_payload_validation :: bool where
  "test_payload_validation =
     (is_ok (inclusion_validate (inclusion_payload_new 100 [1, 2, 3]))
      \<and> is_err (inclusion_validate (inclusion_payload_new 100 []))
      \<and> is_err (inclusion_validate (inclusion_payload_new 0 [1, 2, 3])))"

definition test_unknown_commitment_type :: "payload_lib \<Rightarrow> bool" where
  "test_unknown_commitment_type P =
     err_contains ''Unknown commitment type'' (extract_slot P 999 [1, 2, 3, 4])"

text \<open>
  An RLP encoding is only read back when it is not also a JSON document of a payload, which the first
  byte of a list rules out.
\<close>

definition rlp_is_not_json :: "payload_lib \<Rightarrow> bool" where
  "rlp_is_not_json P = (\<forall>slot tx. json_inclusion P (rlp_of_pair P slot tx) = None)"

lemma payload_json_tests:
  assumes "json_payload_laws P" "\<And>p. json_of_inclusion P p \<noteq> None"
  shows "test_extract_slot_from_json_inclusion_payload P" "test_parse_inclusion_payload_json P"
  using assms
  by (auto simp: test_extract_slot_from_json_inclusion_payload_def test_parse_inclusion_payload_json_def
      json_payload_laws_def ok_and_def encode_inclusion_payload_def extract_slot_def res_of_def context_res_def
      extract_slot_from_inclusion_payload_def parse_inclusion_payload_def inclusion_payload_new_def
      split: option.split)

lemma payload_rlp_tests:
  assumes "rlp_laws P" "rlp_is_not_json P"
  shows "test_extract_slot_from_rlp_inclusion_payload P" "test_parse_inclusion_payload_rlp P"
  using assms
  by (auto simp: test_extract_slot_from_rlp_inclusion_payload_def test_parse_inclusion_payload_rlp_def
      rlp_is_not_json_def ok_and_def encode_inclusion_payload_rlp_def extract_slot_def context_res_def
      extract_slot_from_inclusion_payload_def parse_inclusion_payload_def inclusion_payload_new_def
      parse_rlp_of_pair)

lemma tx_hash_test: "keccak_laws H \<Longrightarrow> test_tx_hash_derivation H"
  by (simp add: test_tx_hash_derivation_def ok_and_def tx_hash_def inclusion_payload_new_def keccak_laws_def)

lemma payload_tests: test_payload_validation "test_unknown_commitment_type P"
  by (code_simp, simp add: test_unknown_commitment_type_def extract_slot_def err_contains_def starts_with_iff)

lemma sample_payload_tests:
  "test_extract_slot_from_rlp_inclusion_payload sample_payload"
  "test_parse_inclusion_payload_rlp sample_payload"
  "test_extract_slot_from_json_inclusion_payload sample_payload"
  "test_parse_inclusion_payload_json sample_payload"
  by (rule payload_rlp_tests payload_json_tests sample_rlp_laws sample_json_payload_laws
      | simp add: rlp_is_not_json_def sample_payload_def)+

section \<open>types/beacon.rs\<close>

definition test_epoch_calculations :: bool where
  "test_epoch_calculations =
     (slot_to_epoch 0 = 0 \<and> slot_to_epoch 31 = 0 \<and> slot_to_epoch 32 = 1 \<and> slot_to_epoch 63 = 1
      \<and> slot_to_epoch 64 = 2
      \<and> epoch_to_first_slot 0 = 0 \<and> epoch_to_first_slot 1 = 32 \<and> epoch_to_first_slot 2 = 64
      \<and> epoch_to_last_slot 0 = 31 \<and> epoch_to_last_slot 1 = 63 \<and> epoch_to_last_slot 2 = 95)"

definition test_key_hex :: string where
  "test_key_hex = ''1234567890abcdef1234567890abcdef1234567890abcdef1234567890abcdef1234567890abcdef1234567890abcdef''"

definition test_pubkey_parsing :: "hash_lib \<Rightarrow> bool" where
  "test_pubkey_parsing H =
     ok_and (\<lambda>parsed_pubkey. length (pk_bytes parsed_pubkey) = 48
       \<and> ok_and (\<lambda>parsed_no_prefix. parsed_pubkey = parsed_no_prefix)
           (parse_pubkey H \<lparr>vd_validator_index = ''123'', vd_pubkey = test_key_hex, vd_slot = ''456''\<rparr>))
       (parse_pubkey H \<lparr>vd_validator_index = ''123'', vd_pubkey = ''0x'' @ test_key_hex, vd_slot = ''456''\<rparr>)"

lemma beacon_type_tests: test_epoch_calculations "test_pubkey_parsing sample_hash"
  by code_simp+

section \<open>crypto/mod.rs\<close>

definition test_generate_request_hash :: "hash_lib \<Rightarrow> bool" where
  "test_generate_request_hash H =
     ok_and (\<lambda>hash. starts_with ''0x'' hash \<and> length hash = 66)
       (generate_request_hash H \<lparr>cr_commitment_type = 1, cr_payload = [1, 2, 3, 4],
          cr_slasher = ''0x1234567890123456789012345678901234567890''\<rparr>)"

definition test_sign_and_verify_commitment :: "hash_lib \<Rightarrow> secp_lib \<Rightarrow> secp_secret \<Rightarrow> bool" where
  "test_sign_and_verify_commitment H S secret_key =
     (let public_key = secp_public_of S secret_key;
          c = \<lparr>co_commitment_type = 1, co_payload = [1, 2, 3, 4],
            co_request_hash = ''0x1234567890123456789012345678901234567890123456789012345678901234'',
            co_slasher = ''0x1234567890123456789012345678901234567890''\<rparr>
      in ok_and (\<lambda>signature. starts_with ''0x'' signature \<and> length signature = 132
           \<and> verify_commitment_signature H S c signature public_key = Inr True)
         (sign_commitment H S c secret_key))"

definition test_parse_private_key :: "hash_lib \<Rightarrow> secp_lib \<Rightarrow> bool" where
  "test_parse_private_key H S =
     is_ok (res_map (secp_public_of S)
       (parse_private_key H S ''ac0974bec39a17e36ba4a6b4d238ff944bacb478cbed5efcae784d7bf4f2ff80''))"

lemma ecdsa_tests:
  "test_generate_request_hash sample_hash" "test_parse_private_key sample_hash sample_secp"
  "test_sign_and_verify_commitment sample_hash sample_secp (SecpSecret (replicate 32 3))"
  by code_simp+

section \<open>crypto/bls.rs\<close>

definition test_domain_parsing :: "hash_lib \<Rightarrow> bool" where
  "test_domain_parsing H =
     (parse_application_gateway_domain H ''0x00000002'' = Inr [0x00, 0x00, 0x00, 0x02]
      \<and> parse_application_gateway_domain H ''00000002'' = Inr [0x00, 0x00, 0x00, 0x02]
      \<and> is_err (parse_application_gateway_domain H ''0x00'')
      \<and> is_err (parse_application_gateway_domain H ''0x0000000200''))"

definition test_key_generation :: "(bytes \<Rightarrow> string \<Rightarrow> blst_secret option) \<Rightarrow> blst_lib \<Rightarrow> bytes \<Rightarrow> bool" where
  "test_key_generation key_gen B seed =
     ok_and (\<lambda>(private_key, public_key). blst_pk_to_bytes B public_key = blst_pk_to_bytes B (blst_sk_to_pk B private_key))
       (generate_keypair key_gen B seed)"

definition test_constraints_message_signing ::
  "hash_lib \<Rightarrow> blst_lib \<Rightarrow> (blst_signature \<Rightarrow> bytes) \<Rightarrow> blst_secret \<times> blst_public \<Rightarrow> bool" where
  "test_constraints_message_signing H B sig_to_bytes keypair =
     ok_and (\<lambda>bls_manager.
       let message = \<lparr>cm_proposer = BlsPublicKey (replicate 48 1),
             cm_delegate = BlsPublicKey (pubkey_to_bytes B (snd keypair)), cm_slot = 12345,
             cm_constraints = [\<lparr>ct_constraint_type = 1, ct_payload = [1, 2, 3, 4]\<rparr>],
             cm_receivers = [BlsPublicKey (replicate 48 2)]\<rparr>
       in ok_and (\<lambda>signature_bytes. length signature_bytes = 96
            \<and> (case blst_sig_from_bytes B signature_bytes of
                 Some signature \<Rightarrow> sig_to_bytes signature = signature_bytes | None \<Rightarrow> False))
            (sign_constraints_message H B bls_manager message (fst keypair)))
       (bls_manager_new H ''0x00000002'')"

definition test_delegation_message_encoding :: "hash_lib \<Rightarrow> bool" where
  "test_delegation_message_encoding H =
     (is_ok (bls_manager_new H ''0x00000002'')
      \<and> ok_and (\<lambda>encoded. encoded \<noteq> [])
          (abi_encode_delegation_message H
             \<lparr>dm_proposer = BlsPublicKey (replicate 48 1), dm_delegate = BlsPublicKey (replicate 48 2),
              dm_committer = ''0x1234567890123456789012345678901234567890'', dm_slot = 12345\<rparr>))"

lemma key_generation_test: "key_gen seed bls_pop_dst = Some k \<Longrightarrow> test_key_generation key_gen B seed"
  by (simp add: test_key_generation_def generate_keypair_def res_of_def res_bind_def ok_and_def)

lemma bls_tests:
  "test_domain_parsing sample_hash" "test_delegation_message_encoding sample_hash"
  "test_constraints_message_signing sample_hash sample_blst (\<lambda>s. case s of BlstSignature b \<Rightarrow> b)
     (BlstSecret (replicate 32 9), blst_sk_to_pk sample_blst (BlstSecret (replicate 32 9)))"
  by code_simp+

end
