(* ===== verification/Tests_Config.thy ===== *)
theory Tests_Config
  imports Unit_Tests
begin

text \<open>
  The tests of \<open>config.rs\<close>: defaults, environment substitution, validation of endpoints and of the
  whitelist, loading of files and of the signing keys. The environment and the files of a test are a
  \<open>host\<close>; what the TOML parser makes of the text of a test is the configuration the text spells out.
\<close>

section \<open>Helpers\<close>

definition create_test_config :: "string \<Rightarrow> signing_config \<Rightarrow> config" where
  "create_test_config url signing =
     \<lparr>cf_server = \<lparr>se_host = ''127.0.0.1'', se_port = 8080\<rparr>, cf_database_url = url,
      cf_logging = \<lparr>lg_level = ''info'', lg_enable_method_tracing = True, lg_traced_methods = [''test_method'']\<rparr>,
      cf_slasher_whitelist = [''0x1234567890123456789012345678901234567890''],
      cf_beacon_api = \<lparr>ba_primary_endpoint = ''https://test.beacon.com'',
        ba_fallback_endpoints = [''https://fallback.beacon.com''], ba_request_timeout_secs = 30,
        ba_genesis_time = 1606824023\<rparr>,
      cf_constraints_api = \<lparr>ca_relay_endpoint = ''https://test.relay.com'', ca_request_timeout_secs = 10,
        ca_max_retries = 3, ca_authorized_builders = [''builder1'', ''builder2'']\<rparr>,
      cf_delegation = \<lparr>dc_lookahead_epochs = 2, dc_polling_interval_secs = 60, dc_cache_ttl_secs = 300,
        dc_domain_application_gateway = ''0x00000002''\<rparr>,
      cf_reth = \<lparr>rc_endpoint = ''http://localhost:8545'', rc_request_timeout_secs = 10, rc_max_retries = 3,
        rc_fee_config = \<lparr>fc_scaling_factor = FNum 2, fc_default_gas_limit = 30000000,
          fc_min_fee_multiplier = FNum 1, fc_max_fee_multiplier = FNum 100, fc_cache_ttl_secs = 60\<rparr>\<rparr>,
      cf_signing = signing\<rparr>"

text \<open>A host with these environment variables and with one file of this text.\<close>

definition test_host :: "(string \<times> string) list \<Rightarrow> (string \<times> string) list \<Rightarrow> host" where
  "test_host vars files = \<lparr>ho_exists = (\<lambda>p. map_of files p \<noteq> None), ho_read = map_of files, ho_env = map_of vars\<rparr>"

section \<open>Defaults\<close>

definition test_server_config_default :: bool where
  "test_server_config_default = (se_host default_server = ''0.0.0.0'' \<and> se_port default_server = 8080)"

definition test_logging_config_default :: bool where
  "test_logging_config_default =
     (let config = default_logging in lg_level config = ''info'' \<and> lg_enable_method_tracing config
      \<and> ''commitmentRequest'' \<in> set (lg_traced_methods config)
      \<and> ''commitmentResult'' \<in> set (lg_traced_methods config)
      \<and> ''slots'' \<in> set (lg_traced_methods config) \<and> ''fee'' \<in> set (lg_traced_methods config))"

definition test_beacon_api_config_default :: bool where
  "test_beacon_api_config_default =
     (let config = default_beacon_api in str_contains ''alchemy.com'' (ba_primary_endpoint config)
      \<and> ba_fallback_endpoints config = [] \<and> ba_request_timeout_secs config = 30
      \<and> ba_genesis_time config = 1606824023)"

definition test_constraints_api_config_default :: bool where
  "test_constraints_api_config_default =
     (let config = default_constraints_api in ca_relay_endpoint config = ''https://relay.example.com''
      \<and> ca_request_timeout_secs config = 10 \<and> ca_max_retries config = 3 \<and> ca_authorized_builders config = [])"

definition test_delegation_config_default :: bool where
  "test_delegation_config_default =
     (let config = default_delegation in dc_lookahead_epochs config = 2
      \<and> dc_polling_interval_secs config = 60 \<and> dc_cache_ttl_secs config = 300
      \<and> dc_domain_application_gateway config = ''0x00000002'')"

definition test_reth_config_default :: bool where
  "test_reth_config_default =
     (let config = default_reth in rc_endpoint config = ''http://localhost:8545''
      \<and> rc_request_timeout_secs config = 10 \<and> rc_max_retries config = 3)"

definition test_fee_config_default :: bool where
  "test_fee_config_default =
     (let config = default_fee_config in fc_scaling_factor config = FNum 2
      \<and> fc_default_gas_limit config = 30000000 \<and> fc_min_fee_multiplier config = FNum 1
      \<and> fc_max_fee_multiplier config = FNum 100 \<and> fc_cache_ttl_secs config = 60)"

definition test_fee_config_bounds :: bool where
  "test_fee_config_bounds =
     (let fee_config = default_fee_config in f64_le (FNum 1) (fc_min_fee_multiplier fee_config)
      \<and> f64_lt (fc_min_fee_multiplier fee_config) (fc_max_fee_multiplier fee_config)
      \<and> f64_lt (FNum 0) (fc_scaling_factor fee_config)
      \<and> 0 < fc_default_gas_limit fee_config \<and> 0 < fc_cache_ttl_secs fee_config)"

definition test_reth_config_timeout_values :: bool where
  "test_reth_config_timeout_values =
     (let config = default_reth in 0 < rc_request_timeout_secs config \<and> 0 < rc_max_retries config
      \<and> rc_request_timeout_secs config \<le> 300 \<and> rc_max_retries config \<le> 10)"

definition test_delegation_config_domain_separator :: bool where
  "test_delegation_config_domain_separator =
     (let config = default_delegation in dc_domain_application_gateway config = ''0x00000002''
      \<and> starts_with ''0x'' (dc_domain_application_gateway config)
      \<and> length (dc_domain_application_gateway config) = 10)"

definition test_beacon_api_genesis_time :: bool where
  "test_beacon_api_genesis_time =
     (ba_genesis_time default_beacon_api = 1606824023 \<and> 0 < ba_genesis_time default_beacon_api)"

definition test_signing_config_default :: "crates \<Rightarrow> bool" where
  "test_signing_config_default C =
     ok_and (\<lambda>config. sk_committer_address config \<noteq> [] \<and> starts_with ''0x'' (sk_committer_address config))
       (default_signing C)"

definition test_signing_config_debug_formatting :: "crates \<Rightarrow> bool" where
  "test_signing_config_debug_formatting C =
     ok_and (\<lambda>config. let (name, fields) = signing_config_fmt config in
         name = ''SigningConfig'' \<and> ''<redacted>'' \<in> snd ` set fields
         \<and> sk_committer_address config \<in> snd ` set fields)
       (default_signing C)"

lemma default_tests:
  test_server_config_default test_logging_config_default test_beacon_api_config_default
  test_constraints_api_config_default test_delegation_config_default test_reth_config_default
  test_fee_config_default test_fee_config_bounds test_reth_config_timeout_values
  test_delegation_config_domain_separator test_beacon_api_genesis_time
  by code_simp+

lemma sample_default_signing:
  "ok_and (\<lambda>s. starts_with ''0x'' (sk_committer_address s)) (default_signing sample_crates)"
  by code_simp

lemma default_signing_tests:
  "test_signing_config_default sample_crates" "test_signing_config_debug_formatting sample_crates"
  using sample_default_signing
  by (auto simp: test_signing_config_default_def test_signing_config_debug_formatting_def ok_and_def
      signing_config_fmt_def starts_with_def split: sum.splits)

text \<open>The debug text says nothing of the keys: it is the same for all keys of an address.\<close>

lemma debug_text_independent_of_keys:
  "sk_committer_address s = sk_committer_address t \<Longrightarrow> signing_config_fmt s = signing_config_fmt t"
  by (simp add: signing_config_fmt_def)

section \<open>Loading\<close>

definition test_config_load_from_missing_file :: "crates \<Rightarrow> toml_parser \<Rightarrow> bool" where
  "test_config_load_from_missing_file C toml =
     ok_and (\<lambda>config. se_host (cf_server config) = ''0.0.0.0'')
       (load_from_file C toml (test_host [] []) ''nonexistent_config.toml'')"

definition test_config_load_from_invalid_toml :: "crates \<Rightarrow> toml_parser \<Rightarrow> bool" where
  "test_config_load_from_invalid_toml C toml =
     is_err (load_from_file C toml (test_host [] [(''config.toml'', ''invalid toml content'')]) ''config.toml'')"

lemma load_tests:
  "test_config_load_from_missing_file sample_crates toml"
  "toml ''invalid toml content'' = None \<Longrightarrow> test_config_load_from_invalid_toml sample_crates toml"
proof -
  obtain s where s: "default_signing sample_crates = Inr s"
    using sample_default_signing by (auto simp: ok_and_def split: sum.splits)
  show "test_config_load_from_missing_file sample_crates toml"
    by (simp add: test_config_load_from_missing_file_def load_from_file_def test_host_def s res_map_def
        ok_and_def default_config_def default_server_def)
  show "toml ''invalid toml content'' = None \<Longrightarrow> test_config_load_from_invalid_toml sample_crates toml"
    by (simp add: test_config_load_from_invalid_toml_def load_from_file_def test_host_def s res_of_def
        context_res_def res_bind_def res_map_err_def)
qed

section \<open>Environment variables\<close>

definition with_endpoints :: "string \<Rightarrow> string \<Rightarrow> string \<Rightarrow> config \<Rightarrow> config" where
  "with_endpoints beacon reth relay c =
     c\<lparr>cf_beacon_api := (cf_beacon_api c)\<lparr>ba_primary_endpoint := beacon\<rparr>,
       cf_reth := (cf_reth c)\<lparr>rc_endpoint := reth\<rparr>,
       cf_constraints_api := (cf_constraints_api c)\<lparr>ca_relay_endpoint := relay\<rparr>\<rparr>"

definition test_environment_variable_substitution :: "string \<Rightarrow> signing_config \<Rightarrow> bool" where
  "test_environment_variable_substitution url signing =
     (let h = test_host [(''BEACON_API_ENDPOINT'', ''https://env.beacon.com''),
            (''RETH_ENDPOINT'', ''https://env.reth.com''),
            (''CONSTRAINTS_API_ENDPOINT'', ''https://env.constraints.com'')] [];
          config = substitute_env_vars h (with_endpoints ''${BEACON_API_ENDPOINT}'' ''${RETH_ENDPOINT}''
            ''${CONSTRAINTS_API_ENDPOINT}'' (create_test_config url signing))
      in ba_primary_endpoint (cf_beacon_api config) = ''https://env.beacon.com''
         \<and> rc_endpoint (cf_reth config) = ''https://env.reth.com''
         \<and> ca_relay_endpoint (cf_constraints_api config) = ''https://env.constraints.com'')"

definition test_environment_variable_substitution_missing :: "host \<Rightarrow> string \<Rightarrow> signing_config \<Rightarrow> bool" where
  "test_environment_variable_substitution_missing h url signing =
     (let c = create_test_config url signing;
          config = substitute_env_vars h (c\<lparr>cf_beacon_api := (cf_beacon_api c)\<lparr>ba_primary_endpoint := ''${MISSING_ENV_VAR}''\<rparr>\<rparr>)
      in ba_primary_endpoint (cf_beacon_api config) = ''${MISSING_ENV_VAR}'')"

definition test_signing_config_load_missing_env_vars :: "crates \<Rightarrow> bool" where
  "test_signing_config_load_missing_env_vars C =
     err_contains ''COMMITTER_PRIVATE_KEY'' (signing_config_load C (test_host [] []))"

definition test_signing_config_load_invalid_ecdsa_key :: "crates \<Rightarrow> bool" where
  "test_signing_config_load_invalid_ecdsa_key C =
     err_contains ''Invalid COMMITTER_PRIVATE_KEY'' (signing_config_load C
       (test_host [(''COMMITTER_PRIVATE_KEY'', ''invalid_key''),
          (''BLS_PRIVATE_KEY'', ''1234567890abcdef1234567890abcdef1234567890abcdef1234567890abcdef'')] []))"

definition test_signing_config_load_invalid_bls_key :: "crates \<Rightarrow> bool" where
  "test_signing_config_load_invalid_bls_key C =
     err_contains ''Invalid BLS_PRIVATE_KEY'' (signing_config_load C
       (test_host [(''COMMITTER_PRIVATE_KEY'', ''1234567890abcdef1234567890abcdef1234567890abcdef1234567890abcdef''),
          (''BLS_PRIVATE_KEY'', ''invalid_bls_key'')] []))"

definition test_signing_config_parse_bls_key_valid :: "crates \<Rightarrow> bool" where
  "test_signing_config_parse_bls_key_valid C =
     ok_and (\<lambda>(private_key, public_key). public_key = blst_sk_to_pk (c_blst C) private_key)
       (parse_bls_key C ''1234567890abcdef1234567890abcdef1234567890abcdef1234567890abcdef'')"

definition test_signing_config_parse_bls_key_invalid_length :: "crates \<Rightarrow> bool" where
  "test_signing_config_parse_bls_key_invalid_length C =
     err_contains ''Invalid BLS private key hex'' (parse_bls_key C ''1234567890abcdef'')"

definition test_signing_config_parse_bls_key_invalid_hex :: "crates \<Rightarrow> bool" where
  "test_signing_config_parse_bls_key_invalid_hex C =
     is_err (parse_bls_key C ''gggggggggggggggggggggggggggggggggggggggggggggggggggggggggggggggg'')"

lemma substituted_endpoints:
  "ba_primary_endpoint (cf_beacon_api (substitute_env_vars h c))
     = substitute h ''BEACON_API_ENDPOINT'' (ba_primary_endpoint (cf_beacon_api c))"
  "rc_endpoint (cf_reth (substitute_env_vars h c)) = substitute h ''RETH_ENDPOINT'' (rc_endpoint (cf_reth c))"
  "ca_relay_endpoint (cf_constraints_api (substitute_env_vars h c))
     = substitute h ''CONSTRAINTS_API_ENDPOINT'' (ca_relay_endpoint (cf_constraints_api c))"
  by (simp_all add: substitute_env_vars_def)

lemma with_endpoints_sel:
  "ba_primary_endpoint (cf_beacon_api (with_endpoints b r a c)) = b"
  "rc_endpoint (cf_reth (with_endpoints b r a c)) = r"
  "ca_relay_endpoint (cf_constraints_api (with_endpoints b r a c)) = a"
  by (simp_all add: with_endpoints_def)

lemma environment_tests:
  "test_environment_variable_substitution url signing"
  "test_environment_variable_substitution_missing h url signing"
proof -
  let ?h = "test_host [(''BEACON_API_ENDPOINT'', ''https://env.beacon.com''),
    (''RETH_ENDPOINT'', ''https://env.reth.com''), (''CONSTRAINTS_API_ENDPOINT'', ''https://env.constraints.com'')] []"
  have set: "substitute ?h ''BEACON_API_ENDPOINT'' ''${BEACON_API_ENDPOINT}'' = ''https://env.beacon.com''"
    "substitute ?h ''RETH_ENDPOINT'' ''${RETH_ENDPOINT}'' = ''https://env.reth.com''"
    "substitute ?h ''CONSTRAINTS_API_ENDPOINT'' ''${CONSTRAINTS_API_ENDPOINT}'' = ''https://env.constraints.com''"
    by code_simp+
  have other: "str_contains (''${'' @ ''BEACON_API_ENDPOINT'' @ ''}'') ''${MISSING_ENV_VAR}'' = False" by code_simp
  have missing: "substitute h ''BEACON_API_ENDPOINT'' ''${MISSING_ENV_VAR}'' = ''${MISSING_ENV_VAR}''"
    by (simp only: substitute_def other if_False)
  show "test_environment_variable_substitution url signing"
    by (simp only: test_environment_variable_substitution_def Let_def substituted_endpoints with_endpoints_sel set
        simp_thms)
  have endpoint: "ba_primary_endpoint (cf_beacon_api (c\<lparr>cf_beacon_api := (cf_beacon_api c)\<lparr>ba_primary_endpoint := e\<rparr>\<rparr>)) = e"
    for c e by simp
  show "test_environment_variable_substitution_missing h url signing"
    by (simp only: test_environment_variable_substitution_missing_def Let_def substituted_endpoints endpoint missing)
qed

lemma signing_tests:
  "test_signing_config_load_missing_env_vars sample_crates"
  "test_signing_config_load_invalid_ecdsa_key sample_crates"
  "test_signing_config_load_invalid_bls_key sample_crates"
  "test_signing_config_parse_bls_key_valid sample_crates"
  "test_signing_config_parse_bls_key_invalid_length sample_crates"
  "test_signing_config_parse_bls_key_invalid_hex sample_crates"
  by code_simp+

section \<open>Validation\<close>

definition test_validate_beacon_endpoint_empty :: bool where
  "test_validate_beacon_endpoint_empty = err_contains ''empty'' (validate_beacon_endpoint '''')"

definition test_validate_beacon_endpoint_placeholder :: bool where
  "test_validate_beacon_endpoint_placeholder =
     (err_contains ''placeholder'' (validate_beacon_endpoint ''${BEACON_API_ENDPOINT}'')
      \<and> err_contains ''YOUR_API_KEY''
          (validate_beacon_endpoint ''https://eth-mainnet.g.alchemy.com/v2/YOUR_API_KEY''))"

definition test_validate_beacon_endpoint_invalid_url :: bool where
  "test_validate_beacon_endpoint_invalid_url =
     err_contains ''HTTP/HTTPS URL'' (validate_beacon_endpoint ''not-a-url'')"

definition test_validate_beacon_endpoint_valid :: bool where
  "test_validate_beacon_endpoint_valid =
     (is_ok (validate_beacon_endpoint ''https://eth-mainnet.g.alchemy.com/v2/actual_key'')
      \<and> is_ok (validate_beacon_endpoint ''http://localhost:8545''))"

definition test_validate_endpoint_empty :: bool where
  "test_validate_endpoint_empty =
     err_contains ''empty'' (validate_endpoint '''' ''TEST_ENDPOINT'' ''Test Service'')"

definition test_validate_endpoint_placeholder :: bool where
  "test_validate_endpoint_placeholder =
     (err_contains ''placeholder'' (validate_endpoint ''${TEST_ENDPOINT}'' ''TEST_ENDPOINT'' ''Test Service'')
      \<and> err_contains ''REPLACE_ME'' (validate_endpoint ''REPLACE_ME'' ''TEST_ENDPOINT'' ''Test Service'')
      \<and> err_contains ''example.com'' (validate_endpoint ''example.com'' ''TEST_ENDPOINT'' ''Test Service''))"

definition test_validate_endpoint_invalid_url :: bool where
  "test_validate_endpoint_invalid_url =
     err_contains ''HTTP/HTTPS URL'' (validate_endpoint ''not-a-url'' ''TEST_ENDPOINT'' ''Test Service'')"

definition test_validate_endpoint_valid :: bool where
  "test_validate_endpoint_valid =
     (is_ok (validate_endpoint ''https://api.testservice.com'' ''TEST_ENDPOINT'' ''Test Service'')
      \<and> is_ok (validate_endpoint ''http://localhost:8080'' ''TEST_ENDPOINT'' ''Test Service''))"

definition test_validate_slasher_whitelist_empty :: bool where
  "test_validate_slasher_whitelist_empty =
     err_contains ''Slasher whitelist is empty'' (validate_slasher_whitelist [])"

definition test_validate_slasher_whitelist_valid :: bool where
  "test_validate_slasher_whitelist_valid =
     is_ok (validate_slasher_whitelist [''0x1234567890123456789012345678901234567890'',
       ''0xabcdefabcdefabcdefabcdefabcdefabcdefabcd''])"

definition test_validate_slasher_whitelist_invalid_format :: bool where
  "test_validate_slasher_whitelist_invalid_format =
     (err_contains ''Invalid slasher address''
        (validate_slasher_whitelist [''1234567890123456789012345678901234567890''])
      \<and> err_contains ''Invalid slasher address'' (validate_slasher_whitelist [''0x1234567890''])
      \<and> err_contains ''Invalid slasher address''
        (validate_slasher_whitelist [''0x123456789012345678901234567890123456789012'']))"

lemma validation_tests:
  test_validate_beacon_endpoint_empty test_validate_beacon_endpoint_placeholder
  test_validate_beacon_endpoint_invalid_url test_validate_beacon_endpoint_valid
  test_validate_endpoint_empty test_validate_endpoint_placeholder test_validate_endpoint_invalid_url
  test_validate_endpoint_valid test_validate_slasher_whitelist_empty test_validate_slasher_whitelist_valid
  test_validate_slasher_whitelist_invalid_format
  by code_simp+

end
