(* ===== verification/Tests_Beacon.thy ===== *)
theory Tests_Beacon
  imports Unit_Tests Startup
begin

text \<open>
  The tests of \<open>api/beacon.rs\<close>: construction of the client, validator status, duties, and the fallback
  endpoints against the mock of the \<open>HttpClient\<close> trait. The mock is an environment that answers the
  \<open>n\<close>-th request; \<open>times(k)\<close> and the assertions inside its closure are checked on the requests logged.
\<close>

section \<open>Helpers\<close>

definition beacon_test_config :: beacon_api_config where
  "beacon_test_config = \<lparr>ba_primary_endpoint = ''https://eth-mainnet.g.alchemy.com/v2/test'',
     ba_fallback_endpoints = [''https://beacon-nd-123-456-789.p2pify.com''], ba_request_timeout_secs = 30,
     ba_genesis_time = 1606824023\<rparr>"

definition beacon_test_config_with_short_timeout :: beacon_api_config where
  "beacon_test_config_with_short_timeout = \<lparr>ba_primary_endpoint = ''https://invalid-endpoint.test'',
     ba_fallback_endpoints = [''https://another-invalid-endpoint.test''], ba_request_timeout_secs = 1,
     ba_genesis_time = 1606824023\<rparr>"

definition beacon_test_config_no_fallbacks :: beacon_api_config where
  "beacon_test_config_no_fallbacks = \<lparr>ba_primary_endpoint = ''https://invalid-endpoint.test'',
     ba_fallback_endpoints = [], ba_request_timeout_secs = 1, ba_genesis_time = 1606824023\<rparr>"

section \<open>Construction\<close>

definition test_beacon_client_creation :: "platform \<Rightarrow> bool" where
  "test_beacon_client_creation PF =
     (ok_and (\<lambda>client. ba_request_timeout_secs client = 30 \<and> ba_genesis_time client = 1606824023)
       (with_default_client PF beacon_test_config))"

definition test_beacon_client_creation_with_short_timeout :: "platform \<Rightarrow> bool" where
  "test_beacon_client_creation_with_short_timeout PF =
     (ok_and (\<lambda>client. ba_request_timeout_secs client = 1)
       (with_default_client PF beacon_test_config_with_short_timeout))"

definition test_beacon_client_creation_with_no_fallbacks :: "platform \<Rightarrow> bool" where
  "test_beacon_client_creation_with_no_fallbacks PF =
     (ok_and (\<lambda>client. ba_fallback_endpoints client = [])
       (with_default_client PF beacon_test_config_no_fallbacks))"

definition test_beacon_config_validation :: "platform \<Rightarrow> bool" where
  "test_beacon_config_validation PF =
     (let config = beacon_test_config\<lparr>ba_primary_endpoint := ''''\<rparr>;
          blank = beacon_test_config\<lparr>ba_primary_endpoint := ''   ''\<rparr>;
          no_timeout = beacon_test_config\<lparr>ba_primary_endpoint := ''https://valid-endpoint.com'',
            ba_request_timeout_secs := 0\<rparr>
      in err_contains ''Primary endpoint cannot be empty'' (with_default_client PF config)
         \<and> is_err (with_default_client PF blank)
         \<and> err_contains ''Request timeout must be greater than zero'' (with_default_client PF no_timeout))"

definition test_beacon_client_creation_with_minimal_valid_config :: "platform \<Rightarrow> bool" where
  "test_beacon_client_creation_with_minimal_valid_config PF =
     (ok_and (\<lambda>client. ba_request_timeout_secs client = 1 \<and> ba_fallback_endpoints client = [])
       (with_default_client PF \<lparr>ba_primary_endpoint = ''https://minimal.example.com'', ba_fallback_endpoints = [],
       ba_request_timeout_secs = 1, ba_genesis_time = 0\<rparr>))"

definition test_fallback_endpoint_order :: "platform \<Rightarrow> bool" where
  "test_fallback_endpoint_order PF =
     (ok_and (\<lambda>client. length (ba_fallback_endpoints client) = 3
         \<and> ba_fallback_endpoints client ! 0 = ''https://fallback1.test''
         \<and> ba_fallback_endpoints client ! 1 = ''https://fallback2.test''
         \<and> ba_fallback_endpoints client ! 2 = ''https://fallback3.test'')
       (with_default_client PF \<lparr>ba_primary_endpoint = ''https://primary.test'', ba_fallback_endpoints = [''https://fallback1.test'', ''https://fallback2.test'', ''https://fallback3.test''],
       ba_request_timeout_secs = 1, ba_genesis_time = 1606824023\<rparr>))"

definition test_config_with_multiple_fallbacks :: "platform \<Rightarrow> bool" where
  "test_config_with_multiple_fallbacks PF =
     (ok_and (\<lambda>client. length (ba_fallback_endpoints client) = 5)
       (with_default_client PF \<lparr>ba_primary_endpoint = ''https://primary.test'', ba_fallback_endpoints = [''https://fallback1.test'', ''https://fallback2.test'', ''https://fallback3.test'',
         ''https://fallback4.test'', ''https://fallback5.test''],
       ba_request_timeout_secs = 5, ba_genesis_time = 1606824023\<rparr>))"

definition test_config_with_large_timeout :: "platform \<Rightarrow> bool" where
  "test_config_with_large_timeout PF =
     (ok_and (\<lambda>client. ba_request_timeout_secs client = 300)
       (with_default_client PF \<lparr>ba_primary_endpoint = ''https://test.example.com'', ba_fallback_endpoints = [],
       ba_request_timeout_secs = 300, ba_genesis_time = 1606824023\<rparr>))"

definition test_genesis_time_variations :: "platform \<Rightarrow> bool" where
  "test_genesis_time_variations PF =
     (list_all (\<lambda>genesis. is_ok (with_default_client PF
         \<lparr>ba_primary_endpoint = ''https://test.example.com'', ba_fallback_endpoints = [],
          ba_request_timeout_secs = 10, ba_genesis_time = genesis\<rparr>))
       [1606824023, 1695902400, 0])"

definition test_client_creation_preserves_endpoint_urls :: "platform \<Rightarrow> bool" where
  "test_client_creation_preserves_endpoint_urls PF =
     (ok_and (\<lambda>client. ba_primary_endpoint client = ''https://primary.example.com/api/v1''
         \<and> ba_fallback_endpoints client ! 0 = ''https://fallback1.example.com''
         \<and> ba_fallback_endpoints client ! 1 = ''https://fallback2.example.com/custom/path'')
       (with_default_client PF \<lparr>ba_primary_endpoint = ''https://primary.example.com/api/v1'', ba_fallback_endpoints = [''https://fallback1.example.com'', ''https://fallback2.example.com/custom/path''],
       ba_request_timeout_secs = 10, ba_genesis_time = 1606824023\<rparr>))"

text \<open>They hold on every platform that builds HTTP clients.\<close>

lemma with_client: "pf_client_ok PF = (\<lambda>t. True) \<Longrightarrow> with_default_client PF c = beacon_client_new c"
  by (simp add: with_default_client_def reqwest_client_new_def)

lemma construction_tests:
  assumes "pf_client_ok PF = (\<lambda>t. True)"
  shows "test_beacon_client_creation PF"
    "test_beacon_client_creation_with_short_timeout PF"
    "test_beacon_client_creation_with_no_fallbacks PF"
    "test_beacon_config_validation PF"
    "test_beacon_client_creation_with_minimal_valid_config PF"
    "test_fallback_endpoint_order PF"
    "test_config_with_multiple_fallbacks PF"
    "test_config_with_large_timeout PF"
    "test_genesis_time_variations PF"
    "test_client_creation_preserves_endpoint_urls PF"
  unfolding test_beacon_client_creation_def
    test_beacon_client_creation_with_short_timeout_def
    test_beacon_client_creation_with_no_fallbacks_def
    test_beacon_config_validation_def
    test_beacon_client_creation_with_minimal_valid_config_def
    test_fallback_endpoint_order_def
    test_config_with_multiple_fallbacks_def
    test_config_with_large_timeout_def
    test_genesis_time_variations_def
    test_client_creation_preserves_endpoint_urls_def
    with_client [OF assms]
  by code_simp+

section \<open>Validator status\<close>

definition test_parse_validator_info_active_ongoing :: "bool" where
  "test_parse_validator_info_active_ongoing =
     (ok_and (\<lambda>info. vi_is_active info \<and> \<not> vi_is_slashed info \<and> vi_validator_index info = 123456)
       (parse_validator_info \<lparr>va_index = ''123456'', va_status = ''active_ongoing'',
          va_validator = \<lparr>vt_pubkey = ''0x1234567890abcdef1234567890abcdef1234567890abcdef1234567890abcdef1234567890abcdef1234567890abcdef'', vt_slashed = False\<rparr>\<rparr>))"

definition test_parse_validator_info_active_exiting :: "bool" where
  "test_parse_validator_info_active_exiting =
     (ok_and (\<lambda>info. vi_is_active info \<and> \<not> vi_is_slashed info \<and> vi_validator_index info = 789)
       (parse_validator_info \<lparr>va_index = ''789'', va_status = ''active_exiting'',
          va_validator = \<lparr>vt_pubkey = ''0xabcd'', vt_slashed = False\<rparr>\<rparr>))"

definition test_parse_validator_info_active_slashed :: "bool" where
  "test_parse_validator_info_active_slashed =
     (ok_and (\<lambda>info. vi_is_active info \<and> vi_is_slashed info \<and> vi_validator_index info = 999)
       (parse_validator_info \<lparr>va_index = ''999'', va_status = ''active_slashed'',
          va_validator = \<lparr>vt_pubkey = ''0xabcd'', vt_slashed = True\<rparr>\<rparr>))"

definition test_parse_validator_info_inactive_pending :: "bool" where
  "test_parse_validator_info_inactive_pending =
     (ok_and (\<lambda>info. \<not> vi_is_active info \<and> \<not> vi_is_slashed info \<and> vi_validator_index info = 1000)
       (parse_validator_info \<lparr>va_index = ''1000'', va_status = ''pending_initialized'',
          va_validator = \<lparr>vt_pubkey = ''0xabcd'', vt_slashed = False\<rparr>\<rparr>))"

definition test_parse_validator_info_inactive_exited :: "bool" where
  "test_parse_validator_info_inactive_exited =
     (ok_and (\<lambda>info. \<not> vi_is_active info \<and> \<not> vi_is_slashed info \<and> vi_validator_index info = 2000)
       (parse_validator_info \<lparr>va_index = ''2000'', va_status = ''exited_unslashed'',
          va_validator = \<lparr>vt_pubkey = ''0xabcd'', vt_slashed = False\<rparr>\<rparr>))"

definition test_parse_validator_info_exited_slashed :: "bool" where
  "test_parse_validator_info_exited_slashed =
     (ok_and (\<lambda>info. \<not> vi_is_active info \<and> vi_is_slashed info \<and> vi_validator_index info = 3000)
       (parse_validator_info \<lparr>va_index = ''3000'', va_status = ''exited_slashed'',
          va_validator = \<lparr>vt_pubkey = ''0xabcd'', vt_slashed = True\<rparr>\<rparr>))"

definition test_parse_validator_info_withdrawal_possible :: "bool" where
  "test_parse_validator_info_withdrawal_possible =
     (ok_and (\<lambda>info. \<not> vi_is_active info \<and> \<not> vi_is_slashed info \<and> vi_validator_index info = 4000)
       (parse_validator_info \<lparr>va_index = ''4000'', va_status = ''withdrawal_possible'',
          va_validator = \<lparr>vt_pubkey = ''0xabcd'', vt_slashed = False\<rparr>\<rparr>))"

definition test_parse_validator_info_zero_index :: "bool" where
  "test_parse_validator_info_zero_index =
     (ok_and (\<lambda>info. vi_validator_index info = 0)
       (parse_validator_info \<lparr>va_index = ''0'', va_status = ''active_ongoing'',
          va_validator = \<lparr>vt_pubkey = ''0xabcd'', vt_slashed = False\<rparr>\<rparr>))"

definition test_parse_validator_info_large_index :: "bool" where
  "test_parse_validator_info_large_index =
     (ok_and (\<lambda>info. vi_validator_index info = u64_max)
       (parse_validator_info \<lparr>va_index = ''18446744073709551615'', va_status = ''active_ongoing'',
          va_validator = \<lparr>vt_pubkey = ''0xabcd'', vt_slashed = False\<rparr>\<rparr>))"

definition test_parse_validator_info_empty_status :: "bool" where
  "test_parse_validator_info_empty_status =
     (ok_and (\<lambda>info. \<not> vi_is_active info)
       (parse_validator_info \<lparr>va_index = ''100'', va_status = '''',
          va_validator = \<lparr>vt_pubkey = ''0xabcd'', vt_slashed = False\<rparr>\<rparr>))"

definition test_parse_validator_info_unknown_status :: "bool" where
  "test_parse_validator_info_unknown_status =
     (ok_and (\<lambda>info. \<not> vi_is_active info)
       (parse_validator_info \<lparr>va_index = ''100'', va_status = ''unknown_status_type'',
          va_validator = \<lparr>vt_pubkey = ''0xabcd'', vt_slashed = False\<rparr>\<rparr>))"

definition test_parse_validator_info_case_sensitivity :: "bool" where
  "test_parse_validator_info_case_sensitivity =
     (ok_and (\<lambda>info. \<not> vi_is_active info)
       (parse_validator_info \<lparr>va_index = ''100'', va_status = ''ACTIVE_ONGOING'',
          va_validator = \<lparr>vt_pubkey = ''0xabcd'', vt_slashed = False\<rparr>\<rparr>))"

definition test_parse_validator_info_pending_queued :: "bool" where
  "test_parse_validator_info_pending_queued =
     (ok_and (\<lambda>info. \<not> vi_is_active info \<and> \<not> vi_is_slashed info)
       (parse_validator_info \<lparr>va_index = ''5000'', va_status = ''pending_queued'',
          va_validator = \<lparr>vt_pubkey = ''0xabcd'', vt_slashed = False\<rparr>\<rparr>))"

definition test_parse_validator_info_withdrawal_done :: "bool" where
  "test_parse_validator_info_withdrawal_done =
     (ok_and (\<lambda>info. \<not> vi_is_active info \<and> \<not> vi_is_slashed info)
       (parse_validator_info \<lparr>va_index = ''6000'', va_status = ''withdrawal_done'',
          va_validator = \<lparr>vt_pubkey = ''0xabcd'', vt_slashed = False\<rparr>\<rparr>))"

definition test_parse_validator_info_invalid_index :: "bool" where
  "test_parse_validator_info_invalid_index =
     (err_contains ''Failed to parse validator index''
       (parse_validator_info \<lparr>va_index = ''not_a_number'', va_status = ''active_ongoing'',
          va_validator = \<lparr>vt_pubkey = ''0xabcd'', vt_slashed = False\<rparr>\<rparr>))"

definition test_parse_validator_info_negative_index :: "bool" where
  "test_parse_validator_info_negative_index =
     (is_err
       (parse_validator_info \<lparr>va_index = ''-1'', va_status = ''active_ongoing'',
          va_validator = \<lparr>vt_pubkey = ''0xabcd'', vt_slashed = False\<rparr>\<rparr>))"

lemma validator_info_tests:
  test_parse_validator_info_active_ongoing
  test_parse_validator_info_active_exiting
  test_parse_validator_info_active_slashed
  test_parse_validator_info_inactive_pending
  test_parse_validator_info_inactive_exited
  test_parse_validator_info_exited_slashed
  test_parse_validator_info_withdrawal_possible
  test_parse_validator_info_zero_index
  test_parse_validator_info_large_index
  test_parse_validator_info_empty_status
  test_parse_validator_info_unknown_status
  test_parse_validator_info_case_sensitivity
  test_parse_validator_info_pending_queued
  test_parse_validator_info_withdrawal_done
  test_parse_validator_info_invalid_index
  test_parse_validator_info_negative_index
  by code_simp+

section \<open>Duties, slots and paths\<close>

definition test_epoch_calculation :: "bool" where
  "test_epoch_calculation =
     (slot_to_epoch 12345 = 12345 div 32 \<and> slot_to_epoch 12345 = 385)"

definition test_epoch_to_slot_conversions :: "bool" where
  "test_epoch_to_slot_conversions =
     (slot_to_epoch 0 = 0 \<and> slot_to_epoch 31 = 0 \<and> slot_to_epoch 32 = 1 \<and> slot_to_epoch 63 = 1
      \<and> slot_to_epoch 64 = 2 \<and> slot_to_epoch 10000000 = 10000000 div 32)"

definition test_validator_duty_slot_parsing :: "bool" where
  "test_validator_duty_slot_parsing =
     (parse_slot \<lparr>vd_validator_index = ''123'', vd_pubkey = ''0xabcd'', vd_slot = ''12345''\<rparr> = Inr 12345
      \<and> is_err (parse_slot \<lparr>vd_validator_index = ''123'', vd_pubkey = ''0xabcd'', vd_slot = ''not_a_number''\<rparr>))"

definition test_slot_number_edge_cases :: "bool" where
  "test_slot_number_edge_cases =
     (parse_slot \<lparr>vd_validator_index = ''0'', vd_pubkey = ''0xabcd'', vd_slot = ''0''\<rparr> = Inr 0
      \<and> parse_slot \<lparr>vd_validator_index = ''0'', vd_pubkey = ''0xabcd'', vd_slot = ''18446744073709551615''\<rparr> = Inr u64_max)"

definition test_validator_duty_index_parsing :: "bool" where
  "test_validator_duty_index_parsing =
     (parse_validator_index \<lparr>vd_validator_index = ''987654'', vd_pubkey = ''0xabcd'', vd_slot = ''100''\<rparr> = Inr 987654)"

definition test_validator_duty_index_parsing_invalid :: "bool" where
  "test_validator_duty_index_parsing_invalid =
     (is_err (parse_validator_index \<lparr>vd_validator_index = ''invalid_index'', vd_pubkey = ''0xabcd'', vd_slot = ''100''\<rparr>))"

definition test_validator_duty_index_parsing_zero :: "bool" where
  "test_validator_duty_index_parsing_zero =
     (parse_validator_index \<lparr>vd_validator_index = ''0'', vd_pubkey = ''0xabcd'', vd_slot = ''100''\<rparr> = Inr 0)"

definition test_url_building_with_trailing_slash :: "bool" where
  "test_url_building_with_trailing_slash =
     (join_url ''https://example.com/'' ''eth/v1/test'' = ''https://example.com/eth/v1/test''
      \<and> join_url ''https://example.com'' ''eth/v1/test'' = ''https://example.com/eth/v1/test'')"

definition test_proposer_duties_endpoint_formatting :: "bool" where
  "test_proposer_duties_endpoint_formatting =
     (duties_path 12345 = ''eth/v1/validator/duties/proposer/12345''
      \<and> duties_path 0 = ''eth/v1/validator/duties/proposer/0'')"

definition test_validator_status_endpoint_formatting :: "hash_lib \<Rightarrow> bool" where
  "test_validator_status_endpoint_formatting H =
     (let endpoint = validator_path H (BlsPublicKey (replicate 48 0x42))
      in starts_with ''eth/v1/beacon/states/head/validators/0x'' endpoint \<and> str_contains ''42424242'' endpoint)"

definition test_validator_duty_pubkey_parsing_with_prefix :: "hash_lib \<Rightarrow> bool" where
  "test_validator_duty_pubkey_parsing_with_prefix H =
     (ok_and (\<lambda>k. length (pk_bytes k) = 48) (parse_pubkey H
       \<lparr>vd_validator_index = ''100'', vd_pubkey = ''0x1234567890abcdef1234567890abcdef1234567890abcdef1234567890abcdef1234567890abcdef1234567890abcdef'', vd_slot = ''200''\<rparr>))"

definition test_validator_duty_pubkey_parsing_without_prefix :: "hash_lib \<Rightarrow> bool" where
  "test_validator_duty_pubkey_parsing_without_prefix H =
     (ok_and (\<lambda>k. length (pk_bytes k) = 48) (parse_pubkey H
       \<lparr>vd_validator_index = ''100'', vd_pubkey = ''1234567890abcdef1234567890abcdef1234567890abcdef1234567890abcdef1234567890abcdef1234567890abcdef'', vd_slot = ''200''\<rparr>))"

definition test_validator_duty_pubkey_parsing_invalid_length :: "hash_lib \<Rightarrow> bool" where
  "test_validator_duty_pubkey_parsing_invalid_length H =
     (is_err (parse_pubkey H \<lparr>vd_validator_index = ''100'', vd_pubkey = ''0x1234'', vd_slot = ''200''\<rparr>))"

definition test_validator_duty_pubkey_parsing_invalid_hex :: "hash_lib \<Rightarrow> bool" where
  "test_validator_duty_pubkey_parsing_invalid_hex H =
     (is_err (parse_pubkey H
       \<lparr>vd_validator_index = ''100'', vd_pubkey = ''0xZZZZ567890abcdef1234567890abcdef1234567890abcdef1234567890abcdef1234567890abcdef1234567890abcdef'', vd_slot = ''200''\<rparr>))"

definition test_bls_pubkey_hex_encoding :: "hash_lib \<Rightarrow> bool" where
  "test_bls_pubkey_hex_encoding H =
     (let hex_encoded = hex_encode H (replicate 48 0xAB)
      in length hex_encoded = 96 \<and> list_all (\<lambda>c. digit_of 16 c \<noteq> None) hex_encoded
         \<and> str_contains ''ab'' (map to_ascii_lower hex_encoded))"

lemma duty_tests:
  test_epoch_calculation
  test_epoch_to_slot_conversions
  test_validator_duty_slot_parsing
  test_slot_number_edge_cases
  test_validator_duty_index_parsing
  test_validator_duty_index_parsing_invalid
  test_validator_duty_index_parsing_zero
  test_url_building_with_trailing_slash
  test_proposer_duties_endpoint_formatting
  "test_validator_status_endpoint_formatting sample_hash"
  "test_validator_duty_pubkey_parsing_with_prefix sample_hash"
  "test_validator_duty_pubkey_parsing_without_prefix sample_hash"
  "test_validator_duty_pubkey_parsing_invalid_length sample_hash"
  "test_validator_duty_pubkey_parsing_invalid_hex sample_hash"
  "test_bls_pubkey_hex_encoding sample_hash"
  by code_simp+

section \<open>The mock client\<close>

text \<open>
  \<open>duties_body\<close> stands for \<open>serde_json::to_vec(&duties)\<close>: the one body that decodes, and to \<open>duties\<close>.
  The closure of \<open>returning\<close> is a function of the number of earlier calls and the URL.
\<close>

definition duties_body :: bytes where "duties_body = bytes_of ''{}''"

definition mock_client ::
  "env \<Rightarrow> proposer_duties_response \<Rightarrow> (nat \<Rightarrow> string \<Rightarrow> http_response option) \<Rightarrow> env" where
  "mock_client E duties returning =
     E\<lparr>e_http := (\<lambda>n req. case req of HttpGet url \<Rightarrow> returning n url | _ \<Rightarrow> None),
       e_crates := (e_crates E)\<lparr>c_json := (json_of E)\<lparr>json_duties :=
         (\<lambda>b. if b = duties_body then Some duties else None)\<rparr>\<rparr>\<rparr>"

definition fresh_world :: world where
  "fresh_world = \<lparr>w_db = empty_db, w_tick = 0, w_cache = [], w_events = []\<rparr>"

fun got_url :: "event \<Rightarrow> string list" where
  "got_url (EvHttp (HttpGet url) ans) = [url]"
| "got_url _ = []"

definition requested :: "world \<Rightarrow> string list" where
  "requested w = concat (map got_url (w_events w))"

text \<open>Run a call of the client on the mock: the asserted result, and what every requested URL contains, in order.\<close>

definition with_mock ::
  "beacon_api_config \<Rightarrow> (beacon_api_config \<Rightarrow> (err, 'a) io) \<Rightarrow> string list \<Rightarrow> (err + 'a \<Rightarrow> bool) \<Rightarrow> bool" where
  "with_mock config run urls check =
     ok_and (\<lambda>client. let (r, w) = run client fresh_world in
       check r \<and> list_all2 str_contains urls (requested w)) (beacon_client_new config)"

definition reply :: "nat \<Rightarrow> string \<Rightarrow> http_response option" where
  "reply status text = Some \<lparr>hr_status = status, hr_body = bytes_of text\<rparr>"

definition no_duties :: proposer_duties_response where
  "no_duties = \<lparr>pd_execution_optimistic = False, pd_finalized = True, pd_data = []\<rparr>"

definition duties_reply :: "http_response option" where
  "duties_reply = Some \<lparr>hr_status = 200, hr_body = duties_body\<rparr>"

section \<open>Proposers\<close>

definition test_get_proposer_for_slot_found :: "env \<Rightarrow> bool" where
  "test_get_proposer_for_slot_found E =
     (let duties_response = no_duties\<lparr>pd_data :=
            [\<lparr>vd_validator_index = ''100'', vd_pubkey = ''0x1234567890abcdef1234567890abcdef1234567890abcdef1234567890abcdef1234567890abcdef1234567890abcdef'', vd_slot = ''12345''\<rparr>,
             \<lparr>vd_validator_index = ''101'', vd_pubkey = ''0xabcdef1234567890abcdef1234567890abcdef1234567890abcdef1234567890abcdef1234567890abcdef12345678'', vd_slot = ''12346''\<rparr>]\<rparr>;
          E' = mock_client E duties_response (\<lambda>n url. duties_reply)
      in with_mock beacon_test_config (\<lambda>client. get_proposer_for_slot E' client 12345)
           [''eth/v1/validator/duties/proposer/385'']
           (ok_and (\<lambda>duty. case duty of None \<Rightarrow> False
              | Some duty \<Rightarrow> parse_slot duty = Inr 12345 \<and> vd_validator_index duty = ''100'')))"

definition test_get_proposer_for_slot_not_found :: "env \<Rightarrow> bool" where
  "test_get_proposer_for_slot_not_found E =
     (let E' = mock_client E no_duties (\<lambda>n url. duties_reply)
      in with_mock beacon_test_config (\<lambda>client. get_proposer_for_slot E' client 12345) ['''']
           (ok_and (\<lambda>duty. duty = None)))"

definition test_get_proposer_for_slot_wrong_slot_in_epoch :: "env \<Rightarrow> bool" where
  "test_get_proposer_for_slot_wrong_slot_in_epoch E =
     (let duties_response = no_duties\<lparr>pd_data :=
            [\<lparr>vd_validator_index = ''100'', vd_pubkey = ''0x1234567890abcdef1234567890abcdef1234567890abcdef1234567890abcdef1234567890abcdef1234567890abcdef'', vd_slot = ''12346''\<rparr>]\<rparr>;
          E' = mock_client E duties_response (\<lambda>n url. duties_reply)
      in with_mock beacon_test_config (\<lambda>client. get_proposer_for_slot E' client 12345) ['''']
           (ok_and (\<lambda>duty. duty = None)))"

section \<open>Fallback endpoints\<close>

definition test_primary_endpoint_success_no_fallback :: "env \<Rightarrow> bool" where
  "test_primary_endpoint_success_no_fallback E =
     (let E' = mock_client E no_duties (\<lambda>n url. duties_reply)
      in with_mock beacon_test_config (\<lambda>client. get_proposer_duties E' client 385)
           [''eth-mainnet.g.alchemy.com''] is_ok)"

definition test_primary_fails_fallback_succeeds :: "env \<Rightarrow> bool" where
  "test_primary_fails_fallback_succeeds E =
     (let E' = mock_client E no_duties (\<lambda>n url. if n = 0 then None else duties_reply)
      in with_mock beacon_test_config (\<lambda>client. get_proposer_duties E' client 385)
           [''eth-mainnet.g.alchemy.com'', ''beacon-nd-123-456-789.p2pify.com''] is_ok)"

definition test_all_endpoints_fail :: "env \<Rightarrow> bool" where
  "test_all_endpoints_fail E =
     (let E' = mock_client E no_duties (\<lambda>n url. None)
      in with_mock beacon_test_config (\<lambda>client. get_proposer_duties E' client 385) ['''', ''''] is_err)"

definition test_multiple_fallbacks :: "env \<Rightarrow> bool" where
  "test_multiple_fallbacks E =
     (let config = \<lparr>ba_primary_endpoint = ''https://primary.test'',
            ba_fallback_endpoints = [''https://fallback1.test'', ''https://fallback2.test'', ''https://fallback3.test''],
            ba_request_timeout_secs = 30, ba_genesis_time = 1606824023\<rparr>;
          E' = mock_client E no_duties (\<lambda>n url. if n < 2 then None else duties_reply)
      in with_mock config (\<lambda>client. get_proposer_duties E' client 385) ['''', '''', ''fallback2.test''] is_ok)"

section \<open>HTTP errors\<close>

definition test_http_404_error :: "env \<Rightarrow> bool" where
  "test_http_404_error E =
     (let E' = mock_client E no_duties (\<lambda>n url. reply 404 ''Not Found'')
      in with_mock beacon_test_config_no_fallbacks (\<lambda>client. get_proposer_duties E' client 385) ['''']
           (err_contains ''404''))"

definition test_http_500_error :: "env \<Rightarrow> bool" where
  "test_http_500_error E =
     (let E' = mock_client E no_duties (\<lambda>n url. reply 500 ''Internal Server Error'')
      in with_mock beacon_test_config_no_fallbacks (\<lambda>client. get_proposer_duties E' client 385) ['''']
           (err_contains ''500''))"

definition test_http_403_forbidden :: "env \<Rightarrow> bool" where
  "test_http_403_forbidden E =
     (let E' = mock_client E no_duties (\<lambda>n url. reply 403 ''Forbidden - Rate limit exceeded'')
      in with_mock beacon_test_config_no_fallbacks (\<lambda>client. get_proposer_duties E' client 385) ['''']
           (err_contains ''403''))"

definition test_invalid_json_response :: "env \<Rightarrow> bool" where
  "test_invalid_json_response E =
     (let E' = mock_client E no_duties (\<lambda>n url. reply 200 ''Invalid JSON {{{'')
      in with_mock beacon_test_config_no_fallbacks (\<lambda>client. get_proposer_duties E' client 385) ['''']
           (\<lambda>r. err_contains ''parse'' r \<or> err_contains ''JSON'' r))"

definition test_empty_response_body :: "env \<Rightarrow> bool" where
  "test_empty_response_body E =
     (let E' = mock_client E no_duties (\<lambda>n url. Some \<lparr>hr_status = 200, hr_body = []\<rparr>)
      in with_mock beacon_test_config_no_fallbacks (\<lambda>client. get_proposer_duties E' client 385) [''''] is_err)"

section \<open>The mock tests pass\<close>

lemma test_clients:
  "beacon_client_new beacon_test_config = Inr beacon_test_config"
  "beacon_client_new beacon_test_config_no_fallbacks = Inr beacon_test_config_no_fallbacks"
  "beacon_client_new \<lparr>ba_primary_endpoint = ''https://primary.test'', ba_fallback_endpoints = fs,
       ba_request_timeout_secs = 30, ba_genesis_time = g\<rparr>
     = Inr \<lparr>ba_primary_endpoint = ''https://primary.test'', ba_fallback_endpoints = fs,
       ba_request_timeout_secs = 30, ba_genesis_time = g\<rparr>"
  by code_simp+

lemma test_config_endpoints:
  "ba_primary_endpoint beacon_test_config = ''https://eth-mainnet.g.alchemy.com/v2/test''"
  "ba_fallback_endpoints beacon_test_config = [''https://beacon-nd-123-456-789.p2pify.com'']"
  "ba_primary_endpoint beacon_test_config_no_fallbacks = ''https://invalid-endpoint.test''"
  "ba_fallback_endpoints beacon_test_config_no_fallbacks = []"
  by (simp_all add: beacon_test_config_def beacon_test_config_no_fallbacks_def)

lemma epoch_385: "show_u64 385 = ''385''" "slot_to_epoch 12345 = 385"
  by code_simp+

lemma test_slots:
  "parse_slot \<lparr>vd_validator_index = i, vd_pubkey = k, vd_slot = ''12345''\<rparr> = Inr 12345"
  "parse_slot \<lparr>vd_validator_index = i, vd_pubkey = k, vd_slot = ''12346''\<rparr> = Inr 12346"
  by code_simp+

lemma test_statuses: "show_nat 404 = ''404''" "show_nat 500 = ''500''" "show_nat 403 = ''403''"
  by code_simp+

lemma test_bodies:
  "json_duties (json_of (mock_client E duties returning)) (bytes_of ''Invalid JSON {{{'') = None"
  "json_duties (json_of (mock_client E duties returning)) [] = None"
  "json_duties (json_of (mock_client E duties returning)) duties_body = Some duties"
proof -
  have "bytes_of ''Invalid JSON {{{'' \<noteq> duties_body" "duties_body \<noteq> []" by code_simp+
  then show "json_duties (json_of (mock_client E duties returning)) (bytes_of ''Invalid JSON {{{'') = None"
    "json_duties (json_of (mock_client E duties returning)) [] = None"
    "json_duties (json_of (mock_client E duties returning)) duties_body = Some duties"
    by (auto simp add: mock_client_def)
qed

lemma mock_answer: "e_http (mock_client E duties returning) n (HttpGet url) = returning n url"
  by (simp add: mock_client_def)

lemmas mock_eval = run_eval with_mock_def test_clients ok_and_def get_proposer_duties_def
  get_proposer_for_slot_def try_endpoints_def make_request_def reqwest_get_def io_http_def mock_answer
  duties_reply_def reply_def no_duties_def test_slots test_statuses test_bodies fresh_world_def join_url_def requested_def is_ok_def is_err_def ends_with_char_def duties_path_def
  epoch_385 starts_with_def test_config_endpoints err_contains_def
  res_of_def res_bind_def

lemma proposer_tests:
  "test_get_proposer_for_slot_found sample_env"
  "test_get_proposer_for_slot_not_found sample_env"
  "test_get_proposer_for_slot_wrong_slot_in_epoch sample_env"
  by (simp_all add: test_get_proposer_for_slot_found_def test_get_proposer_for_slot_not_found_def
      test_get_proposer_for_slot_wrong_slot_in_epoch_def mock_eval)

lemma fallback_tests:
  "test_primary_endpoint_success_no_fallback sample_env"
  "test_primary_fails_fallback_succeeds sample_env"
  "test_all_endpoints_fail sample_env"
  "test_multiple_fallbacks sample_env"
  by (simp_all add: test_primary_endpoint_success_no_fallback_def test_primary_fails_fallback_succeeds_def
      test_all_endpoints_fail_def test_multiple_fallbacks_def mock_eval)

lemma http_error_tests:
  "test_http_404_error sample_env" "test_http_500_error sample_env" "test_http_403_forbidden sample_env"
  "test_invalid_json_response sample_env" "test_empty_response_body sample_env"
  by (simp_all add: test_http_404_error_def test_http_500_error_def test_http_403_forbidden_def
      test_invalid_json_response_def test_empty_response_body_def mock_eval)

end
