(* ===== verification/Tests_Clients.thy ===== *)
theory Tests_Clients
  imports Unit_Tests Startup
begin

text \<open>
  The tests of \<open>api/constraints.rs\<close> and \<open>api/reth.rs\<close>. An invalid endpoint is an outside that answers no
  request; what is asserted under it holds for every such outside.
\<close>

section \<open>The constraints client\<close>

definition relay_test_config :: constraints_api_config where
  "relay_test_config = \<lparr>ca_relay_endpoint = ''https://relay.example.com'', ca_request_timeout_secs = 10,
     ca_max_retries = 3, ca_authorized_builders = [''0x1234'', ''0x5678'']\<rparr>"

definition relay_test_config_with_short_timeout :: constraints_api_config where
  "relay_test_config_with_short_timeout = \<lparr>ca_relay_endpoint = ''https://invalid-endpoint.test'',
     ca_request_timeout_secs = 1, ca_max_retries = 1, ca_authorized_builders = []\<rparr>"

definition relay_test_config_no_retries :: constraints_api_config where
  "relay_test_config_no_retries = \<lparr>ca_relay_endpoint = ''https://invalid-endpoint.test'',
     ca_request_timeout_secs = 1, ca_max_retries = 0, ca_authorized_builders = []\<rparr>"

text \<open>The keys of a test are drawn at random.\<close>

definition create_test_signed_constraints :: "bls_public_key \<Rightarrow> bls_public_key \<Rightarrow> signed_constraints" where
  "create_test_signed_constraints proposer_pk delegate_pk =
     (let c = from_inclusion_commitment [1, 2, 3, 4]
      in \<lparr>sc_message = new_constraints_message proposer_pk delegate_pk 12345 [c] [],
          sc_signature = BlsSignature (replicate 96 42)\<rparr>)"

definition test_client_creation :: "(u64 \<Rightarrow> bool) \<Rightarrow> bool" where
  "test_client_creation client_ok =
     ok_and (\<lambda>client. ca_request_timeout_secs client = 10 \<and> ca_max_retries client = 3)
       (constraints_client_new client_ok relay_test_config)"

definition test_client_creation_with_short_timeout :: "(u64 \<Rightarrow> bool) \<Rightarrow> bool" where
  "test_client_creation_with_short_timeout client_ok =
     ok_and (\<lambda>client. ca_request_timeout_secs client = 1 \<and> ca_max_retries client = 1)
       (constraints_client_new client_ok relay_test_config_with_short_timeout)"

definition test_client_creation_no_retries :: "(u64 \<Rightarrow> bool) \<Rightarrow> bool" where
  "test_client_creation_no_retries client_ok =
     ok_and (\<lambda>client. ca_max_retries client = 0)
       (constraints_client_new client_ok relay_test_config_no_retries)"

definition test_url_building :: "(u64 \<Rightarrow> bool) \<Rightarrow> bool" where
  "test_url_building client_ok =
     (ok_and (\<lambda>client. build_url client ''test/endpoint'' = ''https://relay.example.com/test/endpoint'')
        (constraints_client_new client_ok relay_test_config)
      \<and> ok_and (\<lambda>client. build_url client ''test/endpoint'' = ''https://relay.example.com/test/endpoint'')
        (constraints_client_new client_ok
           (relay_test_config\<lparr>ca_relay_endpoint := ''https://relay.example.com/''\<rparr>)))"

definition test_url_building_edge_cases :: "(u64 \<Rightarrow> bool) \<Rightarrow> bool" where
  "test_url_building_edge_cases client_ok =
     ok_and (\<lambda>client. build_url client '''' = ''https://example.com/''
         \<and> build_url client ''/leading/slash'' = ''https://example.com//leading/slash''
         \<and> build_url client ''multiple//slashes'' = ''https://example.com/multiple//slashes'')
       (constraints_client_new client_ok \<lparr>ca_relay_endpoint = ''https://example.com'',
          ca_request_timeout_secs = 1, ca_max_retries = 1, ca_authorized_builders = []\<rparr>)"

definition test_config_validation :: "(u64 \<Rightarrow> bool) \<Rightarrow> bool" where
  "test_config_validation client_ok =
     (let valid = relay_test_config\<lparr>ca_relay_endpoint := ''https://valid-endpoint.com''\<rparr> in
      err_contains ''Relay endpoint cannot be empty''
        (constraints_client_new client_ok (relay_test_config\<lparr>ca_relay_endpoint := ''''\<rparr>))
      \<and> is_err (constraints_client_new client_ok (relay_test_config\<lparr>ca_relay_endpoint := ''   ''\<rparr>))
      \<and> err_contains ''Request timeout must be greater than zero''
          (constraints_client_new client_ok (valid\<lparr>ca_request_timeout_secs := 0\<rparr>))
      \<and> err_contains ''Max retries cannot exceed 10''
          (constraints_client_new client_ok (valid\<lparr>ca_request_timeout_secs := 10, ca_max_retries := 100\<rparr>)))"

definition test_client_creation_with_minimal_valid_config :: "(u64 \<Rightarrow> bool) \<Rightarrow> bool" where
  "test_client_creation_with_minimal_valid_config client_ok =
     ok_and (\<lambda>client. ca_request_timeout_secs client = 1 \<and> ca_max_retries client = 0
         \<and> ca_authorized_builders client = [])
       (constraints_client_new client_ok \<lparr>ca_relay_endpoint = ''https://minimal.example.com'',
          ca_request_timeout_secs = 1, ca_max_retries = 0, ca_authorized_builders = []\<rparr>)"

definition test_client_creation_with_maximum_valid_config :: "(u64 \<Rightarrow> bool) \<Rightarrow> bool" where
  "test_client_creation_with_maximum_valid_config client_ok =
     ok_and (\<lambda>client. ca_request_timeout_secs client = 300 \<and> ca_max_retries client = 10
         \<and> length (ca_authorized_builders client) = 2)
       (constraints_client_new client_ok \<lparr>ca_relay_endpoint = ''https://maximal.example.com'',
          ca_request_timeout_secs = 300, ca_max_retries = 10, ca_authorized_builders = [''0x1111'', ''0x2222'']\<rparr>)"

definition test_authorized_builders_config :: "(u64 \<Rightarrow> bool) \<Rightarrow> bool" where
  "test_authorized_builders_config client_ok =
     ok_and (\<lambda>client. length (ca_authorized_builders client) = 3
         \<and> ''0x1111'' \<in> set (ca_authorized_builders client) \<and> ''0x2222'' \<in> set (ca_authorized_builders client)
         \<and> ''0x3333'' \<in> set (ca_authorized_builders client))
       (constraints_client_new client_ok \<lparr>ca_relay_endpoint = ''https://example.com'', ca_request_timeout_secs = 10,
          ca_max_retries = 3, ca_authorized_builders = [''0x1111'', ''0x2222'', ''0x3333'']\<rparr>)"

lemma constraints_client_tests:
  "test_client_creation (\<lambda>t. True)" "test_client_creation_with_short_timeout (\<lambda>t. True)"
  "test_client_creation_no_retries (\<lambda>t. True)" "test_url_building (\<lambda>t. True)"
  "test_url_building_edge_cases (\<lambda>t. True)" "test_config_validation (\<lambda>t. True)"
  "test_client_creation_with_minimal_valid_config (\<lambda>t. True)"
  "test_client_creation_with_maximum_valid_config (\<lambda>t. True)" "test_authorized_builders_config (\<lambda>t. True)"
  by code_simp+

section \<open>No answer\<close>

definition unreachable :: "env \<Rightarrow> env" where
  "unreachable E = E\<lparr>e_http := (\<lambda>n req. None)\<rparr>"

definition test_get_delegations_error_handling :: "env \<Rightarrow> world \<Rightarrow> bool" where
  "test_get_delegations_error_handling E w =
     list_all (\<lambda>slot. case fst (relay_get_delegations (unreachable E) relay_test_config_with_short_timeout slot w) of
         Inl e \<Rightarrow> err_text e \<noteq> [] | Inr ds \<Rightarrow> False) [0, 12345, u64_max]"

definition test_submit_constraints_no_retries :: "env \<Rightarrow> signed_constraints \<Rightarrow> world \<Rightarrow> bool" where
  "test_submit_constraints_no_retries E constraints w =
     is_err (fst (submit_constraints (unreachable E) relay_test_config_no_retries constraints w))"

text \<open>Five requests one after the other, in the order in which they reach the relay.\<close>

definition test_concurrent_delegations_requests :: "env \<Rightarrow> world \<Rightarrow> bool" where
  "test_concurrent_delegations_requests E w =
     passes (io_fold (\<lambda>i u. io_expect
       (relay_get_delegations (unreachable E) relay_test_config_with_short_timeout (i + 100)) is_err)
       [0, 1, 2, 3, 4] ()) w"

definition test_concurrent_constraint_submissions :: "env \<Rightarrow> signed_constraints list \<Rightarrow> world \<Rightarrow> bool" where
  "test_concurrent_constraint_submissions E submissions w =
     passes (io_fold (\<lambda>constraints u. io_expect
       (submit_constraints (unreachable E) relay_test_config_with_short_timeout constraints) is_err)
       submissions ()) w"

lemma http_unreachable:
  "io_http (unreachable E) req w = (Inl HttpErr, (tick w)\<lparr>w_events := w_events w @ [EvHttp req None]\<rparr>)"
  by (simp add: io_http_def unreachable_def Let_def)

lemma get_delegations_unreachable:
  "fst (relay_get_delegations (unreachable E) c slot w) = Inl (Ctx ''Failed to fetch delegations'' HttpErr)"
  by (simp add: relay_get_delegations_def io_bind_def io_context_def io_map_err_def http_unreachable)

lemma submit_attempts_unreachable: "is_err (fst (submit_attempts (unreachable E) url sc n s w))"
proof (induction n arbitrary: s w)
  case 0
  then show ?case by (cases s) (simp add: io_fail_def)
next
  case (Suc n)
  then show ?case by (cases s) (simp add: io_match_def http_unreachable io_bind_def io_sleep_def Let_def)
qed

lemma submit_unreachable: "is_err (fst (submit_constraints (unreachable E) c sc w))"
  using submit_attempts_unreachable
  by (cases "json_constraints_ok (json_of (unreachable E)) sc")
    (simp_all add: submit_constraints_def io_bind_def io_res_def)

lemma expect_all:
  assumes "\<And>x w. f (fst (m x w))"
  shows "passes (io_fold (\<lambda>x u. io_expect (m x) f) xs ()) w"
proof (induction xs arbitrary: w)
  case Nil
  show ?case by (simp add: passes_def io_return_def)
next
  case (Cons y ys)
  have "io_expect (m y) f w = (Inr (), snd (m y w))"
    using assms [of y w] by (cases "m y w") (simp add: io_expect_def io_match_def io_assert_def io_return_def)
  then show ?case using Cons.IH by (simp add: passes_def io_bind_def)
qed

lemma unreachable_tests:
  "test_get_delegations_error_handling E w" "test_submit_constraints_no_retries E sc w"
  "test_concurrent_delegations_requests E w" "test_concurrent_constraint_submissions E scs w"
  unfolding test_concurrent_delegations_requests_def test_concurrent_constraint_submissions_def
  by (simp add: test_get_delegations_error_handling_def get_delegations_unreachable)
    (simp add: test_submit_constraints_no_retries_def submit_unreachable,
     (rule expect_all, simp add: get_delegations_unreachable submit_unreachable)+)

section \<open>The Reth client\<close>

definition test_reth_client_creation :: "platform \<Rightarrow> bool" where
  "test_reth_client_creation PF = is_ok (reth_client_new PF default_reth_api)"

definition test_gas_price_conversion :: bool where
  "test_gas_price_conversion =
     (let normal_price = \<lparr>gp_gas_price = 20000000000, gp_block_number = 100, gp_timestamp = 1234567890\<rparr>;
          huge_price = \<lparr>gp_gas_price = 2 ^ 256 - 1, gp_block_number = 100, gp_timestamp = 1234567890\<rparr>
      in gas_price_as_u64_clamped normal_price = 20000000000
         \<and> gas_price_as_u64_checked normal_price = Inr 20000000000
         \<and> gas_price_as_u64_clamped huge_price = u64_max
         \<and> is_err (gas_price_as_u64_checked huge_price))"

definition test_gas_price_info_edge_cases :: bool where
  "test_gas_price_info_edge_cases =
     (let zero_price = \<lparr>gp_gas_price = 0, gp_block_number = 0, gp_timestamp = 0\<rparr>;
          max_price = \<lparr>gp_gas_price = unat u64_max, gp_block_number = 100, gp_timestamp = 1234567890\<rparr>
      in gas_price_as_u64_clamped zero_price = 0 \<and> gas_price_as_u64_checked zero_price = Inr 0
         \<and> gas_price_as_u64_clamped max_price = u64_max \<and> gas_price_as_u64_checked max_price = Inr u64_max)"

definition test_reth_client_with_invalid_endpoint :: "platform \<Rightarrow> env \<Rightarrow> reth_config \<Rightarrow> world \<Rightarrow> bool" where
  "test_reth_client_with_invalid_endpoint PF E c w =
     (let config = c\<lparr>rc_endpoint := ''invalid://endpoint'', rc_request_timeout_secs := 1, rc_max_retries := 1\<rparr>
      in is_ok (reth_client_new PF (reth_api_config_of config))
         \<and> is_err (fst (get_gas_price (unreachable E) config w)))"

definition test_block_number_parsing :: "platform \<Rightarrow> env \<Rightarrow> reth_config \<Rightarrow> world \<Rightarrow> bool" where
  "test_block_number_parsing PF E c w =
     (let config = c\<lparr>rc_endpoint := ra_endpoint default_reth_api,
            rc_request_timeout_secs := ra_request_timeout_secs default_reth_api,
            rc_max_retries := ra_max_retries default_reth_api\<rparr>
      in is_ok (reth_client_new PF (reth_api_config_of config))
         \<and> is_err (fst (get_block_number (unreachable E) config w)))"

text \<open>\<open>httpbin.org/status/500\<close> answers every request with this status.\<close>

definition test_reth_client_retry_logic :: "platform \<Rightarrow> env \<Rightarrow> reth_config \<Rightarrow> (nat \<Rightarrow> http_request \<Rightarrow> bytes) \<Rightarrow> world \<Rightarrow> bool" where
  "test_reth_client_retry_logic PF E c body w =
     (let config = c\<lparr>rc_endpoint := ''http://httpbin.org/status/500'', rc_request_timeout_secs := 5, rc_max_retries := 3\<rparr>;
          E' = E\<lparr>e_http := (\<lambda>n req. Some \<lparr>hr_status = 500, hr_body = body n req\<rparr>)\<rparr>
      in is_ok (reth_client_new PF (reth_api_config_of config)) \<and> is_err (fst (get_gas_price E' config w)))"

definition test_u256_serialization :: "json_lib \<Rightarrow> (nat \<Rightarrow> string) \<Rightarrow> bool" where
  "test_u256_serialization J lower_hex = (u256_deserialize J (u256_serialize lower_hex 12345) = Inr 12345)"

definition test_u256_serialization_large_value :: "json_lib \<Rightarrow> (nat \<Rightarrow> string) \<Rightarrow> bool" where
  "test_u256_serialization_large_value J lower_hex =
     (u256_deserialize J (u256_serialize lower_hex (2 ^ 256 - 1)) = Inr (2 ^ 256 - 1))"

definition test_reth_api_config_default :: bool where
  "test_reth_api_config_default =
     (ra_endpoint default_reth_api = ''http://localhost:8545'' \<and> ra_request_timeout_secs default_reth_api = 10
      \<and> ra_max_retries default_reth_api = 3)"

lemma gas_price_tests: test_gas_price_conversion test_gas_price_info_edge_cases test_reth_api_config_default
  by code_simp+

lemma u256_tests:
  assumes "\<And>v. v < 2 ^ 256 \<Longrightarrow> u256_from_hex J (lower_hex v) = Some v"
  shows "test_u256_serialization J lower_hex" "test_u256_serialization_large_value J lower_hex"
  using assms by (simp_all add: test_u256_serialization_def test_u256_serialization_large_value_def u256_serde_roundtrip)

text \<open>An endpoint none of whose answers is a success fails every call.\<close>

lemma rpc_attempts_fail:
  assumes "\<And>n req r. e_http E n req = Some r \<Longrightarrow> \<not> (200 \<le> hr_status r \<and> hr_status r < 300)"
  shows "is_err (fst (rpc_attempts E req m left u w))"
proof (induction left arbitrary: w)
  case 0
  then show ?case by (simp add: io_fail_def)
next
  case (Suc left)
  show ?case
  proof (cases "e_http E (w_tick w) req")
    case None
    then show ?thesis using Suc by (simp add: io_match_def io_http_def io_bind_def io_sleep_def Let_def)
  next
    case (Some r)
    then show ?thesis using Suc assms [OF Some]
      by (auto simp: io_match_def io_http_def io_bind_def io_sleep_def Let_def)
  qed
qed

lemma call_fails: "is_err (fst (m w)) \<Longrightarrow> is_err (fst (io_bind (io_context msg m) f w))"
  by (cases "m w") (auto simp: io_bind_def io_context_def io_map_err_def is_err_def split: sum.splits)

lemma reth_calls_fail:
  assumes "\<And>n req r. e_http E n req = Some r \<Longrightarrow> \<not> (200 \<le> hr_status r \<and> hr_status r < 300)"
  shows "is_err (fst (get_gas_price E c w))" "is_err (fst (get_block_number E c w))"
  unfolding get_gas_price_def get_block_number_def make_rpc_call_def
  by (rule call_fails, rule rpc_attempts_fail, rule assms, assumption)+

lemma reth_tests:
  assumes "pf_client_ok PF = (\<lambda>t. True)"
  shows "test_reth_client_creation PF" "test_reth_client_with_invalid_endpoint PF E c w"
    "test_block_number_parsing PF E c w" "test_reth_client_retry_logic PF E c body w"
proof -
  have client: "is_ok (reth_client_new PF x)" for x
    using assms by (simp add: reth_client_new_def)
  show "test_reth_client_creation PF" "test_reth_client_with_invalid_endpoint PF E c w"
    "test_block_number_parsing PF E c w" "test_reth_client_retry_logic PF E c body w"
    unfolding test_reth_client_creation_def test_reth_client_with_invalid_endpoint_def
      test_block_number_parsing_def test_reth_client_retry_logic_def Let_def
    by (intro conjI client reth_calls_fail; simp add: unreachable_def)+
qed

end
