(* ===== verification/Tests_Storage.thy ===== *)
theory Tests_Storage
  imports Unit_Tests
begin

text \<open>
  The tests of \<open>db/operations.rs\<close> and \<open>db/delegation_ops.rs\<close>. A test that needs a database runs on a
  fresh one, with \<open>DATABASE_URL\<close> set; tasks that a test spawns to save the same commitment are single
  statements and run one after the other.
\<close>

section \<open>Commitments\<close>

text \<open>The time in the helper's request hash is the clock of the test, in nanoseconds.\<close>

definition pad_zeros :: "nat \<Rightarrow> string \<Rightarrow> string" where
  "pad_zeros n s = s @ replicate (n - length s) CHR ''0''"

definition test_hash :: "hash_lib \<Rightarrow> nat \<Rightarrow> string \<Rightarrow> string" where
  "test_hash H nanos suffix =
     (let suffix_hex = hex_encode H (bytes_of (suffix @ show_nat nanos))
      in ''0x'' @ (if 64 \<le> length suffix_hex then take 64 suffix_hex else pad_zeros 64 suffix_hex))"

definition test_signature :: string where
  "test_signature = ''0x'' @ pad_zeros 130 ''1234567890abcdef''"

definition test_slasher :: string where
  "test_slasher = ''0x1234567890123456789012345678901234567890''"

definition create_test_commitment_with_slot :: "hash_lib \<Rightarrow> payload_lib \<Rightarrow> nat \<Rightarrow> string \<Rightarrow> u64 \<Rightarrow> signed_commitment" where
  "create_test_commitment_with_slot H P nanos suffix slot =
     \<lparr>sg_commitment = \<lparr>co_commitment_type = 1,
        co_payload = (case encode_inclusion_payload P (inclusion_payload_new slot [1, 2, 3]) of Inr bs \<Rightarrow> bs | Inl e \<Rightarrow> []),
        co_request_hash = test_hash H nanos suffix, co_slasher = test_slasher\<rparr>,
      sg_signature = test_signature\<rparr>"

definition create_test_commitment :: "hash_lib \<Rightarrow> payload_lib \<Rightarrow> nat \<Rightarrow> string \<Rightarrow> signed_commitment" where
  "create_test_commitment H P nanos suffix = create_test_commitment_with_slot H P nanos suffix 12345"

text \<open>An environment with fresh, non-nil identifiers and a database clock that goes on.\<close>

definition store_env :: env where
  "store_env = sample_env\<lparr>e_crates := sample_crates\<lparr>c_payload := sample_payload\<rparr>,
     e_uuid := (\<lambda>n. of_nat (Suc n)), e_db_time := int\<rparr>"

abbreviation commitment_at :: "string \<Rightarrow> u64 \<Rightarrow> signed_commitment" where
  "commitment_at \<equiv> create_test_commitment_with_slot sample_hash sample_payload 1700000000000000000"

abbreviation hash_in :: "signed_commitment \<Rightarrow> string" where
  "hash_in sc \<equiv> co_request_hash (sg_commitment sc)"

abbreviation commitment_named :: "string \<Rightarrow> signed_commitment" where
  "commitment_named \<equiv> create_test_commitment sample_hash sample_payload 1700000000000000000"

definition fake_hash :: "char \<Rightarrow> string" where
  "fake_hash c = ''0x'' @ replicate 64 c"

definition is_new :: "uuid option \<Rightarrow> bool" where
  "is_new uid = (case uid of None \<Rightarrow> False | Some i \<Rightarrow> i \<noteq> 0)"

definition test_save_and_retrieve_commitment :: "(err, unit) io" where
  "test_save_and_retrieve_commitment =
     (let sc = commitment_named ''test_save_retrieve'' in
      io_bind (save_commitment store_env sc) (\<lambda>id.
      io_bind (io_assert (is_new id)) (\<lambda>_.
      io_bind (get_commitment_by_hash store_env (hash_in sc)) (\<lambda>retrieved.
      io_assert (retrieved = Some sc)))))"

definition test_commitment_exists :: "(err, unit) io" where
  "test_commitment_exists =
     (let sc = commitment_named ''test_exists'' in
      io_bind (commitment_exists store_env (hash_in sc)) (\<lambda>before.
      io_bind (io_assert (\<not> before)) (\<lambda>_.
      io_bind (save_commitment store_env sc) (\<lambda>_.
      io_bind (commitment_exists store_env (hash_in sc)) (\<lambda>after.
      io_assert after)))))"

definition test_get_commitment_stats :: "(err, unit) io" where
  "test_get_commitment_stats =
     io_bind (get_commitment_stats store_env) (\<lambda>stats_before.
     io_bind (save_commitment store_env (commitment_named ''test_stats'')) (\<lambda>_.
     io_bind (get_commitment_stats store_env) (\<lambda>stats_after.
     io_assert (sint (cs_total_count stats_before) < sint (cs_total_count stats_after)
       \<and> sint (cs_commitment_type_1_count stats_before) < sint (cs_commitment_type_1_count stats_after)
       \<and> (case cs_latest_created_at stats_after of
            None \<Rightarrow> False
          | Some t \<Rightarrow> (case cs_latest_created_at stats_before of None \<Rightarrow> True | Some t0 \<Rightarrow> t0 \<le> t))))))"

definition test_get_unprocessed_commitments_for_slot :: "(err, unit) io" where
  "test_get_unprocessed_commitments_for_slot =
     (let test_slot = 999999 in
      io_bind (get_unprocessed_commitments_for_slot store_env test_slot) (\<lambda>initial.
      io_bind (save_commitment store_env (commitment_at ''test_unprocessed_slot'' test_slot)) (\<lambda>_.
      io_bind (get_unprocessed_commitments_for_slot store_env test_slot) (\<lambda>commitments.
      io_assert (length commitments = length initial + 1)))))"

definition test_mark_commitments_as_processed :: "(err, unit) io" where
  "test_mark_commitments_as_processed =
     (let test_slot = 888888; sc = commitment_at ''test_mark_processed'' test_slot in
      io_bind (save_commitment store_env sc) (\<lambda>_.
      io_bind (get_unprocessed_commitments_for_slot store_env test_slot) (\<lambda>unprocessed.
      io_bind (io_assert (0 < length unprocessed)) (\<lambda>_.
      io_bind (mark_commitments_as_processed store_env [hash_in sc]) (\<lambda>marked.
      io_bind (io_assert (0 < marked)) (\<lambda>_.
      io_bind (get_unprocessed_commitments_for_slot store_env test_slot) (\<lambda>rest.
      io_assert (length rest = length unprocessed - 1))))))))"

definition test_mark_empty_array :: "(err, unit) io" where
  "test_mark_empty_array =
     io_bind (mark_commitments_as_processed store_env []) (\<lambda>marked. io_assert (marked = 0))"

definition test_get_nonexistent_commitment :: "(err, unit) io" where
  "test_get_nonexistent_commitment =
     io_bind (get_commitment_by_hash store_env (fake_hash CHR ''f'')) (\<lambda>r. io_assert (r = None))"

definition test_mark_nonexistent_commitments :: "(err, unit) io" where
  "test_mark_nonexistent_commitments =
     io_bind (mark_commitments_as_processed store_env [fake_hash CHR ''f'', fake_hash CHR ''e'']) (\<lambda>marked.
     io_assert (marked = 0))"

definition test_duplicate_commitment_handling :: "(err, unit) io" where
  "test_duplicate_commitment_handling =
     (let sc = commitment_named ''test_duplicate'' in
      io_bind (save_commitment store_env sc) (\<lambda>id1.
      io_bind (io_assert (is_new id1)) (\<lambda>_.
      io_bind (save_commitment store_env sc) (\<lambda>id2.
      io_assert (id2 = None)))))"

definition test_get_stats_with_no_commitments :: "(err, unit) io" where
  "test_get_stats_with_no_commitments =
     io_bind (get_commitment_stats store_env) (\<lambda>stats.
     io_assert (0 \<le> sint (cs_total_count stats) \<and> 0 \<le> sint (cs_commitment_type_1_count stats)
       \<and> sint (cs_commitment_type_1_count stats) \<le> sint (cs_total_count stats)))"

definition test_get_stats_with_multiple_commitments :: "(err, unit) io" where
  "test_get_stats_with_multiple_commitments =
     io_bind (get_commitment_stats store_env) (\<lambda>stats_before.
     io_bind (save_commitment store_env (commitment_named ''stats_test_1'')) (\<lambda>_.
     io_bind (save_commitment store_env (commitment_named ''stats_test_2'')) (\<lambda>_.
     io_bind (save_commitment store_env (commitment_named ''stats_test_3'')) (\<lambda>_.
     io_bind (get_commitment_stats store_env) (\<lambda>stats_after.
     io_assert (cs_total_count stats_after = cs_total_count stats_before + 3
       \<and> cs_commitment_type_1_count stats_after = cs_commitment_type_1_count stats_before + 3))))))"

definition test_get_commitments_by_slot :: "(err, unit) io" where
  "test_get_commitments_by_slot =
     (let c1 = commitment_at ''slot_test_1'' 1000; c2 = commitment_at ''slot_test_2'' 2000;
          c3 = commitment_at ''slot_test_3'' 3000 in
      io_bind (save_commitment store_env c1) (\<lambda>_.
      io_bind (save_commitment store_env c2) (\<lambda>_.
      io_bind (save_commitment store_env c3) (\<lambda>_.
      io_bind (get_unprocessed_commitments_for_slot store_env 2000) (\<lambda>found.
      io_bind (io_assert (map hash_in found = [hash_in c2])) (\<lambda>_.
      io_bind (get_unprocessed_commitments_for_slot store_env 1000) (\<lambda>other.
      io_assert (map hash_in other = [hash_in c1]))))))))"

definition test_get_commitments_by_slot_empty :: "(err, unit) io" where
  "test_get_commitments_by_slot_empty =
     io_bind (get_unprocessed_commitments_for_slot store_env 9999) (\<lambda>found. io_assert (length found = 0))"

definition test_get_commitments_by_slot_with_nulls :: "(err, unit) io" where
  "test_get_commitments_by_slot_with_nulls =
     io_bind (save_commitment store_env (commitment_named ''null_slot_test'')) (\<lambda>_.
     io_bind (get_unprocessed_commitments_for_slot store_env 0) (\<lambda>found.
     io_assert (length found = 0)))"

definition test_mark_commitments_as_processed_with_mixed_hashes :: "(err, unit) io" where
  "test_mark_commitments_as_processed_with_mixed_hashes =
     (let sc = commitment_named ''mixed_test'' in
      io_bind (save_commitment store_env sc) (\<lambda>_.
      io_bind (mark_commitments_as_processed store_env [hash_in sc, fake_hash CHR ''f'']) (\<lambda>marked.
      io_assert (marked = 1))))"

definition test_commitment_retrieval_edge_cases :: "(err, unit) io" where
  "test_commitment_retrieval_edge_cases =
     io_bind (get_commitment_by_hash store_env (fake_hash CHR ''f'')) (\<lambda>r1.
     io_bind (io_assert (r1 = None)) (\<lambda>_.
     io_bind (get_commitment_by_hash store_env ''invalid_hash'') (\<lambda>r2.
     io_assert (r2 = None))))"

definition test_commitment_existence_edge_cases :: "(err, unit) io" where
  "test_commitment_existence_edge_cases =
     io_bind (commitment_exists store_env (fake_hash CHR ''f'')) (\<lambda>r1.
     io_bind (io_assert (\<not> r1)) (\<lambda>_.
     io_bind (commitment_exists store_env ''invalid_hash'') (\<lambda>r2.
     io_assert (\<not> r2))))"

definition large_payload :: bytes where
  "large_payload = map (\<lambda>i. of_nat (i mod 256)) [0..<10000]"

definition test_large_payload_handling :: "(err, unit) io" where
  "test_large_payload_handling =
     (let sc = \<lparr>sg_commitment = \<lparr>co_commitment_type = 1, co_payload = large_payload,
              co_request_hash = ''0x1234567890abcdef1234567890abcdef1234567890abcdef1234567890abcdef'',
              co_slasher = test_slasher\<rparr>, sg_signature = test_signature\<rparr> in
      io_bind (save_commitment store_env sc) (\<lambda>id.
      io_bind (io_assert (is_new id)) (\<lambda>_.
      io_bind (get_commitment_by_hash store_env (hash_in sc)) (\<lambda>retrieved.
      case retrieved of
        None \<Rightarrow> io_assert False
      | Some r \<Rightarrow> io_assert (length (co_payload (sg_commitment r)) = 10000)))))"

definition test_concurrent_duplicate_commitment_handling :: "(err, unit) io" where
  "test_concurrent_duplicate_commitment_handling =
     (let sc = commitment_named ''concurrent_duplicate_test'' in
      io_bind (io_for [0 :: nat, 1, 2, 3, 4] (\<lambda>i. save_commitment store_env sc)) (\<lambda>results.
      io_bind (io_assert (length (filter (\<lambda>r. r \<noteq> None) results) = 1
         \<and> length (filter (\<lambda>r. r = None) results) = 4)) (\<lambda>_.
      io_bind (commitment_exists store_env (hash_in sc)) (\<lambda>exists.
      io_assert exists))))"

section \<open>Conversions and payloads\<close>

definition test_commitment_type_conversion_edge_cases :: bool where
  "test_commitment_type_conversion_edge_cases =
     (case i64_try_from 1 of None \<Rightarrow> False | Some c \<Rightarrow> c = 1 \<and> u64_try_from c = Some 1)"

definition test_slot_number_conversion_edge_cases :: bool where
  "test_slot_number_conversion_edge_cases = (i64_try_from 12345 = Some 12345 \<and> i64_try_from u64_max = None)"

definition test_payload_extraction_edge_cases :: "payload_lib \<Rightarrow> bool" where
  "test_payload_extraction_edge_cases P =
     ok_and (\<lambda>payload_bytes. extract_slot P 1 payload_bytes = Inr 12345 \<and> is_err (extract_slot P 999 payload_bytes)
         \<and> is_err (extract_slot P 1 []))
       (encode_inclusion_payload P (inclusion_payload_new 12345 [1, 2, 3]))"

section \<open>The tests on commitments are passed\<close>

text \<open>What the statements see of the test commitments: the format of their hashes, and that they differ.\<close>

lemma hex_digit_char: "set s \<subseteq> set hex_digits \<Longrightarrow> list_all hex_char s"
proof -
  have "\<forall>c \<in> set hex_digits. hex_char c" by (simp add: hex_digits_def hex_char_def)
  then show "set s \<subseteq> set hex_digits \<Longrightarrow> list_all hex_char s" by (auto simp: list_all_iff)
qed

lemma test_hash_format: "hex_laws H \<Longrightarrow> hex_format 64 (test_hash H nanos suffix)"
proof -
  assume "hex_laws H"
  then have "list_all hex_char (hex_encode H bs)" for bs by (intro hex_digit_char) (simp add: hex_laws_def)
  moreover have "hex_char CHR ''0''" by (simp add: hex_char_def)
  ultimately show ?thesis
    by (auto simp: test_hash_def hex_format_def pad_zeros_def Let_def list_all_iff dest: in_set_takeD)
qed

lemma sample_hex_append: "sample_hex_encode (xs @ ys) = sample_hex_encode xs @ sample_hex_encode ys"
  by (induction xs) simp_all

lemma bytes_of_inj: "bytes_of s = bytes_of t \<Longrightarrow> s = t"
proof (induction s arbitrary: t)
  case (Cons c s)
  then obtain d t' where t: "t = d # t'" and c: "(of_nat (of_char c) :: u8) = of_nat (of_char d)"
    and r: "bytes_of s = bytes_of t'"
    by (cases t) (auto simp: bytes_of_def)
  have "(of_char x :: nat) < 2 ^ 8" for x
    using of_char_of [of "of_char x :: nat"] by (simp add: mod_eq_self_iff_div_eq_0)
  then have "(of_char c :: nat) = of_char d" using c by (simp add: word_unat_eq_iff unat_of_nat)
  then show ?case using Cons.IH [OF r] t by simp
qed (simp add: bytes_of_def)

lemma test_hash_differs:
  assumes "length s = length t" "length s \<le> 32" "s \<noteq> t"
  shows "test_hash sample_hash nanos s \<noteq> test_hash sample_hash nanos t"
proof
  assume eq: "test_hash sample_hash nanos s = test_hash sample_hash nanos t"
  have l: "length (sample_hex_encode bs) = 2 * length bs" for bs by (induction bs) auto
  have b: "length (bytes_of x) = length x" for x by (simp add: bytes_of_def)
  have "take (2 * length x) (drop 2 (test_hash sample_hash nanos x)) = sample_hex_encode (bytes_of x)"
    if "length x \<le> 32" for x
    using that l b by (simp add: test_hash_def sample_hash_def bytes_of_def sample_hex_append pad_zeros_def Let_def min_def)
  then have "sample_hex_encode (bytes_of s) = sample_hex_encode (bytes_of t)"
    using eq assms by metis
  then show False using sample_hex_roundtrip bytes_of_inj assms(3) by (metis option.inject)
qed

text \<open>The row of a test commitment.\<close>

definition test_row :: "nat \<Rightarrow> nat \<Rightarrow> string \<Rightarrow> u64 \<Rightarrow> commitment_row" where
  "test_row uid time suffix slot =
     commitment_row_of sample_payload (of_nat uid) 1 (int time) (commitment_at suffix slot)"

lemma json_stored_slot:
  "json_payload_laws P \<Longrightarrow> encode_inclusion_payload P (inclusion_payload_new slot tx) = Inr bs \<Longrightarrow>
   extract_slot P 1 bs = Inr slot"
  by (auto simp: json_payload_laws_def encode_inclusion_payload_def res_of_def context_res_def res_map_err_def
      inclusion_payload_new_def extract_slot_def extract_slot_from_inclusion_payload_def
      parse_inclusion_payload_def res_bind_def split: option.splits)

lemma sample_encodes: "\<exists>bs. encode_inclusion_payload sample_payload p = Inr bs"
  by (simp add: encode_inclusion_payload_def sample_payload_def res_of_def context_res_def res_map_err_def)

lemma hash_in_test [simp]: "hash_in (commitment_at s slot) = test_hash sample_hash 1700000000000000000 s"
  by (simp add: create_test_commitment_with_slot_def)

lemma test_row_sel:
  "ci_id (test_row u t s slot) = of_nat u" "ci_created_at (test_row u t s slot) = int t"
  "ci_request_hash (test_row u t s slot) = test_hash sample_hash 1700000000000000000 s"
  "ci_commitment_type (test_row u t s slot) = 1"
  "\<not> ci_constraint_processed (test_row u t s slot)"
  "ci_slot_number (test_row u t s slot) = i64_try_from slot"
  "commitment_of_row (test_row u t s slot) = Inr (commitment_at s slot)"
proof -
  obtain bs where "encode_inclusion_payload sample_payload (inclusion_payload_new slot [1, 2, 3]) = Inr bs"
    using sample_encodes by blast
  then have "stored_slot sample_payload (sg_commitment (commitment_at s slot)) = i64_try_from slot"
    using json_stored_slot [OF sample_json_payload_laws]
    by (simp add: stored_slot_def create_test_commitment_with_slot_def)
  then show "ci_slot_number (test_row u t s slot) = i64_try_from slot"
    by (simp add: test_row_def commitment_row_of_def)
  show "commitment_of_row (test_row u t s slot) = Inr (commitment_at s slot)"
    unfolding test_row_def by (rule commitment_of_row_of)
      (simp add: create_test_commitment_with_slot_def i64_try_from_def)
qed (simp_all add: test_row_def commitment_row_of_def create_test_commitment_with_slot_def)

lemma test_formats: "hex_format 130 test_signature" "hex_format 40 test_slasher"
  by code_simp+

lemma test_row_check: "commitment_check (test_row u t s slot)"
proof -
  have "ci_slasher (test_row u t s slot) = test_slasher" "ci_signature (test_row u t s slot) = test_signature"
    by (simp_all add: test_row_def commitment_row_of_def create_test_commitment_with_slot_def)
  then show ?thesis
    using test_hash_format [OF sample_hex_laws] test_formats
    by (auto simp: commitment_check_def test_row_sel i64_try_from_def sint_nonneg_iff split: option.splits if_splits)
qed

lemma save_test:
  "save_commitment store_env (commitment_at s slot) w =
     (let r = test_row (Suc (w_tick w)) (Suc (w_tick w)) s slot; w1 = tick (tick w); d = w_db w
      in if ci_request_hash r \<in> ci_request_hash ` set (db_commitments d) then (Inr None, w1)
         else if ci_id r \<in> ci_id ` set (db_commitments d)
           then (Inl (Ctx ''Failed to insert commitment into database'' (DbErr (DbUnique ''commitments_pkey''))), w1)
         else (Inr (Some (ci_id r)), w1\<lparr>w_db := d\<lparr>db_commitments := db_commitments d @ [r]\<rparr>\<rparr>))"
proof -
  have t: "i64_try_from (co_commitment_type (sg_commitment (commitment_at s slot))) = Some 1"
    by (simp add: create_test_commitment_with_slot_def i64_try_from_def)
  have r: "commitment_row_of sample_payload (of_nat (Suc n)) 1 (int m) (commitment_at s slot) = test_row (Suc n) m s slot"
    for n m by (simp add: test_row_def)
  show ?thesis
    using test_row_check
    by (simp add: save_commitment_def t io_bind_def io_uuid_def io_res_def io_context_def io_map_err_def sql_def
        store_env_def sample_env_def sample_crates_def r test_row_sel(1) insert_commitment_def io_return_def Let_def
        del: of_nat_Suc)
qed

lemma store_env_sel: "e_fault store_env n = NoFault" "e_scan store_env n k = [0..<k]"
  by (simp_all add: store_env_def sample_env_def)

lemma create_named: "commitment_named s = commitment_at s 12345"
  by (simp add: create_test_commitment_def)

lemmas commitment_tests_eval = run_eval save_test create_named test_row_sel test_hash_differs is_new_def
  get_commitment_by_hash_def find_commitment_def commitment_exists_def get_commitment_stats_def max_of_def
  get_unprocessed_commitments_for_slot_def select_unprocessed_def mark_commitments_as_processed_def mark_processed_def
  scan_def i64_try_from_def i64_max_def store_env_sel context_res_def res_of_def res_map_err_def

theorem commitment_tests:
  "passes test_save_and_retrieve_commitment empty_world"
  "passes test_commitment_exists empty_world"
  "passes test_get_commitment_stats empty_world"
  by (simp_all add: test_save_and_retrieve_commitment_def test_commitment_exists_def test_get_commitment_stats_def
      commitment_tests_eval)

theorem commitment_tests_2:
  "passes test_mark_empty_array empty_world" "passes test_get_nonexistent_commitment empty_world"
  "passes test_mark_nonexistent_commitments empty_world" "passes test_duplicate_commitment_handling empty_world"
  "passes test_get_stats_with_no_commitments empty_world"
  "passes test_get_stats_with_multiple_commitments empty_world"
  by (simp_all add: test_mark_empty_array_def test_get_nonexistent_commitment_def test_mark_nonexistent_commitments_def
      test_duplicate_commitment_handling_def test_get_stats_with_no_commitments_def
      test_get_stats_with_multiple_commitments_def commitment_tests_eval)

theorem commitment_slot_tests:
  "passes test_get_unprocessed_commitments_for_slot empty_world" "passes test_mark_commitments_as_processed empty_world"
  "passes test_get_commitments_by_slot empty_world" "passes test_get_commitments_by_slot_empty empty_world"
  "passes test_get_commitments_by_slot_with_nulls empty_world"
  by (simp_all add: test_get_unprocessed_commitments_for_slot_def test_mark_commitments_as_processed_def
      test_get_commitments_by_slot_def test_get_commitments_by_slot_empty_def
      test_get_commitments_by_slot_with_nulls_def commitment_tests_eval mark_row_def)

theorem commitment_edge_tests:
  "passes test_mark_commitments_as_processed_with_mixed_hashes empty_world"
  "passes test_commitment_retrieval_edge_cases empty_world" "passes test_commitment_existence_edge_cases empty_world"
  "passes test_concurrent_duplicate_commitment_handling empty_world"
  by (simp_all add: test_mark_commitments_as_processed_with_mixed_hashes_def test_commitment_retrieval_edge_cases_def
      test_commitment_existence_edge_cases_def test_concurrent_duplicate_commitment_handling_def
      commitment_tests_eval)

theorem conversion_tests:
  "test_commitment_type_conversion_edge_cases" "test_slot_number_conversion_edge_cases"
  by code_simp+

theorem payload_extraction_test:
  "json_payload_laws P \<Longrightarrow> is_err (parse_inclusion_payload P []) \<Longrightarrow> json_of_inclusion P (inclusion_payload_new 12345 [1, 2, 3]) \<noteq> None \<Longrightarrow>
   test_payload_extraction_edge_cases P"
  using json_stored_slot [of P 12345 "[1, 2, 3]"]
  by (auto simp: test_payload_extraction_edge_cases_def ok_and_def encode_inclusion_payload_def context_res_def
      res_of_def res_map_err_def extract_slot_def extract_slot_from_inclusion_payload_def res_bind_def is_err_def
      split: option.splits sum.splits)

text \<open>A payload without a slot is stored with a NULL slot.\<close>

theorem large_payload_test: "passes test_large_payload_handling empty_world"
proof -
  have "hd large_payload = 0" by (simp add: large_payload_def hd_map)
  then obtain bs where l: "large_payload = 0 # bs" by (cases large_payload) (auto simp: large_payload_def)
  have n: "length large_payload = 10000" by (simp add: large_payload_def)
  let ?c = "\<lparr>co_commitment_type = 1, co_payload = large_payload,
    co_request_hash = ''0x1234567890abcdef1234567890abcdef1234567890abcdef1234567890abcdef'',
    co_slasher = test_slasher\<rparr>"
  have slot: "stored_slot sample_payload ?c = None"
    by (simp add: stored_slot_def extract_slot_def extract_slot_from_inclusion_payload_def parse_inclusion_payload_def
        parse_inclusion_payload_rlp_def sample_payload_def l res_bind_def context_res_def res_map_err_def)
  have "hex_format 64 ''0x1234567890abcdef1234567890abcdef1234567890abcdef1234567890abcdef''" by code_simp
  then show ?thesis
    using slot test_formats n
    by (simp add: test_large_payload_handling_def run_eval save_commitment_def io_uuid_def store_env_def sample_env_def
        sample_crates_def insert_commitment_def commitment_check_def commitment_row_of_def i64_try_from_def i64_max_def
        is_new_def get_commitment_by_hash_def find_commitment_def commitment_of_row_def u64_try_from_def
        context_res_def res_of_def res_map_err_def res_bind_def)
qed

section \<open>Commitments on a pool that reaches no database\<close>

definition test_save_commitment_with_invalid_pool :: "env \<Rightarrow> nat \<Rightarrow> (err, unit) io" where
  "test_save_commitment_with_invalid_pool E nanos =
     io_expect (save_commitment (invalid_pool E)
       (create_test_commitment (hash_of E) (payload_of E) nanos ''test_invalid_pool'')) is_err"

definition test_get_commitment_by_hash_with_invalid_pool :: "env \<Rightarrow> (err, unit) io" where
  "test_get_commitment_by_hash_with_invalid_pool E =
     io_expect (get_commitment_by_hash (invalid_pool E) ''0x1234567890abcdef'') is_err"

definition test_commitment_exists_with_invalid_pool :: "env \<Rightarrow> (err, unit) io" where
  "test_commitment_exists_with_invalid_pool E =
     io_expect (commitment_exists (invalid_pool E) ''0x1234567890abcdef'') is_err"

definition test_get_commitment_stats_with_invalid_pool :: "env \<Rightarrow> (err, unit) io" where
  "test_get_commitment_stats_with_invalid_pool E = io_expect (get_commitment_stats (invalid_pool E)) is_err"

definition test_get_unprocessed_commitments_with_invalid_pool :: "env \<Rightarrow> (err, unit) io" where
  "test_get_unprocessed_commitments_with_invalid_pool E =
     io_expect (get_unprocessed_commitments_for_slot (invalid_pool E) 12345) is_err"

definition test_mark_commitments_as_processed_with_invalid_pool :: "env \<Rightarrow> (err, unit) io" where
  "test_mark_commitments_as_processed_with_invalid_pool E =
     io_expect (mark_commitments_as_processed (invalid_pool E) [''0x1234567890abcdef'']) is_err"

lemmas no_database = passes_expect io_bind_def io_context_def io_map_err_def io_res_def io_fail_def io_return_def
  io_uuid_def sql_invalid sql_query_invalid sql_transaction_invalid

theorem commitment_invalid_pool_tests:
  "passes (test_save_commitment_with_invalid_pool E nanos) w"
  "passes (test_get_commitment_by_hash_with_invalid_pool E) w"
  "passes (test_commitment_exists_with_invalid_pool E) w"
  "passes (test_get_commitment_stats_with_invalid_pool E) w"
  "passes (test_get_unprocessed_commitments_with_invalid_pool E) w"
  "passes (test_mark_commitments_as_processed_with_invalid_pool E) w"
  by (auto simp: no_database test_save_commitment_with_invalid_pool_def test_get_commitment_by_hash_with_invalid_pool_def
      test_commitment_exists_with_invalid_pool_def test_get_commitment_stats_with_invalid_pool_def
      test_get_unprocessed_commitments_with_invalid_pool_def test_mark_commitments_as_processed_with_invalid_pool_def
      save_commitment_def get_commitment_by_hash_def commitment_exists_def get_commitment_stats_def
      get_unprocessed_commitments_for_slot_def mark_commitments_as_processed_def split: sum.splits)

section \<open>Delegations\<close>

definition create_test_delegation_variant :: "bytes \<Rightarrow> bytes \<Rightarrow> u64 \<Rightarrow> signed_delegation" where
  "create_test_delegation_variant proposer delegate slot =
     \<lparr>sd_message = \<lparr>dm_proposer = BlsPublicKey proposer, dm_delegate = BlsPublicKey delegate,
        dm_committer = ''0x1234567890123456789012345678901234567890'', dm_slot = slot\<rparr>,
      sd_signature = BlsSignature (replicate 96 3)\<rparr>"

definition create_test_delegation :: signed_delegation where
  "create_test_delegation =
     \<lparr>sd_message = \<lparr>dm_proposer = BlsPublicKey (replicate 48 1), dm_delegate = BlsPublicKey (replicate 48 2),
        dm_committer = ''0x1234567890123456789012345678901234567890'', dm_slot = 12345\<rparr>,
      sd_signature = BlsSignature (replicate 96 3)\<rparr>"

definition other_test_delegation :: signed_delegation where
  "other_test_delegation = create_test_delegation_variant (replicate 48 4) (replicate 48 5) 12346"

text \<open>\<open>error_msg.contains("signature") || error_msg.contains("Invalid")\<close>.\<close>

definition mentions_signature :: "'a res \<Rightarrow> bool" where
  "mentions_signature r = (is_err r \<and> (err_contains ''signature'' r \<or> err_contains ''Invalid'' r))"

definition test_save_delegation_rejects_invalid_signature :: "env \<Rightarrow> (err, unit) io" where
  "test_save_delegation_rejects_invalid_signature E =
     io_expect (save_delegation (invalid_pool E) create_test_delegation) mentions_signature"

definition test_save_delegations_batch_rejects_invalid_signatures :: "env \<Rightarrow> (err, unit) io" where
  "test_save_delegations_batch_rejects_invalid_signatures E =
     io_expect (save_delegations_batch (invalid_pool E) [create_test_delegation, other_test_delegation]) mentions_signature"

definition test_save_delegation_with_invalid_pool :: "env \<Rightarrow> (err, unit) io" where
  "test_save_delegation_with_invalid_pool E =
     io_expect (save_delegation (invalid_pool E) create_test_delegation) is_err"

definition test_get_delegations_for_slot_with_invalid_pool :: "env \<Rightarrow> (err, unit) io" where
  "test_get_delegations_for_slot_with_invalid_pool E =
     io_expect (get_delegations_for_slot (invalid_pool E) 12345) is_err"

definition test_get_delegation_by_proposer_slot_with_invalid_pool :: "env \<Rightarrow> (err, unit) io" where
  "test_get_delegation_by_proposer_slot_with_invalid_pool E =
     io_expect (get_delegation_by_proposer_slot (invalid_pool E) (BlsPublicKey (replicate 48 1)) 12345) is_err"

definition test_get_delegations_by_delegate_with_invalid_pool :: "env \<Rightarrow> (err, unit) io" where
  "test_get_delegations_by_delegate_with_invalid_pool E =
     io_expect (get_delegations_by_delegate (invalid_pool E) (BlsPublicKey (replicate 48 2))) is_err"

definition test_delegation_exists_for_slot_and_committer_with_invalid_pool :: "env \<Rightarrow> (err, unit) io" where
  "test_delegation_exists_for_slot_and_committer_with_invalid_pool E =
     io_expect (delegation_exists_for_slot_and_committer (invalid_pool E) 12345
       ''0x1234567890123456789012345678901234567890'') is_err"

definition test_deactivate_expired_delegations_with_invalid_pool :: "env \<Rightarrow> (err, unit) io" where
  "test_deactivate_expired_delegations_with_invalid_pool E =
     io_expect (deactivate_expired_delegations (invalid_pool E) 12345) is_err"

definition test_get_delegation_stats_with_invalid_pool :: "env \<Rightarrow> (err, unit) io" where
  "test_get_delegation_stats_with_invalid_pool E = io_expect (get_delegation_stats (invalid_pool E)) is_err"

definition test_save_delegations_batch_with_invalid_pool :: "env \<Rightarrow> (err, unit) io" where
  "test_save_delegations_batch_with_invalid_pool E =
     io_expect (save_delegations_batch (invalid_pool E) [create_test_delegation, other_test_delegation]) is_err"

theorem delegation_invalid_pool_tests:
  "passes (test_get_delegations_for_slot_with_invalid_pool E) w"
  "passes (test_get_delegation_by_proposer_slot_with_invalid_pool E) w"
  "passes (test_get_delegations_by_delegate_with_invalid_pool E) w"
  "passes (test_delegation_exists_for_slot_and_committer_with_invalid_pool E) w"
  "passes (test_deactivate_expired_delegations_with_invalid_pool E) w"
  "passes (test_get_delegation_stats_with_invalid_pool E) w"
  by (auto simp: no_database test_get_delegations_for_slot_with_invalid_pool_def
      test_get_delegation_by_proposer_slot_with_invalid_pool_def test_get_delegations_by_delegate_with_invalid_pool_def
      test_delegation_exists_for_slot_and_committer_with_invalid_pool_def
      test_deactivate_expired_delegations_with_invalid_pool_def test_get_delegation_stats_with_invalid_pool_def
      get_delegations_for_slot_def get_delegation_by_proposer_slot_def get_delegations_by_delegate_def
      delegation_exists_for_slot_and_committer_def deactivate_expired_delegations_def get_delegation_stats_def)

text \<open>Nothing is saved to a pool that reaches no database, signed or not.\<close>

lemma io_for_res: "fst (io_for ds (\<lambda>d. io_res (f d)) w) = Inr y \<Longrightarrow> snd (io_for ds (\<lambda>d. io_res (f d)) w) = w"
  by (induction ds arbitrary: y) (auto simp: io_bind_def io_res_def io_return_def split: sum.splits prod.splits)

theorem save_invalid_pool_tests:
  "passes (test_save_delegation_with_invalid_pool E) w" "passes (test_save_delegations_batch_with_invalid_pool E) w"
  by (auto simp: no_database test_save_delegation_with_invalid_pool_def test_save_delegations_batch_with_invalid_pool_def
      save_delegation_def save_delegations_batch_def split: sum.splits prod.splits)

text \<open>
  The mock signature of the test delegations is no signature of their proposers. The error then
  says so, and nothing is sent to the database. The tests marked \<open>#[ignore]\<close> unwrap the result of
  saving the same delegations, so they fail on every database.
\<close>

definition is_mock :: "env \<Rightarrow> signed_delegation \<Rightarrow> bool" where
  "is_mock E d = (verify_delegation_signature (hash_of E) (blst_of E) d \<noteq> Inr True)"

lemma mock_check:
  "is_mock E d \<Longrightarrow> \<exists>e. check_delegation E d = Inl e \<and> str_contains ''signature'' (err_text e)"
proof -
  assume m: "is_mock E d"
  have c: "str_contains ''signature'' ''Failed to verify delegation signature''"
    "str_contains ''signature'' ''Invalid delegation signature''" by code_simp+
  show ?thesis using m c
    by (cases "verify_delegation_signature (hash_of E) (blst_of E) d")
      (auto simp: is_mock_def check_delegation_def context_res_def res_map_err_def res_bind_def)
qed

theorem mock_signature_tests:
  assumes "is_mock (invalid_pool E) create_test_delegation"
  shows "passes (test_save_delegation_rejects_invalid_signature E) w"
    "passes (test_save_delegations_batch_rejects_invalid_signatures E) w"
  using mock_check [OF assms]
  by (auto simp: passes_expect test_save_delegation_rejects_invalid_signature_def
      test_save_delegations_batch_rejects_invalid_signatures_def save_delegation_def save_delegations_batch_def
      io_bind_def io_res_def mentions_signature_def err_contains_def)

definition unwrap_io :: "(err, 'a) io \<Rightarrow> (err, 'a) io" where
  "unwrap_io = io_map_err (\<lambda>e. Panic ''called `Result::unwrap()` on an `Err` value'')"

definition test_delegation_crud_operations :: "env \<Rightarrow> (err, unit) io" where
  "test_delegation_crud_operations E =
     (let d = create_test_delegation; slot = dm_slot (sd_message d) in
      io_bind (unwrap_io (save_delegation E d)) (\<lambda>saved_id.
      io_bind (io_assert (saved_id \<noteq> 0)) (\<lambda>_.
      io_bind (unwrap_io (get_delegations_for_slot E slot)) (\<lambda>retrieved.
      io_bind (io_assert (map (dm_slot \<circ> sd_message) retrieved = [slot])) (\<lambda>_.
      io_bind (unwrap_io (get_delegation_by_proposer_slot E (dm_proposer (sd_message d)) slot)) (\<lambda>by_proposer.
      io_bind (io_assert (by_proposer \<noteq> None)) (\<lambda>_.
      io_bind (unwrap_io (get_delegations_by_delegate E (dm_delegate (sd_message d)))) (\<lambda>by_delegate.
      io_bind (io_assert (length by_delegate = 1)) (\<lambda>_.
      io_bind (unwrap_io (delegation_exists_for_slot_and_committer E slot (dm_committer (sd_message d)))) (\<lambda>found.
      io_bind (io_assert found) (\<lambda>_.
      io_bind (unwrap_io (get_delegation_stats E)) (\<lambda>stats.
      io_assert (0 < sint (ds_total_count stats) \<and> 0 < sint (ds_active_count stats))))))))))))))"

definition test_delegation_batch_operations :: "env \<Rightarrow> (err, unit) io" where
  "test_delegation_batch_operations E =
     (let ds = [create_test_delegation_variant (replicate 48 1) (replicate 48 2) 12345,
                create_test_delegation_variant (replicate 48 3) (replicate 48 4) 12346,
                create_test_delegation_variant (replicate 48 5) (replicate 48 6) 12347] in
      io_bind (unwrap_io (save_delegations_batch E ds)) (\<lambda>saved_ids.
      io_bind (io_assert (length saved_ids = 3)) (\<lambda>_.
      io_bind (io_for ds (\<lambda>d.
        io_bind (unwrap_io (get_delegations_for_slot E (dm_slot (sd_message d)))) (\<lambda>retrieved.
        io_assert (retrieved \<noteq> [])))) (\<lambda>_. io_return ()))))"

definition test_delegation_expiration :: "env \<Rightarrow> (err, unit) io" where
  "test_delegation_expiration E =
     (let old_delegation = create_test_delegation_variant (replicate 48 1) (replicate 48 2) 1000;
          current_delegation = create_test_delegation_variant (replicate 48 3) (replicate 48 4) 12345 in
      io_bind (unwrap_io (save_delegation E old_delegation)) (\<lambda>_.
      io_bind (unwrap_io (save_delegation E current_delegation)) (\<lambda>_.
      io_bind (unwrap_io (deactivate_expired_delegations E 12345)) (\<lambda>deactivated_count.
      io_bind (io_assert (0 < deactivated_count)) (\<lambda>_.
      io_bind (unwrap_io (get_delegations_for_slot E 1000)) (\<lambda>old_delegations.
      io_bind (io_assert (length old_delegations = 0)) (\<lambda>_.
      io_bind (unwrap_io (get_delegations_for_slot E 12345)) (\<lambda>current_delegations.
      io_assert (length current_delegations = 1)))))))))"

theorem mock_signature_tests_fail:
  assumes "is_mock E create_test_delegation"
    and "is_mock E (create_test_delegation_variant (replicate 48 1) (replicate 48 2) 12345)"
    and "is_mock E (create_test_delegation_variant (replicate 48 1) (replicate 48 2) 1000)"
  shows "\<not> passes (test_delegation_crud_operations E) w" "\<not> passes (test_delegation_batch_operations E) w"
    "\<not> passes (test_delegation_expiration E) w"
  using assms [THEN mock_check]
  by (auto simp: passes_def test_delegation_crud_operations_def test_delegation_batch_operations_def
      test_delegation_expiration_def unwrap_io_def save_delegation_def save_delegations_batch_def
      io_map_err_def io_bind_def io_res_def Let_def)

text \<open>The hypotheses hold of the sample crates.\<close>

theorem mock_signature_witness:
  "\<not> passes (test_delegation_crud_operations sample_env) empty_world
   \<and> passes (test_save_delegation_rejects_invalid_signature sample_env) empty_world"
proof -
  have m: "is_mock sample_env d" if "length (pk_bytes (dm_proposer (sd_message d))) = 48"
    "sd_signature d = BlsSignature (replicate 96 3)" for d
  proof -
    have "replicate 96 3 \<noteq> pad 96 (pad 32 m @ pk_bytes (dm_proposer (sd_message d)))" for m
    proof -
      have "pad 96 (pad 32 m @ pk_bytes (dm_proposer (sd_message d)))
          = (pad 32 m @ pk_bytes (dm_proposer (sd_message d))) @ replicate 16 0"
        using that(1) by (simp add: pad_def [of 96])
      then have "last (pad 96 (pad 32 m @ pk_bytes (dm_proposer (sd_message d)))) = 0" by simp
      then have "last (pad 96 (pad 32 m @ pk_bytes (dm_proposer (sd_message d)))) \<noteq> last (replicate 96 3)" by simp
      then show ?thesis by (rule contrapos_nn) (rule arg_cong [OF sym])
    qed
    then show ?thesis
      using that by (auto simp: is_mock_def verify_delegation_signature_def calculate_signing_root_def keccak256_def res_bind_def
          sample_crates_def sample_blst_def sample_hash_def res_of_def split: sum.splits)
  qed
  have "is_mock sample_env create_test_delegation"
    "is_mock sample_env (create_test_delegation_variant (replicate 48 1) (replicate 48 2) 12345)"
    "is_mock sample_env (create_test_delegation_variant (replicate 48 1) (replicate 48 2) 1000)"
    by (simp_all add: m create_test_delegation_def create_test_delegation_variant_def)
  then show ?thesis
    using mock_signature_tests_fail(1) mock_signature_tests(1) by (simp add: is_mock_def)
qed

end
