(* ===== verification/Db_Context.thy ===== *)
theory Db_Context
  imports Commitment_Ops Delegation_Ops Congestion_Ops
begin

text \<open>
  The database context that the handlers and services are given (\<open>DatabaseContext\<close> in \<open>db/mod.rs\<close>): it
  owns the connection pool and passes each call on to the operation of the same name. A pool is the
  environment its statements run in.
\<close>

record database_context =
  dx_pool :: env

definition database_context_new :: "env \<Rightarrow> database_context" where
  "database_context_new pool = \<lparr>dx_pool = pool\<rparr>"

definition context_pool :: "database_context \<Rightarrow> env" where
  "context_pool self = dx_pool self"

section \<open>Commitments\<close>

definition context_save_commitment ::
  "database_context \<Rightarrow> signed_commitment \<Rightarrow> (err, uuid option) io" where
  "context_save_commitment self sc = save_commitment (dx_pool self) sc"

definition context_get_commitment_by_hash ::
  "database_context \<Rightarrow> string \<Rightarrow> (err, signed_commitment option) io" where
  "context_get_commitment_by_hash self request_hash = get_commitment_by_hash (dx_pool self) request_hash"

definition context_commitment_exists ::
  "database_context \<Rightarrow> string \<Rightarrow> (err, bool) io" where
  "context_commitment_exists self request_hash = commitment_exists (dx_pool self) request_hash"

definition context_get_stats :: "database_context \<Rightarrow> (err, commitment_stats) io" where
  "context_get_stats self = get_commitment_stats (dx_pool self)"

section \<open>Delegations\<close>

definition context_save_delegation ::
  "database_context \<Rightarrow> signed_delegation \<Rightarrow> (err, uuid) io" where
  "context_save_delegation self d = save_delegation (dx_pool self) d"

definition context_get_delegations_for_slot ::
  "database_context \<Rightarrow> u64 \<Rightarrow> (err, signed_delegation list) io" where
  "context_get_delegations_for_slot self slot = get_delegations_for_slot (dx_pool self) slot"

definition context_delegation_exists_for_slot_and_committer ::
  "database_context \<Rightarrow> u64 \<Rightarrow> string \<Rightarrow> (err, bool) io" where
  "context_delegation_exists_for_slot_and_committer self slot committer_address = delegation_exists_for_slot_and_committer (dx_pool self) slot committer_address"

definition context_get_delegation_by_proposer_slot ::
  "database_context \<Rightarrow> bls_public_key \<Rightarrow> u64 \<Rightarrow> (err, signed_delegation option) io" where
  "context_get_delegation_by_proposer_slot self proposer_pubkey slot = get_delegation_by_proposer_slot (dx_pool self) proposer_pubkey slot"

definition context_get_delegations_by_delegate ::
  "database_context \<Rightarrow> bls_public_key \<Rightarrow> (err, signed_delegation list) io" where
  "context_get_delegations_by_delegate self delegate_pubkey = get_delegations_by_delegate (dx_pool self) delegate_pubkey"

definition context_save_delegations_batch ::
  "database_context \<Rightarrow> signed_delegation list \<Rightarrow> (err, uuid list) io" where
  "context_save_delegations_batch self delegations = save_delegations_batch (dx_pool self) delegations"

definition context_get_delegation_stats :: "database_context \<Rightarrow> (err, delegation_stats) io" where
  "context_get_delegation_stats self = get_delegation_stats (dx_pool self)"

definition context_deactivate_expired_delegations ::
  "database_context \<Rightarrow> u64 \<Rightarrow> (err, u64) io" where
  "context_deactivate_expired_delegations self current_slot = deactivate_expired_delegations (dx_pool self) current_slot"

section \<open>Slot congestion\<close>

definition context_get_or_create_slot_congestion ::
  "database_context \<Rightarrow> u64 \<Rightarrow> u64 \<Rightarrow> u64 \<Rightarrow> u64 \<Rightarrow> (err, slot_congestion) io" where
  "context_get_or_create_slot_congestion self slot base_gas_price total_gas_limit genesis_time = get_or_create_slot_congestion (dx_pool self) slot base_gas_price total_gas_limit genesis_time"

definition context_update_slot_congestion_gas_usage ::
  "database_context \<Rightarrow> u64 \<Rightarrow> u64 \<Rightarrow> f64 \<Rightarrow> (err, slot_congestion) io" where
  "context_update_slot_congestion_gas_usage self slot additional_gas scaling_factor = update_slot_congestion_gas_usage (dx_pool self) slot additional_gas scaling_factor"

definition context_get_current_gas_price_for_slot ::
  "database_context \<Rightarrow> u64 \<Rightarrow> (err, u64 option) io" where
  "context_get_current_gas_price_for_slot self slot = get_current_gas_price_for_slot (dx_pool self) slot"

definition context_get_congestion_stats :: "database_context \<Rightarrow> (err, congestion_stats) io" where
  "context_get_congestion_stats self = get_congestion_stats (dx_pool self)"

definition context_cleanup_old_slot_congestion ::
  "database_context \<Rightarrow> 32 word \<Rightarrow> (err, u64) io" where
  "context_cleanup_old_slot_congestion self hours_to_keep = cleanup_old_slot_congestion (dx_pool self) hours_to_keep"

text \<open>
  The context adds nothing to the pool: what is proved of the operations on a pool holds of the
  context that owns it.
\<close>

lemmas context_ops = context_save_commitment_def context_get_commitment_by_hash_def
  context_commitment_exists_def context_get_stats_def context_save_delegation_def
  context_get_delegations_for_slot_def context_delegation_exists_for_slot_and_committer_def
  context_get_delegation_by_proposer_slot_def context_get_delegations_by_delegate_def
  context_save_delegations_batch_def context_get_delegation_stats_def
  context_deactivate_expired_delegations_def context_get_or_create_slot_congestion_def
  context_update_slot_congestion_gas_usage_def context_get_current_gas_price_for_slot_def
  context_get_congestion_stats_def context_cleanup_old_slot_congestion_def

end
