(* ===== verification/Tests_Congestion.thy ===== *)
theory Tests_Congestion
  imports Unit_Tests
begin

text \<open>
  The tests of \<open>db/slot_congestion_ops.rs\<close> and of \<open>db/slot_congestion_ops/slot_congestion_tests.rs\<close>.
  The tests of the arithmetic take \<open>powf\<close> as an argument: the ones that never raise a ratio below 1
  to a power are passed for every \<open>powf\<close>, the others with the exact powers 1, 2 and 3. The tests
  on a database run on a fresh one.
\<close>

section \<open>The arithmetic\<close>

definition f64_lit :: "rat \<Rightarrow> f64" where
  "f64_lit r = round_f64 (r < 0) \<bar>r\<bar>"

definition f64_abs :: "f64 \<Rightarrow> f64" where
  "f64_abs a = (case a of FNum r \<Rightarrow> FNum \<bar>r\<bar> | FInf s \<Rightarrow> FInf False | FNegZero \<Rightarrow> FNum 0 | FNaN \<Rightarrow> FNaN)"

text \<open>\<open>powf\<close> at the exponents the tests use.\<close>

definition small_powf :: "f64 \<Rightarrow> f64 \<Rightarrow> f64" where
  "small_powf a k = (if k = FNum 1 then a else if k = FNum 2 then f64_mul a a else f64_mul (f64_mul a a) a)"

type_synonym powf = "f64 \<Rightarrow> f64 \<Rightarrow> f64"

text \<open>The clock at the start of a test, and the record most tests start from.\<close>

definition test_time :: u64 where "test_time = 1700000000"

abbreviation gwei_slot :: "u64 \<Rightarrow> slot_congestion" where
  "gwei_slot slot \<equiv> slot_congestion_new slot 1000000000 30000000 test_time"

definition test_slot_congestion_creation :: bool where
  "test_slot_congestion_creation =
     (let slot = 12345; base_price = 1000000000; c = slot_congestion_new slot base_price 30000000 test_time
      in gc_slot c = slot \<and> gc_base_gas_price c = base_price \<and> gc_preconfirmed_gas c = 0
         \<and> gc_gas_used_ratio c = FNum 0 \<and> gc_calculated_fee_multiplier c = FNum 1
         \<and> gc_current_tx_price c = base_price)"

definition test_gas_usage_calculation :: "powf \<Rightarrow> bool" where
  "test_gas_usage_calculation powf =
     (let c = add_gas_usage powf 15000000 (FNum 2) (gwei_slot 12345)
      in gc_preconfirmed_gas c = 15000000 \<and> gc_gas_used_ratio c = FNum (1 / 2)
         \<and> f64_lt (f64_abs (f64_sub (gc_calculated_fee_multiplier c) (f64_lit (1333 / 1000)))) (f64_lit (1 / 100))
         \<and> gc_current_tx_price c
             = f64_to_u64 (f64_ceil (f64_mul (FNum 1000000000) (gc_calculated_fee_multiplier c))))"

definition test_high_congestion_bounds :: "powf \<Rightarrow> bool" where
  "test_high_congestion_bounds powf =
     (let c = add_gas_usage powf 29000000 (FNum 2) (gwei_slot 12345)
      in f64_le (FNum 1) (gc_calculated_fee_multiplier c) \<and> f64_le (gc_calculated_fee_multiplier c) (FNum 100)
         \<and> gc_base_gas_price c \<le> gc_current_tx_price c)"

definition test_full_congestion :: "powf \<Rightarrow> bool" where
  "test_full_congestion powf =
     (let c = add_gas_usage powf 30000000 (FNum 2) (gwei_slot 12345)
      in gc_gas_used_ratio c = FNum 1 \<and> gc_calculated_fee_multiplier c = FNum 100
         \<and> gc_current_tx_price c = 100000000000)"

definition test_zero_gas_usage :: "powf \<Rightarrow> bool" where
  "test_zero_gas_usage powf =
     (let c = add_gas_usage powf 0 (FNum 2) (gwei_slot 12345)
      in gc_preconfirmed_gas c = 0 \<and> gc_gas_used_ratio c = FNum 0 \<and> gc_calculated_fee_multiplier c = FNum 1
         \<and> gc_current_tx_price c = gc_base_gas_price c)"

definition test_small_gas_usage :: "powf \<Rightarrow> bool" where
  "test_small_gas_usage powf =
     (let c = add_gas_usage powf 300000 (FNum 2) (gwei_slot 12345)
      in gc_preconfirmed_gas c = 300000 \<and> gc_gas_used_ratio c = f64_lit (1 / 100)
         \<and> f64_lt (FNum 1) (gc_calculated_fee_multiplier c)
         \<and> f64_lt (gc_calculated_fee_multiplier c) (f64_lit (11 / 10)))"

definition test_multiple_gas_additions :: "powf \<Rightarrow> bool" where
  "test_multiple_gas_additions powf =
     (let c1 = add_gas_usage powf 10000000 (FNum 2) (gwei_slot 12345);
          c2 = add_gas_usage powf 5000000 (FNum 2) c1
      in gc_preconfirmed_gas c1 = 10000000 \<and> gc_gas_used_ratio c1 = f64_div (FNum 10000000) (FNum 30000000)
         \<and> gc_preconfirmed_gas c2 = 15000000 \<and> gc_gas_used_ratio c2 = FNum (1 / 2))"

definition test_different_scaling_factors :: "powf \<Rightarrow> bool" where
  "test_different_scaling_factors powf =
     (let c1 = add_gas_usage powf 15000000 (FNum 1) (gwei_slot 12345);
          c2 = add_gas_usage powf 15000000 (FNum 3) (gwei_slot 12346)
      in gc_gas_used_ratio c1 = gc_gas_used_ratio c2
         \<and> f64_lt (gc_calculated_fee_multiplier c2) (gc_calculated_fee_multiplier c1))"

definition test_overflow_protection :: "powf \<Rightarrow> bool" where
  "test_overflow_protection powf =
     (let c = add_gas_usage powf 50000000 (FNum 2) (gwei_slot 12345)
      in f64_lt (FNum 1) (gc_gas_used_ratio c) \<and> gc_calculated_fee_multiplier c = FNum 100)"

definition test_timestamp_overflow_protection :: bool where
  "test_timestamp_overflow_protection =
     (slot_start_timestamp (u64_max - 100) u64_max = u64_max
      \<and> saturating_mul (u64_max div 3600 + 1) 3600 = u64_max)"

definition test_multiple_saturating_gas_additions :: "powf \<Rightarrow> bool" where
  "test_multiple_saturating_gas_additions powf =
     (let c = add_gas_usage powf 5000 (FNum 2) ((gwei_slot 12345)\<lparr>gc_preconfirmed_gas := u64_max - 1000\<rparr>)
      in gc_preconfirmed_gas c = u64_max \<and> gc_calculated_fee_multiplier c = FNum 100
         \<and> is_finite (gc_gas_used_ratio c))"

definition test_fee_multiplier_formula_edge_cases :: "powf \<Rightarrow> bool" where
  "test_fee_multiplier_formula_edge_cases powf =
     (let c = add_gas_usage powf 1 (FNum 2) (gwei_slot 12345);
          c2 = add_gas_usage powf 29700000 (FNum 2) (gwei_slot 12346)
      in f64_le (FNum 1) (gc_calculated_fee_multiplier c)
         \<and> f64_lt (gc_calculated_fee_multiplier c) (f64_lit (101 / 100))
         \<and> f64_lt (FNum 10) (gc_calculated_fee_multiplier c2)
         \<and> f64_le (gc_calculated_fee_multiplier c2) (FNum 100))"

definition test_price_calculation_precision :: "powf \<Rightarrow> bool" where
  "test_price_calculation_precision powf =
     (let c = add_gas_usage powf 15000000 (FNum 2) (gwei_slot 12345)
      in gc_current_tx_price c
           = f64_to_u64 (f64_ceil (f64_mul (f64_of_u64 (gc_base_gas_price c)) (gc_calculated_fee_multiplier c))))"

definition test_zero_gas_limit_handling :: "powf \<Rightarrow> bool" where
  "test_zero_gas_limit_handling powf =
     (let c = add_gas_usage powf 10000000 (FNum 2) (slot_congestion_new 12345 1000000000 0 test_time)
      in gc_gas_used_ratio c = FNum 0 \<and> gc_calculated_fee_multiplier c = FNum 100
         \<and> gc_current_tx_price c = 100000000000
         \<and> is_finite (gc_gas_used_ratio c) \<and> is_finite (gc_calculated_fee_multiplier c))"

definition test_slot_congestion_edge_cases :: "powf \<Rightarrow> bool" where
  "test_slot_congestion_edge_cases powf =
     (let c = add_gas_usage powf 100 (FNum 2) (slot_congestion_new 12345 1000000000 0 test_time);
          m = add_gas_usage powf 100 (FNum 2) (slot_congestion_new 12345 u64_max u64_max test_time)
      in gc_gas_used_ratio c = FNum 0 \<and> gc_calculated_fee_multiplier c = FNum 100
         \<and> f64_le (FNum 0) (gc_gas_used_ratio m) \<and> f64_le (FNum 1) (gc_calculated_fee_multiplier m))"

definition test_slot_congestion_saturating_add :: "powf \<Rightarrow> bool" where
  "test_slot_congestion_saturating_add powf =
     (let c = add_gas_usage powf (u64_max div 2) (FNum 2)
                (add_gas_usage powf (u64_max div 2) (FNum 2) (gwei_slot 12345))
      in 0 < gc_preconfirmed_gas c)"

definition test_different_base_prices :: "powf \<Rightarrow> bool" where
  "test_different_base_prices powf =
     (let low = add_gas_usage powf 15000000 (FNum 2) (slot_congestion_new 12345 1 30000000 test_time);
          high = add_gas_usage powf 15000000 (FNum 2) (slot_congestion_new 12346 1000000000000 30000000 test_time)
      in gc_calculated_fee_multiplier low = gc_calculated_fee_multiplier high
         \<and> gc_current_tx_price low < gc_current_tx_price high)"

section \<open>The tests are passed\<close>

theorem congestion_tests_constant:
  "test_slot_congestion_creation" "test_timestamp_overflow_protection"
  by (simp_all add: test_slot_congestion_creation_def slot_congestion_new_def test_timestamp_overflow_protection_def
      slot_start_timestamp_def saturating_add_def saturating_mul_def u64_max_def Let_def)

theorem congestion_bound_tests:
  "test_high_congestion_bounds powf" "test_slot_congestion_saturating_add powf"
proof -
  have "gc_base_gas_price c \<le> gc_current_tx_price (add_gas_usage powf g k c)"
    if "gc_base_gas_price c = 1000000000" for c g k
    using that by (intro add_gas_usage_price_lower) simp
  then show "test_high_congestion_bounds powf"
    using add_gas_usage_multiplier
    by (simp add: test_high_congestion_bounds_def Let_def add_gas_usage_frame slot_congestion_new_def)
  have "0 < saturating_add (saturating_add 0 (u64_max div 2)) (u64_max div 2)" by (simp add: saturating_add_def u64_max_def)
  then show "test_slot_congestion_saturating_add powf"
    by (simp add: test_slot_congestion_saturating_add_def Let_def add_gas_usage_frame slot_congestion_new_def)
qed

text \<open>The ratios, multipliers and prices of the other tests, as binary64 numbers.\<close>

definition gas_ratio :: "u64 \<Rightarrow> u64 \<Rightarrow> f64" where
  "gas_ratio gas limit = f64_max (f64_div (f64_of_u64 gas) (f64_of_u64 limit)) (FNum 0)"

lemma add_gas_usage_eval:
  assumes "gc_total_gas_limit c \<noteq> 0"
    and "is_finite (gas_ratio (saturating_add (gc_preconfirmed_gas c) g) (gc_total_gas_limit c))" (is "is_finite ?r")
  shows "gc_gas_used_ratio (add_gas_usage powf g k c) = ?r"
    "gc_calculated_fee_multiplier (add_gas_usage powf g k c) = congestion_multiplier powf k ?r"
    "gc_current_tx_price (add_gas_usage powf g k c)
       = scaled_tx_price (gc_base_gas_price c) (congestion_multiplier powf k ?r)"
  using assms by (simp_all add: add_gas_usage_def gas_ratio_def Let_def)

lemma rlog2_unique:
  assumes "2 powi e \<le> x" "x < 2 powi (e + 1)"
  shows "rlog2 x = e"
proof -
  have x: "0 < x" using assms(1) powi_two_pos [of e] by linarith
  have "\<not> rlog2 x + 1 \<le> e" "\<not> e + 1 \<le> rlog2 x"
    using rlog2_bounds [OF x] assms powi_two_mono by (meson leD order_le_less_trans order_less_le_trans)+
  then show ?thesis by linarith
qed

lemma round_even_near_int: "\<bar>y - of_int k\<bar> < 1 / 2 \<Longrightarrow> round_even y = k"
proof -
  assume a: "\<bar>y - of_int k\<bar> < 1 / 2"
  have "\<lfloor>y\<rfloor> = (if of_int k \<le> y then k else k - 1)"
    using a by (simp add: floor_eq_iff abs_if split: if_splits)
  then show ?thesis using a by (auto simp: round_even_def Let_def split: if_splits)
qed

text \<open>A binade and a significand that certify a rounding.\<close>

lemma round_f64_cert:
  assumes "2 powi e \<le> x" "x < 2 powi (e + 1)" "- 1022 \<le> e" "e < 1023"
    and "\<bar>x / 2 powi (e - 52) - of_int k\<bar> < 1 / 2"
  shows "round_f64 neg x = FNum (if neg then - (of_int k * 2 powi (e - 52)) else of_int k * 2 powi (e - 52))"
proof -
  have x: "0 < x" using assms(1) powi_two_pos [of e] by linarith
  have l: "rlog2 x = e" using assms(1,2) by (rule rlog2_unique)
  then have u: "ulp_exp x = e - 52" using assms(3) by (simp add: ulp_exp_def)
  let ?m = "of_int k * 2 powi (e - 52) :: rat"
  have m: "round_mag x = ?m" using assms(5) by (simp add: round_mag_def u round_even_near_int)
  have lo: "2 powi e \<le> round_mag x"
    using round_mag_ge_grid [of "2 ^ 52" x] powi_on_grid [of "e - 52" e] assms(1) u by simp
  have up: "round_mag x \<le> 2 powi (e + 1)"
    using round_mag_le_grid [of x "2 ^ 53"] powi_on_grid [of "e - 52" "e + 1"] assms(2) u by simp
  have "rlog2 (round_mag x) \<le> rlog2 (2 powi (e + 1))"
    using lo up powi_two_pos [of e] by (intro rlog2_mono) linarith+
  also have "\<dots> = e + 1" by (rule rlog2_unique) (simp_all add: powi_two_add)
  finally have "rlog2 ?m < 1024" using assms(4) m by simp
  moreover have "?m \<noteq> 0" using lo m powi_two_pos [of e] by (metis not_le)
  ultimately show ?thesis using x m by (simp add: round_f64_def Let_def)
qed

lemma round_f64_zero: "round_f64 neg 0 = signed_zero neg"
  by (simp add: round_f64_def)

lemma test_casts:
  "f64_of_u64 0 = FNum 0"
  "f64_of_u64 1 = FNum 1"
  "f64_of_u64 300000 = FNum 300000"
  "f64_of_u64 1000000 = FNum 1000000"
  "f64_of_u64 5000000 = FNum 5000000"
  "f64_of_u64 10000000 = FNum 10000000"
  "f64_of_u64 15000000 = FNum 15000000"
  "f64_of_u64 29700000 = FNum 29700000"
  "f64_of_u64 30000000 = FNum 30000000"
  "f64_of_u64 1000000000 = FNum 1000000000"
  "f64_of_u64 1000000000000 = FNum 1000000000000"
  by (simp_all add: f64_of_u64_small del: of_nat_unat )

lemma test_quotients:
  "f64_div (FNum 15000000) (FNum 30000000) = FNum (1 / 2)"
  "f64_div (FNum 0) (FNum 30000000) = FNum 0"
  "f64_div (FNum 300000) (FNum 30000000) = FNum (5764607523034235 / 576460752303423488)"
  "f64_div (FNum 10000000) (FNum 30000000) = FNum (6004799503160661 / 18014398509481984)"
  "f64_div (FNum 29700000) (FNum 30000000) = FNum (4458563631096791 / 4503599627370496)"
  "f64_div (FNum 1) (FNum 30000000) = FNum (5037190915060955 / 151115727451828646838272)"
  "f64_div (FNum 1000000) (FNum 30000000) = FNum (4803839602528529 / 144115188075855872)"
  "f64_div (FNum 5000000) (FNum 30000000) = FNum (6004799503160661 / 36028797018963968)"
  by (simp_all add: f64_div_def is_zero_def signed_zero_def round_f64_zero round_f64_cert
    [of "-25" _ 5037190915060955] round_f64_cert [of "-7" _ 5764607523034235] round_f64_cert
    [of "-5" _ 4803839602528529] round_f64_cert [of "-3" _ 6004799503160661] round_f64_cert
    [of "-2" _ 6004799503160661] round_f64_cert [of "-1" _ 4503599627370496] round_f64_cert
    [of "-1" _ 8917127262193582])

lemma test_ratios:
  "gas_ratio 15000000 30000000 = FNum (1 / 2)"
  "gas_ratio 0 30000000 = FNum 0"
  "gas_ratio 300000 30000000 = FNum (5764607523034235 / 576460752303423488)"
  "gas_ratio 10000000 30000000 = FNum (6004799503160661 / 18014398509481984)"
  "gas_ratio 29700000 30000000 = FNum (4458563631096791 / 4503599627370496)"
  "gas_ratio 1 30000000 = FNum (5037190915060955 / 151115727451828646838272)"
  "gas_ratio 1000000 30000000 = FNum (4803839602528529 / 144115188075855872)"
  "gas_ratio 5000000 30000000 = FNum (6004799503160661 / 36028797018963968)"
  by (simp_all add: gas_ratio_def test_casts test_quotients f64_max_def)

lemma test_squares:
  "f64_mul (FNum (1 / 2)) (FNum (1 / 2)) = FNum (1 / 4)"
  "f64_mul (FNum 0) (FNum 0) = FNum 0"
  "f64_mul (FNum (4803839602528529 / 144115188075855872)) (FNum (4803839602528529 / 144115188075855872))
     = FNum (5124095576030431 / 4611686018427387904)"
  "f64_mul (FNum (5764607523034235 / 576460752303423488)) (FNum (5764607523034235 / 576460752303423488))
     = FNum (7378697629483821 / 73786976294838206464)"
  "f64_mul (FNum (4458563631096791 / 4503599627370496)) (FNum (4458563631096791 / 4503599627370496))
     = FNum (4413977994785823 / 4503599627370496)"
  "f64_mul (FNum (5037190915060955 / 151115727451828646838272)) (FNum (5037190915060955 / 151115727451828646838272))
     = FNum (1408500666920255 / 1267650600228229401496703205376)"
  "f64_mul (FNum (1 / 4)) (FNum (1 / 2)) = FNum (1 / 8)"
  by (simp_all add: f64_mul_def is_zero_def signed_zero_def round_f64_zero round_f64_cert
    [of "-50" _ 5634002667681020] round_f64_cert [of "-14" _ 7378697629483821] round_f64_cert
    [of "-10" _ 5124095576030431] round_f64_cert [of "-3" _ 4503599627370496] round_f64_cert
    [of "-2" _ 4503599627370496] round_f64_cert [of "-1" _ 8827955989571646])

lemma test_differences:
  "f64_sub (FNum 1) (FNum (1 / 4)) = FNum (3 / 4)"
  "f64_sub (FNum 1) (FNum 0) = FNum 1"
  "f64_sub (FNum 1) (FNum (5124095576030431 / 4611686018427387904))
     = FNum (4498595627784529 / 4503599627370496)"
  "f64_sub (FNum 1) (FNum (7378697629483821 / 73786976294838206464))
     = FNum (4503149267407759 / 4503599627370496)"
  "f64_sub (FNum 1) (FNum (4413977994785823 / 4503599627370496))
     = FNum (89621632584673 / 4503599627370496)"
  "f64_sub (FNum 1) (FNum (1408500666920255 / 1267650600228229401496703205376))
     = FNum (4503599627370491 / 4503599627370496)"
  "f64_sub (FNum 1) (FNum (1 / 2)) = FNum (1 / 2)"
  "f64_sub (FNum 1) (FNum (1 / 8)) = FNum (7 / 8)"
  by (simp_all add: f64_sub_def round_f64_cert [of "-6" _ 5735784485419072] round_f64_cert
    [of "-1" _ 4503599627370496] round_f64_cert [of "-1" _ 6755399441055744] round_f64_cert
    [of "-1" _ 7881299347898368] round_f64_cert [of "-1" _ 8997191255569058] round_f64_cert
    [of "-1" _ 9006298534815518] round_f64_cert [of "-1" _ 9007199254740982] round_f64_cert
    [of "0" _ 4503599627370496])

lemma test_inverses:
  "f64_div (FNum 1) (FNum (3 / 4)) = FNum (6004799503160661 / 4503599627370496)"
  "f64_div (FNum 1) (FNum 1) = FNum 1"
  "f64_div (FNum 1) (FNum (4498595627784529 / 4503599627370496))
     = FNum (1127152298285163 / 1125899906842624)"
  "f64_div (FNum 1) (FNum (4503149267407759 / 4503599627370496))
     = FNum (4504050032373733 / 4503599627370496)"
  "f64_div (FNum 1) (FNum (89621632584673 / 4503599627370496)) = FNum (7072235595745115 / 140737488355328)"
  "f64_div (FNum 1) (FNum (4503599627370491 / 4503599627370496))
     = FNum (4503599627370501 / 4503599627370496)"
  "f64_div (FNum 1) (FNum (1 / 2)) = FNum 2"
  "f64_div (FNum 1) (FNum (7 / 8)) = FNum (2573485501354569 / 2251799813685248)"
  by (simp_all add: f64_div_def is_zero_def round_f64_cert [of "0" _ 4503599627370496]
    round_f64_cert [of "0" _ 4503599627370501] round_f64_cert [of "0" _ 4504050032373733]
    round_f64_cert [of "0" _ 4508609193140652] round_f64_cert [of "0" _ 5146971002709138]
    round_f64_cert [of "0" _ 6004799503160661] round_f64_cert [of "1" _ 4503599627370496]
    round_f64_cert [of "5" _ 7072235595745115])

lemma test_multipliers:
  "congestion_multiplier small_powf (FNum 2) (FNum (1 / 2)) = FNum (6004799503160661 / 4503599627370496)"
  "congestion_multiplier small_powf (FNum 2) (FNum (4803839602528529 / 144115188075855872))
     = FNum (1127152298285163 / 1125899906842624)"
  "congestion_multiplier small_powf (FNum 2) (FNum 0) = FNum 1"
  "congestion_multiplier small_powf (FNum 2) (FNum (5764607523034235 / 576460752303423488))
     = FNum (4504050032373733 / 4503599627370496)"
  "congestion_multiplier small_powf (FNum 2) (FNum (4458563631096791 / 4503599627370496))
     = FNum (7072235595745115 / 140737488355328)"
  "congestion_multiplier small_powf (FNum 2) (FNum (5037190915060955 / 151115727451828646838272))
     = FNum (4503599627370501 / 4503599627370496)"
  "congestion_multiplier small_powf (FNum 1) (FNum (1 / 2)) = FNum 2"
  "congestion_multiplier small_powf (FNum 3) (FNum (1 / 2)) = FNum (2573485501354569 / 2251799813685248)"
  by (simp_all add: congestion_multiplier_def small_powf_def test_squares test_differences test_inverses
      f64_clamp_def f64_lt_def)

lemma test_products:
  "f64_mul (FNum 1) (FNum (6004799503160661 / 4503599627370496))
     = FNum (6004799503160661 / 4503599627370496)"
  "f64_mul (FNum 1000000000) (FNum (6004799503160661 / 4503599627370496))
     = FNum (5592405333333333 / 4194304)"
  "f64_mul (FNum 1000000000000) (FNum (6004799503160661 / 4503599627370496))
     = FNum (5461333333333333 / 4096)"
  "f64_mul (FNum 1000000000) (FNum (1127152298285163 / 1125899906842624))
     = FNum (8397939043381535 / 8388608)"
  "f64_mul (FNum 1000000000) (FNum 1) = FNum 1000000000"
  by (simp_all add: f64_mul_def is_zero_def round_f64_cert [of "0" _ 6004799503160661]
    round_f64_cert [of "29" _ 8388608000000000] round_f64_cert [of "29" _ 8397939043381535]
    round_f64_cert [of "30" _ 5592405333333333] round_f64_cert [of "40" _ 5461333333333333])


lemma test_literals:
  "f64_lit (1 / 100) = FNum (5764607523034235 / 576460752303423488)"
  "f64_lit (11 / 10) = FNum (2476979795053773 / 2251799813685248)"
  "f64_lit (101 / 100) = FNum (4548635623644201 / 4503599627370496)"
  "f64_lit (1333 / 1000) = FNum (6003298303284871 / 4503599627370496)"
  by (simp_all add: f64_lit_def round_f64_cert [of "-7" _ 5764607523034235] round_f64_cert
    [of "0" _ 4548635623644201] round_f64_cert [of "0" _ 4953959590107546] round_f64_cert
    [of "0" _ 6003298303284871])


lemma test_distance:
  "f64_sub (FNum (6004799503160661 / 4503599627370496)) (FNum (6003298303284871 / 4503599627370496))
     = FNum (750599937895 / 2251799813685248)"
  by (simp_all add: f64_sub_def round_f64_cert [of "-12" _ 6148914691235840])

lemma test_ceilings:
  "\<lceil>6004799503160661 / 4503599627370496 :: rat\<rceil> = 2"
  "\<lceil>5592405333333333 / 4194304 :: rat\<rceil> = 1333333334"
  "\<lceil>5461333333333333 / 4096 :: rat\<rceil> = 1333333333334"
  "\<lceil>8397939043381535 / 8388608 :: rat\<rceil> = 1001112348"
  by (simp_all add: ceiling_unique)

lemma test_prices:
  "scaled_tx_price 1 (FNum (6004799503160661 / 4503599627370496)) = 2"
  "scaled_tx_price 1000000000 (FNum (6004799503160661 / 4503599627370496)) = 1333333334"
  "scaled_tx_price 1000000000000 (FNum (6004799503160661 / 4503599627370496)) = 1333333333334"
  "scaled_tx_price 1000000000 (FNum 1) = 1000000000"
  "scaled_tx_price 1000000000 (FNum (1127152298285163 / 1125899906842624)) = 1001112348"
  by (simp_all add: scaled_tx_price_def test_casts test_products test_ceilings f64_lt_def)

lemma test_sums:
  "saturating_add 0 (15000000 :: u64) = 15000000" "saturating_add 0 (300000 :: u64) = 300000"
  "saturating_add 0 (0 :: u64) = 0" "saturating_add 0 (1 :: u64) = 1" "saturating_add 0 (29700000 :: u64) = 29700000"
  "saturating_add 0 (1000000 :: u64) = 1000000" "saturating_add 0 (5000000 :: u64) = 5000000"
  "saturating_add (5000000 :: u64) 5000000 = 10000000" "saturating_add 0 (10000000 :: u64) = 10000000"
  "saturating_add (10000000 :: u64) 5000000 = 15000000"
  by (simp_all add: saturating_add_def saturating_mul_def u64_max_def scaled_tx_price_def f64_mul_def is_zero_def
      test_casts f64_lt_def round_f64_cert [of "36" _ 6553600000000000])

lemmas gas_eval = add_gas_usage_eval add_gas_usage_frame slot_congestion_new_def test_sums test_casts
  test_quotients test_ratios test_multipliers test_products test_prices test_ceilings test_literals
  test_distance f64_abs_def f64_lt_def Let_def

text \<open>Ratios of at least 1: the multiplier is 100 for every \<open>powf\<close>.\<close>

lemma test_full_ratios:
  "f64_of_u64 50000000 = FNum 50000000" "f64_of_u64 u64_max = FNum 18446744073709551616"
  "gas_ratio 30000000 30000000 = FNum 1"
  "gas_ratio 50000000 30000000 = FNum (7505999378950827 / 4503599627370496)"
  "gas_ratio u64_max 30000000 = FNum (5037190915060955 / 8192)"
proof -
  show c: "f64_of_u64 50000000 = FNum 50000000" by (simp add: f64_of_u64_small del: of_nat_unat)
  show m: "f64_of_u64 u64_max = FNum 18446744073709551616"
    by (simp add: f64_of_u64_def u64_max_def round_f64_cert [of "63" _ 9007199254740992])
  show "gas_ratio 30000000 30000000 = FNum 1" "gas_ratio 50000000 30000000 = FNum (7505999378950827 / 4503599627370496)"
    "gas_ratio u64_max 30000000 = FNum (5037190915060955 / 8192)"
    by (simp_all add: gas_ratio_def test_casts c m f64_div_def f64_max_def is_zero_def
        round_f64_cert [of "0" _ 4503599627370496] round_f64_cert [of "0" _ 7505999378950827]
        round_f64_cert [of "39" _ 5037190915060955])
qed

lemma full_multiplier: "1 \<le> r \<Longrightarrow> congestion_multiplier powf k (FNum r) = FNum 100"
  by (simp add: congestion_multiplier_def f64_clamp_def f64_lt_def)

lemma test_full_prices: "scaled_tx_price 1000000000 (FNum 100) = 100000000000" "saturating_mul (1000000000 :: u64) 100 = 100000000000"
  "saturating_add (u64_max - 1000) 5000 = u64_max" "saturating_add (0 :: u64) 30000000 = 30000000"
  "saturating_add (0 :: u64) 50000000 = 50000000"
  by (simp_all add: saturating_add_def saturating_mul_def u64_max_def scaled_tx_price_def f64_mul_def is_zero_def
      test_casts f64_lt_def round_f64_cert [of "36" _ 6553600000000000])

theorem congestion_tests_any_powf:
  "test_full_congestion powf" "test_overflow_protection powf"
  "test_multiple_saturating_gas_additions powf" "test_zero_gas_limit_handling powf"
  by (simp_all add: test_full_congestion_def test_overflow_protection_def
      test_multiple_saturating_gas_additions_def gas_eval test_full_ratios full_multiplier test_full_prices)
    (simp add: test_zero_gas_limit_handling_def Let_def add_gas_usage_def with_fallback_price_def
      slot_congestion_new_def test_full_prices)

theorem congestion_tests_half:
  "test_gas_usage_calculation small_powf" "test_different_scaling_factors small_powf"
  "test_different_base_prices small_powf" "test_price_calculation_precision small_powf"
  by (simp_all add: test_gas_usage_calculation_def test_different_scaling_factors_def
      test_different_base_prices_def test_price_calculation_precision_def gas_eval)

theorem congestion_tests_other:
  "test_zero_gas_usage small_powf" "test_small_gas_usage small_powf"
  "test_multiple_gas_additions small_powf" "test_fee_multiplier_formula_edge_cases small_powf"
  by (simp_all add: test_zero_gas_usage_def test_small_gas_usage_def test_multiple_gas_additions_def
      test_fee_multiplier_formula_edge_cases_def gas_eval)

lemma gas_used_ratio_nonneg: "f64_le (FNum 0) (gc_gas_used_ratio (add_gas_usage powf g k c))"
proof -
  have "f64_le (FNum 0) (f64_max a (FNum 0))" for a
    by (cases a) (auto simp: f64_max_def)
  then show ?thesis by (simp add: add_gas_usage_def with_fallback_price_def Let_def)
qed

theorem congestion_edge_test: "test_slot_congestion_edge_cases powf"
  by (simp add: test_slot_congestion_edge_cases_def Let_def gas_used_ratio_nonneg add_gas_usage_multiplier)
    (simp add: add_gas_usage_def slot_congestion_new_def with_fallback_price_def)

section \<open>A pool that reaches no database\<close>

definition test_get_or_create_slot_congestion_with_invalid_pool :: "env \<Rightarrow> (err, unit) io" where
  "test_get_or_create_slot_congestion_with_invalid_pool E =
     io_expect (get_or_create_slot_congestion (invalid_pool E) 12345 1000000000 30000000 1606824023) is_err"

definition test_get_slot_congestion_with_invalid_pool :: "env \<Rightarrow> (err, unit) io" where
  "test_get_slot_congestion_with_invalid_pool E =
     io_expect (get_slot_congestion (invalid_pool E) 12345) is_err"

definition test_update_slot_congestion_gas_usage_with_invalid_pool :: "env \<Rightarrow> (err, unit) io" where
  "test_update_slot_congestion_gas_usage_with_invalid_pool E =
     io_expect (update_slot_congestion_gas_usage (invalid_pool E) 12345 1000000 (FNum 2)) is_err"

definition test_get_current_gas_price_for_slot_with_invalid_pool :: "env \<Rightarrow> (err, unit) io" where
  "test_get_current_gas_price_for_slot_with_invalid_pool E =
     io_expect (get_current_gas_price_for_slot (invalid_pool E) 12345) is_err"

definition test_cleanup_old_slot_congestion_with_invalid_pool :: "env \<Rightarrow> (err, unit) io" where
  "test_cleanup_old_slot_congestion_with_invalid_pool E =
     io_expect (cleanup_old_slot_congestion (invalid_pool E) 24) is_err"

definition test_get_congestion_stats_with_invalid_pool :: "env \<Rightarrow> (err, unit) io" where
  "test_get_congestion_stats_with_invalid_pool E =
     io_expect (get_congestion_stats (invalid_pool E)) is_err"

text \<open>They are passed in every environment and every world.\<close>

theorem congestion_invalid_pool_tests:
  "passes (test_get_or_create_slot_congestion_with_invalid_pool E) w"
  "passes (test_get_slot_congestion_with_invalid_pool E) w"
  "passes (test_update_slot_congestion_gas_usage_with_invalid_pool E) w"
  "passes (test_get_current_gas_price_for_slot_with_invalid_pool E) w"
  "passes (test_cleanup_old_slot_congestion_with_invalid_pool E) w"
  "passes (test_get_congestion_stats_with_invalid_pool E) w"
  by (auto simp: test_get_or_create_slot_congestion_with_invalid_pool_def
      test_get_slot_congestion_with_invalid_pool_def test_update_slot_congestion_gas_usage_with_invalid_pool_def
      test_get_current_gas_price_for_slot_with_invalid_pool_def
      test_cleanup_old_slot_congestion_with_invalid_pool_def test_get_congestion_stats_with_invalid_pool_def
      get_or_create_slot_congestion_def get_slot_congestion_def update_slot_congestion_gas_usage_def
      get_current_gas_price_for_slot_def cleanup_old_slot_congestion_def get_congestion_stats_def
      passes_expect io_bind_def io_context_def io_map_err_def io_res_def io_fail_def io_now_def sql_invalid
      sql_query_invalid sql_transaction_invalid Let_def split: sum.splits prod.splits)

section \<open>A fresh database\<close>

text \<open>November 2023; the slots of the tests are counted from the genesis of the mainnet.\<close>

definition congestion_env :: env where
  "congestion_env = sample_env\<lparr>e_crates := sample_crates\<lparr>c_powf := small_powf\<rparr>,
     e_now := (\<lambda>n. 1700000000), e_db_time := (\<lambda>n. 1700000000000000)\<rparr>"

abbreviation create_gwei_slot :: "u64 \<Rightarrow> (err, slot_congestion) io" where
  "create_gwei_slot slot \<equiv> get_or_create_slot_congestion congestion_env slot 1000000000 30000000 1606824023"

definition test_get_or_create_slot_congestion :: "(err, unit) io" where
  "test_get_or_create_slot_congestion =
     (let slot = 888777666 in
      io_bind (create_gwei_slot slot) (\<lambda>c1.
      io_bind (io_assert (gc_slot c1 = slot \<and> gc_base_gas_price c1 = 1000000000 \<and> gc_total_gas_limit c1 = 30000000)) (\<lambda>_.
      io_bind (create_gwei_slot slot) (\<lambda>c2.
      io_assert (gc_slot c2 = slot \<and> gc_id c1 = gc_id c2)))))"

definition test_update_slot_congestion_gas_usage :: "(err, unit) io" where
  "test_update_slot_congestion_gas_usage =
     (let slot = 777666555; gas_used = 5000000 in
      io_bind (create_gwei_slot slot) (\<lambda>_.
      io_bind (update_slot_congestion_gas_usage congestion_env slot gas_used (FNum 2)) (\<lambda>u.
      io_bind (io_assert (gc_preconfirmed_gas u = gas_used
         \<and> gc_gas_used_ratio u = f64_div (f64_of_u64 gas_used) (f64_of_u64 30000000)
         \<and> f64_le (FNum 1) (gc_calculated_fee_multiplier u))) (\<lambda>_.
      io_bind (update_slot_congestion_gas_usage congestion_env slot gas_used (FNum 2)) (\<lambda>u2.
      io_assert (gc_preconfirmed_gas u2 = gas_used * 2
         \<and> gc_gas_used_ratio u2 = f64_div (f64_of_u64 (gas_used * 2)) (f64_of_u64 30000000)))))))"

definition test_get_slot_congestion_existing :: "(err, unit) io" where
  "test_get_slot_congestion_existing =
     (let slot = 666555444 in
      io_bind (create_gwei_slot slot) (\<lambda>created.
      io_bind (get_slot_congestion congestion_env slot) (\<lambda>retrieved.
      case retrieved of
        None \<Rightarrow> io_assert False
      | Some r \<Rightarrow> io_assert (gc_slot r = slot \<and> gc_base_gas_price r = 1000000000 \<and> gc_id r = gc_id created))))"

definition test_get_slot_congestion_not_found :: "(err, unit) io" where
  "test_get_slot_congestion_not_found =
     io_bind (get_slot_congestion congestion_env 999999999999) (\<lambda>r. io_assert (r = None))"

definition test_get_congestion_stats :: "(err, unit) io" where
  "test_get_congestion_stats =
     io_bind (get_congestion_stats congestion_env) (\<lambda>stats.
     io_assert (f64_le (FNum 0) (gs_current_average_congestion stats)
       \<and> f64_le (FNum 0) (gs_average_fee_multiplier stats) \<and> f64_le (FNum 0) (gs_highest_congestion_ratio stats)))"

definition test_update_nonexistent_slot_error :: "(err, unit) io" where
  "test_update_nonexistent_slot_error =
     io_expect (update_slot_congestion_gas_usage congestion_env 111222333444 1000000 (FNum 2)) is_err"

definition test_slot_congestion_with_realistic_gas_prices :: "(err, unit) io" where
  "test_slot_congestion_with_realistic_gas_prices =
     (let slot = 333222111; low = 1000000000; medium = 50000000000; high = 1000000000000;
          create = (\<lambda>s p. get_or_create_slot_congestion congestion_env s p 30000000 1606824023) in
      io_bind (create slot low) (\<lambda>c1.
      io_bind (io_assert (gc_base_gas_price c1 = low)) (\<lambda>_.
      io_bind (create (slot + 1) medium) (\<lambda>c2.
      io_bind (io_assert (gc_base_gas_price c2 = medium)) (\<lambda>_.
      io_bind (create (slot + 2) high) (\<lambda>c3.
      io_assert (gc_base_gas_price c3 = high)))))))"

definition test_slot_congestion_crud_operations :: "(err, unit) io" where
  "test_slot_congestion_crud_operations =
     (let slot = 12345; base_price = 1000000000 in
      io_bind (create_gwei_slot slot) (\<lambda>c.
      io_bind (io_assert (gc_slot c = slot \<and> gc_base_gas_price c = base_price)) (\<lambda>_.
      io_bind (update_slot_congestion_gas_usage congestion_env slot 1000000 (FNum 2)) (\<lambda>u.
      io_bind (io_assert (gc_preconfirmed_gas u = 1000000)) (\<lambda>_.
      io_bind (get_current_gas_price_for_slot congestion_env slot) (\<lambda>price.
      io_assert (case price of None \<Rightarrow> False | Some p \<Rightarrow> base_price < p)))))))"

definition test_slot_congestion_cleanup :: "(err, unit) io" where
  "test_slot_congestion_cleanup =
     (let old_slot = 1000; current_slot = 12347 in
      io_bind (create_gwei_slot old_slot) (\<lambda>_.
      io_bind (create_gwei_slot current_slot) (\<lambda>_.
      io_bind (cleanup_old_slot_congestion congestion_env 1) (\<lambda>_.
      io_bind (get_current_gas_price_for_slot congestion_env old_slot) (\<lambda>old_price.
      io_bind (io_assert (old_price = None)) (\<lambda>_.
      io_bind (get_current_gas_price_for_slot congestion_env current_slot) (\<lambda>current_price.
      io_assert (current_price \<noteq> None))))))))"

definition test_slot_congestion_concurrent_updates :: "(err, unit) io" where
  "test_slot_congestion_concurrent_updates =
     (let slot = 12346 in
      io_bind (create_gwei_slot slot) (\<lambda>_.
      io_bind (update_slot_congestion_gas_usage congestion_env slot 5000000 (FNum 2)) (\<lambda>update1.
      io_bind (update_slot_congestion_gas_usage congestion_env slot 3000000 (FNum 2)) (\<lambda>update2.
      io_assert (gc_preconfirmed_gas update1 < gc_preconfirmed_gas update2)))))"

definition test_congestion_stats_aggregation :: "(err, unit) io" where
  "test_congestion_stats_aggregation =
     foldr (\<lambda>slot rest. io_bind (create_gwei_slot slot) (\<lambda>_.
         io_bind (update_slot_congestion_gas_usage congestion_env slot (slot * 1000) (FNum 2)) (\<lambda>_. rest)))
       [12348, 12349, 12350, 12351, 12352]
       (io_bind (get_congestion_stats congestion_env) (\<lambda>stats.
        io_assert (0 < gs_total_slots_tracked stats \<and> f64_le (FNum 0) (gs_current_average_congestion stats)
          \<and> f64_le (FNum 1) (gs_average_fee_multiplier stats))))"

lemmas congestion_ops_eval = get_or_create_slot_congestion_def get_slot_congestion_def
  update_slot_congestion_gas_usage_def get_current_gas_price_for_slot_def cleanup_old_slot_congestion_def
  insert_congestion_returning_def insert_congestion_def congestion_row_of_def congestion_of_row_def
  update_congestion_def congestion_updated_def delete_older_def system_time_of_db_def system_time_opt_def
  system_time_def slot_start_timestamp_def saturating_mul_def i64_max_def congestion_env_def sample_env_def
  sample_crates_def

theorem congestion_database_tests:
  "passes test_get_or_create_slot_congestion empty_world"
  "passes test_get_slot_congestion_existing empty_world"
  "passes test_get_slot_congestion_not_found empty_world"
  "passes test_update_nonexistent_slot_error empty_world"
  "passes test_slot_congestion_with_realistic_gas_prices empty_world"
  by (simp_all add: test_get_or_create_slot_congestion_def test_get_slot_congestion_existing_def
      test_get_slot_congestion_not_found_def test_update_nonexistent_slot_error_def
      test_slot_congestion_with_realistic_gas_prices_def run_eval congestion_ops_eval saturating_add_def
      slot_congestion_new_def)

theorem congestion_update_test: "passes test_update_slot_congestion_gas_usage empty_world"
  by (simp add: test_update_slot_congestion_gas_usage_def run_eval congestion_ops_eval gas_eval
      congestion_multiplier_range saturating_add_def)

theorem congestion_concurrent_updates_test: "passes test_slot_congestion_concurrent_updates empty_world"
  by (simp add: test_slot_congestion_concurrent_updates_def run_eval congestion_ops_eval add_gas_usage_frame
      slot_congestion_new_def saturating_add_def)

theorem congestion_crud_test: "passes test_slot_congestion_crud_operations empty_world"
  by (simp add: test_slot_congestion_crud_operations_def run_eval congestion_ops_eval gas_eval saturating_add_def)

theorem congestion_stats_test: "passes test_get_congestion_stats empty_world"
  by (simp add: test_get_congestion_stats_def get_congestion_stats_def run_eval recent_rows_def scan_def
      congestion_env_def sample_env_def f64_lt_def)

text \<open>The last test of the source fails: slot 12347 started in 2020, so a cleanup that keeps one hour deletes it too.\<close>

theorem cleanup_test_fails: "\<not> passes test_slot_congestion_cleanup empty_world"
  by (simp add: test_slot_congestion_cleanup_def run_eval congestion_ops_eval saturating_add_def slot_congestion_new_def)

text \<open>The slots of the aggregation test are in 2020 too, so none is among those of the last 24 hours.\<close>

theorem stats_aggregation_test_fails: "\<not> passes test_congestion_stats_aggregation empty_world"
  by (simp add: test_congestion_stats_aggregation_def get_congestion_stats_def recent_rows_def scan_def run_eval
      congestion_ops_eval saturating_add_def slot_congestion_new_def add_gas_usage_def f64_lt_def)

end
