(* ===== verification/Tests_Fees.thy ===== *)
theory Tests_Fees
  imports Tests_Congestion
begin

text \<open>
  The tests of \<open>services/fee_pricing.rs\<close> and \<open>services/fee_pricing/fee_pricing_tests.rs\<close>. An engine is
  the configuration it reads; the default one has bounds 1 and 100 and the scaling factor 2.
\<close>

section \<open>Gas estimates\<close>

definition test_estimate_gas_for_inclusion_with_valid_payload :: "payload_lib \<Rightarrow> bool" where
  "test_estimate_gas_for_inclusion_with_valid_payload P =
     ok_and (\<lambda>encoded. ok_and (\<lambda>gas. 21000 \<le> gas \<and> gas \<le> 50000) (estimate_gas_for_commitment P 1 encoded))
       (encode_inclusion_payload P (inclusion_payload_new 12345 [0xaa, 0xbb, 0xcc, 0xdd]))"

definition test_estimate_gas_for_inclusion_with_invalid_payload_fallback :: "payload_lib \<Rightarrow> bool" where
  "test_estimate_gas_for_inclusion_with_invalid_payload_fallback P =
     (estimate_gas_for_commitment P 1 [0xff, 0xff] = Inr 50000)"

definition test_estimate_gas_for_execution_commitment :: "payload_lib \<Rightarrow> bool" where
  "test_estimate_gas_for_execution_commitment P = (estimate_gas_for_commitment P 2 [1, 2, 3, 4] = Inr 100000)"

definition test_estimate_gas_for_unknown_commitment_type :: "payload_lib \<Rightarrow> bool" where
  "test_estimate_gas_for_unknown_commitment_type P =
     err_contains ''Unknown commitment type'' (estimate_gas_for_commitment P 999 [1, 2, 3, 4])"

definition test_gas_estimation_with_large_signed_tx :: "payload_lib \<Rightarrow> bool" where
  "test_gas_estimation_with_large_signed_tx P =
     ok_and (\<lambda>encoded. ok_and (\<lambda>gas. 100000 \<le> gas \<and> gas \<le> 150000) (estimate_gas_for_commitment P 1 encoded))
       (encode_inclusion_payload P (inclusion_payload_new 12345 (replicate 5000 0xaa)))"

definition test_gas_estimation_inclusion :: "payload_lib \<Rightarrow> bool" where
  "test_gas_estimation_inclusion P =
     ok_and (\<lambda>gas. 21000 < gas \<and> gas < 100000
         \<and> ok_and (\<lambda>large_gas. gas \<le> large_gas) (estimate_gas_for_commitment P 1 (replicate 1000 0)))
       (estimate_gas_for_commitment P 1 (replicate 100 0))"

lemma json_parse_back:
  "json_payload_laws P \<Longrightarrow> encode_inclusion_payload P p = Inr bs \<Longrightarrow> parse_inclusion_payload P bs = Inr p"
  by (auto simp: json_payload_laws_def encode_inclusion_payload_def res_of_def context_res_def res_map_err_def
      parse_inclusion_payload_def split: option.splits)

text \<open>For every codec that writes the payload and reads it back; bytes that do not parse get the fallback.\<close>

theorem gas_estimate_tests:
  assumes "json_payload_laws P" "\<And>p. json_of_inclusion P p \<noteq> None"
  shows "test_estimate_gas_for_inclusion_with_valid_payload P" "test_gas_estimation_with_large_signed_tx P"
proof -
  have "\<exists>bs. encode_inclusion_payload P p = Inr bs" for p
    using assms(2) [of p] by (auto simp: encode_inclusion_payload_def res_of_def context_res_def res_map_err_def)
  then obtain bs1 bs2 where
    "encode_inclusion_payload P (inclusion_payload_new 12345 [0xaa, 0xbb, 0xcc, 0xdd]) = Inr bs1"
    "encode_inclusion_payload P (inclusion_payload_new 12345 (replicate 5000 0xaa)) = Inr bs2" by blast
  with json_parse_back [OF assms(1)]
  show "test_estimate_gas_for_inclusion_with_valid_payload P" "test_gas_estimation_with_large_signed_tx P"
    by (simp_all add: test_estimate_gas_for_inclusion_with_valid_payload_def
        test_gas_estimation_with_large_signed_tx_def estimate_gas_for_commitment_def ok_and_def
        inclusion_payload_new_def Let_def)
qed

theorem gas_fallback_tests:
  "is_err (parse_inclusion_payload P [0xff, 0xff]) \<Longrightarrow>
   test_estimate_gas_for_inclusion_with_invalid_payload_fallback P"
  "is_err (parse_inclusion_payload P (replicate 100 0)) \<Longrightarrow> is_err (parse_inclusion_payload P (replicate 1000 0)) \<Longrightarrow>
   test_gas_estimation_inclusion P"
  by (auto simp: test_estimate_gas_for_inclusion_with_invalid_payload_fallback_def test_gas_estimation_inclusion_def
      estimate_gas_for_commitment_def is_err_def ok_and_def split: sum.splits)

theorem gas_type_tests:
  "test_estimate_gas_for_execution_commitment P" "test_estimate_gas_for_unknown_commitment_type P"
proof -
  have "str_contains ''Unknown commitment type'' ''Unknown commitment type for gas estimation''" by code_simp
  then show "test_estimate_gas_for_execution_commitment P" "test_estimate_gas_for_unknown_commitment_type P"
    by (simp_all add: test_estimate_gas_for_execution_commitment_def test_estimate_gas_for_unknown_commitment_type_def
        estimate_gas_for_commitment_def err_contains_def del: str_contains.simps)
qed

section \<open>Projected congestion\<close>

abbreviation project :: "powf \<Rightarrow> slot_congestion \<Rightarrow> u64 \<Rightarrow> slot_congestion" where
  "project powf \<equiv> calculate_projected_congestion powf default_fee_config"

definition test_calculate_projected_congestion_with_bounds :: "powf \<Rightarrow> bool" where
  "test_calculate_projected_congestion_with_bounds powf =
     (let base = add_gas_usage powf 24000000 (FNum 2) (gwei_slot 12345); p = project powf base 3000000
      in f64_le (gc_calculated_fee_multiplier p) (fc_max_fee_multiplier default_fee_config)
         \<and> f64_le (fc_min_fee_multiplier default_fee_config) (gc_calculated_fee_multiplier p))"

definition test_calculate_projected_congestion_at_minimum :: "powf \<Rightarrow> bool" where
  "test_calculate_projected_congestion_at_minimum powf =
     (let base = gwei_slot 12345; p = project powf base 100
      in f64_le (fc_min_fee_multiplier default_fee_config) (gc_calculated_fee_multiplier p)
         \<and> gc_base_gas_price base \<le> gc_current_tx_price p)"

definition test_projected_congestion_calculation :: "powf \<Rightarrow> bool" where
  "test_projected_congestion_calculation powf =
     (let base = add_gas_usage powf 7500000 (FNum 2) (gwei_slot 12345); p = project powf base 7500000
      in gc_gas_used_ratio p = FNum (1 / 2)
         \<and> f64_lt (gc_calculated_fee_multiplier base) (gc_calculated_fee_multiplier p)
         \<and> gc_current_tx_price base < gc_current_tx_price p)"

definition test_fee_calculation_with_high_congestion :: "powf \<Rightarrow> bool" where
  "test_fee_calculation_with_high_congestion powf =
     (let base = add_gas_usage powf 28500000 (FNum 2) (gwei_slot 12345); p = project powf base 100000
      in f64_lt (FNum (3 / 2)) (gc_calculated_fee_multiplier p) \<and> gc_base_gas_price p < gc_current_tx_price p)"

definition test_projected_congestion_price_rounding :: "powf \<Rightarrow> bool" where
  "test_projected_congestion_price_rounding powf =
     (let base = (slot_congestion_new 12345 1 30000000 test_time)\<lparr>gc_calculated_fee_multiplier := FNum (3 / 2)\<rparr>
      in gc_current_tx_price (project powf base 100000) = 2)"

lemma default_bounds:
  "f64_le (fc_min_fee_multiplier default_fee_config) (gc_calculated_fee_multiplier (project powf c g))"
  "f64_le (gc_calculated_fee_multiplier (project powf c g)) (fc_max_fee_multiplier default_fee_config)"
  by (rule projected_multiplier_range; simp add: default_fee_config_def)+

theorem projection_bound_tests:
  "test_calculate_projected_congestion_with_bounds powf"
  by (simp add: test_calculate_projected_congestion_with_bounds_def default_bounds Let_def)

text \<open>The doubles of the other tests.\<close>

lemma fee_ratios:
  "f64_of_u64 7500000 = FNum 7500000" "f64_of_u64 28600000 = FNum 28600000" "f64_of_u64 100000 = FNum 100000"
  "f64_of_u64 u64_max = FNum 18446744073709551616"
  "gas_ratio 7500000 30000000 = FNum (1 / 4)"
  "gas_ratio 28600000 30000000 = FNum (4293431644759873 / 4503599627370496)"
  "gas_ratio 100000 30000000 = FNum (7686143364045647 / 2305843009213693952)"
proof -
  show c: "f64_of_u64 7500000 = FNum 7500000" "f64_of_u64 28600000 = FNum 28600000" "f64_of_u64 100000 = FNum 100000"
    by (simp_all add: f64_of_u64_small del: of_nat_unat)
  show "f64_of_u64 u64_max = FNum 18446744073709551616" by (rule test_full_ratios)
  show "gas_ratio 7500000 30000000 = FNum (1 / 4)"
    "gas_ratio 28600000 30000000 = FNum (4293431644759873 / 4503599627370496)"
    "gas_ratio 100000 30000000 = FNum (7686143364045647 / 2305843009213693952)"
    by (simp_all add: gas_ratio_def c test_casts f64_div_def f64_max_def is_zero_def
        round_f64_cert [of "-2" _ 4503599627370496] round_f64_cert [of "-1" _ 8586863289519746]
        round_f64_cert [of "-9" _ 7686143364045647])
qed

lemma fee_multipliers:
  "congestion_multiplier small_powf (FNum 2) (FNum (1 / 4)) = FNum (4803839602528529 / 4503599627370496)"
  "congestion_multiplier small_powf (FNum 2) (FNum (4293431644759873 / 4503599627370496))
     = FNum (1543926615307109 / 140737488355328)"
  "congestion_multiplier small_powf (FNum 2) (FNum (7686143364045647 / 2305843009213693952))
     = FNum (2251824833961181 / 2251799813685248)"
  by (simp_all add: congestion_multiplier_def small_powf_def f64_mul_def f64_sub_def f64_div_def is_zero_def
      f64_clamp_def f64_lt_def
      round_f64_cert [of "-4" _ 4503599627370496] round_f64_cert [of "-1" _ 8444249301319680]
      round_f64_cert [of "0" _ 4803839602528529] round_f64_cert [of "-1" _ 8186143002675491]
      round_f64_cert [of "-4" _ 6568450016524008] round_f64_cert [of "3" _ 6175706461228436]
      round_f64_cert [of "-17" _ 6558842337318953] round_f64_cert [of "-1" _ 9007099174749273]
      round_f64_cert [of "0" _ 4503649667922362])

lemma fee_ceilings:
  "\<lceil>8947848533333333 / 8388608 :: rat\<rceil> = 1066666667" "\<lceil>5751574841540713 / 524288 :: rat\<rceil> = 10970258411"
  "\<lceil>2251824833961181 / 2251799813685248 :: rat\<rceil> = 2"
  by (simp_all add: ceiling_unique)

lemma fee_products:
  "f64_mul (FNum 1000000000) (FNum (4803839602528529 / 4503599627370496)) = FNum (8947848533333333 / 8388608)"
  "f64_mul (FNum 1000000000) (FNum (1543926615307109 / 140737488355328)) = FNum (5751574841540713 / 524288)"
  "f64_mul (FNum 1) (FNum (2251824833961181 / 2251799813685248)) = FNum (2251824833961181 / 2251799813685248)"
  by (simp_all add: f64_mul_def is_zero_def round_f64_cert [of "29" _ 8947848533333333]
      round_f64_cert [of "33" _ 5751574841540713] round_f64_cert [of "0" _ 4503649667922362])

lemmas fee_eval = gas_eval fee_ratios fee_multipliers fee_products fee_ceilings calculate_projected_congestion_def
  default_fee_config_def bounded_price_def scaled_tx_price_def f64_min_def f64_max_def saturating_add_def

theorem projection_tests:
  "test_projected_congestion_calculation small_powf"
  by (simp add: test_projected_congestion_calculation_def fee_eval)

theorem projection_tests_2:
  "test_fee_calculation_with_high_congestion small_powf"
  "test_projected_congestion_price_rounding small_powf"
  by (simp_all add: test_fee_calculation_with_high_congestion_def test_projected_congestion_price_rounding_def fee_eval)

section \<open>Slots and the cache\<close>

definition test_slot_acceptability_boundaries :: "env \<Rightarrow> config \<Rightarrow> (err, unit) io" where
  "test_slot_acceptability_boundaries E c =
     io_bind (get_current_slot E c) (\<lambda>current_slot.
     io_bind (is_slot_acceptable_for_fees E c current_slot) (\<lambda>a.
     io_bind (io_assert a) (\<lambda>_.
     io_bind (is_slot_acceptable_for_fees E c (current_slot + 10)) (\<lambda>b.
     io_bind (io_assert b) (\<lambda>_.
     io_bind (is_slot_acceptable_for_fees E c (current_slot + 11)) (\<lambda>d.
     io_bind (io_assert (\<not> d)) (\<lambda>_.
     io_bind (is_slot_acceptable_for_fees E c (current_slot + 100)) (\<lambda>e. io_assert (\<not> e)))))))))"

definition test_slot_acceptability :: "env \<Rightarrow> config \<Rightarrow> (err, unit) io" where
  "test_slot_acceptability E c =
     io_bind (get_current_slot E c) (\<lambda>current_slot.
     io_bind (is_slot_acceptable_for_fees E c current_slot) (\<lambda>a.
     io_bind (io_assert a) (\<lambda>_.
     io_bind (is_slot_acceptable_for_fees E c (current_slot + 5)) (\<lambda>b.
     io_bind (io_assert b) (\<lambda>_.
     io_bind (is_slot_acceptable_for_fees E c (current_slot + 20)) (\<lambda>d.
     io_bind (io_assert (\<not> d)) (\<lambda>_.
     if 0 < current_slot
     then io_bind (is_slot_acceptable_for_fees E c (current_slot - 1)) (\<lambda>e. io_assert (\<not> e))
     else io_return ())))))))"

definition test_get_current_slot :: "env \<Rightarrow> config \<Rightarrow> (err, unit) io" where
  "test_get_current_slot E c =
     io_bind (get_current_slot E c) (\<lambda>slot. io_assert (0 < slot \<and> slot < u64_max div 2))"

definition test_cache_refresh_interval_calculation :: bool where
  "test_cache_refresh_interval_calculation =
     (cache_refresh_interval_secs (default_fee_config\<lparr>fc_cache_ttl_secs := 60\<rparr>) = 30
      \<and> cache_refresh_interval_secs (default_fee_config\<lparr>fc_cache_ttl_secs := 1\<rparr>) = 1)"

definition test_apply_gas_usage_to_slot :: "config \<Rightarrow> (err, unit) io" where
  "test_apply_gas_usage_to_slot c =
     io_bind (get_current_slot congestion_env c) (\<lambda>current_slot.
     let test_slot = current_slot + 5; gas_used = 100000 in
     io_bind (get_or_create_slot_congestion congestion_env test_slot 1000000000 30000000
       (ba_genesis_time (cf_beacon_api c))) (\<lambda>_.
     io_bind (apply_gas_usage_to_slot congestion_env c test_slot gas_used) (\<lambda>updated.
     io_assert (gas_used \<le> gc_preconfirmed_gas updated \<and> f64_lt (FNum 0) (gc_gas_used_ratio updated)))))"

definition test_get_pricing_stats :: "env \<Rightarrow> config \<Rightarrow> (err, unit) io" where
  "test_get_pricing_stats E c =
     io_bind (get_pricing_stats E c) (\<lambda>stats.
     io_assert (0 < ps_current_slot stats \<and> f64_le (FNum 0) (gs_current_average_congestion (ps_congestion stats))
       \<and> f64_le (FNum 0) (gs_average_fee_multiplier (ps_congestion stats))))"

theorem slot_tests:
  "passes (test_slot_acceptability_boundaries (clock_env 1700000000) (default_config signing)) w"
  "passes (test_slot_acceptability (clock_env 1700000000) (default_config signing)) w"
  "passes (test_get_current_slot (clock_env 1700000000) (default_config signing)) w"
  by (simp_all add: test_slot_acceptability_boundaries_def test_slot_acceptability_def test_get_current_slot_def
      passes_def io_bind_def io_return_def io_assert_def io_now_def get_current_slot_def is_slot_acceptable_for_fees_def
      slot_acceptable_def current_slot_estimate_def slot_duration_seconds_def clock_env_def default_config_def
      default_beacon_api_def u64_max_def)

theorem refresh_interval_test: test_cache_refresh_interval_calculation
  by (simp add: test_cache_refresh_interval_calculation_def cache_refresh_interval_secs_def)

theorem apply_gas_test: "passes (test_apply_gas_usage_to_slot (default_config signing)) empty_world"
  by (simp add: test_apply_gas_usage_to_slot_def run_eval congestion_ops_eval gas_eval fee_ratios get_current_slot_def
      apply_gas_usage_to_slot_def current_slot_estimate_def slot_duration_seconds_def default_config_def
      default_beacon_api_def default_reth_def default_fee_config_def saturating_add_def)

theorem pricing_stats_test:
  "passes (test_get_pricing_stats congestion_env (default_config signing)) empty_world"
  by (simp add: test_get_pricing_stats_def get_pricing_stats_def get_congestion_stats_def run_eval recent_rows_def
      scan_def get_current_slot_def current_slot_estimate_def slot_duration_seconds_def default_config_def
      default_beacon_api_def congestion_env_def sample_env_def f64_lt_def split: prod.split)

end
