(* ===== verification/Spec2Isabelle.thy ===== *)
theory Spec2Isabelle
  imports Props_Data Props_Fees Props_Clients Props_Services Props_Progress Props_Startup
    Tests_Types Tests_Config Tests_Beacon Tests_Clients Tests_Storage Tests_Services Tests_Fees
begin

text \<open>
  A model of the preconfirmation gateway, a JSON-RPC server that sells commitments to include
  transactions in Ethereum slots. A proposer delegates a slot to the gateway by a signed message, which
  a relay hands out. The gateway answers \<open>commitmentRequest\<close> with a signed commitment when such a
  delegation covers the slot, stores it in PostgreSQL, prices it by the congestion of the slot, and
  before the slot's deadline sends the relay a signed constraints message made of the commitments of
  the slot.

  \<^bold>\<open>The parts and their theories.\<close> Paths are under \<open>src/\<close>; a definition has the name of
  the Rust item it translates, with a suffix or prefix where HOL or another module has the name already.

  \<^item> \<open>Gw_Prelude\<close>, \<open>Rust_Std\<close>, \<open>Binary64\<close>: machine types, errors as values, results, the parts of
    Rust's standard library in use, and \<open>f64\<close> as IEEE binary64 with exact rounding.
  \<^item> \<open>Gw_Types\<close> (\<open>types/\<close>), \<open>Crates\<close>: the data, and the third-party crates as records of functions.
  \<^item> \<open>Hex_Fields\<close> (\<open>types/hex_serde.rs\<close>, \<open>utils/address.rs\<close>, the \<open>serde\<close> code of
    \<open>types/delegation.rs\<close>), \<open>Beacon_Timing\<close> (\<open>types/beacon.rs\<close>), \<open>Payload\<close> (\<open>types/payload.rs\<close>),
    \<open>Crypto\<close> (\<open>crypto/mod.rs\<close>, \<open>crypto/bls.rs\<close>), \<open>Gw_Config\<close> (\<open>config.rs\<close>).
  \<^item> \<open>Store\<close> (\<open>migrations/\<close>): the three tables the code uses, as lists of rows in the order of
    insertion, with the CHECK and UNIQUE constraints each INSERT meets.
  \<^item> \<open>Effects\<close>: programs as functions on the world. \<open>Commitment_Ops\<close>, \<open>Delegation_Ops\<close>,
    \<open>Congestion_Ops\<close> (\<open>db/\<close>): every SQL statement, as a function on the tables, and the Rust code around it.
    \<open>Db_Context\<close> (\<open>db/mod.rs\<close>): the \<open>DatabaseContext\<close> that passes each call on.
  \<^item> \<open>Beacon_Api\<close> (\<open>api/beacon.rs\<close>), \<open>Relay_Api\<close> (\<open>api/constraints.rs\<close>, \<open>api/reth.rs\<close>,
    \<open>services/validator_status_cache.rs\<close>): the HTTP clients with their fallbacks and retries.
  \<^item> \<open>Fee_Pricing\<close>, \<open>Delegation_Polling\<close>, \<open>Constraint_Submission\<close> (\<open>services/\<close>): the services.
  \<^item> \<open>Rpc_Handlers\<close> (\<open>rpc/handlers.rs\<close>): the four methods; \<open>commitment_request_handler\<close> is
    composed of the six stages between which other tasks can run.
  \<^item> \<open>Gateway\<close>, \<open>Gateway_System\<close>: the abstract database \<open>db_step\<close>, and the interleaved system.
  \<^item> \<open>Liveness\<close>, \<open>Submission_Progress\<close>, \<open>Polling_Progress\<close>: what is enough for a request to be
    answered, for a commitment to be submitted and for an offered delegation to be stored.
  \<^item> \<open>Metrics_Server\<close>, \<open>Startup\<close> (\<open>metrics.rs\<close>, \<open>server.rs\<close>, \<open>rpc/methods.rs\<close>, \<open>main.rs\<close>, the
    lifecycle code of the services, \<open>db/mod.rs\<close>, \<open>types/context.rs\<close>): gauges and the endpoint that
    serves them, method table, startup and shutdown.
  \<^item> \<open>Samples\<close>: concrete parameters for the witnesses. \<open>Props_*\<close> and this theory: the properties.
  \<^item> \<open>Unit_Tests\<close>, \<open>Tests_*\<close>: the repository's own tests, run on the model (see below).

  \<^bold>\<open>State and effects.\<close> A program is a function from the world to a result and the world after it. The
  world is the database, the validator cache, the log of outgoing requests and sleeps, and a count of
  the interactions made so far. Whatever the outside decides (clock, HTTP answers, faults of the
  database before or after a statement took effect, identifiers, row order of an unordered SELECT,
  timeouts, cache eviction) is a function of that count in the record \<open>env\<close>, so a theorem for all
  \<open>env\<close> holds for every behaviour of the outside. Startup runs on a larger state, the process.
  Errors, early returns and panics are values: \<open>Inl\<close> of an \<open>err\<close>, or of an \<open>rpc_error\<close> in a handler.

  \<^bold>\<open>Interfaces.\<close> \<open>step_rel\<close>, \<open>log_rel\<close> and \<open>quiet_rel\<close> (\<open>Effects\<close>) are the laws under which a
  relation between states passes through programs; the frame and refinement lemmas of every component
  are proved once in them and used at \<open>same_db\<close>, \<open>keeps\<close>, \<open>adds\<close>, \<open>retires\<close>, \<open>marks\<close>, \<open>changes\<close> and
  others. \<open>first_success\<close> is the contract of the endpoint fallback, \<open>bounded_retry\<close> of the two retry
  loops, \<open>fixed_hex_parser\<close> of the readers of hex fields, and \<open>keyed_table\<close> of an INSERT that keeps a key unique.

  \<^bold>\<open>What the lemmas show.\<close> For each statement: what its result says of the tables, and what it keeps of
  the database invariant. For each stage and service: what success establishes (\<open>*_Inr\<close>), what
  failure leaves unchanged, that it refines \<open>db_step\<close> (\<open>*_changes\<close>), and what makes it succeed
  (\<open>*_ok\<close>). From these: a commitment is given out only with authority, never twice, stays retrievable
  and unaltered, and a valid request gets one when the outside works; delegations are
  added only when verified and eligible, and those offered that are get stored; commitments are marked
  as processed only after the relay accepted them, and a round leaves none that is due behind; prices and multipliers stay in their bounds; refusals change nothing; encoders and
  decoders agree; startup leads to a reachable state of the system.

  \<^bold>\<open>Bounds.\<close> Integers keep their width: \<open>u64\<close> and \<open>i64\<close> are 64-bit words with the wrap-around of a release build,
  and a property that needs a sum or product not to wrap says so. The retry loops recurse on the
  number of attempts left, which starts at \<open>max 1 max_retries\<close> (relay) or \<open>max_retries\<close> (Reth node), so they are
  total without fuel. A handler has six stages; \<open>run_stages 6\<close> always finishes one. Trimming white
  space takes as many rounds as the string has bytes, since each removes at least one. The properties of prices are
  stated for base prices up to \<open>2 ^ 53 div 100\<close> wei, beyond which a double is not exact; that the
  bound is needed is shown too.

  \<^bold>\<open>Parameters and their laws.\<close> The functions of \<open>hex\<close>, \<open>tiny_keccak\<close>, \<open>ethabi\<close>, \<open>rlp\<close>,
  \<open>serde_json\<close>, \<open>toml\<close>, \<open>secp256k1\<close>, \<open>blst\<close>, \<open>powf\<close>, \<open>prometheus\<close>, \<open>tokio-cron-scheduler\<close> and
  \<open>reqwest\<close> are parameters. Where a property needs their documented behaviour it has a hypothesis:
  \<open>hex_laws\<close> (decoding inverts encoding), \<open>keccak_laws\<close> (a digest has 32 bytes), \<open>secp_laws\<close>
  (signatures verify), \<open>rlp_laws\<close>, \<open>json_payload_laws\<close>, \<open>registry_law\<close> (a new name is accepted),
  \<open>scan_law\<close> (a SELECT returns every row once), \<open>cache_law\<close> (the cache returns what was last
  stored). \<open>Samples\<close> has an instance of each.

  \<^bold>\<open>The tests.\<close> The theories \<open>Tests_*\<close> translate the code under \<open>#[cfg(test)]\<close>, one definition per
  test: the same calls, inputs and assertions, with a server that is not there as an outside that
  does not answer. Lemmas show that the model passes them, often for every outside of the kind the
  test sets up, so they tie the definitions to the expectations of the code's authors. Some ignored
  tests cannot pass, which is proved as well: \<open>Tests_Congestion.cleanup_test_fails\<close> and
  \<open>stats_aggregation_test_fails\<close> (the slots they take for current ones lie in 2020) and
  \<open>Tests_Storage.mock_signature_tests_fail\<close> (they store a delegation with a mock signature, which
  \<open>save_delegation\<close> refuses).

  \<^bold>\<open>Not modelled.\<close> Log output, and the texts of the errors of other crates; the \<open>serde\<close>
  derivations and the TOML and JSON syntax; sockets, TLS and the HTTP framing; when the cron scheduler
  fires (its jobs may run at any time between two stages); connection pooling; the text format of the
  metrics; \<open>types/database.rs\<close>, which nothing uses; the tables of migrations 004, 005, 007 and 008, which no
  Rust code touches; the mocks and fixtures under \<open>testing/\<close>, but for what a translated test calls; the
  tests that only read back a value they built, or that depend on the output of a parameter (a
  digest, a TOML or JSON text). An existing database is taken to have the schema of the migrations.
\<close>

section \<open>Commitments are given out with authority, once\<close>

text \<open>
  C1: a commitment is given out only for a well-formed request of type 1 of a whitelisted slasher,
  whose payload names a slot for which an active stored delegation exists that a BLS signature
  verifies, whose committer is the slasher and the gateway's own address up to normalisation, and
  whose proposer a beacon node reported for this slot. It carries the hash of the request, which no
  stored commitment had, and a signature made with the gateway's key; and it is stored.
\<close>

theorem commitment_needs_authority:
  assumes "scan_law E"
    and "commitment_request_handler E c params w = (Inr sc, w')"
  shows "\<exists>request slot row d. params = Some request \<and> cr_commitment_type request = 1
    \<and> is_whitelisted c (cr_slasher request)
    \<and> extract_slot (payload_of E) 1 (cr_payload request) = Inr slot
    \<and> row \<in> set (db_delegations (w_db w)) \<and> dr_is_active row \<and> dr_slot_number row = slot
    \<and> delegation_of_row row = Inr d
    \<and> verify_delegation_signature (hash_of E) (blst_of E) d = Inr True
    \<and> normalize_address (dm_committer (sd_message d)) = normalize_address (cr_slasher request)
    \<and> normalize_address (dm_committer (sd_message d)) = normalize_address (sk_committer_address (cf_signing c))
    \<and> scheduled E c slot (dm_proposer (sd_message d))
    \<and> sg_commitment sc = \<lparr>co_commitment_type = 1, co_payload = cr_payload request,
        co_request_hash = co_request_hash (sg_commitment sc), co_slasher = cr_slasher request\<rparr>
    \<and> generate_request_hash (hash_of E) request = Inr (co_request_hash (sg_commitment sc))
    \<and> co_request_hash (sg_commitment sc) \<notin> ci_request_hash ` set (db_commitments (w_db w))
    \<and> properly_signed E c sc \<and> stored (w_db w') sc"
proof -
  from assms(2) obtain k u w1 w2 u' w3 g w4 u'' where
    v: "stage_validate E c params = Inr k" and x: "stage_exists E k w = (Inr u, w1)"
    and a: "stage_authority E c k w1 = (Inr sc, w2)" and s: "stage_save E sc w2 = (Inr u', w3)"
    and f: "stage_fee E c k w3 = (Inr g, w4)" and gs: "stage_gas E c k g w4 = (Inr u'', w')"
    by (rule handler_Inr)
  note x' = stage_exists_Inr [OF x] and v' = v [unfolded stage_validate_Inr]
  note a' = stage_authority_Inr [OF assms(1) a]
  have "commitments_kept (w_db w3) (w_db w')"
    using changes_kept obeysD [OF stage_fee_changes f] obeysD [OF stage_gas_changes gs] kept_trans by blast
  then have "stored (w_db w') sc" using saved_is_stored [OF s] stored_kept by blast
  moreover from a' obtain row d where "row \<in> set (db_delegations (w_db w1))" "dr_is_active row"
    "dr_slot_number row = kr_slot k" "delegation_of_row row = Inr d"
    "authorises E c (kr_slot k) (cr_slasher (kr_request k)) d"
    "normalize_address (dm_committer (sd_message d)) = normalize_address (sk_committer_address (cf_signing c))"
    by blast
  moreover have "sg_commitment sc = commitment_of_request k" "properly_signed E c sc" using a' by simp_all
  ultimately show ?thesis using v' x'
    by (intro exI [of _ "kr_request k"] exI [of _ "kr_slot k"] exI [of _ row] exI [of _ d])
      (simp add: authorises_def committer_matches_def commitment_of_request_def)
qed

theorem commitment_needs_authority_witness:
  "\<exists>w' row d. commitment_request_handler sample_env sample_config (Some sample_request) sample_world
       = (Inr sample_signed, w')
     \<and> row \<in> set (db_delegations sample_db) \<and> delegation_of_row row = Inr d
     \<and> scheduled sample_env sample_config (dr_slot_number row) (dm_proposer (sd_message d))
     \<and> stored (w_db w') sample_signed"
proof -
  obtain w' where h: "commitment_request_handler sample_env sample_config (Some sample_request) sample_world
      = (Inr sample_signed, w')" using sample_handler by blast
  have "w_db sample_world = sample_db" by (simp add: sample_world_def)
  with commitment_needs_authority [OF sample_scan_law h] h show ?thesis by metis
qed

text \<open>
  C2: no request is answered twice: in every reachable state of the gateway, with any number of
  requests handled concurrently and interleaved with the background jobs, two tasks that have given out
  a commitment have given them out under different request hashes.
\<close>

theorem at_most_one_answer:
  assumes "reachable E c s"
  shows "inj_on (\<lambda>i. answer_hash (sy_tasks s i)) {i. answer_hash (sy_tasks s i) \<noteq> None}"
proof (rule inj_onI)
  fix i j
  assume i: "i \<in> {i. answer_hash (sy_tasks s i) \<noteq> None}"
    and same: "answer_hash (sy_tasks s i) = answer_hash (sy_tasks s j)"
  then obtain h where "answer_hash (sy_tasks s i) = Some h" "answer_hash (sy_tasks s j) = Some h" by auto
  then obtain a b where "sy_tasks s i = Some (Finished (Inr a))" "sy_tasks s j = Some (Finished (Inr b))"
    "co_request_hash (sg_commitment a) = co_request_hash (sg_commitment b)"
    by (auto simp: answer_hash_Some)
  then show "i = j"
    using reachable_inv [OF assms] unfolding system_inv_def by (metis task_saved.simps(3))
qed

theorem at_most_one_answer_witness:
  "\<exists>s :: system. answer_hash (sy_tasks s 0) = Some (co_request_hash (sg_commitment sample_signed))
     \<and> inj_on (\<lambda>i. answer_hash (sy_tasks s i)) {i. answer_hash (sy_tasks s i) \<noteq> None}"
proof -
  obtain s where s: "reachable sample_env sample_config s" "sy_tasks s = [0 \<mapsto> Finished (Inr sample_signed)]"
    using answered_reachable by blast
  from s(2) have "answer_hash (sy_tasks s 0) = Some (co_request_hash (sg_commitment sample_signed))" by simp
  with at_most_one_answer [OF s(1)] show ?thesis by blast
qed

text \<open>
  C4: in every reachable state the database is sound: request hashes are unique, every stored
  commitment is of type 1, for a whitelisted slasher, under the hash of its own request and signed with the
  gateway's key; every delegation is verified and unique for its proposer and slot; every slot has at
  most one congestion record. And whatever a task has answered is such a commitment and is stored.
\<close>

theorem reachable_sound:
  assumes "reachable E c s"
  shows "distinct (map ci_request_hash (db_commitments (w_db (sy_world s))))
    \<and> list_all (issued_row E c) (db_commitments (w_db (sy_world s)))
    \<and> distinct (map delegation_key (db_delegations (w_db (sy_world s))))
    \<and> list_all (verified_row E) (db_delegations (w_db (sy_world s)))
    \<and> distinct (map gr_slot (db_congestion (w_db (sy_world s))))
    \<and> (\<forall>i sc. sy_tasks s i = Some (Finished (Inr sc)) \<longrightarrow> issuable E c sc \<and> stored (w_db (sy_world s)) sc)"
  using reachable_inv [OF assms] by (fastforce simp: system_inv_def db_sound_def)

theorem reachable_sound_witness:
  "\<exists>s :: system. sy_tasks s 0 = Some (Finished (Inr sample_signed)) \<and> issuable sample_env sample_config sample_signed
     \<and> stored (w_db (sy_world s)) sample_signed"
proof -
  obtain s where s: "reachable sample_env sample_config s" "sy_tasks s = [0 \<mapsto> Finished (Inr sample_signed)]"
    using answered_reachable by blast
  from reachable_sound [OF s(1)] s(2) show ?thesis by (intro exI [of _ s]) simp
qed

text \<open>
  C6: a commitment that was given out can be fetched: after any further changes of the database by
  any of the gateway's programs, \<open>commitmentResult\<close> for its request hash returns exactly it, or
  InternalError when the query itself fails.
\<close>

theorem commitment_is_retrievable:
  assumes "commitment_request_handler E c params w = (Inr sc, w1)"
    and "db_sound E c (w_db w)" and "(db_step E c)\<^sup>*\<^sup>* (w_db w1) (w_db w2)"
  shows "fst (commitment_result_handler E (Some (co_request_hash (sg_commitment sc))) w2)
    = (if e_fault E (w_tick w2) = NoFault then Inr sc else Inl InternalError)"
proof -
  from assms(1) obtain k w2' u' w3 g w4 u'' where
    "stage_validate E c params = Inr k" and s: "stage_save E sc w2' = (Inr u', w3)"
    and f: "stage_fee E c k w3 = (Inr g, w4)" and gs: "stage_gas E c k g w4 = (Inr u'', w1)"
    by (rule handler_Inr)
  have c1: "changes E c w w1" using handler_changes assms(1) by (rule obeysD)
  have c2: "changes E c w1 w2" using assms(3) by (simp add: changes_def)
  have "commitments_kept (w_db w3) (w_db w2)"
    using changes_kept obeysD [OF stage_fee_changes f] obeysD [OF stage_gas_changes gs] c2 kept_trans by metis
  then have "stored (w_db w2) sc" using saved_is_stored [OF s] stored_kept by blast
  moreover have "distinct (map ci_request_hash (db_commitments (w_db w2)))"
    using changes_sound [OF c2 changes_sound [OF c1 assms(2)]] by (simp add: db_sound_def)
  ultimately show ?thesis by (rule result_of_stored [rotated])
qed

theorem commitment_is_retrievable_witness:
  "\<exists>w1. commitment_request_handler sample_env sample_config (Some sample_request) sample_world
      = (Inr sample_signed, w1)
    \<and> fst (commitment_result_handler sample_env (Some (co_request_hash (sg_commitment sample_signed))) w1)
      = Inr sample_signed"
proof -
  obtain w1 where h: "commitment_request_handler sample_env sample_config (Some sample_request) sample_world
      = (Inr sample_signed, w1)" using sample_handler by blast
  have "db_sound sample_env sample_config (w_db sample_world)" by (simp add: sample_world_def sample_db_sound)
  from commitment_is_retrievable [OF h this rtranclp.rtrancl_refl] h show ?thesis by simp
qed

text \<open>
  C7: commitments are never lost or altered: across every step of the interleaved system the stored
  rows stay in place and in order, and the only column that changes is the processed flag, from
  unset to set.
\<close>

theorem commitments_never_lost:
  assumes "reachable E c s" "system_step E c s s'"
  shows "\<exists>kept new. db_commitments (w_db (sy_world s')) = kept @ new
    \<and> list_all2 (\<lambda>r r'. r' = r \<or> r' = r\<lparr>ci_constraint_processed := True\<rparr>)
        (db_commitments (w_db (sy_world s))) kept"
proof -
  have "commitments_kept (w_db (sy_world s)) (w_db (sy_world s'))"
    using assms(2)
  proof (cases rule: system_step.cases)
    case (run i t t' w')
    have "task_inv E c (w_db (sy_world s)) t"
      using reachable_inv [OF assms(1)] run by (auto simp: system_inv_def)
    then show ?thesis using task_next_changes changes_kept run by fastforce
  qed (auto simp: kept_refl changes_kept)
  then show ?thesis unfolding commitments_kept_def same_or_processed_def .
qed

theorem commitments_never_lost_witness:
  "\<exists>s'. system_step sample_env sample_config waiting_system s'
     \<and> (\<exists>kept new. db_commitments (w_db (sy_world s')) = kept @ new
          \<and> list_all2 (\<lambda>r r'. r' = r \<or> r' = r\<lparr>ci_constraint_processed := True\<rparr>)
              (db_commitments (w_db (sy_world waiting_system))) kept)"
proof -
  obtain t' w' where "task_next sample_env sample_config (Waiting (Some sample_request)) (sy_world waiting_system)
      = (t', w')" by force
  then obtain s' where s': "system_step sample_env sample_config waiting_system s'"
    using system_step.run [of waiting_system 0] by (fastforce simp: waiting_system_def)
  from commitments_never_lost [OF waiting_reachable s'] s' show ?thesis by blast
qed

section \<open>Rejections and errors\<close>

text \<open>
  C12: a request whose hash is already stored is refused, and the database is left exactly as it was.
\<close>

theorem duplicate_refused:
  assumes "generate_request_hash (hash_of E) request = Inr h"
    and "h \<in> ci_request_hash ` set (db_commitments (w_db w))"
  shows "(\<exists>e. fst (commitment_request_handler E c (Some request) w) = Inl e)
    \<and> w_db (snd (commitment_request_handler E c (Some request) w)) = w_db w"
  using handler_duplicate [OF assms prod.collapse [symmetric]] by simp

theorem duplicate_refused_witness:
  "w_db (snd (commitment_request_handler sample_env sample_config (Some sample_request) committed_world))
     = w_db committed_world"
proof -
  have g: "generate_request_hash (hash_of sample_env) sample_request = Inr (kr_hash sample_checked)"
    by code_simp
  have "kr_hash sample_checked \<in> ci_request_hash ` set (db_commitments (w_db committed_world))"
    by (simp add: committed_world_def commitment_row_of_def sample_signed_def commitment_of_request_def)
  from duplicate_refused [OF g this] show ?thesis by blast
qed

text \<open>
  C13: an answer InvalidParams or InvalidRequest means that the request has changed nothing in the
  database, at whatever stage it was refused.
\<close>

theorem rejection_changes_nothing:
  assumes "fst (commitment_request_handler E c params w) = Inl e" "e \<noteq> InternalError"
  shows "w_db (snd (commitment_request_handler E c params w)) = w_db w"
  using handler_rejects [of E c params w e] assms by (metis prod.collapse)

theorem rejection_changes_nothing_witness:
  "fst (commitment_request_handler sample_env sample_config None sample_world) = Inl InvalidParams
   \<and> w_db (snd (commitment_request_handler sample_env sample_config None sample_world)) = w_db sample_world"
proof -
  have "fst (commitment_request_handler sample_env sample_config None sample_world) = Inl InvalidParams"
    by (simp add: commitment_request_handler_def io_bind_def io_res_def stage_validate_def res_of_def)
  with rejection_changes_nothing [OF this] show ?thesis by simp
qed


section \<open>Refinement and equivalence\<close>


text \<open>
  C15: every registered RPC method refines the abstract database: whatever it is called with and
  however it ends, what it does to the database is a sequence of abstract steps.
\<close>

theorem methods_refine_database:
  assumes "rpc_dispatch E c name p = Some m"
  shows "(db_step E c)\<^sup>*\<^sup>* (w_db w) (w_db (snd (m w)))"
  using dispatch_changes [OF assms] by (simp add: obeys_def changes_def)

theorem methods_refine_database_witness:
  "(db_step sample_env sample_config)\<^sup>*\<^sup>* sample_db
     (w_db (snd (fee_handler sample_env sample_config (Some sample_request) sample_world)))"
proof -
  have "rpc_dispatch sample_env sample_config ''fee'' (RequestParams (Some sample_request))
      = Some (io_map FeeReply (fee_handler sample_env sample_config (Some sample_request)))"
    by (simp add: rpc_dispatch_def)
  from methods_refine_database [OF this, of sample_world]
  show ?thesis by (simp add: io_map_def io_bind_def io_return_def sample_world_def split: prod.splits sum.splits)
qed

text \<open>
  C16: so does every background job: a polling cycle, a cleanup and a round of the constraints service.
\<close>

theorem jobs_refine_database:
  "(db_step E c)\<^sup>*\<^sup>* (w_db w) (w_db (snd (poll_delegations E c w)))
   \<and> (db_step E c)\<^sup>*\<^sup>* (w_db w) (w_db (snd (cleanup_expired_delegations E c w)))
   \<and> (db_step E c)\<^sup>*\<^sup>* (w_db w) (w_db (snd (process_pending_constraints E c bm w)))"
  using poll_changes [of E c] cleanup_changes [of E c] submission_changes [of E c bm]
  by (simp add: obeys_def changes_def)

section \<open>The other methods\<close>

text \<open>
  C30: \<open>slots\<close> offers exactly the slots after the current one, as many as the lookahead epochs
  have, in order and without a gap, each for inclusion commitments on the Hoodi chain.
\<close>

theorem slots_are_consecutive:
  assumes "cur = current_slot_estimate (e_now E (w_tick w)) (ba_genesis_time (cf_beacon_api c))"
    and "unat cur + 1 + 32 * unat (dc_lookahead_epochs (cf_delegation c)) < 2 ^ 64"
  shows "\<exists>infos. fst (slots_handler E c w) = Inr \<lparr>sr_slots = infos\<rparr>
    \<and> map (\<lambda>i. unat (si_slot i)) infos
        = [unat cur + 1 ..< unat cur + 1 + 32 * unat (dc_lookahead_epochs (cf_delegation c))]
    \<and> list_all (\<lambda>i. si_offerings i = [\<lparr>of_chain_id = 560048, of_commitment_types = [1]\<rparr>]) infos"
proof -
  obtain slots where s: "fst (slots_handler E c w) = Inr \<lparr>sr_slots = map hoodi_slot slots\<rparr>"
    "map unat slots = [unat cur + 1 ..< unat cur + 1 + 32 * unat (dc_lookahead_epochs (cf_delegation c))]"
    using slots_handler_list [of E w c] assms by blast
  have "map (\<lambda>i. unat (si_slot i)) (map hoodi_slot slots) = map unat slots"
    by (simp add: hoodi_slot_def)
  then show ?thesis using s
    by (intro exI [of _ "map hoodi_slot slots"]) (simp add: list_all_iff hoodi_slot_def)
qed

theorem slots_are_consecutive_witness:
  "\<exists>infos. fst (slots_handler sample_env sample_config sample_world) = Inr \<lparr>sr_slots = infos\<rparr>
     \<and> map (\<lambda>i. unat (si_slot i)) infos = [101 ..< 165]"
proof -
  have cur: "100 = current_slot_estimate (e_now sample_env (w_tick sample_world))
      (ba_genesis_time (cf_beacon_api sample_config))" by code_simp
  have ahead: "unat (dc_lookahead_epochs (cf_delegation sample_config)) = 2" by code_simp
  from slots_are_consecutive [OF cur] show ?thesis unfolding ahead by auto
qed

text \<open>
  C29: the 32 bytes of a fee reply are four little-endian 64-bit numbers: the total cost, the price per gas,
  the estimated gas and the congestion in parts per million. The first is the exact product of the next
  two, and the last is at most a million, for every double the congestion can be.
\<close>

theorem fee_reply_decodes:
  assumes "fee_handler E c params w = (Inr info, w')"
  shows "length (fi_payload info) = 32 \<and> fi_commitment_type info = 1
    \<and> unat (from_le_bytes (take 8 (fi_payload info)))
        = unat (from_le_bytes (take 8 (drop 8 (fi_payload info))))
          * unat (from_le_bytes (take 8 (drop 16 (fi_payload info))))
    \<and> unat (from_le_bytes (drop 24 (fi_payload info))) \<le> 1000000"
proof -
  obtain request :: commitment_request and slot fee w1 where
    f: "calculate_fee_for_commitment E c 1 (cr_payload request) slot w1 = (Inr fee, w')"
    and i: "info = \<lparr>fi_payload = fee_payload fee, fi_commitment_type = 1\<rparr>"
    using fee_handler_Inr [OF assms] by blast
  show ?thesis
    using calculate_fee_Inr(4) [OF f] congestion_ppm_bound [of "fe_congestion_ratio fee"]
    by (simp add: i fee_payload_def from_to_le_bytes)
qed

theorem fee_reply_decodes_witness:
  "\<exists>info w'. fee_handler sample_env sample_config (Some sample_request) sample_world = (Inr info, w')
     \<and> length (fi_payload info) = 32"
proof -
  have "validate_and_extract_slot short_payload 1 [192, 100, 1, 2, 3] = Inr 100" by code_simp
  moreover obtain w1 where "is_slot_acceptable_for_fees sample_env sample_config 100 sample_world = (Inr True, w1)"
    and "w_db w1 = sample_db"
  proof -
    have "fst (is_slot_acceptable_for_fees sample_env sample_config 100 sample_world) = Inr True" by code_simp
    moreover have "w_db (snd (is_slot_acceptable_for_fees sample_env sample_config 100 sample_world)) = sample_db"
      by code_simp
    ultimately show thesis using that by (metis prod.collapse)
  qed
  moreover obtain w2 fee where "calculate_fee_for_commitment sample_env sample_config 1 [192, 100, 1, 2, 3] 100 w1
      = (Inr fee, w2)"
    using sample_fee [of w1] \<open>w_db w1 = sample_db\<close> by (auto simp: sample_db_def empty_db_def)
  ultimately obtain info where "fee_handler sample_env sample_config (Some sample_request) sample_world = (Inr info, w2)"
    by (simp add: fee_handler_def io_bind_def io_res_def io_code_def io_map_err_def io_return_def sample_request_def
        res_code_def)
  with fee_reply_decodes [OF this] show ?thesis by blast
qed

end
